(* ===== verification/GoBase.thy ===== *)
theory GoBase
  imports Complex_Main "HOL-Library.Word" "HOL-Library.Char_ord" "HOL-Library.List_Lexorder"
    "HOL-Library.Multiset"
begin

text \<open>
  The prelude of the development: the part of Go and of its standard library that every
  component uses. Go strings are byte strings (\<open>string\<close>, one \<open>char\<close> per byte); Go \<open>int\<close> and
  \<open>int64\<close> values are \<open>int\<close>, and \<open>wrap64\<close> is applied where the source does arithmetic that can
  leave 64 bits; \<open>float64\<close> values are \<open>real\<close> (rounding, NaN and the infinities are not modelled);
  \<open>time.Time\<close> and \<open>time.Duration\<close> are nanosecond counts. Errors are values of \<open>goerr\<close>, and a
  function that returns \<open>(T, error)\<close> returns \<open>goerr + T\<close>.

  An execution of the program happens in a \<open>world\<close>: a clock, the bytes the operating system's
  random source will deliver, and a script of the faults that calls to the database, the queue and
  the network will meet, one entry per call. A theorem that quantifies over worlds therefore covers
  every pattern of failures.
\<close>

named_theorems go_defs "definitions that a proof about one component may unfold"

section \<open>Errors\<close>

text \<open>
  \<open>ErrNew\<close> is an anonymous \<open>errors.New\<close> or \<open>fmt.Errorf\<close> value, \<open>Sentinel\<close> a package level error
  variable (compared by identity, here by its name), \<open>Wrap\<close> the \<open>%w\<close> verb of \<open>fmt.Errorf\<close> with the
  text before and after it.
\<close>

datatype goerr = ErrNew string | Sentinel string | Wrap string goerr string

fun Error :: "goerr \<Rightarrow> string" where
  "Error (ErrNew s) = s"
| "Error (Sentinel s) = s"
| "Error (Wrap pre e post) = pre @ Error e @ post"

fun errors_Is :: "goerr \<Rightarrow> goerr \<Rightarrow> bool" where
  "errors_Is (Wrap pre e post) t \<longleftrightarrow> Wrap pre e post = t \<or> errors_Is e t"
| "errors_Is e t \<longleftrightarrow> e = t"

type_synonym 'a res = "goerr + 'a"

abbreviation isErr :: "'a res \<Rightarrow> bool" where
  "isErr r \<equiv> isl r"

lemma errors_Is_refl [simp]: "errors_Is e e"
  by (cases e) auto

lemma errors_Is_Wrap [simp]: "errors_Is (Wrap pre e post) (Sentinel s) = errors_Is e (Sentinel s)"
  by simp

definition ctx_Canceled :: goerr where
  "ctx_Canceled = Sentinel ''context canceled''"

definition ctx_DeadlineExceeded :: goerr where
  "ctx_DeadlineExceeded = Sentinel ''context deadline exceeded''"

section \<open>Machine integers\<close>

definition wrap64 :: "int \<Rightarrow> int" where
  "wrap64 x = (x + 2 ^ 63) mod 2 ^ 64 - 2 ^ 63"

definition in_int64 :: "int \<Rightarrow> bool" where
  "in_int64 x \<longleftrightarrow> - (2 ^ 63) \<le> x \<and> x < 2 ^ 63"

lemma wrap64_id: "in_int64 x \<Longrightarrow> wrap64 x = x"
  by (simp add: wrap64_def in_int64_def)

lemma in_int64_wrap64 [simp]: "in_int64 (wrap64 x)"
  by (simp add: wrap64_def in_int64_def)

lemma wrap64_sint: "wrap64 x = sint (word_of_int x :: 64 word)"
  by (simp add: wrap64_def signed_take_bit_eq_take_bit_shift sint_sbintrunc' take_bit_eq_mod)

section \<open>Decimal text: strconv.Itoa and strconv.Atoi\<close>

definition digit_char :: "nat \<Rightarrow> char" where
  "digit_char d = ''0123456789'' ! d"

fun nat_str :: "nat \<Rightarrow> string" where
  "nat_str n = (if n < 10 then [digit_char n] else nat_str (n div 10) @ [digit_char (n mod 10)])"

declare nat_str.simps [simp del]

definition Itoa :: "int \<Rightarrow> string" where
  "Itoa i = (if i < 0 then CHR ''-'' # nat_str (nat (- i)) else nat_str (nat i))"

definition is_digit :: "char \<Rightarrow> bool" where
  "is_digit c \<longleftrightarrow> 48 \<le> (of_char c :: nat) \<and> (of_char c :: nat) \<le> 57"

fun digits_val :: "nat \<Rightarrow> string \<Rightarrow> nat option" where
  "digits_val acc [] = Some acc"
| "digits_val acc (c # cs) =
     (if is_digit c then digits_val (10 * acc + (of_char c - 48)) cs else None)"

text \<open>\<open>Atoi\<close> takes an optional sign and at least one digit, and rejects what does not fit \<open>int\<close>.\<close>

definition Atoi :: "string \<Rightarrow> int option" where
  "Atoi s =
     (let (neg, ds) = (case s of [] \<Rightarrow> (False, [])
                       | c # cs \<Rightarrow> if c = CHR ''-'' then (True, cs)
                                  else if c = CHR ''+'' then (False, cs) else (False, s))
      in if ds = [] then None
         else case digits_val 0 ds of
                None \<Rightarrow> None
              | Some n \<Rightarrow> let v = (if neg then - int n else int n)
                          in if in_int64 v then Some v else None)"

lemma digit_cases: "d < 10 \<Longrightarrow> d = 0 \<or> d = 1 \<or> d = 2 \<or> d = 3 \<or> d = 4 \<or> d = 5 \<or> d = 6 \<or> d = 7 \<or> d = 8 \<or> d = (9::nat)"
  by arith

lemma digit_char_is_digit: "d < 10 \<Longrightarrow> is_digit (digit_char d)"
  by (drule digit_cases) (auto simp: is_digit_def digit_char_def)

lemma digit_char_val: "d < 10 \<Longrightarrow> of_char (digit_char d) - (48::nat) = d"
  by (drule digit_cases) (auto simp: digit_char_def)

lemma digits_val_append:
  "digits_val acc (xs @ ys) = (case digits_val acc xs of None \<Rightarrow> None | Some a \<Rightarrow> digits_val a ys)"
  by (induction xs arbitrary: acc) auto

lemma nat_str_nonempty [simp]: "nat_str n \<noteq> []"
  by (subst nat_str.simps) simp

lemma digits_val_nat_str: "digits_val 0 (nat_str n) = Some n"
proof (induction n rule: nat_str.induct)
  case (1 n)
  show ?case
  proof (cases "n < 10")
    case True
    then show ?thesis
      by (subst nat_str.simps) (simp add: digit_char_is_digit digit_char_val)
  next
    case False
    with 1 have "digits_val 0 (nat_str (n div 10)) = Some (n div 10)" by simp
    with False show ?thesis
      by (subst nat_str.simps)
         (simp add: digits_val_append digit_char_is_digit digit_char_val)
  qed
qed

lemma set_nat_str: "c \<in> set (nat_str n) \<Longrightarrow> is_digit c"
proof (induction n rule: nat_str.induct)
  case (1 n)
  then show ?case
    by (subst (asm) (2) nat_str.simps) (auto simp: digit_char_is_digit split: if_splits)
qed

lemma hd_nat_str: "is_digit (hd (nat_str n))"
  by (rule set_nat_str [of _ n]) simp

lemma nat_str_inj: "nat_str m = nat_str n \<Longrightarrow> m = n"
  using digits_val_nat_str by (metis option.inject)

lemma is_digit_not_sign: "is_digit c \<Longrightarrow> c \<noteq> CHR ''-'' \<and> c \<noteq> CHR ''+''"
  by (auto simp: is_digit_def)

lemma Atoi_Itoa: "in_int64 i \<Longrightarrow> Atoi (Itoa i) = Some i"
proof (cases "i < 0")
  case True
  assume "in_int64 i"
  with True show ?thesis
    by (simp add: Atoi_def Itoa_def digits_val_nat_str)
next
  case False
  assume i: "in_int64 i"
  obtain c cs where ns: "nat_str (nat i) = c # cs"
    by (cases "nat_str (nat i)") auto
  then have "is_digit c" using hd_nat_str [of "nat i"] by simp
  then have "c \<noteq> CHR ''-'' \<and> c \<noteq> CHR ''+''" by (rule is_digit_not_sign)
  moreover have "digits_val 0 (c # cs) = Some (nat i)"
    using digits_val_nat_str [of "nat i"] ns by simp
  ultimately show ?thesis
    using False i ns by (simp add: Atoi_def Itoa_def del: digits_val.simps)
qed

section \<open>Strings\<close>

definition HasPrefix :: "string \<Rightarrow> string \<Rightarrow> bool" where
  "HasPrefix s p \<longleftrightarrow> take (length p) s = p"

definition HasSuffix :: "string \<Rightarrow> string \<Rightarrow> bool" where
  "HasSuffix s p \<longleftrightarrow> length p \<le> length s \<and> drop (length s - length p) s = p"

definition TrimPrefix :: "string \<Rightarrow> string \<Rightarrow> string" where
  "TrimPrefix s p = (if HasPrefix s p then drop (length p) s else s)"

definition TrimSuffix :: "string \<Rightarrow> string \<Rightarrow> string" where
  "TrimSuffix s p = (if HasSuffix s p then take (length s - length p) s else s)"

text \<open>The white space of ASCII: tab, newline, vertical tab, form feed, return, space.\<close>

definition is_space :: "char \<Rightarrow> bool" where
  "is_space c \<longleftrightarrow> (9 \<le> (of_char c :: nat) \<and> (of_char c :: nat) \<le> 13) \<or> c = CHR '' ''"

definition TrimSpace :: "string \<Rightarrow> string" where
  "TrimSpace s = rev (dropWhile is_space (rev (dropWhile is_space s)))"

text \<open>\<open>strings.Split(s, sep)\<close> for a one byte separator: never empty.\<close>

fun Split :: "char \<Rightarrow> string \<Rightarrow> string list" where
  "Split sep [] = [[]]"
| "Split sep (c # cs) =
     (if c = sep then [] # Split sep cs
      else (case Split sep cs of [] \<Rightarrow> [[c]] | w # ws \<Rightarrow> (c # w) # ws))"

fun Join :: "string \<Rightarrow> string list \<Rightarrow> string" where
  "Join sep [] = []"
| "Join sep [w] = w"
| "Join sep (w # v # ws) = w @ sep @ Join sep (v # ws)"

definition lower_char :: "char \<Rightarrow> char" where
  "lower_char c = (if 65 \<le> (of_char c :: nat) \<and> (of_char c :: nat) \<le> 90
                   then char_of ((of_char c :: nat) + 32) else c)"

definition ToLower :: "string \<Rightarrow> string" where
  "ToLower s = map lower_char s"

lemma Split_nonempty [simp]: "Split sep s \<noteq> []"
  by (induction s) (auto split: list.splits)

lemma Split_no_sep: "w \<in> set (Split sep s) \<Longrightarrow> sep \<notin> set w"
  by (induction s arbitrary: w) (auto split: list.splits if_splits)

lemma Join_Split: "Join [sep] (Split sep s) = s"
proof (induction s)
  case Nil
  then show ?case by simp
next
  case (Cons c cs)
  obtain w ws where "Split sep cs = w # ws" by (cases "Split sep cs") auto
  with Cons show ?case by (cases ws) auto
qed

lemma HasPrefix_append [simp]: "HasPrefix (p @ s) p"
  by (simp add: HasPrefix_def)

lemma TrimPrefix_append [simp]: "TrimPrefix (p @ s) p = s"
  by (simp add: TrimPrefix_def)

lemma TrimSpace_hd: "TrimSpace s \<noteq> [] \<Longrightarrow> \<not> is_space (hd (TrimSpace s))"
proof -
  assume ne: "TrimSpace s \<noteq> []"
  define t where "t = dropWhile is_space s"
  have t: "TrimSpace s = rev (dropWhile is_space (rev t))"
    by (simp add: TrimSpace_def t_def)
  obtain p where p: "rev t = p @ dropWhile is_space (rev t)"
    by (metis takeWhile_dropWhile_id)
  then have "t = TrimSpace s @ rev p"
    unfolding t by (metis rev_append rev_rev_ident)
  with ne have "hd t = hd (TrimSpace s)" and "t \<noteq> []" by auto
  then show ?thesis
    using hd_dropWhile [of is_space s] by (simp add: t_def)
qed

lemma TrimSpace_last: "TrimSpace s \<noteq> [] \<Longrightarrow> \<not> is_space (last (TrimSpace s))"
  by (simp add: TrimSpace_def last_rev hd_dropWhile)

text \<open>The verb \<open>%q\<close>: in double quotes, with quotes and backslashes escaped (the escapes of control and
  non-ASCII bytes are not modelled).\<close>

definition quoted :: "string \<Rightarrow> string" where
  "quoted s = CHR 0x22 # concat (map (\<lambda>c. if c = CHR 0x22 \<or> c = CHR 0x5C then [CHR 0x5C, c] else [c]) s) @ [CHR 0x22]"

section \<open>Fixed point text: the verb \<open>%.nf\<close>\<close>

text \<open>The value is rounded to \<open>n\<close> decimals, ties to even, as Go prints an exact value.\<close>

definition round_even :: "real \<Rightarrow> int" where
  "round_even x =
     (let f = \<lfloor>x\<rfloor>; r = x - of_int f
      in if r < 1 / 2 then f else if r > 1 / 2 then f + 1 else if even f then f else f + 1)"

definition pad_left :: "nat \<Rightarrow> string \<Rightarrow> string" where
  "pad_left n s = replicate (n - length s) (CHR ''0'') @ s"

definition fmt_fixed :: "nat \<Rightarrow> real \<Rightarrow> string" where
  "fmt_fixed n x =
     (let k = round_even (\<bar>x\<bar> * 10 ^ n); q = k div 10 ^ n; r = k mod 10 ^ n
      in (if x < 0 then ''-'' else []) @ Itoa q
         @ (if n = 0 then [] else ''.'' @ pad_left n (Itoa r)))"

section \<open>The world a call runs in\<close>

record world =
  w_now :: int
  w_rand :: "8 word list"
  w_faults :: "string option list"

text \<open>
  Each call that leaves the process (an SQL statement, a queue insert, an HTTP request) looks at
  the head of the fault script: \<open>Some msg\<close> makes it fail with that text before it has any effect.
  An exhausted script means that nothing fails any more.
\<close>

definition fault :: "'a world_scheme \<Rightarrow> string option" where
  "fault w = (case w_faults w of [] \<Rightarrow> None | f # _ \<Rightarrow> f)"

definition tick :: "'a world_scheme \<Rightarrow> 'a world_scheme" where
  "tick w = w\<lparr>w_faults := tl (w_faults w)\<rparr>"

text \<open>\<open>rand.Read\<close> fills the buffer; with a failing source the code ignores the error and the
  buffer keeps its zero bytes.\<close>

definition rand_read :: "nat \<Rightarrow> 'a world_scheme \<Rightarrow> 8 word list" where
  "rand_read n w = take n (w_rand w @ replicate n 0)"

definition rand_adv :: "nat \<Rightarrow> 'a world_scheme \<Rightarrow> 'a world_scheme" where
  "rand_adv n w = w\<lparr>w_rand := drop n (w_rand w)\<rparr>"

lemma length_rand_read [simp]: "length (rand_read n w) = n"
  by (simp add: rand_read_def)

section \<open>Durations\<close>

definition Millisecond :: int where "Millisecond = 1000000"
definition Second :: int where "Second = 1000000000"
definition Minute :: int where "Minute = 60 * Second"
definition Hour :: int where "Hour = 60 * Minute"

lemmas duration_units = Millisecond_def Second_def Minute_def Hour_def

section \<open>Lists as tables\<close>

lemma find_SomeD: "List.find P xs = Some x \<Longrightarrow> x \<in> set xs \<and> P x"
  by (auto simp: find_Some_iff)

lemma find_eq_None: "List.find P xs = None \<longleftrightarrow> (\<forall>x\<in>set xs. \<not> P x)"
  by (auto simp: find_None_iff)

text \<open>\<open>update_where\<close> is an SQL \<open>UPDATE ... WHERE\<close>: the rows that satisfy \<open>p\<close> become their image.\<close>

definition update_where :: "('r \<Rightarrow> bool) \<Rightarrow> ('r \<Rightarrow> 'r) \<Rightarrow> 'r list \<Rightarrow> 'r list" where
  "update_where p f rows = map (\<lambda>r. if p r then f r else r) rows"

lemma length_update_where [simp]: "length (update_where p f rows) = length rows"
  by (simp add: update_where_def)

lemma update_where_none: "\<forall>r\<in>set rows. \<not> p r \<Longrightarrow> update_where p f rows = rows"
  by (induction rows) (auto simp: update_where_def)

lemma map_update_where:
  "(\<And>r. k (f r) = k r) \<Longrightarrow> map k (update_where p f rows) = map k rows"
  by (simp add: update_where_def)

lemma in_update_where:
  "r \<in> set (update_where p f rows) \<longleftrightarrow> (\<exists>s\<in>set rows. r = (if p s then f s else s))"
  by (auto simp: update_where_def)

text \<open>Looking a row up by its key after an update by key.\<close>

lemma find_update_where_key:
  assumes "\<And>r. key (f r) = key r"
  shows "List.find (\<lambda>r. key r = k) (update_where (\<lambda>r. key r = k' \<and> q r) f rows) =
    map_option (\<lambda>r. if key r = k' \<and> q r then f r else r) (List.find (\<lambda>r. key r = k) rows)"
  using assms by (induction rows) (auto simp: update_where_def)

lemma find_append:
  "List.find P (xs @ ys) = (case List.find P xs of None \<Rightarrow> List.find P ys | Some x \<Rightarrow> Some x)"
  by (induction xs) auto

section \<open>Outgoing HTTP calls\<close>

text \<open>
  What an outgoing request can come to: the request cannot be built, the round trip fails, or an
  answer arrives with a status and a body that decodes (or does not) to the expected type.
\<close>

datatype 'b http_out = BuildErr string | DoErr string | Resp int "string + 'b"

text \<open>What a handler writes: \<open>http.Error\<close> with its text and status, or a JSON body with its status.\<close>

datatype 'b http_reply = HttpError string int | HttpJSON int 'b

end
