(* ===== verification/Jobs.thy ===== *)
theory Jobs
  imports GoBase
begin

text \<open>
  The domain package \<open>internal/jobs\<close>: the job record and its parts, the job state machine of
  \<open>state.go\<close>, the admission checks of \<open>validate.go\<close> and the identifiers of \<open>NewID\<close>. The worker of
  the same package is in the theory \<open>JobWorker\<close>.
\<close>

section \<open>States\<close>

datatype job_state =
    StatePending | StateRunning | StateCollecting | StateAnalyzing
  | StateCompleted | StateFailed | StateCancelled

fun job_state_str :: "job_state \<Rightarrow> string" where
  "job_state_str StatePending = ''pending''"
| "job_state_str StateRunning = ''running''"
| "job_state_str StateCollecting = ''collecting''"
| "job_state_str StateAnalyzing = ''analyzing''"
| "job_state_str StateCompleted = ''completed''"
| "job_state_str StateFailed = ''failed''"
| "job_state_str StateCancelled = ''cancelled''"

lemma job_state_str_inj: "job_state_str s = job_state_str t \<longleftrightarrow> s = t"
  by (cases s; cases t) auto

fun validTransitions :: "job_state \<Rightarrow> job_state list option" where
  "validTransitions StatePending = Some [StateRunning]"
| "validTransitions StateRunning = Some [StateCollecting, StateFailed, StateCancelled]"
| "validTransitions StateCollecting = Some [StateAnalyzing, StateFailed]"
| "validTransitions StateAnalyzing = Some [StateCompleted, StateFailed]"
| "validTransitions _ = None"

definition ValidTransition :: "job_state \<Rightarrow> job_state \<Rightarrow> bool" where
  "ValidTransition from to =
     (case validTransitions from of
        None \<Rightarrow> False
      | Some nexts \<Rightarrow> list_ex (\<lambda>s. s = to) nexts)"

definition IsTerminal :: "job_state \<Rightarrow> bool" where
  "IsTerminal state \<longleftrightarrow> state = StateCompleted \<or> state = StateFailed \<or> state = StateCancelled"

section \<open>Records\<close>

record workload_config =
  Concurrency :: int
  PromptTokens :: int
  OutputTokens :: int
  NumRequests :: int

record engine_config =
  Quantization :: string
  TensorParallel :: int
  MaxBatchSize :: int
  MaxModelLen :: int
  GPUMemoryUtilization :: real

record job =
  job_ID :: string
  job_TenantID :: string
  job_Model :: string
  job_Engines :: "string list"
  job_WorkloadConfig :: workload_config
  job_EngineConfig :: engine_config
  job_GPUProfile :: string
  job_State :: job_state
  job_CreatedAt :: int
  job_UpdatedAt :: int
  job_ErrorMsg :: string
  job_RunID :: string

text \<open>The \<open>map[string]any\<close> of a result's configuration, as decoded JSON.\<close>

datatype json =
    JNull | JBool bool | JNum real | JStr string | JArr "json list" | JObj "(string \<times> json) list"

record result =
  r_JobID :: string
  r_RunID :: string
  r_Engine :: string
  r_Model :: string
  r_TTFTP50Ms :: real
  r_TTFTP99Ms :: real
  r_ITLMs :: real
  r_TokPerSec :: real
  r_GPUMemMB :: int
  r_KVCacheHit :: real
  r_ErrorRate :: real
  r_CostPerMTok :: real
  r_Config :: "(string \<times> json) list"

definition zero_result :: result where
  "zero_result = \<lparr>r_JobID = [], r_RunID = [], r_Engine = [], r_Model = [], r_TTFTP50Ms = 0,
     r_TTFTP99Ms = 0, r_ITLMs = 0, r_TokPerSec = 0, r_GPUMemMB = 0, r_KVCacheHit = 0,
     r_ErrorRate = 0, r_CostPerMTok = 0, r_Config = []\<rparr>"

record job_recommendation =
  jr_JobID :: string
  jr_BestEngine :: string
  jr_BestConfig :: "(string \<times> json) list"
  jr_CostPerMTok :: real
  jr_TokPerSec :: real
  jr_Reasoning :: string

section \<open>Admission checks\<close>

definition ValidEngines :: "string list" where
  "ValidEngines = [''vllm'', ''sglang'', ''tensorrt'', ''llamacpp'', ''ollama'', ''mock'']"

definition ValidQuantizations :: "string list" where
  "ValidQuantizations = [''fp8'', ''int8'', ''int4'', ''gptq'', ''awq'']"

fun ValidateEngines :: "string list \<Rightarrow> goerr option" where
  "ValidateEngines [] = None"
| "ValidateEngines (e # es) =
     (if e \<notin> set ValidEngines then Some (ErrNew (''unknown engine: '' @ e)) else ValidateEngines es)"

definition ValidateWorkload :: "workload_config \<Rightarrow> goerr option" where
  "ValidateWorkload w =
     (if Concurrency w < 1 \<or> Concurrency w > 1024
      then Some (ErrNew ''workload.concurrency must be between 1 and 1024'')
      else if PromptTokens w < 1 \<or> PromptTokens w > 1000000
      then Some (ErrNew ''workload.prompt_tokens must be between 1 and 1000000'')
      else if OutputTokens w < 1 \<or> OutputTokens w > 1000000
      then Some (ErrNew ''workload.output_tokens must be between 1 and 1000000'')
      else if NumRequests w < 1 \<or> NumRequests w > 100000
      then Some (ErrNew ''workload.num_requests must be between 1 and 100000'')
      else None)"

definition ValidateEngineConfig :: "engine_config \<Rightarrow> goerr option" where
  "ValidateEngineConfig c =
     (if Quantization c \<noteq> [] \<and> Quantization c \<notin> set ValidQuantizations
      then Some (ErrNew (''unknown quantization: '' @ Quantization c))
      else if TensorParallel c < 0 \<or> TensorParallel c > 8
      then Some (ErrNew ''engine_config.tensor_parallel must be between 1 and 8 (0 = engine default)'')
      else if MaxBatchSize c < 0 \<or> MaxBatchSize c > 4096
      then Some (ErrNew ''engine_config.max_batch_size must be between 1 and 4096 (0 = engine default)'')
      else if MaxModelLen c < 0 \<or> MaxModelLen c > 1048576
      then Some (ErrNew ''engine_config.max_model_len must be between 1 and 1048576 (0 = engine default)'')
      else if GPUMemoryUtilization c < 0 \<or> GPUMemoryUtilization c > 1
      then Some (ErrNew ''engine_config.gpu_memory_utilization must be between 0 and 1 (0 = engine default)'')
      else None)"

section \<open>Identifiers\<close>

text \<open>\<open>hex.EncodeToString\<close>: two lower case digits per byte.\<close>

definition hex_digit :: "nat \<Rightarrow> char" where
  "hex_digit n = ''0123456789abcdef'' ! n"

definition hex_byte :: "8 word \<Rightarrow> string" where
  "hex_byte b = [hex_digit (unat b div 16), hex_digit (unat b mod 16)]"

definition EncodeToString :: "8 word list \<Rightarrow> string" where
  "EncodeToString bs = concat (map hex_byte bs)"

unbundle bit_operations_syntax

text \<open>\<open>stamp\<close> is the two assignments to \<open>b[6]\<close> and \<open>b[8]\<close>; \<open>uuid_text\<close> the five joined groups.\<close>

definition stamp :: "8 word list \<Rightarrow> 8 word list" where
  "stamp b = (let b = b[6 := (b ! 6 AND 0x0f) OR 0x40] in b[8 := (b ! 8 AND 0x3f) OR 0x80])"

definition uuid_text :: "8 word list \<Rightarrow> string" where
  "uuid_text b =
     EncodeToString (take 4 b) @ ''-'' @
     EncodeToString (take 2 (drop 4 b)) @ ''-'' @
     EncodeToString (take 2 (drop 6 b)) @ ''-'' @
     EncodeToString (take 2 (drop 8 b)) @ ''-'' @
     EncodeToString (drop 10 b)"

definition NewID :: "'a world_scheme \<Rightarrow> string \<times> 'a world_scheme" where
  "NewID w = (uuid_text (stamp (rand_read 16 w)), rand_adv 16 w)"

section \<open>The state machine\<close>

lemma ValidTransition_simps [simp]:
  "ValidTransition StatePending t \<longleftrightarrow> t = StateRunning"
  "ValidTransition StateRunning t \<longleftrightarrow> t = StateCollecting \<or> t = StateFailed \<or> t = StateCancelled"
  "ValidTransition StateCollecting t \<longleftrightarrow> t = StateAnalyzing \<or> t = StateFailed"
  "ValidTransition StateAnalyzing t \<longleftrightarrow> t = StateCompleted \<or> t = StateFailed"
  "ValidTransition StateCompleted t = False"
  "ValidTransition StateFailed t = False"
  "ValidTransition StateCancelled t = False"
  by (auto simp: ValidTransition_def)

lemma IsTerminal_simps [simp]:
  "\<not> IsTerminal StatePending" "\<not> IsTerminal StateRunning" "\<not> IsTerminal StateCollecting"
  "\<not> IsTerminal StateAnalyzing" "IsTerminal StateCompleted" "IsTerminal StateFailed"
  "IsTerminal StateCancelled"
  by (auto simp: IsTerminal_def)

text \<open>\<open>job_rank\<close> counts the longest way left to a terminal state; every edge spends at least one.\<close>

fun job_rank :: "job_state \<Rightarrow> nat" where
  "job_rank StatePending = 4"
| "job_rank StateRunning = 3"
| "job_rank StateCollecting = 2"
| "job_rank StateAnalyzing = 1"
| "job_rank _ = 0"

lemma ValidTransition_rank: "ValidTransition s t \<Longrightarrow> job_rank t < job_rank s"
  by (cases s) auto

lemma job_rank_zero: "job_rank s = 0 \<longleftrightarrow> IsTerminal s"
  by (cases s) auto

fun valid_path :: "job_state \<Rightarrow> job_state list \<Rightarrow> bool" where
  "valid_path s [] = True"
| "valid_path s (t # ts) = (ValidTransition s t \<and> valid_path t ts)"

lemma valid_path_rank: "valid_path s ts \<Longrightarrow> length ts + job_rank (last (s # ts)) \<le> job_rank s"
proof (induction ts arbitrary: s)
  case Nil
  then show ?case by simp
next
  case (Cons t ts)
  then have "length ts + job_rank (last (t # ts)) \<le> job_rank t" and "job_rank t < job_rank s"
    by (auto simp: ValidTransition_rank simp del: last.simps)
  then show ?case by auto
qed

text \<open>C16: Every run of the job state machine from a fresh job is short and one way: a sequence of
  valid transitions that starts in \<open>pending\<close> has at most four of them, it visits no state twice,
  and it cannot be extended exactly when it has reached a terminal state.\<close>

theorem job_lifecycle:
  assumes "valid_path StatePending ts"
  shows "length ts \<le> 4 \<and> distinct (StatePending # ts) \<and>
    ((\<nexists>t. ValidTransition (last (StatePending # ts)) t) \<longleftrightarrow> IsTerminal (last (StatePending # ts)))"
proof -
  have sorted: "distinct (s # us) \<and> (\<forall>u\<in>set us. job_rank u < job_rank s)" if "valid_path s us" for s us
    using that
  proof (induction us arbitrary: s)
    case (Cons u us)
    then have "job_rank u < job_rank s" by (auto simp: ValidTransition_rank)
    with Cons show ?case by fastforce
  qed simp
  have stuck: "(\<nexists>t. ValidTransition s t) \<longleftrightarrow> IsTerminal s" for s
    by (cases s) auto
  from valid_path_rank [OF assms] have "length ts \<le> 4" by simp
  with sorted [OF assms] stuck show ?thesis by blast
qed

theorem job_lifecycle_witness:
  "valid_path StatePending [StateRunning, StateCollecting, StateAnalyzing, StateCompleted] \<and>
   distinct [StatePending, StateRunning, StateCollecting, StateAnalyzing, StateCompleted]"
proof -
  have h: "valid_path StatePending [StateRunning, StateCollecting, StateAnalyzing, StateCompleted]"
    by simp
  show ?thesis using job_lifecycle [OF h] h by simp
qed

section \<open>The states as an order\<close>

text \<open>A state is at most another when the other can still be reached from it; at most four transitions are needed.\<close>

fun reaches :: "nat \<Rightarrow> job_state \<Rightarrow> job_state \<Rightarrow> bool" where
  "reaches 0 s t = (s = t)"
| "reaches (Suc n) s t = (s = t \<or> (case validTransitions s of None \<Rightarrow> False | Some nexts \<Rightarrow> list_ex (\<lambda>u. reaches n u t) nexts))"

lemma reaches_Suc: "reaches (Suc n) s t \<longleftrightarrow> s = t \<or> (\<exists>u. ValidTransition s u \<and> reaches n u t)"
  by (auto simp: ValidTransition_def list_ex_iff split: option.splits)

lemma reaches_reach: "reaches n s t \<Longrightarrow> ValidTransition\<^sup>*\<^sup>* s t"
proof (induction n arbitrary: s)
  case (Suc n)
  then show ?case unfolding reaches_Suc by (meson converse_rtranclp_into_rtranclp rtranclp.rtrancl_refl)
qed simp

lemma reach_reaches: "ValidTransition\<^sup>*\<^sup>* s t \<Longrightarrow> job_rank s \<le> n \<Longrightarrow> reaches n s t"
proof (induction arbitrary: n rule: converse_rtranclp_induct)
  case base
  then show ?case by (cases n) auto
next
  case (step s u)
  from ValidTransition_rank [OF step(1)] step(4) obtain m where m: "n = Suc m" "job_rank u \<le> m" by (cases n) auto
  with step(1,3) show ?case unfolding m(1) reaches_Suc by blast
qed

lemma job_rank_bound: "job_rank s \<le> 4"
  by (cases s) simp_all

lemma reach_rank: "ValidTransition\<^sup>*\<^sup>* s t \<Longrightarrow> s = t \<or> job_rank t < job_rank s"
  by (induction rule: rtranclp_induct) (use ValidTransition_rank in fastforce)+

lemma reaches_four_reach: "reaches 4 s t \<longleftrightarrow> ValidTransition\<^sup>*\<^sup>* s t"
  using reaches_reach reach_reaches [OF _ job_rank_bound] by auto

instantiation job_state :: order
begin

definition less_eq_job_state :: "job_state \<Rightarrow> job_state \<Rightarrow> bool" where
  "less_eq_job_state s t \<longleftrightarrow> reaches 4 s t"

definition less_job_state :: "job_state \<Rightarrow> job_state \<Rightarrow> bool" where
  "less_job_state s t \<longleftrightarrow> s \<le> t \<and> \<not> t \<le> (s :: job_state)"

instance
proof
  fix s t u :: job_state
  show "s \<le> s" and "s \<le> t \<Longrightarrow> t \<le> u \<Longrightarrow> s \<le> u" by (auto simp: less_eq_job_state_def reaches_four_reach)
  show "s < t \<longleftrightarrow> s \<le> t \<and> \<not> t \<le> s" by (rule less_job_state_def)
  show "s = t" if "s \<le> t" "t \<le> s"
    using reach_rank [of s t] reach_rank [of t s] that by (auto simp: less_eq_job_state_def reaches_four_reach)
qed

end

lemma le_job_state_reach: "s \<le> t \<longleftrightarrow> ValidTransition\<^sup>*\<^sup>* s (t :: job_state)"
  unfolding less_eq_job_state_def by (rule reaches_four_reach)


lemma ValidTransition_less: "ValidTransition s t \<Longrightarrow> s < t"
  using ValidTransition_rank [of s t] reach_rank [of t s] by (auto simp: less_job_state_def le_job_state_reach)

text \<open>The terminal states are the maximal ones.\<close>

lemma IsTerminal_maximal: "IsTerminal s \<longleftrightarrow> (\<forall>t. s \<le> t \<longrightarrow> t = s)"
proof
  assume "IsTerminal s"
  then show "\<forall>t. s \<le> t \<longrightarrow> t = s" using reach_rank [of s] job_rank_zero [of s] by (auto simp: le_job_state_reach)
next
  assume max: "\<forall>t. s \<le> t \<longrightarrow> t = s"
  show "IsTerminal s"
  proof (rule ccontr)
    assume "\<not> IsTerminal s"
    then obtain t where "ValidTransition s t" by (cases s) auto
    with ValidTransition_less [OF this] max show False by (auto simp: less_job_state_def)
  qed
qed

section \<open>What the checks admit\<close>

definition workload_ok :: "workload_config \<Rightarrow> bool" where
  "workload_ok w \<longleftrightarrow> Concurrency w \<in> {1..1024} \<and> PromptTokens w \<in> {1..1000000} \<and>
     OutputTokens w \<in> {1..1000000} \<and> NumRequests w \<in> {1..100000}"

definition engine_config_ok :: "engine_config \<Rightarrow> bool" where
  "engine_config_ok c \<longleftrightarrow> (Quantization c = [] \<or> Quantization c \<in> set ValidQuantizations) \<and>
     TensorParallel c \<in> {0..8} \<and> MaxBatchSize c \<in> {0..4096} \<and> MaxModelLen c \<in> {0..1048576} \<and>
     GPUMemoryUtilization c \<in> {0..1}"

lemma ValidateWorkload_None: "ValidateWorkload w = None \<longleftrightarrow> workload_ok w"
  by (auto simp: ValidateWorkload_def workload_ok_def)

lemma ValidateEngineConfig_None: "ValidateEngineConfig c = None \<longleftrightarrow> engine_config_ok c"
  by (auto simp: ValidateEngineConfig_def engine_config_ok_def)

lemma ValidateEngines_None: "ValidateEngines es = None \<longleftrightarrow> set es \<subseteq> set ValidEngines"
  by (induction es) auto

lemma ValidateEngines_Some:
  "ValidateEngines es = Some e \<Longrightarrow>
   \<exists>xs x ys. es = xs @ x # ys \<and> set xs \<subseteq> set ValidEngines \<and> x \<notin> set ValidEngines \<and>
     e = ErrNew (''unknown engine: '' @ x)"
proof (induction es)
  case (Cons a es)
  show ?case
  proof (cases "a \<in> set ValidEngines")
    case True
    with Cons obtain xs x ys where "es = xs @ x # ys" "set xs \<subseteq> set ValidEngines"
      "x \<notin> set ValidEngines" "e = ErrNew (''unknown engine: '' @ x)" by auto
    with True show ?thesis by (intro exI [of _ "a # xs"] exI [of _ x] exI [of _ ys]) auto
  next
    case False
    with Cons.prems show ?thesis by (intro exI [of _ "[]"] exI [of _ a] exI [of _ es]) auto
  qed
qed simp

section \<open>Identifiers are version 4 UUIDs\<close>

definition is_hex :: "char \<Rightarrow> bool" where
  "is_hex c \<longleftrightarrow> c \<in> set ''0123456789abcdef''"

definition is_uuid_v4 :: "string \<Rightarrow> bool" where
  "is_uuid_v4 s \<longleftrightarrow> length s = 36 \<and>
     list_all (\<lambda>i. if i \<in> {8, 13, 18, 23} then s ! i = CHR ''-'' else is_hex (s ! i)) [0..<36] \<and>
     s ! 14 = CHR ''4'' \<and> s ! 19 \<in> set ''89ab''"

lemma hex_digit_is_hex: "n < 16 \<Longrightarrow> is_hex (hex_digit n)"
  unfolding hex_digit_def is_hex_def by (rule nth_mem) simp

lemma hex_digit_inj: "m < 16 \<Longrightarrow> n < 16 \<Longrightarrow> hex_digit m = hex_digit n \<longleftrightarrow> m = n"
  unfolding hex_digit_def by (subst nth_eq_iff_index_eq) auto

lemma unat_byte: "unat (b :: 8 word) < 256"
  using unsigned_less [of b] by simp

lemma hex_byte_nibbles [simp]:
  "unat (b :: 8 word) div 16 < 16" "unat (b :: 8 word) mod 16 < 16"
  using unat_byte [of b] by auto

lemma hex_byte_inj: "hex_byte a = hex_byte b \<longleftrightarrow> a = b"
proof
  assume "hex_byte a = hex_byte b"
  then have "unat a div 16 = unat b div 16" and "unat a mod 16 = unat b mod 16"
    by (auto simp: hex_byte_def hex_digit_inj)
  then have "unat a = unat b" by (metis div_mult_mod_eq)
  then show "a = b" by (simp add: unsigned_word_eqI)
qed simp

lemma length_hex_byte [simp]: "length (hex_byte b) = 2"
  by (simp add: hex_byte_def)

lemma EncodeToString_simps [simp]:
  "EncodeToString [] = []" "EncodeToString (b # bs) = hex_byte b @ EncodeToString bs"
  by (auto simp: EncodeToString_def)

lemma length_EncodeToString [simp]: "length (EncodeToString bs) = 2 * length bs"
  by (induction bs) auto

lemma EncodeToString_Cons_eq:
  "hex_byte a @ EncodeToString as = hex_byte b @ EncodeToString bs \<longleftrightarrow>
   a = b \<and> EncodeToString as = EncodeToString bs"
  by (simp add: append_eq_append_conv hex_byte_inj)

lemma EncodeToString_eq_Nil [simp]: "EncodeToString bs = [] \<longleftrightarrow> bs = []"
  by (cases bs) (simp_all add: hex_byte_def)

lemma EncodeToString_inj: "EncodeToString as = EncodeToString bs \<longleftrightarrow> as = bs"
proof (induction as arbitrary: bs)
  case Nil
  then show ?case by (cases bs) (simp_all add: hex_byte_def)
next
  case IH: (Cons a as)
  show ?case
  proof (cases bs)
    case Nil
    then show ?thesis by (simp add: hex_byte_def)
  next
    case (Cons b bs')
    then show ?thesis by (simp only: EncodeToString_simps EncodeToString_Cons_eq list.inject IH.IH)
  qed
qed

lemma length_stamp [simp]: "length (stamp b) = length b"
  by (simp add: stamp_def)

lemma uuid_text_inj:
  assumes "length a = 16" and "length b = 16"
  shows "uuid_text a = uuid_text b \<longleftrightarrow> a = b"
proof
  assume eq: "uuid_text a = uuid_text b"
  have "take 4 a = take 4 b \<and> take 2 (drop 4 a) = take 2 (drop 4 b) \<and>
    take 2 (drop 6 a) = take 2 (drop 6 b) \<and> take 2 (drop 8 a) = take 2 (drop 8 b) \<and>
    drop 10 a = drop 10 b"
    using eq assms by (simp add: uuid_text_def append_eq_append_conv EncodeToString_inj)
  moreover have "c = take 4 c @ take 2 (drop 4 c) @ take 2 (drop 6 c) @ take 2 (drop 8 c) @ drop 10 c"
    if "length c = 16" for c :: "8 word list"
    using that by (simp add: numeral_eq_Suc length_Suc_conv) fastforce
  ultimately show "a = b" using assms by metis
qed simp

lemma unat_and_mask:
  "unat ((x :: 8 word) AND 0x0f) = unat x mod 16" "unat ((x :: 8 word) AND 0x3f) = unat x mod 64"
proof -
  have "x AND 0x0f = take_bit 4 x" "x AND 0x3f = take_bit 6 x"
    by (simp_all add: take_bit_eq_mask mask_eq_exp_minus_1)
  then show "unat (x AND 0x0f) = unat x mod 16" "unat (x AND 0x3f) = unat x mod 64"
    by (simp_all add: take_bit_eq_mod unat_mod)
qed

lemma stamped_byte:
  "unat (((x :: 8 word) AND 0x0f) OR 0x40) = unat x mod 16 + 64"
  "unat (((x :: 8 word) AND 0x3f) OR 0x80) = unat x mod 64 + 128"
proof -
  have "(x AND 0x0f) AND 0x40 = 0" "(x AND 0x3f) AND 0x80 = 0"
    by (simp_all add: and.assoc)
  then have "(x AND 0x0f) OR 0x40 = (x AND 0x0f) + 0x40" "(x AND 0x3f) OR 0x80 = (x AND 0x3f) + 0x80"
    by (simp_all add: disjunctive_add_eq_or)
  moreover have "unat x mod 16 < 16" "unat x mod 64 < 64" by auto
  ultimately show "unat ((x AND 0x0f) OR 0x40) = unat x mod 16 + 64"
    "unat ((x AND 0x3f) OR 0x80) = unat x mod 64 + 128"
    by (simp_all add: unat_word_ariths unat_and_mask)
qed

lemma list16: "length b = 16 \<Longrightarrow> \<exists>b0 b1 b2 b3 b4 b5 b6 b7 b8 b9 ba bb bc bd be bf.
   b = [b0,b1,b2,b3,b4,b5,b6,b7,b8,b9,ba,bb,bc,bd,be,bf]"
  by (simp add: numeral_eq_Suc length_Suc_conv) fastforce

lemma upt36: "[0..<36] = [0,1,2,3,4,5,6,7,8,9,10,11,12,13,14,15,16,17,18,19,20,21,22,23,24,25,26,27,28,29,30,31,32,33,34,35::nat]"
  by (simp add: upt_rec)

lemma uuid_text_v4:
  assumes "length b = 16" shows "is_uuid_v4 (uuid_text (stamp b))"
proof -
  obtain b0 b1 b2 b3 b4 b5 b6 b7 b8 b9 ba bb bc bd be bf where
    b: "b = [b0,b1,b2,b3,b4,b5,b6,b7,b8,b9,ba,bb,bc,bd,be,bf]"
    using list16 [OF assms] by blast
  define v where "v = (b6 AND 0x0f) OR 0x40"
  define u where "u = (b8 AND 0x3f) OR 0x80"
  have st: "stamp b = [b0,b1,b2,b3,b4,b5,v,b7,u,b9,ba,bb,bc,bd,be,bf]"
    by (simp add: b stamp_def v_def u_def)
  have v: "hex_digit (unat v div 16) = CHR ''4''"
    by (simp add: v_def stamped_byte hex_digit_def)
  have "unat b8 mod 64 div 16 < 4" by (simp add: less_mult_imp_div_less)
  then have "unat b8 mod 64 div 16 = 0 \<or> unat b8 mod 64 div 16 = 1 \<or> unat b8 mod 64 div 16 = 2 \<or> unat b8 mod 64 div 16 = 3"
    by arith
  then have u: "hex_digit (unat u div 16) \<in> set ''89ab''"
    by (auto simp: u_def stamped_byte hex_digit_def)
  have hx: "is_hex (CHR ''4'')" by (simp add: is_hex_def)
  show ?thesis
    using u by (simp add: is_uuid_v4_def uuid_text_def st hex_byte_def v hx hex_digit_is_hex upt36 del: upt_Suc)
qed

text \<open>An identifier handed out by \<open>NewID\<close> is always a well formed version 4 UUID (36 characters,
  lower case hexadecimal groups of 8-4-4-4-12, version digit 4, variant digit 8, 9, a or b), whatever
  the random source delivers, and two identifiers collide exactly when the random bytes agree on all
  bits but the six that the version and the variant overwrite.\<close>

theorem NewID_uuid_v4:
  "is_uuid_v4 (fst (NewID w)) \<and>
   (fst (NewID w) = fst (NewID w') \<longleftrightarrow> stamp (rand_read 16 w) = stamp (rand_read 16 w'))"
  by (simp add: NewID_def uuid_text_v4 uuid_text_inj)

end
