(* ===== verification/Store.thy ===== *)
theory Store
  imports Jobs
begin

text \<open>
  The persistence layer the services share: the job tables behind \<open>internal/config/store.go\<close>, the
  measurements of \<open>internal/metrics/timescale.go\<close> and the River queue inserts of
  \<open>internal/queue/client.go\<close>. A table is a list of rows in insertion order; every statement is one
  call that may fault (\<open>db_call\<close>), \<open>NOW()\<close> is the clock of the world. The configuration columns are
  stored as values, so marshalling and unmarshalling them cannot fail here. A nullable text column
  that the code reads through \<open>COALESCE(c, '')\<close> and writes through \<open>NULLIF(x, '')\<close> is a string.
\<close>

section \<open>The tables and the queue\<close>

record bench_job_args =
  ba_JobID :: string
  ba_Model :: string
  ba_Engines :: "string list"
  ba_Workload :: workload_config
  ba_EngineConfig :: engine_config
  ba_GPUProfile :: string
  ba_TenantID :: string

record campaign_job_args =
  ca_CampaignID :: string
  ca_TenantID :: string
  ca_MaxDurationSec :: int

text \<open>A row River will run: the arguments, \<open>MaxAttempts\<close> and the queue's name.\<close>

datatype 'a river_row = RiverRow (rr_args: 'a) (rr_max_attempts: int) (rr_queue: string)

record jobs_db = world +
  t_jobs :: "job list"
  t_results :: "(int \<times> result) list"
  t_recommendations :: "(job_recommendation \<times> int) list"
  t_audit :: "(string \<times> string \<times> string \<times> int) list"
  q_benchmarks :: "bench_job_args river_row list"
  q_campaigns :: "campaign_job_args river_row list"

definition ErrNoRows :: goerr where
  "ErrNoRows = Sentinel ''no rows in result set''"

text \<open>One statement or request: \<open>pre\<close> is the text the code wraps a failure in.\<close>

definition db_call ::
  "string \<Rightarrow> ('w world_scheme \<Rightarrow> 'a res \<times> 'w world_scheme) \<Rightarrow> 'w world_scheme \<Rightarrow> 'a res \<times> 'w world_scheme" where
  "db_call pre f w =
     (case fault w of
        Some e \<Rightarrow> (Inl (Wrap pre (ErrNew e) []), tick w)
      | None \<Rightarrow> f (tick w))"

section \<open>Jobs\<close>

definition stored_job :: "job \<Rightarrow> job" where
  "stored_job j = j\<lparr>job_ErrorMsg := [], job_RunID := []\<rparr>"

definition SaveJob :: "job \<Rightarrow> 'w jobs_db_scheme \<Rightarrow> unit res \<times> 'w jobs_db_scheme" where
  "SaveJob j = db_call ''save job: '' (\<lambda>w.
     if job_ID j \<in> job_ID ` set (t_jobs w)
     then (Inl (Wrap ''save job: '' (ErrNew ''duplicate key value violates unique constraint'') []), w)
     else (Inr (), w\<lparr>t_jobs := t_jobs w @ [stored_job j]\<rparr>))"

definition GetJob :: "string \<Rightarrow> string \<Rightarrow> 'w jobs_db_scheme \<Rightarrow> job res \<times> 'w jobs_db_scheme" where
  "GetJob jobID tenantID = db_call (''get job '' @ jobID @ '': '') (\<lambda>w.
     (case List.find (\<lambda>j. job_ID j = jobID \<and> job_TenantID j = tenantID) (t_jobs w) of
        None \<Rightarrow> Inl (Wrap (''get job '' @ jobID @ '': '') ErrNoRows [])
      | Some j \<Rightarrow> Inr j, w))"

definition UpdateJobState ::
  "string \<Rightarrow> job_state \<Rightarrow> string \<Rightarrow> 'w jobs_db_scheme \<Rightarrow> unit res \<times> 'w jobs_db_scheme" where
  "UpdateJobState jobID state errMsg = db_call ''update job state: '' (\<lambda>w.
     (Inr (), w\<lparr>t_jobs := update_where (\<lambda>j. job_ID j = jobID)
        (\<lambda>j. j\<lparr>job_State := state, job_UpdatedAt := w_now w, job_ErrorMsg := errMsg\<rparr>) (t_jobs w)\<rparr>))"

definition SetJobRunID :: "string \<Rightarrow> string \<Rightarrow> 'w jobs_db_scheme \<Rightarrow> unit res \<times> 'w jobs_db_scheme" where
  "SetJobRunID jobID runID = db_call ''set job run_id: '' (\<lambda>w.
     (Inr (), w\<lparr>t_jobs := update_where (\<lambda>j. job_ID j = jobID)
        (\<lambda>j. j\<lparr>job_RunID := runID, job_UpdatedAt := w_now w\<rparr>) (t_jobs w)\<rparr>))"

text \<open>\<open>recommendations.job_id\<close> references \<open>jobs(id)\<close>, so a row for an unknown job is refused.\<close>

definition SaveRecommendation ::
  "job_recommendation \<Rightarrow> 'w jobs_db_scheme \<Rightarrow> unit res \<times> 'w jobs_db_scheme" where
  "SaveRecommendation rec = db_call ''save recommendation: '' (\<lambda>w.
     if jr_JobID rec \<in> job_ID ` set (t_jobs w)
     then (Inr (), w\<lparr>t_recommendations := t_recommendations w @ [(rec, w_now w)]\<rparr>)
     else (Inl (Wrap ''save recommendation: '' (ErrNew ''violates foreign key constraint'') []), w))"

definition GetJobByID :: "string \<Rightarrow> 'w jobs_db_scheme \<Rightarrow> job res \<times> 'w jobs_db_scheme" where
  "GetJobByID jobID = db_call (''get job '' @ jobID @ '': '') (\<lambda>w.
     (case List.find (\<lambda>j. job_ID j = jobID) (t_jobs w) of
        None \<Rightarrow> Inl (Wrap (''get job '' @ jobID @ '': '') ErrNoRows [])
      | Some j \<Rightarrow> Inr j, w))"

definition listed :: "string \<Rightarrow> string \<Rightarrow> job \<Rightarrow> bool" where
  "listed tenantID state j \<longleftrightarrow> job_TenantID j = tenantID \<and>
     (state \<noteq> [] \<longrightarrow> job_state_str (job_State j) = state)"

text \<open>\<open>ORDER BY k DESC LIMIT l OFFSET o\<close>; Postgres rejects a negative bound.\<close>

definition page :: "('r \<Rightarrow> int) \<Rightarrow> int \<Rightarrow> int \<Rightarrow> 'r list \<Rightarrow> 'r list res" where
  "page k limit offset rows =
     (if limit < 0 then Inl (ErrNew ''LIMIT must not be negative'')
      else if offset < 0 then Inl (ErrNew ''OFFSET must not be negative'')
      else Inr (take (nat limit) (drop (nat offset) (sort_key (\<lambda>r. - k r) rows))))"

definition ListJobs ::
  "string \<Rightarrow> string \<Rightarrow> int \<Rightarrow> int \<Rightarrow> 'w jobs_db_scheme \<Rightarrow> job list res \<times> 'w jobs_db_scheme" where
  "ListJobs tenantID state limit offset = db_call ''list jobs: '' (\<lambda>w.
     (case page job_CreatedAt limit offset (filter (listed tenantID state) (t_jobs w)) of
        Inl e \<Rightarrow> Inl (Wrap ''list jobs: '' e [])
      | Inr out \<Rightarrow> Inr out, w))"

definition CountJobs :: "string \<Rightarrow> string \<Rightarrow> 'w jobs_db_scheme \<Rightarrow> int res \<times> 'w jobs_db_scheme" where
  "CountJobs tenantID state = db_call ''count jobs: '' (\<lambda>w.
     (Inr (int (length (filter (listed tenantID state) (t_jobs w)))), w))"

definition AppendAuditLog ::
  "string \<Rightarrow> string \<Rightarrow> string \<Rightarrow> 'w jobs_db_scheme \<Rightarrow> unit res \<times> 'w jobs_db_scheme" where
  "AppendAuditLog tenantID action resourceID = db_call ''append audit log: '' (\<lambda>w.
     (Inr (), w\<lparr>t_audit := t_audit w @ [(tenantID, action, resourceID, w_now w)]\<rparr>))"

section \<open>Measurements\<close>

text \<open>The run id is no column of \<open>metrics.bench_results\<close>: it is lost on the way in and reads back empty.\<close>

definition result_row :: "int \<Rightarrow> result \<Rightarrow> int \<times> result" where
  "result_row ts r = (ts, r\<lparr>r_RunID := []\<rparr>)"

definition WriteBenchResult :: "result \<Rightarrow> 'w jobs_db_scheme \<Rightarrow> unit res \<times> 'w jobs_db_scheme" where
  "WriteBenchResult r = db_call ''write bench result: '' (\<lambda>w.
     (Inr (), w\<lparr>t_results := t_results w @ [result_row (w_now w) r]\<rparr>))"

text \<open>A batch is sent as one implicit transaction: it takes effect as a whole or not at all. An error of an
  empty batch is never looked at.\<close>

definition WriteBenchResultBatch :: "result list \<Rightarrow> 'w jobs_db_scheme \<Rightarrow> unit res \<times> 'w jobs_db_scheme" where
  "WriteBenchResultBatch results w =
     (if results = [] then (Inr (), tick w)
      else db_call ''batch exec bench result: '' (\<lambda>w.
        (Inr (), w\<lparr>t_results := t_results w @ map (result_row (w_now w)) results\<rparr>)) w)"

text \<open>\<open>ORDER BY ts ASC\<close>, then \<open>scanResults\<close>.\<close>

definition scanResults :: "(int \<times> result) list \<Rightarrow> result list" where
  "scanResults rows = map snd (sort_key fst rows)"

definition QueryByJob :: "string \<Rightarrow> 'w jobs_db_scheme \<Rightarrow> result list res \<times> 'w jobs_db_scheme" where
  "QueryByJob jobID = db_call ''query by job: '' (\<lambda>w.
     (Inr (scanResults (filter (\<lambda>(ts, r). r_JobID r = jobID) (t_results w))), w))"

definition since_row :: "string \<Rightarrow> string \<Rightarrow> int \<Rightarrow> int \<times> result \<Rightarrow> bool" where
  "since_row engine model since = (\<lambda>(ts, r). r_Engine r = engine \<and> r_Model r = model \<and> since < ts)"

definition QueryByTenantEngineAndModel ::
  "string \<Rightarrow> string \<Rightarrow> string \<Rightarrow> int \<Rightarrow> 'w jobs_db_scheme \<Rightarrow> result list res \<times> 'w jobs_db_scheme" where
  "QueryByTenantEngineAndModel tenantID engine model since = db_call ''query by tenant/engine/model: '' (\<lambda>w.
     (Inr (scanResults (filter (\<lambda>(ts, r). since_row engine model since (ts, r) \<and>
        list_ex (\<lambda>j. job_ID j = r_JobID r \<and> job_TenantID j = tenantID) (t_jobs w)) (t_results w))), w))"

definition QueryByEngineAndModel ::
  "string \<Rightarrow> string \<Rightarrow> int \<Rightarrow> 'w jobs_db_scheme \<Rightarrow> result list res \<times> 'w jobs_db_scheme" where
  "QueryByEngineAndModel engine model since = db_call ''query by engine/model: '' (\<lambda>w.
     (Inr (scanResults (filter (since_row engine model since) (t_results w))), w))"

section \<open>The queue\<close>

definition Enqueue :: "bench_job_args \<Rightarrow> 'w jobs_db_scheme \<Rightarrow> unit res \<times> 'w jobs_db_scheme" where
  "Enqueue args = db_call ''enqueue benchmark job: '' (\<lambda>w.
     (Inr (), w\<lparr>q_benchmarks := q_benchmarks w @ [RiverRow args 3 ''benchmarks'']\<rparr>))"

definition EnqueueCampaign :: "campaign_job_args \<Rightarrow> 'w jobs_db_scheme \<Rightarrow> unit res \<times> 'w jobs_db_scheme" where
  "EnqueueCampaign args = db_call ''enqueue campaign job: '' (\<lambda>w.
     (Inr (), w\<lparr>q_campaigns := q_campaigns w @ [RiverRow args 1 ''campaigns'']\<rparr>))"

section \<open>Facts about one call\<close>

lemma db_call_cases:
  assumes "db_call pre f w = (r, w')"
  obtains e where "fault w = Some e" "r = Inl (Wrap pre (ErrNew e) [])" "w' = tick w"
  | "fault w = None" "f (tick w) = (r, w')"
  using assms by (auto simp: db_call_def split: option.splits)

lemma db_call_ok: "fault w = None \<Longrightarrow> db_call pre f w = f (tick w)"
  by (simp add: db_call_def)

lemma fault_Nil [simp]: "w_faults w = [] \<Longrightarrow> fault w = None"
  by (simp add: fault_def)

lemma tick_tables [simp]:
  "t_jobs (tick w) = t_jobs w" "t_results (tick w) = t_results w" "t_audit (tick w) = t_audit w"
  "t_recommendations (tick w) = t_recommendations w" "q_benchmarks (tick w) = q_benchmarks w"
  "q_campaigns (tick w) = q_campaigns w"
  by (simp_all add: tick_def)

lemma tick_world [simp]:
  "w_now (tick v) = w_now v" "w_rand (tick v) = w_rand v" "w_faults (tick v) = tl (w_faults v)"
  by (simp_all add: tick_def)

section \<open>The abstract store: a map from job ids to jobs\<close>

definition job_map :: "'w jobs_db_scheme \<Rightarrow> string \<Rightarrow> job option" where
  "job_map w jobID = List.find (\<lambda>j. job_ID j = jobID) (t_jobs w)"

definition jobs_ok :: "'w jobs_db_scheme \<Rightarrow> bool" where
  "jobs_ok w \<longleftrightarrow> distinct (map job_ID (t_jobs w))"

lemma job_map_tick [simp]: "job_map (tick w) = job_map w"
  by (rule ext) (simp add: job_map_def)

lemma job_map_None: "job_map w jobID = None \<longleftrightarrow> jobID \<notin> job_ID ` set (t_jobs w)"
  by (auto simp: job_map_def find_None_iff)

lemma job_map_SomeD: "job_map w jobID = Some j \<Longrightarrow> j \<in> set (t_jobs w) \<and> job_ID j = jobID"
  by (auto simp: job_map_def dest: find_SomeD)

lemma job_map_ID: "job_map w jobID = Some j \<Longrightarrow> job_ID j = jobID"
  by (auto dest: job_map_SomeD)

lemma job_map_append:
  assumes "t_jobs w' = t_jobs w @ [j]" and "job_ID j \<notin> job_ID ` set (t_jobs w)"
  shows "job_map w' = (job_map w)(job_ID j \<mapsto> j)"
proof
  fix k
  show "job_map w' k = ((job_map w)(job_ID j \<mapsto> j)) k"
  proof (cases "k = job_ID j")
    case True
    then have "List.find (\<lambda>i. job_ID i = k) (t_jobs w) = None"
      using assms(2) by (metis (mono_tags, lifting) find_eq_None imageI)
    with True assms(1) show ?thesis by (simp add: job_map_def find_append)
  next
    case False
    with assms(1) show ?thesis by (simp add: job_map_def find_append split: option.splits)
  qed
qed

lemma job_map_update:
  assumes "t_jobs w' = update_where (\<lambda>j. job_ID j = jobID) f (t_jobs w)" and "\<And>j. job_ID (f j) = job_ID j"
  shows "job_map w' k = map_option (\<lambda>j. if k = jobID then f j else j) (job_map w k)"
proof -
  have "List.find (\<lambda>j. job_ID j = k) (update_where (\<lambda>j. job_ID j = jobID) f rows) =
      map_option (\<lambda>j. if k = jobID then f j else j) (List.find (\<lambda>j. job_ID j = k) rows)" for rows
    using assms(2) by (induction rows) (auto simp: update_where_def)
  then show ?thesis by (simp add: job_map_def assms(1))
qed

lemma SaveJob_spec:
  assumes "SaveJob j w = (r, w')"
  shows "(r = Inr () \<and> job_map w (job_ID j) = None \<and> job_map w' = (job_map w)(job_ID j \<mapsto> stored_job j)) \<or>
     (isErr r \<and> job_map w' = job_map w)"
proof (cases "fault w = None \<and> job_ID j \<notin> job_ID ` set (t_jobs w)")
  case True
  with assms have "r = Inr ()" and w': "t_jobs w' = t_jobs w @ [stored_job j]"
    by (auto simp: SaveJob_def db_call_ok)
  with True job_map_append [OF w'] show ?thesis by (simp add: job_map_None stored_job_def)
next
  case False
  with assms have "isErr r" "w' = tick w"
    by (auto simp: SaveJob_def db_call_def split: option.splits)
  then show ?thesis by simp
qed

lemma GetJobByID_spec:
  "GetJobByID jobID w = (r, w') \<Longrightarrow>
     job_map w' = job_map w \<and> (r = Inr j \<longrightarrow> job_map w jobID = Some j) \<and> (\<not> isErr r \<longrightarrow> job_map w jobID \<noteq> None)"
  unfolding GetJobByID_def
  by (erule db_call_cases) (auto simp: job_map_def split: option.splits)

lemma UpdateJobState_spec:
  "UpdateJobState jobID st msg w = (r, w') \<Longrightarrow>
     (isErr r \<and> job_map w' = job_map w) \<or>
     (r = Inr () \<and> (\<forall>k. job_map w' k = map_option (\<lambda>j. if k = jobID
        then j\<lparr>job_State := st, job_UpdatedAt := w_now w, job_ErrorMsg := msg\<rparr> else j) (job_map w k)))"
  unfolding UpdateJobState_def
  by (erule db_call_cases) (auto intro!: job_map_update [where w = w])

lemma jobs_ok_SaveJob: "jobs_ok w \<Longrightarrow> jobs_ok (snd (SaveJob j w))"
  by (auto simp: SaveJob_def db_call_def jobs_ok_def stored_job_def split: option.splits)

lemma jobs_ok_UpdateJobState: "jobs_ok w \<Longrightarrow> jobs_ok (snd (UpdateJobState k st msg w))"
  by (auto simp: UpdateJobState_def db_call_def jobs_ok_def map_update_where split: option.splits)

lemma jobs_ok_SetJobRunID: "jobs_ok w \<Longrightarrow> jobs_ok (snd (SetJobRunID k run w))"
  by (auto simp: SetJobRunID_def db_call_def jobs_ok_def map_update_where split: option.splits)

section \<open>The interface \<open>JobStore\<close>\<close>

text \<open>
  The contract that \<open>campaigns.JobStore\<close> and the gateway's \<open>JobStorer\<close> rely on, over an abstract view
  of the state: a save either adds exactly the new job or reports an error and changes nothing, a read
  changes nothing and returns what is stored.
\<close>

locale job_store =
  fixes save :: "job \<Rightarrow> 'w \<Rightarrow> unit res \<times> 'w"
    and get :: "string \<Rightarrow> 'w \<Rightarrow> job res \<times> 'w"
    and view :: "'w \<Rightarrow> string \<Rightarrow> job option"
  assumes save_ok: "save j w = (Inr u, w') \<Longrightarrow>
        view w (job_ID j) = None \<and> view w' = (view w)(job_ID j \<mapsto> stored_job j)"
    and save_err: "save j w = (Inl e, w') \<Longrightarrow> view w' = view w"
    and get_view: "get jobID w = (r, w') \<Longrightarrow> view w' = view w"
    and get_ok: "get jobID w = (Inr j, w') \<Longrightarrow> view w jobID = Some j"
begin

lemma save_keeps: "save j w = (r, w') \<Longrightarrow> view w k = Some i \<Longrightarrow> view w' k = Some i"
  using save_ok save_err by (cases r) (fastforce)+

lemma get_after_save:
  assumes "save j w = (Inr u, w1)" and "get (job_ID j) w1 = (Inr i, w2)"
  shows "i = stored_job j"
  using save_ok [OF assms(1)] get_ok [OF assms(2)] by simp

lemma get_twice:
  assumes "get k w = (Inr i, w1)" and "get k w1 = (Inr j, w2)"
  shows "i = j"
  using get_ok [OF assms(1)] get_view [OF assms(1)] get_ok [OF assms(2)] by simp

end

interpretation js: job_store SaveJob GetJobByID "job_map :: 'w jobs_db_scheme \<Rightarrow> string \<Rightarrow> job option"
proof (unfold_locales, goal_cases)
  case (1 j w u w') then show ?case using SaveJob_spec [of j w "Inr u" w'] by auto
next
  case (2 j w e w') then show ?case using SaveJob_spec [of j w "Inl e" w'] by auto
next
  case (3 jobID w r w') then show ?case using GetJobByID_spec by blast
next
  case (4 jobID w j w') then show ?case using GetJobByID_spec by blast
qed

section \<open>Tenant isolation and paging\<close>

definition owned :: "string \<Rightarrow> job list \<Rightarrow> int \<times> result \<Rightarrow> bool" where
  "owned t js row \<longleftrightarrow> list_ex (\<lambda>j. job_ID j = r_JobID (snd row) \<and> job_TenantID j = t) js"

text \<open>What a tenant may learn: its own jobs and the measurements of its own jobs.\<close>

definition tenant_rows :: "string \<Rightarrow> 'w jobs_db_scheme \<Rightarrow> job list \<times> (int \<times> result) list" where
  "tenant_rows t w = (filter (\<lambda>j. job_TenantID j = t) (t_jobs w), filter (owned t (t_jobs w)) (t_results w))"

lemma find_filter: "List.find (\<lambda>j. P j \<and> Q j) xs = List.find P (filter Q xs)"
  by (induction xs) auto

lemma since_owned:
  "filter (\<lambda>(ts, r). since_row engine model since (ts, r) \<and>
      list_ex (\<lambda>j. job_ID j = r_JobID r \<and> job_TenantID j = t) js) rows =
   filter (since_row engine model since) (filter (owned t js) rows)"
  by (auto simp: owned_def case_prod_beta intro!: filter_cong)

lemma listed_own: "filter (listed t st) rows =
    filter (listed t st) (filter (\<lambda>j. job_TenantID j = t) rows)"
  by (induction rows) (auto simp: listed_def)

text \<open>C8: Tenant isolation by non-interference. Every tenant-scoped query (one job, the list, the count and the
  results of a model) is answered from the tenant's own jobs and their measurements alone: two databases
  that agree on those rows, however they differ in the rows of other tenants, give equal answers.\<close>

theorem tenant_noninterference:
  assumes "tenant_rows t w1 = tenant_rows t w2" and "fault w1 = fault w2"
  shows "fst (GetJob jobID t w1) = fst (GetJob jobID t w2) \<and>
    fst (ListJobs t st limit offset w1) = fst (ListJobs t st limit offset w2) \<and>
    fst (CountJobs t st w1) = fst (CountJobs t st w2) \<and>
    fst (QueryByTenantEngineAndModel t engine model since w1) =
      fst (QueryByTenantEngineAndModel t engine model since w2)"
proof -
  have j: "filter (\<lambda>j. job_TenantID j = t) (t_jobs w1) = filter (\<lambda>j. job_TenantID j = t) (t_jobs w2)"
    and r: "filter (owned t (t_jobs w1)) (t_results w1) = filter (owned t (t_jobs w2)) (t_results w2)"
    using assms(1) by (simp_all add: tenant_rows_def)
  have l: "filter (listed t st) (t_jobs w1) = filter (listed t st) (t_jobs w2)"
    using listed_own [of t st "t_jobs w1"] listed_own [of t st "t_jobs w2"] j by simp
  show ?thesis
    using assms(2) j l r
    by (auto simp: GetJob_def ListJobs_def CountJobs_def QueryByTenantEngineAndModel_def db_call_def
        find_filter since_owned simp del: filter_filter split: option.splits)
qed

definition demo_workload :: workload_config where
  "demo_workload = \<lparr>Concurrency = 8, PromptTokens = 512, OutputTokens = 128, NumRequests = 100\<rparr>"

definition zero_engine_config :: engine_config where
  "zero_engine_config = \<lparr>Quantization = [], TensorParallel = 0, MaxBatchSize = 0, MaxModelLen = 0,
     GPUMemoryUtilization = 0\<rparr>"

definition demo_job :: "string \<Rightarrow> string \<Rightarrow> int \<Rightarrow> job" where
  "demo_job i t ts = \<lparr>job_ID = i, job_TenantID = t, job_Model = ''m'', job_Engines = [''vllm''],
     job_WorkloadConfig = demo_workload, job_EngineConfig = zero_engine_config, job_GPUProfile = ''cpu'',
     job_State = StatePending, job_CreatedAt = ts, job_UpdatedAt = ts, job_ErrorMsg = [], job_RunID = []\<rparr>"

definition demo_db :: "job list \<Rightarrow> (int \<times> result) list \<Rightarrow> jobs_db" where
  "demo_db js rs = \<lparr>w_now = 0, w_rand = [], w_faults = [], t_jobs = js, t_results = rs,
     t_recommendations = [], t_audit = [], q_benchmarks = [], q_campaigns = []\<rparr>"

theorem tenant_noninterference_witness:
  "fst (ListJobs ''a'' [] 10 0 (demo_db [demo_job ''1'' ''a'' 5, demo_job ''2'' ''b'' 6] [])) =
   fst (ListJobs ''a'' [] 10 0 (demo_db [demo_job ''1'' ''a'' 5] [])) \<and>
   fst (ListJobs ''a'' [] 10 0 (demo_db [demo_job ''1'' ''a'' 5] [])) = Inr [demo_job ''1'' ''a'' 5]"
  using tenant_noninterference [of "''a''" "demo_db [demo_job ''1'' ''a'' 5, demo_job ''2'' ''b'' 6] []"
      "demo_db [demo_job ''1'' ''a'' 5] []" "[]" "[]" 10 0 "[]" "[]" 0]
  by (simp add: tenant_rows_def owned_def demo_db_def demo_job_def ListJobs_def db_call_def page_def listed_def
      tick_def fault_def)

lemma page_split:
  assumes "0 \<le> l1" "0 \<le> l2" "0 \<le> off"
    and "page k l1 off rows = Inr a" "page k l2 (off + l1) rows = Inr b"
  shows "page k (l1 + l2) off rows = Inr (a @ b)"
  using assms by (auto simp: page_def nat_add_distrib take_add add.commute)

text \<open>Paging is exact. A page of jobs followed by the page that starts where it stops is the page of
  their joint size, and the page from 0 of the size that \<open>CountJobs\<close> reports is the whole of the tenant's
  filtered list, newest first: walking the offsets by the page size visits every job once, in order.\<close>

theorem jobs_paging:
  assumes "w_faults w = []" and "0 \<le> l1" and "0 \<le> l2" and "0 \<le> off"
  shows "\<exists>a b n all.
    fst (ListJobs t st l1 off w) = Inr a \<and> fst (ListJobs t st l2 (off + l1) w) = Inr b \<and>
    fst (ListJobs t st (l1 + l2) off w) = Inr (a @ b) \<and>
    fst (CountJobs t st w) = Inr n \<and> fst (ListJobs t st n 0 w) = Inr all \<and>
    mset all = mset (filter (listed t st) (t_jobs w)) \<and>
    sorted_wrt (\<lambda>i j. job_CreatedAt i \<ge> job_CreatedAt j) all"
proof -
  let ?rows = "filter (listed t st) (t_jobs w)"
  obtain a b where a: "page job_CreatedAt l1 off ?rows = Inr a" "page job_CreatedAt l2 (off + l1) ?rows = Inr b"
    using assms by (simp add: page_def)
  have whole: "page job_CreatedAt (int (length ?rows)) 0 ?rows = Inr (sort_key (\<lambda>j. - job_CreatedAt j) ?rows)"
    by (simp add: page_def)
  have "sorted (map (\<lambda>j. - job_CreatedAt j) (sort_key (\<lambda>j. - job_CreatedAt j) ?rows))"
    by (rule sorted_sort_key)
  then have "sorted_wrt (\<lambda>i j. job_CreatedAt i \<ge> job_CreatedAt j) (sort_key (\<lambda>j. - job_CreatedAt j) ?rows)"
    by (simp add: sorted_map)
  with a whole page_split [OF assms(2-4) a] assms(1) show ?thesis
    by (auto simp: ListJobs_def CountJobs_def db_call_def)
qed

theorem jobs_paging_witness:
  "\<exists>a b. fst (ListJobs ''a'' [] 1 0 (demo_db [demo_job ''1'' ''a'' 5, demo_job ''2'' ''a'' 6] [])) = Inr a \<and>
     fst (ListJobs ''a'' [] 1 1 (demo_db [demo_job ''1'' ''a'' 5, demo_job ''2'' ''a'' 6] [])) = Inr b \<and>
     fst (ListJobs ''a'' [] 2 0 (demo_db [demo_job ''1'' ''a'' 5, demo_job ''2'' ''a'' 6] [])) = Inr (a @ b)"
  using jobs_paging [of "demo_db [demo_job ''1'' ''a'' 5, demo_job ''2'' ''a'' 6] []" 1 1 0 "''a''" "[]"]
  by (auto simp: demo_db_def)

end
