(* ===== verification/Workers.thy ===== *)
theory Workers
  imports GoBase
begin

text \<open>
  The worker registry of \<open>internal/workers/registry.go\<close>. The Go map from worker id to entry is an
  association list; where the code ranges over the map, the order in which the Go runtime visits the
  keys is an argument (\<open>ord\<close>), any permutation of the keys (\<open>is_order\<close>). The registry's methods hold
  its lock for their whole body, so each is one atomic step here; what the caller does between two of
  them is modelled in the theory \<open>JobWorker\<close>.
\<close>

section \<open>State and operations\<close>

datatype worker_status = StatusIdle | StatusBusy | StatusOffline

fun worker_status_str :: "worker_status \<Rightarrow> string" where
  "worker_status_str StatusIdle = ''idle''"
| "worker_status_str StatusBusy = ''busy''"
| "worker_status_str StatusOffline = ''offline''"

record worker_entry =
  we_ID :: string
  we_URL :: string
  we_GPUType :: string
  we_Status :: worker_status
  we_LastSeen :: int
  we_CurrentJobID :: string

type_synonym registry = "(string \<times> worker_entry) list"

definition ErrNoAvailableWorker :: goerr where
  "ErrNoAvailableWorker = Sentinel ''no available worker''"

definition NewWorkerRegistry :: registry where
  "NewWorkerRegistry = []"

definition put :: "string \<Rightarrow> worker_entry \<Rightarrow> registry \<Rightarrow> registry" where
  "put k e r = (if map_of r k = None then r @ [(k, e)]
                else update_where (\<lambda>p. fst p = k) (\<lambda>p. (k, e)) r)"

text \<open>\<open>modify\<close> is the shape of the methods that look an id up and return when it is missing.\<close>

definition modify :: "string \<Rightarrow> (worker_entry \<Rightarrow> worker_entry) \<Rightarrow> registry \<Rightarrow> registry" where
  "modify k f r = update_where (\<lambda>p. fst p = k) (\<lambda>p. (fst p, f (snd p))) r"

definition Register :: "int \<Rightarrow> worker_entry \<Rightarrow> registry \<Rightarrow> registry" where
  "Register now entry r =
     put (we_ID entry) (entry\<lparr>we_LastSeen := now, we_Status := StatusIdle\<rparr>) r"

definition Heartbeat :: "int \<Rightarrow> string \<Rightarrow> registry \<Rightarrow> registry" where
  "Heartbeat now workerID r =
     modify workerID (\<lambda>w. let w = w\<lparr>we_LastSeen := now\<rparr>
                          in if we_Status w = StatusOffline then w\<lparr>we_Status := StatusIdle\<rparr> else w) r"

definition MarkBusy :: "string \<Rightarrow> string \<Rightarrow> registry \<Rightarrow> registry" where
  "MarkBusy workerID jobID r =
     modify workerID (\<lambda>w. w\<lparr>we_Status := StatusBusy, we_CurrentJobID := jobID\<rparr>) r"

definition MarkIdle :: "string \<Rightarrow> registry \<Rightarrow> registry" where
  "MarkIdle workerID r =
     modify workerID (\<lambda>w. w\<lparr>we_Status := StatusIdle, we_CurrentJobID := []\<rparr>) r"

text \<open>The entries in the order in which a \<open>range\<close> loop visits them.\<close>

definition visit :: "string list \<Rightarrow> registry \<Rightarrow> worker_entry list" where
  "visit ord r = List.map_filter (map_of r) ord"

definition is_order :: "string list \<Rightarrow> registry \<Rightarrow> bool" where
  "is_order ord r \<longleftrightarrow> distinct ord \<and> set ord = fst ` set r"

definition idle_for :: "string \<Rightarrow> worker_entry \<Rightarrow> bool" where
  "idle_for gpuProfile w \<longleftrightarrow> we_Status w = StatusIdle \<and> we_GPUType w = gpuProfile"

definition SelectWorker :: "string list \<Rightarrow> string \<Rightarrow> registry \<Rightarrow> worker_entry res" where
  "SelectWorker ord gpuProfile r =
     (case List.find (idle_for gpuProfile) (visit ord r) of
        Some w \<Rightarrow> Inr w
      | None \<Rightarrow> Inl ErrNoAvailableWorker)"

definition EvictStale :: "int \<Rightarrow> int \<Rightarrow> registry \<Rightarrow> registry" where
  "EvictStale now timeout r =
     (let cutoff = now - timeout
      in map (\<lambda>(k, w). (k, if we_LastSeen w < cutoff then w\<lparr>we_Status := StatusOffline\<rparr> else w)) r)"

definition Count :: "registry \<Rightarrow> nat" where
  "Count r = length r"

definition ListWorkers :: "string list \<Rightarrow> registry \<Rightarrow> worker_entry list" where
  "ListWorkers ord r = sort_key we_ID (visit ord r)"

fun any_idle :: "string \<Rightarrow> worker_entry list \<Rightarrow> bool" where
  "any_idle gpuProfile [] = False"
| "any_idle gpuProfile (w # ws) = (if idle_for gpuProfile w then True else any_idle gpuProfile ws)"

definition HasIdle :: "string list \<Rightarrow> string \<Rightarrow> registry \<Rightarrow> bool" where
  "HasIdle ord gpuProfile r = any_idle gpuProfile (visit ord r)"

text \<open>The background goroutine evicts with a fixed timeout of 30 seconds, once for each tick before
  the context is cancelled.\<close>

datatype evict_event = EvTick int | EvDone

fun HeartbeatEviction :: "evict_event list \<Rightarrow> registry \<Rightarrow> registry" where
  "HeartbeatEviction [] r = r"
| "HeartbeatEviction (EvDone # es) r = r"
| "HeartbeatEviction (EvTick now # es) r = HeartbeatEviction es (EvictStale now (30 * Second) r)"

section \<open>The representation invariant\<close>

text \<open>Each id has one entry, stored under its own id.\<close>

definition registry_ok :: "registry \<Rightarrow> bool" where
  "registry_ok r \<longleftrightarrow> distinct (map fst r) \<and> (\<forall>(k, w)\<in>set r. we_ID w = k)"

lemma registry_ok_New: "registry_ok NewWorkerRegistry"
  by (simp add: registry_ok_def NewWorkerRegistry_def)

lemma map_of_modify:
  "map_of (modify k f r) i = (if i = k then map_option f (map_of r i) else map_of r i)"
  by (induction r) (auto simp: modify_def update_where_def)

lemma map_of_put: "map_of (put k e r) i = (if i = k then Some e else map_of r i)"
proof (cases "map_of r k")
  case None
  then show ?thesis by (auto simp: put_def map_add_def split: option.splits)
next
  case (Some x)
  have "map_of (update_where (\<lambda>p. fst p = k) (\<lambda>p. (k, e)) r) i =
      (if i = k \<and> map_of r k \<noteq> None then Some e else map_of r i)"
    by (induction r) (auto simp: update_where_def)
  with Some show ?thesis by (simp add: put_def)
qed

lemma map_of_EvictStale:
  "map_of (EvictStale now t r) i =
   map_option (\<lambda>w. if we_LastSeen w < now - t then w\<lparr>we_Status := StatusOffline\<rparr> else w) (map_of r i)"
  by (induction r) (auto simp: EvictStale_def)

lemma modify_ok: "registry_ok r \<Longrightarrow> (\<And>w. we_ID (f w) = we_ID w) \<Longrightarrow> registry_ok (modify k f r)"
  by (fastforce simp: registry_ok_def modify_def in_update_where map_update_where split: if_splits)

lemma put_ok: "registry_ok r \<Longrightarrow> we_ID e = k \<Longrightarrow> registry_ok (put k e r)"
proof -
  assume ok: "registry_ok r" and k: "we_ID e = k"
  have "map fst (update_where (\<lambda>p. fst p = k) (\<lambda>p. (k, e)) r) = map fst r"
    by (auto simp: update_where_def)
  then show ?thesis
    using ok k by (auto simp: put_def registry_ok_def in_update_where map_of_eq_None_iff split: if_splits)
qed

lemma registry_ok_ops [intro]:
  "registry_ok r \<Longrightarrow> registry_ok (Register now e r)"
  "registry_ok r \<Longrightarrow> registry_ok (Heartbeat now i r)"
  "registry_ok r \<Longrightarrow> registry_ok (MarkBusy i j r)"
  "registry_ok r \<Longrightarrow> registry_ok (MarkIdle i r)"
  "registry_ok r \<Longrightarrow> registry_ok (EvictStale now t r)"
  by (auto simp: Register_def Heartbeat_def MarkBusy_def MarkIdle_def Let_def
      intro!: put_ok modify_ok)
     (auto simp: registry_ok_def EvictStale_def case_prod_unfold comp_def)

lemma map_of_Some_iff: "registry_ok r \<Longrightarrow> map_of r k = Some w \<longleftrightarrow> (k, w) \<in> set r"
  by (simp add: registry_ok_def map_of_eq_Some_iff)

lemma registry_ok_ID: "registry_ok r \<Longrightarrow> map_of r k = Some w \<Longrightarrow> we_ID w = k"
  by (auto simp: registry_ok_def dest!: map_of_SomeD)

section \<open>Iteration order does not matter\<close>

lemma set_map_filter: "set (List.map_filter f xs) = {y. \<exists>x\<in>set xs. f x = Some y}"
  by (induction xs) (auto simp: List.map_filter_simps split: option.splits)

lemma set_visit:
  assumes "registry_ok r" and "is_order ord r"
  shows "set (visit ord r) = snd ` set r"
proof -
  have "w \<in> snd ` set r \<longleftrightarrow> (\<exists>k\<in>fst ` set r. map_of r k = Some w)" for w
    using assms(1) by (force simp: map_of_Some_iff)
  with assms(2) show ?thesis by (auto simp: visit_def set_map_filter is_order_def)
qed

lemma visit_IDs: "registry_ok r \<Longrightarrow> is_order ord r \<Longrightarrow> map we_ID (visit ord r) = ord"
proof -
  assume ok: "registry_ok r" and ord: "is_order ord r"
  have "map we_ID (List.map_filter (map_of r) ks) = ks" if "set ks \<subseteq> fst ` set r" for ks
    using that
  proof (induction ks)
    case (Cons k ks)
    then obtain w where "map_of r k = Some w"
      by (metis insert_subset list.simps(15) map_of_eq_None_iff option.exhaust)
    with Cons ok show ?case by (simp add: List.map_filter_simps registry_ok_ID)
  qed (simp add: List.map_filter_simps)
  with ord show ?thesis by (simp add: visit_def is_order_def)
qed

lemma mset_visit:
  assumes "registry_ok r" and "is_order ord r" and "is_order ord' r"
  shows "mset (visit ord r) = mset (visit ord' r)"
proof -
  have "distinct (visit o' r)" if "is_order o' r" for o'
    using visit_IDs [OF assms(1) that] that distinct_map [of we_ID "visit o' r"]
    by (simp add: is_order_def)
  then show ?thesis
    using assms by (simp add: set_visit flip: set_eq_iff_mset_eq_distinct)
qed

lemma any_idle_iff: "any_idle g ws \<longleftrightarrow> (\<exists>w\<in>set ws. idle_for g w)"
  by (induction ws) auto

lemma SelectWorker_found: "(\<exists>w. SelectWorker ord g r = Inr w) \<longleftrightarrow> HasIdle ord g r"
  by (auto simp: SelectWorker_def HasIdle_def any_idle_iff find_eq_None
      split: option.splits dest: find_SomeD)

lemma HasIdle_iff:
  "registry_ok r \<Longrightarrow> is_order ord r \<Longrightarrow> HasIdle ord g r \<longleftrightarrow> (\<exists>k w. map_of r k = Some w \<and> idle_for g w)"
  by (force simp: HasIdle_def any_idle_iff set_visit map_of_Some_iff)

lemma SelectWorker_Inr:
  assumes "registry_ok r" and "is_order ord r" and "SelectWorker ord g r = Inr w"
  shows "map_of r (we_ID w) = Some w \<and> idle_for g w"
proof -
  from assms(3) have "w \<in> set (visit ord r)" and g: "idle_for g w"
    by (auto simp: SelectWorker_def dest: find_SomeD split: option.splits)
  with assms(1,2) obtain k where "(k, w) \<in> set r" by (auto simp: set_visit)
  with assms(1) have "map_of r k = Some w" by (simp add: map_of_Some_iff)
  with assms(1) g show ?thesis by (simp add: registry_ok_ID)
qed

text \<open>\<open>List\<close> and the availability queries do not depend on the order in which the Go runtime walks the
  map: for any two orders the snapshot is the same list, it is strictly sorted by id and holds exactly
  the registered entries; and \<open>SelectWorker\<close> succeeds exactly when \<open>HasIdle\<close> reports an idle worker of
  that profile, whichever order each of them saw.\<close>

theorem registry_order_irrelevant:
  assumes "registry_ok r" and "is_order ord r" and "is_order ord' r"
  shows "ListWorkers ord r = ListWorkers ord' r \<and>
    sorted_wrt (<) (map we_ID (ListWorkers ord r)) \<and>
    set (ListWorkers ord r) = snd ` set r \<and>
    ((\<exists>w. SelectWorker ord g r = Inr w) \<longleftrightarrow> HasIdle ord' g r)"
proof -
  have ids: "distinct (map we_ID (ListWorkers ord r))"
  proof -
    have "mset (map we_ID (ListWorkers ord r)) = mset (map we_ID (visit ord r))"
      by (simp add: ListWorkers_def mset_map del: map_map)
    then show ?thesis
      using assms by (metis visit_IDs is_order_def mset_eq_imp_distinct_iff)
  qed
  have inj: "inj_on we_ID (set (ListWorkers ord r))"
    using ids by (simp add: distinct_map)
  have same: "ListWorkers ord r = ListWorkers ord' r"
  proof -
    have "mset (ListWorkers ord r) = mset (ListWorkers ord' r)"
      using mset_visit [OF assms] by (simp add: ListWorkers_def)
    moreover have "sorted (map we_ID (ListWorkers ord r))" "sorted (map we_ID (ListWorkers ord' r))"
      by (simp_all add: ListWorkers_def)
    ultimately show ?thesis
      using inj map_sorted_distinct_set_unique [of we_ID "ListWorkers ord r" "ListWorkers ord' r"] ids
      by (metis mset_eq_setD mset_map mset_eq_imp_distinct_iff sup.idem)
  qed
  have strict: "sorted_wrt (<) (map we_ID (ListWorkers ord r))"
    using ids by (simp add: strict_sorted_iff ListWorkers_def)
  have "(\<exists>w. SelectWorker ord g r = Inr w) \<longleftrightarrow> HasIdle ord g r"
    by (rule SelectWorker_found)
  also have "\<dots> \<longleftrightarrow> HasIdle ord' g r"
    using assms by (simp add: HasIdle_iff)
  finally show ?thesis
    using same strict assms by (simp add: ListWorkers_def set_visit)
qed

definition demo_worker :: "string \<Rightarrow> worker_entry" where
  "demo_worker i = \<lparr>we_ID = i, we_URL = ''http://w'', we_GPUType = ''cpu'', we_Status = StatusIdle,
     we_LastSeen = 0, we_CurrentJobID = []\<rparr>"

definition demo_registry :: registry where
  "demo_registry = Register 5 (demo_worker ''b'') (Register 4 (demo_worker ''a'') NewWorkerRegistry)"

lemma demo_registry_ok: "registry_ok demo_registry" "is_order [''b'', ''a''] demo_registry"
    "is_order [''a'', ''b''] demo_registry"
  unfolding demo_registry_def
  by ((intro registry_ok_ops registry_ok_New)?; simp add: is_order_def Register_def put_def
      demo_worker_def NewWorkerRegistry_def insert_commute)+

theorem registry_order_irrelevant_witness:
  "ListWorkers [''b'', ''a''] demo_registry = ListWorkers [''a'', ''b''] demo_registry \<and>
   (\<exists>w. SelectWorker [''b'', ''a''] ''cpu'' demo_registry = Inr w)"
  using registry_order_irrelevant [OF demo_registry_ok, of "''cpu''"]
  by (simp add: HasIdle_def visit_def demo_registry_def Register_def put_def demo_worker_def
      NewWorkerRegistry_def List.map_filter_def idle_for_def)

section \<open>Runs of registry operations\<close>

datatype reg_op =
    OpRegister int worker_entry | OpHeartbeat int string | OpMarkBusy string string
  | OpMarkIdle string | OpEvict int int

fun reg_step :: "registry \<Rightarrow> reg_op \<Rightarrow> registry" where
  "reg_step r (OpRegister now e) = Register now e r"
| "reg_step r (OpHeartbeat now i) = Heartbeat now i r"
| "reg_step r (OpMarkBusy i j) = MarkBusy i j r"
| "reg_step r (OpMarkIdle i) = MarkIdle i r"
| "reg_step r (OpEvict now t) = EvictStale now t r"

definition reg_run :: "registry \<Rightarrow> reg_op list \<Rightarrow> registry" where
  "reg_run r ops = foldl reg_step r ops"

lemma reg_step_ok: "registry_ok r \<Longrightarrow> registry_ok (reg_step r op)"
  by (cases op) auto

lemma reg_run_ok: "registry_ok r \<Longrightarrow> registry_ok (reg_run r ops)"
  by (induction ops arbitrary: r) (auto simp: reg_run_def reg_step_ok)

lemma reg_step_dom:
  "map_of (reg_step r op) k \<noteq> None \<longleftrightarrow>
   map_of r k \<noteq> None \<or> (\<exists>now e. op = OpRegister now e \<and> we_ID e = k)"
  by (cases op) (auto simp: Register_def Heartbeat_def MarkBusy_def MarkIdle_def
      map_of_modify map_of_put map_of_EvictStale)

text \<open>C17: Whatever operations are applied to a new registry, in whatever order, each id keeps exactly one
  entry filed under that id, no worker is ever forgotten, and an id is present exactly when some
  \<open>Register\<close> call named it: heartbeats, busy and idle marks and evictions never create an entry.\<close>

theorem registry_run_invariant:
  "registry_ok (reg_run NewWorkerRegistry ops) \<and>
   fst ` set (reg_run NewWorkerRegistry ops) = {we_ID e | e now. OpRegister now e \<in> set ops} \<and>
   Count (reg_run NewWorkerRegistry ops) = card {we_ID e | e now. OpRegister now e \<in> set ops}"
proof -
  have dom: "map_of (reg_run r os) k \<noteq> None \<longleftrightarrow>
      map_of r k \<noteq> None \<or> (\<exists>now e. OpRegister now e \<in> set os \<and> we_ID e = k)" for r os k
  proof (induction os arbitrary: r)
    case (Cons p ps)
    show ?case
      using Cons [of "reg_step r p"] reg_step_dom [of r p k] by (auto simp: reg_run_def)
  qed (simp add: reg_run_def)
  have ok: "registry_ok (reg_run NewWorkerRegistry ops)"
    by (rule reg_run_ok [OF registry_ok_New])
  have keys: "fst ` set (reg_run NewWorkerRegistry ops) = {we_ID e | e now. OpRegister now e \<in> set ops}"
  proof (rule set_eqI)
    fix k
    have "k \<in> fst ` set (reg_run NewWorkerRegistry ops) \<longleftrightarrow> (\<exists>now e. OpRegister now e \<in> set ops \<and> we_ID e = k)"
      using dom [of NewWorkerRegistry ops k] by (simp add: NewWorkerRegistry_def map_of_eq_None_iff)
    then show "k \<in> fst ` set (reg_run NewWorkerRegistry ops) \<longleftrightarrow>
        k \<in> {we_ID e | e now. OpRegister now e \<in> set ops}"
      unfolding mem_Collect_eq by metis
  qed
  have "Count (reg_run NewWorkerRegistry ops) = card (fst ` set (reg_run NewWorkerRegistry ops))"
    using ok by (metis Count_def distinct_card length_map list.set_map registry_ok_def)
  with ok keys show ?thesis by simp
qed

section \<open>Eviction\<close>

definition ticks_before_done :: "evict_event list \<Rightarrow> int list" where
  "ticks_before_done es =
     map (\<lambda>e. case e of EvTick t \<Rightarrow> t | EvDone \<Rightarrow> 0) (takeWhile (\<lambda>e. e \<noteq> EvDone) es)"

lemma ticks_before_done_simps [simp]:
  "ticks_before_done [] = []" "ticks_before_done (EvDone # es) = []"
  "ticks_before_done (EvTick t # es) = t # ticks_before_done es"
  by (auto simp: ticks_before_done_def)

text \<open>The eviction goroutine takes a worker offline exactly when one of its ticks, up to the
  cancellation of the context, comes more than 30 seconds after the worker was last seen; it changes
  nothing else about the worker, so a worker whose heartbeats are recent keeps its status.\<close>

theorem eviction_exact:
  "map_of (HeartbeatEviction es r) k =
   map_option (\<lambda>w. if \<exists>t\<in>set (ticks_before_done es). we_LastSeen w < t - 30 * Second
                   then w\<lparr>we_Status := StatusOffline\<rparr> else w) (map_of r k)"
proof (induction es arbitrary: r)
  case Nil
  then show ?case by (simp add: option.map_ident)
next
  case (Cons e es)
  show ?case
  proof (cases e)
    case (EvTick t)
    then show ?thesis
      by (cases "map_of r k") (auto simp: Cons map_of_EvictStale)
  next
    case EvDone
    then show ?thesis by (simp add: option.map_ident)
  qed
qed

text \<open>A heartbeat makes an evicted worker selectable again even if it is still running a job: after
  an eviction of a busy worker, its next heartbeat leaves it idle with the job id it had, and
  \<open>SelectWorker\<close> for its profile then succeeds (with this worker when it is the only one).\<close>

theorem heartbeat_revives_busy:
  assumes "registry_ok r" and "map_of r i = Some w"
    and "we_Status w = StatusBusy" and "we_LastSeen w < now - timeout"
    and "is_order ord (Heartbeat now' i (EvictStale now timeout r))"
  shows "(\<exists>w'. map_of (Heartbeat now' i (EvictStale now timeout r)) i = Some w' \<and>
            idle_for (we_GPUType w) w' \<and> we_CurrentJobID w' = we_CurrentJobID w) \<and>
    HasIdle ord (we_GPUType w) (Heartbeat now' i (EvictStale now timeout r))"
proof -
  let ?r = "Heartbeat now' i (EvictStale now timeout r)"
  have "map_of ?r i = Some (w\<lparr>we_LastSeen := now', we_Status := StatusIdle\<rparr>)"
    using assms(2,4) by (simp add: Heartbeat_def map_of_modify map_of_EvictStale Let_def)
  then have w: "\<exists>w'. map_of ?r i = Some w' \<and> idle_for (we_GPUType w) w' \<and>
      we_CurrentJobID w' = we_CurrentJobID w"
    by (simp add: idle_for_def)
  moreover have "registry_ok ?r" using assms(1) by blast
  ultimately have "HasIdle ord (we_GPUType w) ?r"
    using HasIdle_iff [OF _ assms(5)] by blast
  with w show ?thesis by blast
qed

theorem heartbeat_revives_busy_witness:
  "HasIdle [''a'', ''b''] ''cpu'' (Heartbeat (60 * Second) ''a''
     (EvictStale (50 * Second) (30 * Second) (MarkBusy ''a'' ''job-1'' demo_registry)))"
proof -
  let ?r = "MarkBusy ''a'' ''job-1'' demo_registry"
  have ok: "registry_ok ?r" using demo_registry_ok(1) by blast
  have at: "map_of ?r ''a'' = Some ((demo_worker ''a'')
      \<lparr>we_LastSeen := 4, we_Status := StatusBusy, we_CurrentJobID := ''job-1''\<rparr>)"
    by (simp add: demo_registry_def MarkBusy_def map_of_modify Register_def map_of_put demo_worker_def)
  have ord: "is_order [''a'', ''b''] (Heartbeat (60 * Second) ''a'' (EvictStale (50 * Second) (30 * Second) ?r))"
    by (auto simp: is_order_def Heartbeat_def EvictStale_def MarkBusy_def modify_def update_where_def
        demo_registry_def Register_def put_def NewWorkerRegistry_def demo_worker_def)
  show ?thesis
    using heartbeat_revives_busy [OF ok at _ _ ord] by (simp add: duration_units demo_worker_def)
qed

end
