(* ===== verification/JobWorker.thy ===== *)
theory JobWorker
  imports Store Workers
begin

text \<open>
  The orchestrator: the River worker that dispatches a benchmark (\<open>internal/jobs/worker.go\<close>) and the
  internal HTTP handlers of \<open>cmd/orchestrator/main.go\<close>, over the database and the worker registry.
  \<open>Work\<close> is the worker's function as the code writes it; \<open>work_step\<close> cuts it at every access to shared
  state, so that the section on interleavings can run any number of attempts together with the handlers,
  the eviction goroutine and cancellations.
\<close>

section \<open>State\<close>

record orch = jobs_db +
  o_registry :: registry

text \<open>What the outside answers during one attempt: the order in which the registry map is walked, the
  worker's answer to the dispatch (its run id), and what the polling loop's \<open>select\<close> delivers before the
  45 minute timer fires.\<close>

datatype poll_event = PollDone goerr | PollTick "(string \<times> string) http_out"

record work_input =
  wi_order :: "string list"
  wi_dispatch :: "string http_out"
  wi_poll :: "poll_event list"

section \<open>The state transition in the database\<close>

definition arrow :: string where
  "arrow = [CHR '' '', CHR 0xE2, CHR 0x86, CHR 0x92, CHR '' '']"

definition invalid_transition :: "job_state \<Rightarrow> job_state \<Rightarrow> goerr" where
  "invalid_transition from to =
     ErrNew (''invalid state transition: '' @ job_state_str from @ arrow @ job_state_str to)"

definition readState :: "string \<Rightarrow> 'w jobs_db_scheme \<Rightarrow> job_state res \<times> 'w jobs_db_scheme" where
  "readState jobID = db_call ''read current state: '' (\<lambda>w.
     (case List.find (\<lambda>j. job_ID j = jobID) (t_jobs w) of
        None \<Rightarrow> Inl (Wrap ''read current state: '' ErrNoRows [])
      | Some j \<Rightarrow> Inr (job_State j), w))"

definition writeState :: "string \<Rightarrow> job_state \<Rightarrow> 'w jobs_db_scheme \<Rightarrow> unit res \<times> 'w jobs_db_scheme" where
  "writeState jobID newState w =
     (case fault w of
        Some e \<Rightarrow> (Inl (ErrNew e), tick w)
      | None \<Rightarrow> (Inr (), (tick w)\<lparr>t_jobs := update_where (\<lambda>j. job_ID j = jobID)
          (\<lambda>j. j\<lparr>job_State := newState, job_UpdatedAt := w_now w\<rparr>) (t_jobs w)\<rparr>))"

definition updateJobState ::
  "string \<Rightarrow> job_state \<Rightarrow> 'w jobs_db_scheme \<Rightarrow> unit res \<times> 'w jobs_db_scheme" where
  "updateJobState jobID newState w =
     (let (r, w) = readState jobID w
      in case r of
           Inl e \<Rightarrow> (Inl e, w)
         | Inr current \<Rightarrow>
             if \<not> ValidTransition current newState then (Inl (invalid_transition current newState), w)
             else writeState jobID newState w)"

section \<open>Polling\<close>

definition fetchRunStatus :: "(string \<times> string) http_out \<Rightarrow> (string \<times> string) res" where
  "fetchRunStatus out =
     (case out of
        BuildErr e \<Rightarrow> Inl (ErrNew e)
      | DoErr e \<Rightarrow> Inl (ErrNew e)
      | Resp _ (Inl e) \<Rightarrow> Inl (ErrNew e)
      | Resp _ (Inr body) \<Rightarrow> Inr body)"

fun pollForResults :: "string \<Rightarrow> string \<Rightarrow> poll_event list \<Rightarrow> goerr option" where
  "pollForResults jobID runID [] =
     Some (ErrNew (''poll timeout (45m) for job='' @ jobID @ '' run='' @ runID))"
| "pollForResults jobID runID (PollDone e # es) = Some e"
| "pollForResults jobID runID (PollTick out # es) =
     (case fetchRunStatus out of
        Inl _ \<Rightarrow> pollForResults jobID runID es
      | Inr (status, msg) \<Rightarrow>
          if status = ''completed'' then None
          else if status = ''failed''
          then Some (ErrNew (''worker reported failure for run='' @ runID @ '': '' @ msg))
          else pollForResults jobID runID es)"

section \<open>The worker\<close>

definition WorkTimeout :: int where
  "WorkTimeout = 60 * Minute"

definition retry_text :: string where
  "retry_text = ''invalid state transition: running'' @ arrow @ ''running''"

definition set_registry :: "(registry \<Rightarrow> registry) \<Rightarrow> orch \<Rightarrow> orch" where
  "set_registry f w = w\<lparr>o_registry := f (o_registry w)\<rparr>"

definition no_worker_error :: "bench_job_args \<Rightarrow> goerr \<Rightarrow> goerr" where
  "no_worker_error args e =
     (if errors_Is e ErrNoAvailableWorker
      then Wrap (''no available worker for gpu_profile='' @ ba_GPUProfile args @ '': '') e []
      else Wrap ''select worker: '' e [])"

text \<open>The part of \<open>Work\<close> between marking the worker busy and the deferred \<open>MarkIdle\<close>.\<close>

definition dispatch_job :: "bench_job_args \<Rightarrow> work_input \<Rightarrow> orch \<Rightarrow> goerr option \<times> orch" where
  "dispatch_job args inp w =
     (case wi_dispatch inp of
        BuildErr e \<Rightarrow> (Some (Wrap ''build dispatch request: '' (ErrNew e) []), w)
      | DoErr e \<Rightarrow>
          (Some (Wrap ''dispatch to worker: '' (ErrNew e) []), snd (updateJobState (ba_JobID args) StateFailed w))
      | Resp _ (Inl e) \<Rightarrow>
          (Some (Wrap ''decode run response: '' (ErrNew e) []), snd (updateJobState (ba_JobID args) StateFailed w))
      | Resp _ (Inr runID) \<Rightarrow>
          let (r, w) = updateJobState (ba_JobID args) StateCollecting w
          in (case r of
                Inl e \<Rightarrow> (Some (Wrap ''transition to collecting: '' e []), w)
              | Inr _ \<Rightarrow> (pollForResults (ba_JobID args) runID (wi_poll inp), w)))"

text \<open>A retry of an attempt that had already moved the job to running is let through.\<close>

definition blocked :: "unit res \<Rightarrow> bool" where
  "blocked r \<longleftrightarrow> (case r of Inl e \<Rightarrow> Error e \<noteq> retry_text | Inr _ \<Rightarrow> False)"

definition Work :: "bench_job_args \<Rightarrow> work_input \<Rightarrow> orch \<Rightarrow> goerr option \<times> orch" where
  "Work args inp w =
     (let (r, w) = updateJobState (ba_JobID args) StateRunning w
      in if blocked r then (Some (Wrap ''transition to running: '' (projl r) []), w)
         else (case SelectWorker (wi_order inp) (ba_GPUProfile args) (o_registry w) of
                 Inl e \<Rightarrow> (Some (no_worker_error args e), w)
               | Inr entry \<Rightarrow>
                   let w = set_registry (MarkBusy (we_ID entry) (ba_JobID args)) w;
                       (res, w) = dispatch_job args inp w
                   in (res, set_registry (MarkIdle (we_ID entry)) w)))"

section \<open>The internal HTTP handlers\<close>

text \<open>A handler's reply is its status code; \<open>body\<close> is the decoded request or the decoding error.\<close>

definition registerHandler :: "string + worker_entry \<Rightarrow> orch \<Rightarrow> int \<times> orch" where
  "registerHandler body w =
     (case body of
        Inl _ \<Rightarrow> (400, w)
      | Inr entry \<Rightarrow> (200, set_registry (Register (w_now w) entry) w))"

definition listHandler :: "string list \<Rightarrow> orch \<Rightarrow> worker_entry list" where
  "listHandler ord w = ListWorkers ord (o_registry w)"

definition heartbeatHandler :: "string + string \<Rightarrow> orch \<Rightarrow> int \<times> orch" where
  "heartbeatHandler body w =
     (case body of
        Inl _ \<Rightarrow> (400, w)
      | Inr workerID \<Rightarrow> (200, set_registry (Heartbeat (w_now w) workerID) w))"

definition recommendation_of :: "result \<Rightarrow> job_recommendation" where
  "recommendation_of r =
     \<lparr>jr_JobID = r_JobID r, jr_BestEngine = r_Engine r, jr_BestConfig = r_Config r,
      jr_CostPerMTok = r_CostPerMTok r, jr_TokPerSec = r_TokPerSec r,
      jr_Reasoning = ''selected based on highest throughput from submitted result''\<rparr>"

definition resultsHandler :: "string + result \<Rightarrow> 'w jobs_db_scheme \<Rightarrow> int \<times> 'w jobs_db_scheme" where
  "resultsHandler body w =
     (case body of
        Inl _ \<Rightarrow> (400, w)
      | Inr r \<Rightarrow>
          let (e, w) = WriteBenchResultBatch [r] w
          in if isErr e then (500, w)
             else let (_, w) = UpdateJobState (r_JobID r) StateCompleted [] w;
                      (_, w) = SaveRecommendation (recommendation_of r) w;
                      (_, w) = AppendAuditLog ''internal'' ''job.completed'' (r_JobID r) w
                  in (200, w))"

definition stateHandler :: "string \<Rightarrow> 'w jobs_db_scheme \<Rightarrow> (int \<times> string) \<times> 'w jobs_db_scheme" where
  "stateHandler jobID w =
     (let (r, w) = GetJobByID jobID w
      in case r of
           Inl _ \<Rightarrow> ((404, ''job not found''), w)
         | Inr j \<Rightarrow> ((200, job_state_str (job_State j)), w))"

section \<open>Facts about one transition\<close>

lemma orch_tick [simp]: "o_registry (tick w) = o_registry w"
  by (simp add: tick_def)

lemma set_registry_simps [simp]:
  "o_registry (set_registry f w) = f (o_registry w)" "t_jobs (set_registry f w) = t_jobs w"
  "job_map (set_registry f w) = job_map w" "w_faults (set_registry f w) = w_faults w"
  "w_now (set_registry f w) = w_now w" "fault (set_registry f w) = fault w"
  by (auto simp: set_registry_def job_map_def fault_def)

lemma readState_cases:
  assumes "readState jobID w = (r, w')"
  shows "w' = tick w \<and> (\<not> isErr r \<longrightarrow> (\<exists>j. job_map w jobID = Some j \<and> r = Inr (job_State j)))"
  using assms by (auto simp: readState_def db_call_def job_map_def split: option.splits)

lemma readState_registry [simp]: "o_registry (snd (readState jobID w)) = o_registry w"
  by (simp add: readState_def db_call_def split: option.splits)

lemma writeState_registry [simp]: "o_registry (snd (writeState jobID st w)) = o_registry w"
  by (simp add: writeState_def split: option.splits)

lemma updateJobState_registry [simp]: "o_registry (snd (updateJobState jobID st w)) = o_registry w"
  by (auto simp: updateJobState_def readState_def writeState_def db_call_def Let_def
      split: prod.splits sum.splits option.splits)

definition set_state :: "job_state \<Rightarrow> int \<Rightarrow> job \<Rightarrow> job" where
  "set_state st now j = j\<lparr>job_State := st, job_UpdatedAt := now\<rparr>"

lemma job_State_set_state [simp]: "job_State (set_state st now j) = st" "job_ID (set_state st now j) = job_ID j"
  by (simp_all add: set_state_def)

lemma writeState_spec:
  assumes "writeState jobID st w = (r, w')"
  shows "(isErr r \<and> job_map w' = job_map w) \<or>
    (r = Inr () \<and> (\<forall>k. job_map w' k = map_option (\<lambda>j. if k = jobID then set_state st (w_now w) j else j) (job_map w k)))"
proof (cases "fault w")
  case None
  with assms have r: "r = Inr ()"
    and w': "t_jobs w' = update_where (\<lambda>j. job_ID j = jobID) (set_state st (w_now w)) (t_jobs w)"
    by (auto simp: writeState_def set_state_def [abs_def])
  with job_map_update [OF w'] show ?thesis by simp
next
  case (Some e)
  with assms show ?thesis by (auto simp: writeState_def)
qed

lemma updateJobState_cases:
  assumes "updateJobState jobID st w = (r, w')"
  obtains (err) e where "r = Inl e" "job_map w' = job_map w"
  | (ok) j where "r = Inr ()" "job_map w jobID = Some j" "ValidTransition (job_State j) st"
      "job_map w' = (job_map w)(jobID \<mapsto> set_state st (w_now w) j)"
proof -
  obtain q v where q: "readState jobID w = (q, v)" by (cases "readState jobID w")
  note rd = readState_cases [OF q]
  show thesis
  proof (cases q)
    case (Inl e)
    with assms q rd show thesis by (intro err) (auto simp: updateJobState_def)
  next
    case (Inr cur)
    with rd obtain j where j: "job_map w jobID = Some j" "job_State j = cur" by auto
    show thesis
    proof (cases "ValidTransition cur st")
      case False
      with assms q rd Inr show thesis
        by (intro err [of "invalid_transition cur st"]) (auto simp: updateJobState_def)
    next
      case True
      with assms q Inr have wr: "writeState jobID st v = (r, w')" by (simp add: updateJobState_def)
      from writeState_spec [OF wr] show thesis
      proof
        assume "isErr r \<and> job_map w' = job_map v"
        with rd show thesis by (cases r) (auto intro: err)
      next
        assume ok': "r = Inr () \<and> (\<forall>k. job_map w' k =
          map_option (\<lambda>j. if k = jobID then set_state st (w_now v) j else j) (job_map v k))"
        with rd j have "job_map w' = (job_map w)(jobID \<mapsto> set_state st (w_now w) j)"
          by (auto simp: fun_eq_iff option.map_ident)
        with ok' j True show thesis by (intro ok) auto
      qed
    qed
  qed
qed

text \<open>Whatever faults occur, a call changes the job's state only along the state machine.\<close>

definition same_jobs :: "'w jobs_db_scheme \<Rightarrow> 'w jobs_db_scheme \<Rightarrow> bool" where
  "same_jobs w w' \<longleftrightarrow> (\<forall>k. case (job_map w k, job_map w' k) of
     (Some i, Some j) \<Rightarrow> job_State i = job_State j \<or> ValidTransition (job_State i) (job_State j)
   | (None, None) \<Rightarrow> True | _ \<Rightarrow> False)"

lemma updateJobState_same: "updateJobState jobID st w = (r, w') \<Longrightarrow> same_jobs w w'"
  by (erule updateJobState_cases) (auto simp: same_jobs_def split: option.splits)

lemma updateJobState_other:
  "updateJobState jobID st w = (r, w') \<Longrightarrow> k \<noteq> jobID \<Longrightarrow> job_map w' k = job_map w k"
  by (erule updateJobState_cases) auto

lemma updateJobState_reg: "updateJobState jobID st w = (r, w') \<Longrightarrow> o_registry w' = o_registry w"
  using updateJobState_registry [of jobID st w] by simp

section \<open>One attempt\<close>

lemma Work_cases:
  assumes "Work args inp w = (res, w')"
  obtains
    (blocked) r where "updateJobState (ba_JobID args) StateRunning w = (r, w')" "blocked r" "res \<noteq> None"
  | (no_worker) r e where "updateJobState (ba_JobID args) StateRunning w = (r, w')" "\<not> blocked r"
      "SelectWorker (wi_order inp) (ba_GPUProfile args) (o_registry w) = Inl e" "res \<noteq> None"
  | (ran) r w1 entry w2 where "updateJobState (ba_JobID args) StateRunning w = (r, w1)" "\<not> blocked r"
      "SelectWorker (wi_order inp) (ba_GPUProfile args) (o_registry w) = Inr entry"
      "dispatch_job args inp (set_registry (MarkBusy (we_ID entry) (ba_JobID args)) w1) = (res, w2)"
      "w' = set_registry (MarkIdle (we_ID entry)) w2"
proof -
  obtain r w1 where u: "updateJobState (ba_JobID args) StateRunning w = (r, w1)"
    by (cases "updateJobState (ba_JobID args) StateRunning w")
  note reg = updateJobState_reg [OF u]
  show thesis
  proof (cases "blocked r")
    case True
    with assms u show thesis by (intro blocked) (auto simp: Work_def)
  next
    case nb: False
    show thesis
    proof (cases "SelectWorker (wi_order inp) (ba_GPUProfile args) (o_registry w)")
      case (Inl e)
      with nb assms u reg show thesis by (intro no_worker) (auto simp: Work_def)
    next
      case (Inr entry)
      obtain v w2 where "dispatch_job args inp (set_registry (MarkBusy (we_ID entry) (ba_JobID args)) w1) = (v, w2)"
        by (cases "dispatch_job args inp (set_registry (MarkBusy (we_ID entry) (ba_JobID args)) w1)")
      with Inr nb assms u reg show thesis
        by (intro ran [of r w1 entry w2]) (auto simp: Work_def)
    qed
  qed
qed

lemma dispatch_job_registry: "dispatch_job args inp w = (res, w') \<Longrightarrow> o_registry w' = o_registry w"
  by (auto simp: dispatch_job_def Let_def split: http_out.splits sum.splits prod.splits
      dest: updateJobState_reg)

lemma dispatch_job_other:
  "dispatch_job args inp w = (res, w') \<Longrightarrow> k \<noteq> ba_JobID args \<Longrightarrow> job_map w' k = job_map w k"
  by (auto simp: dispatch_job_def Let_def split: http_out.splits sum.splits prod.splits
      dest: updateJobState_other) (metis prod.collapse updateJobState_other)+

text \<open>How the dispatch leaves its job: as it was, failed, or collecting.\<close>

lemma dispatch_job_state:
  assumes "dispatch_job args inp w = (res, w')" and j: "job_map w (ba_JobID args) = Some j"
  obtains j' where "job_map w' (ba_JobID args) = Some j'"
    "job_State j' = job_State j \<or> (ValidTransition (job_State j) (job_State j') \<and>
       job_State j' \<in> {StateFailed, StateCollecting})"
    "res = None \<Longrightarrow> job_State j' = StateCollecting \<and>
       (\<exists>code runID. wi_dispatch inp = Resp code (Inr runID) \<and> pollForResults (ba_JobID args) runID (wi_poll inp) = None)"
proof -
  have upd: "\<exists>j'. job_map v (ba_JobID args) = Some j' \<and>
      (job_State j' = job_State j \<or> (ValidTransition (job_State j) st \<and> job_State j' = st)) \<and>
      (r = Inr () \<longrightarrow> job_State j' = st)"
    if "updateJobState (ba_JobID args) st w = (r, v)" for st r v
    using that j by (elim updateJobState_cases) auto
  show thesis
  proof (cases "wi_dispatch inp")
    case (BuildErr e)
    with assms show thesis by (intro that [of j]) (auto simp: dispatch_job_def)
  next
    case (DoErr e)
    with assms upd [of StateFailed] that show thesis
      by (cases "updateJobState (ba_JobID args) StateFailed w") (auto simp: dispatch_job_def)
  next
    case (Resp code body)
    show thesis
    proof (cases body)
      case (Inl e)
      with Resp assms upd [of StateFailed] that show thesis
        by (cases "updateJobState (ba_JobID args) StateFailed w") (auto simp: dispatch_job_def)
    next
      case (Inr runID)
      obtain r v where u: "updateJobState (ba_JobID args) StateCollecting w = (r, v)"
        by (cases "updateJobState (ba_JobID args) StateCollecting w")
      from upd [OF u] Resp Inr u assms(1) that show thesis
        by (cases r) (auto simp: dispatch_job_def)
    qed
  qed
qed

lemma updateJobState_job:
  assumes "updateJobState jobID st w = (r, w')" and "job_map w jobID = Some j"
  obtains j' where "job_map w' jobID = Some j'"
    "job_State j' = job_State j \<or> (ValidTransition (job_State j) st \<and> job_State j' = st)"
  using assms by (elim updateJobState_cases) auto

definition reach_state :: "job_state \<Rightarrow> job_state \<Rightarrow> bool" where
  "reach_state s t \<longleftrightarrow> (\<lambda>a b. ValidTransition a b)\<^sup>*\<^sup>* s t"

lemma reach_state_le: "reach_state s t \<longleftrightarrow> s \<le> t"
  by (simp add: reach_state_def le_job_state_reach)

lemma reach_state_intros:
  "reach_state s s" "ValidTransition s t \<Longrightarrow> reach_state s t"
  "reach_state s t \<Longrightarrow> reach_state t u \<Longrightarrow> reach_state s u"
  by (auto simp: reach_state_def)


text \<open>C13: Whatever happens to an attempt (no worker, dispatch refused, unreadable answer, lost database,
  failed or timed out run), it gives its worker back: afterwards every registry entry is as it was
  before, except that an idle worker of the requested profile may have had its current job cleared.\<close>

theorem Work_releases_worker:
  assumes "registry_ok (o_registry w)" and "is_order (wi_order inp) (o_registry w)"
  shows "map_of (o_registry (snd (Work args inp w))) k = map_of (o_registry w) k \<or>
    (\<exists>e. map_of (o_registry w) k = Some e \<and> idle_for (ba_GPUProfile args) e \<and>
       map_of (o_registry (snd (Work args inp w))) k = Some (e\<lparr>we_CurrentJobID := []\<rparr>))"
proof -
  obtain res w' where W: "Work args inp w = (res, w')" by (cases "Work args inp w")
  then show ?thesis
  proof (cases rule: Work_cases)
    case (blocked r) with W updateJobState_reg [OF blocked(1)] show ?thesis by simp
  next
    case (no_worker r e) with W updateJobState_reg [OF no_worker(1)] show ?thesis by simp
  next
    case (ran r w1 entry w2)
    note e = SelectWorker_Inr [OF assms ran(3)]
    have reg: "o_registry w' = MarkIdle (we_ID entry) (MarkBusy (we_ID entry) (ba_JobID args) (o_registry w))"
      using ran(5) dispatch_job_registry [OF ran(4)] updateJobState_reg [OF ran(1)] by simp
    show ?thesis
      using W reg e by (cases "k = we_ID entry")
        (auto simp: MarkIdle_def MarkBusy_def map_of_modify idle_for_def)
  qed
qed

lemma readState_error:
  assumes "readState jobID w = (Inl e, v)"
  shows "\<exists>s. Error e = ''read current state: '' @ s"
proof -
  have "\<exists>f. e = Wrap ''read current state: '' f []"
    using assms by (auto simp: readState_def db_call_def split: option.splits)
  then show ?thesis by auto
qed

lemma dead_attempt:
  assumes "job_map w (ba_JobID args) = Some j" and no: "\<not> ValidTransition (job_State j) StateRunning"
    and ne: "job_State j \<noteq> StateRunning"
  shows "fst (Work args inp w) \<noteq> None \<and> job_map (snd (Work args inp w)) = job_map w \<and>
    o_registry (snd (Work args inp w)) = o_registry w"
proof -
  obtain r v where u: "updateJobState (ba_JobID args) StateRunning w = (r, v)"
    by (cases "updateJobState (ba_JobID args) StateRunning w")
  have "blocked r"
  proof -
    obtain q x where q: "readState (ba_JobID args) w = (q, x)" by (cases "readState (ba_JobID args) w")
    show ?thesis
    proof (cases q)
      case (Inl e)
      from readState_error [OF q [unfolded Inl]] obtain s where "Error e = ''read current state: '' @ s" ..
      then have "Error e \<noteq> retry_text" by (simp add: retry_text_def)
      moreover have "r = Inl e" using u q Inl by (simp add: updateJobState_def)
      ultimately show ?thesis by (simp add: blocked_def)
    next
      case (Inr cur)
      with readState_cases [OF q] assms(1) have cur: "cur = job_State j" by auto
      with u q Inr no have "r = Inl (invalid_transition (job_State j) StateRunning)"
        by (simp add: updateJobState_def)
      then show ?thesis using ne
        by (cases "job_State j") (auto simp: blocked_def invalid_transition_def retry_text_def)
    qed
  qed
  with u have w: "Work args inp w = (Some (Wrap ''transition to running: '' (projl r) []), v)"
    by (simp add: Work_def)
  have "job_map v = job_map w"
    using u assms(1) no by (elim updateJobState_cases) auto
  with w updateJobState_reg [OF u] show ?thesis by simp
qed

text \<open>A retry cannot revive a job. If River runs the worker again on a job that is no longer pending or
  running (say collecting, because the first attempt's polling failed), then whatever the workers would
  answer, the attempt returns an error and changes neither a job nor the registry. Together with the
  next property: a run whose polling fails leaves its job in collecting for good.\<close>

theorem Work_retry_is_dead:
  assumes "job_map w (ba_JobID args) = Some j" and "job_State j \<notin> {StatePending, StateRunning}"
  shows "fst (Work args inp w) \<noteq> None \<and> job_map (snd (Work args inp w)) = job_map w \<and>
    o_registry (snd (Work args inp w)) = o_registry w"
  using assms(2) by (intro dead_attempt [OF assms(1)]) (cases "job_State j"; simp add: ValidTransition_def)+

section \<open>A stranded job\<close>

definition demo_args :: bench_job_args where
  "demo_args = \<lparr>ba_JobID = ''1'', ba_Model = ''m'', ba_Engines = [''vllm''], ba_Workload = demo_workload,
     ba_EngineConfig = zero_engine_config, ba_GPUProfile = ''cpu'', ba_TenantID = ''a''\<rparr>"

definition demo_orch :: "job list \<Rightarrow> registry \<Rightarrow> orch" where
  "demo_orch js reg = jobs_db.extend (demo_db js []) \<lparr>o_registry = reg\<rparr>"

definition demo_input :: "string http_out \<Rightarrow> poll_event list \<Rightarrow> work_input" where
  "demo_input out evs = \<lparr>wi_order = [''s1''], wi_dispatch = out, wi_poll = evs\<rparr>"

definition demo_reg :: registry where
  "demo_reg = [(''s1'', demo_worker ''s1'')]"

lemma demo_orch_simps [simp]:
  "t_jobs (demo_orch js reg) = js" "o_registry (demo_orch js reg) = reg" "w_faults (demo_orch js reg) = []"
  "fault (demo_orch js reg) = None"
  by (simp_all add: demo_orch_def demo_db_def jobs_db.defs fault_def)

lemma demo_reg_ok: "registry_ok demo_reg" "is_order [''s1''] demo_reg"
  by (simp_all add: demo_reg_def registry_ok_def is_order_def demo_worker_def)

lemma demo_reg_get: "map_of demo_reg ''s1'' = Some (demo_worker ''s1'')"
  by (simp add: demo_reg_def)

lemma demo_reg_select: "SelectWorker [''s1''] ''cpu'' demo_reg = Inr (demo_worker ''s1'')"
  by (simp add: SelectWorker_def visit_def demo_reg_def List.map_filter_simps idle_for_def demo_worker_def)

lemmas work_defs = Work_def dispatch_job_def updateJobState_def readState_def writeState_def db_call_def
  blocked_def ValidTransition_def


theorem Work_releases_worker_witness:
  "map_of (o_registry (snd (Work demo_args (demo_input (DoErr ''refused'') [])
       (demo_orch [demo_job ''1'' ''a'' 0] demo_reg)))) ''s1'' \<noteq> None"
  using Work_releases_worker [of "demo_orch [demo_job ''1'' ''a'' 0] demo_reg"
      "demo_input (DoErr ''refused'') []" demo_args "''s1''"]
  by (auto simp: demo_reg_ok demo_input_def demo_reg_get)

theorem Work_retry_is_dead_witness:
  "fst (Work demo_args (demo_input (Resp 200 (Inr ''r'')) [])
     (demo_orch [(demo_job ''1'' ''a'' 0)\<lparr>job_State := StateCollecting\<rparr>] demo_reg)) \<noteq> None"
  using Work_retry_is_dead [of "demo_orch [(demo_job ''1'' ''a'' 0)\<lparr>job_State := StateCollecting\<rparr>] demo_reg"
      demo_args "(demo_job ''1'' ''a'' 0)\<lparr>job_State := StateCollecting\<rparr>"
      "demo_input (Resp 200 (Inr ''r'')) []"]
  by (simp add: job_map_def demo_args_def demo_job_def)

text \<open>With no fault, an available worker and a run id from the dispatch, the result of the attempt is the
  result of the polling, and the job is in collecting.\<close>

lemma updateJobState_ok:
  assumes "w_faults w = []" and "job_map w jobID = Some j" and "ValidTransition (job_State j) st"
  obtains w' where "updateJobState jobID st w = (Inr (), w')" "w_faults w' = []"
    "job_map w' = (job_map w)(jobID \<mapsto> set_state st (w_now w) j)"
proof -
  obtain r w' where u: "updateJobState jobID st w = (r, w')" by (cases "updateJobState jobID st w")
  have "r = Inr () \<and> w_faults w' = []"
    using u assms by (auto simp: updateJobState_def readState_def writeState_def db_call_def job_map_def
        split: option.splits)
  moreover from u have "job_map w' = (job_map w)(jobID \<mapsto> set_state st (w_now w) j)"
    using calculation assms(2) by (elim updateJobState_cases) auto
  ultimately show thesis using u that by blast
qed

lemma Work_runs:
  assumes "w_faults w = []" and j: "job_map w (ba_JobID args) = Some j" "job_State j = StatePending"
    and sel: "SelectWorker (wi_order inp) (ba_GPUProfile args) (o_registry w) = Inr entry"
    and out: "wi_dispatch inp = Resp code (Inr runID)"
  shows "\<exists>w' j'. Work args inp w = (pollForResults (ba_JobID args) runID (wi_poll inp), w') \<and>
    job_map w' (ba_JobID args) = Some j' \<and> job_State j' = StateCollecting"
proof -
  obtain w1 where u: "updateJobState (ba_JobID args) StateRunning w = (Inr (), w1)" and "w_faults w1 = []"
      and m: "job_map w1 = (job_map w)(ba_JobID args \<mapsto> set_state StateRunning (w_now w) j)"
    using updateJobState_ok [OF assms(1) j(1), of StateRunning] j(2) by (auto simp: ValidTransition_def)
  let ?v = "set_registry (MarkBusy (we_ID entry) (ba_JobID args)) w1"
  obtain w2 where u2: "updateJobState (ba_JobID args) StateCollecting ?v = (Inr (), w2)"
      and m2: "job_map w2 = (job_map ?v)(ba_JobID args \<mapsto>
        set_state StateCollecting (w_now ?v) (set_state StateRunning (w_now w) j))"
    using updateJobState_ok [of ?v "ba_JobID args" "set_state StateRunning (w_now w) j" StateCollecting]
      m \<open>w_faults w1 = []\<close> by (auto simp: ValidTransition_def)
  have "Work args inp w = (pollForResults (ba_JobID args) runID (wi_poll inp), set_registry (MarkIdle (we_ID entry)) w2)"
    using u u2 sel out updateJobState_reg [OF u] by (simp add: Work_def dispatch_job_def blocked_def)
  with m2 show ?thesis by simp
qed



end
