(* ===== verification/Dispatch.thy ===== *)
theory Dispatch
  imports JobWorker
begin

text \<open>
  Interleavings in the orchestrator. \<open>work_step\<close> is \<open>Work\<close> of \<open>internal/jobs/worker.go\<close> cut at each
  access to shared state (a database statement or a registry method, each atomic by itself); \<open>sys_step\<close>
  lets any number of attempts, the HTTP handlers of \<open>cmd/orchestrator/main.go\<close>, the eviction goroutine
  and a cancelling gateway take steps in any order.
\<close>

section \<open>The attempt as a program\<close>

datatype work_pc =
    PRead | PWrite | PSelect | PMark worker_entry | PDispatch worker_entry
  | PReadTo worker_entry job_state goerr "string option"
  | PWriteTo worker_entry job_state goerr "string option"
  | PPoll worker_entry string
  | PRelease worker_entry "goerr option"
  | PDone "goerr option"

text \<open>
  \<open>PReadTo e st err run\<close> and \<open>PWriteTo\<close> are the two halves of an \<open>updateJobState\<close> to \<open>st\<close> while worker \<open>e\<close>
  is held: towards failed the outcome is ignored and the attempt ends with \<open>err\<close> (\<open>run = None\<close>), towards
  collecting an error ends the attempt and success goes on to poll \<open>run\<close>.
\<close>

definition after_running :: "unit res \<Rightarrow> work_pc" where
  "after_running r = (if blocked r then PDone (Some (Wrap ''transition to running: '' (projl r) [])) else PSelect)"

definition after_update :: "worker_entry \<Rightarrow> goerr \<Rightarrow> string option \<Rightarrow> unit res \<Rightarrow> work_pc" where
  "after_update entry err run r =
     (case run of
        None \<Rightarrow> PRelease entry (Some err)
      | Some runID \<Rightarrow> (case r of
          Inl e \<Rightarrow> PRelease entry (Some (Wrap ''transition to collecting: '' e []))
        | Inr _ \<Rightarrow> PPoll entry runID))"

fun work_step :: "bench_job_args \<Rightarrow> work_input \<Rightarrow> work_pc \<Rightarrow> orch \<Rightarrow> work_pc \<times> orch" where
  "work_step args inp PRead w =
     (let (r, w) = readState (ba_JobID args) w
      in case r of
           Inl e \<Rightarrow> (after_running (Inl e), w)
         | Inr current \<Rightarrow>
             if \<not> ValidTransition current StateRunning
             then (after_running (Inl (invalid_transition current StateRunning)), w)
             else (PWrite, w))"
| "work_step args inp PWrite w =
     (let (r, w) = writeState (ba_JobID args) StateRunning w in (after_running r, w))"
| "work_step args inp PSelect w =
     (case SelectWorker (wi_order inp) (ba_GPUProfile args) (o_registry w) of
        Inl e \<Rightarrow> (PDone (Some (no_worker_error args e)), w)
      | Inr entry \<Rightarrow> (PMark entry, w))"
| "work_step args inp (PMark entry) w =
     (PDispatch entry, set_registry (MarkBusy (we_ID entry) (ba_JobID args)) w)"
| "work_step args inp (PDispatch entry) w =
     (case wi_dispatch inp of
        BuildErr e \<Rightarrow> (PRelease entry (Some (Wrap ''build dispatch request: '' (ErrNew e) [])), w)
      | DoErr e \<Rightarrow> (PReadTo entry StateFailed (Wrap ''dispatch to worker: '' (ErrNew e) []) None, w)
      | Resp _ (Inl e) \<Rightarrow> (PReadTo entry StateFailed (Wrap ''decode run response: '' (ErrNew e) []) None, w)
      | Resp _ (Inr runID) \<Rightarrow> (PReadTo entry StateCollecting (ErrNew []) (Some runID), w))"
| "work_step args inp (PReadTo entry st err run) w =
     (let (r, w) = readState (ba_JobID args) w
      in case r of
           Inl e \<Rightarrow> (after_update entry err run (Inl e), w)
         | Inr current \<Rightarrow>
             if \<not> ValidTransition current st then (after_update entry err run (Inl (invalid_transition current st)), w)
             else (PWriteTo entry st err run, w))"
| "work_step args inp (PWriteTo entry st err run) w =
     (let (r, w) = writeState (ba_JobID args) st w in (after_update entry err run r, w))"
| "work_step args inp (PPoll entry runID) w =
     (PRelease entry (pollForResults (ba_JobID args) runID (wi_poll inp)), w)"
| "work_step args inp (PRelease entry res) w = (PDone res, set_registry (MarkIdle (we_ID entry)) w)"
| "work_step args inp (PDone res) w = (PDone res, w)"

fun work_steps :: "nat \<Rightarrow> bench_job_args \<Rightarrow> work_input \<Rightarrow> work_pc \<Rightarrow> orch \<Rightarrow> work_pc \<times> orch" where
  "work_steps 0 args inp pc w = (pc, w)"
| "work_steps (Suc n) args inp pc w =
     (let (pc, w) = work_step args inp pc w in work_steps n args inp pc w)"

lemma work_steps_done: "work_steps n args inp (PDone res) w = (PDone res, w)"
  by (induction n) auto

lemma work_steps_add:
  "work_steps (m + n) args inp pc w =
   (let (pc, w) = work_steps m args inp pc w in work_steps n args inp pc w)"
  by (induction m arbitrary: pc w) (auto split: prod.splits)

text \<open>Reading and writing in two steps is \<open>updateJobState\<close>.\<close>

lemma run_running:
  assumes "updateJobState (ba_JobID args) StateRunning w = (r, w')"
  shows "\<exists>n\<le>2. work_steps n args inp PRead w = (after_running r, w')"
proof -
  obtain q v where q: "readState (ba_JobID args) w = (q, v)" by (cases "readState (ba_JobID args) w")
  show ?thesis
  proof (cases "\<exists>cur. q = Inr cur \<and> ValidTransition cur StateRunning")
    case True
    with q assms show ?thesis by (intro exI [of _ 2]) (auto simp: updateJobState_def numeral_2_eq_2)
  next
    case False
    with q assms show ?thesis
      by (intro exI [of _ 1]) (auto simp: updateJobState_def split: sum.splits if_splits)
  qed
qed

lemma run_update:
  assumes "updateJobState (ba_JobID args) st w = (r, w')"
  shows "\<exists>n\<le>2. work_steps n args inp (PReadTo entry st err run) w = (after_update entry err run r, w')"
proof -
  obtain q v where q: "readState (ba_JobID args) w = (q, v)" by (cases "readState (ba_JobID args) w")
  show ?thesis
  proof (cases "\<exists>cur. q = Inr cur \<and> ValidTransition cur st")
    case True
    with q assms show ?thesis by (intro exI [of _ 2]) (auto simp: updateJobState_def numeral_2_eq_2)
  next
    case False
    with q assms show ?thesis
      by (intro exI [of _ 1]) (auto simp: updateJobState_def split: sum.splits if_splits)
  qed
qed

definition runs_to :: "bench_job_args \<Rightarrow> work_input \<Rightarrow> nat \<Rightarrow> work_pc \<times> orch \<Rightarrow> work_pc \<times> orch \<Rightarrow> bool" where
  "runs_to args inp k s t \<longleftrightarrow> (\<exists>n\<le>k. work_steps n args inp (fst s) (snd s) = t)"

lemma runs_to_step: "work_step args inp pc w = t \<Longrightarrow> runs_to args inp 1 (pc, w) t"
  by (auto simp: runs_to_def intro!: exI [of _ 1] split: prod.splits)

lemma runs_to_trans [trans]:
  assumes "runs_to args inp j s t" and "runs_to args inp k t u"
  shows "runs_to args inp (j + k) s u"
proof -
  from assms obtain m n where "m \<le> j" "n \<le> k" "work_steps m args inp (fst s) (snd s) = t"
      "work_steps n args inp (fst t) (snd t) = u" by (auto simp: runs_to_def)
  then show ?thesis
    by (auto simp: runs_to_def work_steps_add split: prod.splits intro!: exI [of _ "m + n"])
qed

lemma runs_to_weaken: "runs_to args inp j s t \<Longrightarrow> j \<le> k \<Longrightarrow> runs_to args inp k s t"
  by (auto simp: runs_to_def intro: order_trans)

lemma runs_to_done:
  assumes "runs_to args inp k (pc, w) (PDone res, w')"
  shows "work_steps k args inp pc w = (PDone res, w')"
proof -
  from assms obtain n where "n \<le> k" "work_steps n args inp pc w = (PDone res, w')" by (auto simp: runs_to_def)
  then show ?thesis using work_steps_add [of n "k - n" args inp pc w] by (simp add: work_steps_done)
qed

lemma run_dispatch:
  assumes "dispatch_job args inp w = (res, w')"
  shows "runs_to args inp 4 (PDispatch entry, w) (PRelease entry res, w')"
proof -
  have upd: "runs_to args inp 2 (PReadTo entry st err run, v) (after_update entry err run r, v')"
    if "updateJobState (ba_JobID args) st v = (r, v')" for st err run r v v'
    using run_update [OF that] by (simp add: runs_to_def)
  have one: "runs_to args inp 1 (PDispatch entry, w) (work_step args inp (PDispatch entry) w)"
    by (rule runs_to_step) simp
  have failed: ?thesis
    if a: "work_step args inp (PDispatch entry) w = (PReadTo entry StateFailed err None, w)"
      and b: "res = Some err" and c: "w' = snd (updateJobState (ba_JobID args) StateFailed w)" for err
  proof -
    obtain r where "updateJobState (ba_JobID args) StateFailed w = (r, w')" using c by (metis prod.collapse)
    from runs_to_trans [OF one [unfolded a] upd [OF this, of err None]] b show ?thesis
      by (auto simp: after_update_def intro: runs_to_weaken)
  qed
  show ?thesis
  proof (cases "wi_dispatch inp")
    case (BuildErr e)
    with assms one show ?thesis by (auto simp: dispatch_job_def intro: runs_to_weaken)
  next
    case (DoErr e)
    with assms show ?thesis by (intro failed) (auto simp: dispatch_job_def)
  next
    case (Resp code body)
    show ?thesis
    proof (cases body)
      case (Inl e)
      with Resp assms show ?thesis by (intro failed) (auto simp: dispatch_job_def)
    next
      case (Inr runID)
      obtain r v where u: "updateJobState (ba_JobID args) StateCollecting w = (r, v)"
        by (cases "updateJobState (ba_JobID args) StateCollecting w")
      have p: "runs_to args inp 3 (PDispatch entry, w) (after_update entry (ErrNew []) (Some runID) r, v)"
        using runs_to_trans [OF one, of 2] upd [OF u, of "ErrNew []" "Some runID"] Resp Inr
        by (simp add: numeral_3_eq_3)
      show ?thesis
      proof (cases r)
        case (Inl e)
        with p assms Resp Inr u show ?thesis
          by (auto simp: dispatch_job_def after_update_def intro: runs_to_weaken)
      next
        case (Inr x)
        have "runs_to args inp 1 (PPoll entry runID, v) (PRelease entry (pollForResults (ba_JobID args) runID (wi_poll inp)), v)"
          by (rule runs_to_step) simp
        from runs_to_trans [OF p [unfolded Inr after_update_def, simplified] this]
        show ?thesis using assms Resp \<open>body = _\<close> u Inr by (simp add: dispatch_job_def)
      qed
    qed
  qed
qed


section \<open>The orchestrator as a transition system\<close>

text \<open>The attempts that River has started, by a number, with their arguments and where they are. A clock
  step advances time; a cancel step is the gateway's unconditional update of the job row.\<close>

type_synonym attempts = "nat \<Rightarrow> (bench_job_args \<times> work_pc) option"

inductive sys_step :: "orch \<times> attempts \<Rightarrow> orch \<times> attempts \<Rightarrow> bool" where
  start: "as a = None \<Longrightarrow> RiverRow args n q \<in> set (q_benchmarks w) \<Longrightarrow>
    sys_step (w, as) (w, as(a \<mapsto> (args, PRead)))"
| attempt: "as a = Some (args, pc) \<Longrightarrow> is_order (wi_order inp) (o_registry w) \<Longrightarrow>
    work_step args inp pc w = (pc', w') \<Longrightarrow> sys_step (w, as) (w', as(a \<mapsto> (args, pc')))"
| register: "sys_step (w, as) (snd (registerHandler body w), as)"
| heartbeat: "sys_step (w, as) (snd (heartbeatHandler hb w), as)"
| results: "sys_step (w, as) (snd (resultsHandler res w), as)"
| cancel: "sys_step (w, as) (snd (UpdateJobState k StateCancelled [] w), as)"
| enqueue: "sys_step (w, as) (snd (Enqueue args w), as)"
| submit: "sys_step (w, as) (snd (SaveJob j w), as)"
| evict: "sys_step (w, as) (set_registry (EvictStale (w_now w) (30 * Second)) w, as)"
| clock: "w_now w \<le> t \<Longrightarrow> sys_step (w, as) (w\<lparr>w_now := t\<rparr>, as)"

inductive_cases sys_step_elim: "sys_step (w, as) (w', as')"

text \<open>The initial state: an empty registry and no attempt; any database.\<close>

definition sys_init :: "orch \<times> attempts \<Rightarrow> bool" where
  "sys_init s \<longleftrightarrow> o_registry (fst s) = NewWorkerRegistry \<and> snd s = (\<lambda>_. None) \<and> jobs_ok (fst s)"

inductive sys_reachable :: "orch \<times> attempts \<Rightarrow> bool" where
  init: "sys_init s \<Longrightarrow> sys_reachable s"
| step: "sys_reachable s \<Longrightarrow> sys_step s t \<Longrightarrow> sys_reachable t"

fun holds :: "work_pc \<Rightarrow> string option" where
  "holds (PDispatch e) = Some (we_ID e)"
| "holds (PReadTo e st err run) = Some (we_ID e)"
| "holds (PWriteTo e st err run) = Some (we_ID e)"
| "holds (PPoll e run) = Some (we_ID e)"
| "holds (PRelease e res) = Some (we_ID e)"
| "holds _ = None"

text \<open>Every busy entry is held by an attempt.\<close>

definition held :: "registry \<Rightarrow> attempts \<Rightarrow> bool" where
  "held reg as \<longleftrightarrow> (\<forall>k e. map_of reg k = Some e \<and> we_Status e = StatusBusy \<longrightarrow>
     (\<exists>a args pc. as a = Some (args, pc) \<and> holds pc = Some k))"

definition sys_inv :: "orch \<times> attempts \<Rightarrow> bool" where
  "sys_inv s \<longleftrightarrow> registry_ok (o_registry (fst s)) \<and> held (o_registry (fst s)) (snd s)"

lemma held_mono:
  assumes "held reg as" and "as a = Some (args, pc)" and "holds pc' = holds pc"
  shows "held reg (as(a \<mapsto> (args, pc')))"
  using assms unfolding held_def by (metis fun_upd_apply option.inject prod.inject)

lemma held_start: "held reg as \<Longrightarrow> as a = None \<Longrightarrow> held reg (as(a \<mapsto> x))"
  unfolding held_def by (metis fun_upd_apply option.distinct(1))

lemma held_reg:
  assumes "held reg as"
    and "\<And>k e. map_of reg' k = Some e \<Longrightarrow> we_Status e = StatusBusy \<Longrightarrow>
      \<exists>e'. map_of reg k = Some e' \<and> we_Status e' = StatusBusy"
  shows "held reg' as"
  using assms unfolding held_def by blast

lemma held_MarkBusy:
  assumes "held reg as" and "as a = Some (args, PMark e)"
  shows "held (MarkBusy (we_ID e) job reg) (as(a \<mapsto> (args, PDispatch e)))"
  unfolding held_def
proof (intro allI impI, elim conjE)
  fix k w assume w: "map_of (MarkBusy (we_ID e) job reg) k = Some w" "we_Status w = StatusBusy"
  show "\<exists>b args' pc. (as(a \<mapsto> (args, PDispatch e))) b = Some (args', pc) \<and> holds pc = Some k"
  proof (cases "k = we_ID e")
    case True then show ?thesis by (intro exI [of _ a]) simp
  next
    case False
    with w have "map_of reg k = Some w" by (simp add: MarkBusy_def map_of_modify)
    with assms(1) w(2) obtain b args' pc where b: "as b = Some (args', pc)" "holds pc = Some k"
      unfolding held_def by blast
    with assms(2) have "b \<noteq> a" by auto
    with b show ?thesis by (intro exI [of _ b]) simp
  qed
qed

lemma held_MarkIdle:
  assumes "held reg as" and "as a = Some (args, pc)" and "holds pc = Some i"
  shows "held (MarkIdle i reg) (as(a \<mapsto> (args, PDone res)))"
  unfolding held_def
proof (intro allI impI, elim conjE)
  fix k w assume w: "map_of (MarkIdle i reg) k = Some w" "we_Status w = StatusBusy"
  then have k: "k \<noteq> i" "map_of reg k = Some w"
    by (auto simp: MarkIdle_def map_of_modify split: if_splits)
  with assms(1) w(2) obtain b args' pc' where b: "as b = Some (args', pc')" "holds pc' = Some k"
    unfolding held_def by blast
  with assms(2,3) k have "b \<noteq> a" by auto
  with b show "\<exists>b args' pc. (as(a \<mapsto> (args, PDone res))) b = Some (args', pc) \<and> holds pc = Some k"
    by (intro exI [of _ b]) simp
qed

lemma db_ops_registry [simp]:
  "o_registry (snd (UpdateJobState k st msg w)) = o_registry w"
  "o_registry (snd (Enqueue args w)) = o_registry w"
  "o_registry (snd (SaveJob j w)) = o_registry w"
  "o_registry (snd (WriteBenchResultBatch rs w)) = o_registry w"
  "o_registry (snd (SaveRecommendation rec w)) = o_registry w"
  "o_registry (snd (AppendAuditLog t a r w)) = o_registry w"
  by (auto simp: UpdateJobState_def Enqueue_def SaveJob_def WriteBenchResultBatch_def SaveRecommendation_def
      AppendAuditLog_def db_call_def split: option.splits)

lemma resultsHandler_registry [simp]: "o_registry (snd (resultsHandler body w)) = o_registry w"
  by (simp add: resultsHandler_def Let_def case_prod_beta split: sum.splits)

lemma readState_reg: "readState k w = (r, v) \<Longrightarrow> o_registry v = o_registry w"
  using readState_registry [of k w] by simp

lemma writeState_reg: "writeState k st w = (r, v) \<Longrightarrow> o_registry v = o_registry w"
  using writeState_registry [of k st w] by simp

lemma holds_after [simp]:
  "holds (after_running r) = None" "holds (after_update e err run r) = Some (we_ID e)"
  by (auto simp: after_running_def after_update_def split: option.splits sum.splits)

lemma work_step_registry:
  assumes "work_step args inp pc w = (pc', w')"
  obtains (mark) e where "pc = PMark e" "pc' = PDispatch e"
      "o_registry w' = MarkBusy (we_ID e) (ba_JobID args) (o_registry w)"
  | (release) e res where "pc = PRelease e res" "pc' = PDone res"
      "o_registry w' = MarkIdle (we_ID e) (o_registry w)"
  | (other) "o_registry w' = o_registry w" "holds pc' = holds pc"
proof (cases pc)
  case PRead
  with assms show thesis
    by (intro other) (auto split: prod.splits sum.splits if_splits dest!: readState_reg)
next
  case PWrite
  with assms show thesis by (intro other) (auto split: prod.splits dest!: writeState_reg)
next
  case PSelect
  with assms show thesis by (intro other) (auto split: sum.splits)
next
  case (PMark e)
  with assms show thesis by (intro mark [of e]) auto
next
  case (PDispatch e)
  with assms show thesis by (intro other) (auto split: http_out.splits sum.splits)
next
  case (PReadTo e st err run)
  with assms show thesis
    by (intro other) (auto split: prod.splits sum.splits if_splits dest!: readState_reg)
next
  case (PWriteTo e st err run)
  with assms show thesis by (intro other) (auto split: prod.splits dest!: writeState_reg)
next
  case (PPoll e run)
  with assms show thesis by (intro other) auto
next
  case (PRelease e res)
  with assms show thesis by (intro release [of e res]) auto
next
  case (PDone res)
  with assms show thesis by (intro other) auto
qed

lemma handlers_held:
  "held (o_registry w) as \<Longrightarrow> held (o_registry (snd (registerHandler body w))) as"
  "held (o_registry w) as \<Longrightarrow> held (o_registry (snd (heartbeatHandler hb w))) as"
  "held (o_registry w) as \<Longrightarrow> held (EvictStale now t (o_registry w)) as"
  by (erule held_reg; force simp: registerHandler_def heartbeatHandler_def Register_def Heartbeat_def map_of_put
      map_of_modify map_of_EvictStale Let_def split: sum.splits if_splits)+

lemma handlers_ok:
  "registry_ok (o_registry w) \<Longrightarrow> registry_ok (o_registry (snd (registerHandler body w)))"
  "registry_ok (o_registry w) \<Longrightarrow> registry_ok (o_registry (snd (heartbeatHandler hb w)))"
  by (auto simp: registerHandler_def heartbeatHandler_def split: sum.splits)

lemma sys_step_inv: "sys_step s t \<Longrightarrow> sys_inv s \<Longrightarrow> sys_inv t"
proof (induction rule: sys_step.induct)
  case (start as a args n q w)
  then show ?case by (auto simp: sys_inv_def intro: held_start)
next
  case (attempt as a args pc inp w pc' w')
  from attempt.prems have ok: "registry_ok (o_registry w)" and h: "held (o_registry w) as"
    by (simp_all add: sys_inv_def)
  from attempt.hyps(3) show ?case
  proof (cases rule: work_step_registry)
    case (mark e)
    with ok h attempt.hyps(1) show ?thesis by (auto simp: sys_inv_def intro: held_MarkBusy)
  next
    case (release e res)
    with ok h attempt.hyps(1) show ?thesis by (auto simp: sys_inv_def intro: held_MarkIdle)
  next
    case other
    with ok h attempt.hyps(1) show ?thesis by (auto simp: sys_inv_def intro: held_mono)
  qed
qed (auto simp: sys_inv_def handlers_held handlers_ok)

lemma sys_reachable_inv: "sys_reachable s \<Longrightarrow> sys_inv s"
proof (induction rule: sys_reachable.induct)
  case (init s)
  then show ?case using registry_ok_New by (simp add: sys_inv_def sys_init_def NewWorkerRegistry_def held_def)
qed (rule sys_step_inv)

text \<open>C3: Workers do not leak. In every state the orchestrator can reach, under any interleaving of attempts,
  registrations, heartbeats, evictions, results and cancellations and any faults, an entry marked busy is
  held by an attempt that is still running and will release it; so once no attempt is under way, no
  worker is busy. The registry keeps one entry per id throughout.\<close>

theorem busy_workers_are_held:
  assumes "sys_reachable (w, as)"
  shows "registry_ok (o_registry w) \<and>
    (\<forall>k e. map_of (o_registry w) k = Some e \<longrightarrow> we_Status e = StatusBusy \<longrightarrow>
       (\<exists>a args pc. as a = Some (args, pc) \<and> holds pc = Some k)) \<and>
    ((\<forall>a args pc. as a = Some (args, pc) \<longrightarrow> (\<exists>res. pc = PDone res)) \<longrightarrow>
       (\<forall>k e. map_of (o_registry w) k = Some e \<longrightarrow> we_Status e \<noteq> StatusBusy))"
proof -
  have h: "held (o_registry w) as" "registry_ok (o_registry w)"
    using sys_reachable_inv [OF assms] by (auto simp: sys_inv_def)
  moreover have "we_Status e \<noteq> StatusBusy"
    if "\<forall>a args pc. as a = Some (args, pc) \<longrightarrow> (\<exists>res. pc = PDone res)" "map_of (o_registry w) k = Some e" for k e
    using h(1) that unfolding held_def by (metis holds.simps(10) option.distinct(1))
  ultimately show ?thesis unfolding held_def by blast
qed

section \<open>The selection race\<close>

lemma tick_id [simp]: "w_faults w = [] \<Longrightarrow> tick w = w"
  by (simp add: tick_def)

lemma order_exists: "registry_ok r \<Longrightarrow> is_order (map fst r) r"
  by (simp add: registry_ok_def is_order_def)

definition input_for :: "registry \<Rightarrow> work_input" where
  "input_for r = \<lparr>wi_order = map fst r, wi_dispatch = BuildErr [], wi_poll = []\<rparr>"

lemma attempt_reach:
  assumes "sys_reachable (w, as)" and "as a = Some (args, pc)"
    and "work_step args (input_for (o_registry w)) pc w = (pc', w')"
  shows "sys_reachable (w', as(a \<mapsto> (args, pc')))"
proof -
  have "is_order (wi_order (input_for (o_registry w))) (o_registry w)"
    using sys_reachable_inv [OF assms(1)] by (simp add: input_for_def order_exists sys_inv_def)
  with assms show ?thesis by (auto intro: sys_reachable.step sys_step.attempt)
qed

text \<open>Without faults a started attempt on a pending job gets to the selection.\<close>

lemma reach_select:
  assumes "sys_reachable (w, as)" and "as a = None" and "RiverRow args n q \<in> set (q_benchmarks w)"
    and "w_faults w = []" and "job_map w (ba_JobID args) = Some j" and "job_State j = StatePending"
  shows "\<exists>w'. sys_reachable (w', as(a \<mapsto> (args, PSelect))) \<and> w_faults w' = [] \<and> o_registry w' = o_registry w \<and>
    q_benchmarks w' = q_benchmarks w \<and> (\<forall>k. k \<noteq> ba_JobID args \<longrightarrow> job_map w' k = job_map w k)"
proof -
  obtain r w' where wr: "writeState (ba_JobID args) StateRunning w = (r, w')"
    by (cases "writeState (ba_JobID args) StateRunning w")
  then have w': "r = Inr ()" "w_faults w' = []" "o_registry w' = o_registry w" "q_benchmarks w' = q_benchmarks w"
    using assms(4) by (auto simp: writeState_def)
  have "sys_reachable (w, as(a \<mapsto> (args, PRead)))"
    using assms(1-3) by (auto intro: sys_reachable.step sys_step.start)
  from attempt_reach [OF this, of a args PRead PWrite w] assms(4-6)
  have "sys_reachable (w, as(a \<mapsto> (args, PWrite)))"
    by (auto simp: readState_def db_call_def job_map_def ValidTransition_def)
  from attempt_reach [OF this, of a args PWrite PSelect w'] wr w'
  have "sys_reachable (w', as(a \<mapsto> (args, PSelect)))"
    by (auto simp: after_running_def blocked_def)
  moreover have "\<forall>k. k \<noteq> ba_JobID args \<longrightarrow> job_map w' k = job_map w k"
    using writeState_spec [OF wr] w'(1) by (auto simp: option.map_ident)
  ultimately show ?thesis using w' by blast
qed

text \<open>C15: Selecting a worker and marking it busy are two separate locked operations, so the idle check can go
  stale: from any reachable state with two queued, pending jobs for one GPU profile and an idle worker
  of that profile, the orchestrator can reach a state in which both attempts are dispatching to the same
  worker at the same time.\<close>

theorem double_dispatch_possible:
  assumes "sys_reachable (w, as)" and "w_faults w = []" and "a \<noteq> b" and "as a = None" and "as b = None"
    and "RiverRow args1 n1 q1 \<in> set (q_benchmarks w)" and "RiverRow args2 n2 q2 \<in> set (q_benchmarks w)"
    and "ba_JobID args1 \<noteq> ba_JobID args2" and "ba_GPUProfile args1 = ba_GPUProfile args2"
    and "job_map w (ba_JobID args1) = Some j1" and "job_State j1 = StatePending"
    and "job_map w (ba_JobID args2) = Some j2" and "job_State j2 = StatePending"
    and "HasIdle (map fst (o_registry w)) (ba_GPUProfile args1) (o_registry w)"
  shows "\<exists>w' as' e. sys_reachable (w', as') \<and> as' a = Some (args1, PDispatch e) \<and> as' b = Some (args2, PDispatch e)"
proof -
  obtain w1 where w1: "sys_reachable (w1, as(a \<mapsto> (args1, PSelect)))" "w_faults w1 = []" "o_registry w1 = o_registry w"
      "q_benchmarks w1 = q_benchmarks w" "\<forall>k. k \<noteq> ba_JobID args1 \<longrightarrow> job_map w1 k = job_map w k"
    using reach_select [OF assms(1,4,6,2,10,11)] by blast
  obtain w2 where w2: "sys_reachable (w2, as(a \<mapsto> (args1, PSelect), b \<mapsto> (args2, PSelect)))"
      "o_registry w2 = o_registry w"
    using reach_select [OF w1(1), of b args2 n2 q2 j2] w1 assms by auto
  obtain e where e: "SelectWorker (map fst (o_registry w)) (ba_GPUProfile args1) (o_registry w) = Inr e"
    using assms(14) SelectWorker_found by blast
  from attempt_reach [OF w2(1), of a args1 PSelect "PMark e" w2] e w2(2) assms(3)
  have "sys_reachable (w2, as(a \<mapsto> (args1, PMark e), b \<mapsto> (args2, PSelect)))"
    by (auto simp: input_for_def fun_upd_twist)
  from attempt_reach [OF this, of b args2 PSelect "PMark e" w2] e w2(2) assms(9)
  have "sys_reachable (w2, as(a \<mapsto> (args1, PMark e), b \<mapsto> (args2, PMark e)))"
    by (auto simp: input_for_def)
  from attempt_reach [OF this, of a args1 "PMark e" "PDispatch e"] assms(3)
  obtain w3 where "sys_reachable (w3, as(a \<mapsto> (args1, PDispatch e), b \<mapsto> (args2, PMark e)))"
    by (auto simp: fun_upd_twist)
  from attempt_reach [OF this, of b args2 "PMark e" "PDispatch e"]
  obtain w4 where "sys_reachable (w4, as(a \<mapsto> (args1, PDispatch e), b \<mapsto> (args2, PDispatch e)))"
    by auto
  with assms(3) show ?thesis
    by (intro exI [of _ w4] exI [of _ "as(a \<mapsto> (args1, PDispatch e), b \<mapsto> (args2, PDispatch e))"] exI [of _ e]) simp
qed

definition demo_args2 :: bench_job_args where
  "demo_args2 = demo_args\<lparr>ba_JobID := ''2''\<rparr>"

definition race_start :: orch where
  "race_start = (demo_orch [demo_job ''1'' ''a'' 0, demo_job ''2'' ''a'' 0] [])
     \<lparr>q_benchmarks := [RiverRow demo_args 3 ''benchmarks'', RiverRow demo_args2 3 ''benchmarks'']\<rparr>"

definition race_state :: orch where
  "race_state = snd (registerHandler (Inr (demo_worker ''s1'')) race_start)"

lemma race_reachable: "sys_reachable (race_state, \<lambda>_. None)"
proof -
  have "sys_init (race_start, \<lambda>_. None)"
    by (simp add: sys_init_def race_start_def NewWorkerRegistry_def jobs_ok_def demo_job_def)
  then show ?thesis unfolding race_state_def by (blast intro: sys_reachable.intros sys_step.register)
qed

lemma race_state_simps:
  "t_jobs race_state = [demo_job ''1'' ''a'' 0, demo_job ''2'' ''a'' 0]" "w_faults race_state = []"
  "q_benchmarks race_state = [RiverRow demo_args 3 ''benchmarks'', RiverRow demo_args2 3 ''benchmarks'']"
  "map fst (o_registry race_state) = [''s1'']" "HasIdle [''s1''] ''cpu'' (o_registry race_state)"
  by (simp_all add: race_state_def race_start_def registerHandler_def set_registry_def Register_def put_def
      demo_worker_def HasIdle_def visit_def List.map_filter_simps idle_for_def demo_orch_def demo_db_def jobs_db.defs)

theorem double_dispatch_possible_witness:
  "\<exists>w' as' e. sys_reachable (w', as') \<and> as' (0::nat) = Some (demo_args, PDispatch e) \<and>
     as' 1 = Some (demo_args2, PDispatch e)"
  by (rule double_dispatch_possible [OF race_reachable, of 0 1 demo_args 3 "''benchmarks''" demo_args2 3 "''benchmarks''"
      "demo_job ''1'' ''a'' 0" "demo_job ''2'' ''a'' 0"])
     (simp_all add: race_state_simps demo_args2_def demo_args_def job_map_def demo_job_def)

theorem busy_workers_are_held_witness:
  "\<nexists>k e. map_of (o_registry race_state) k = Some e \<and> we_Status e = StatusBusy"
  using busy_workers_are_held [OF race_reachable] by simp

section \<open>Results\<close>

text \<open>A posted result is recorded and always completes its job. With no fault the handler answers 200, the
  measurement (without its run id, which has no column) can be read back for that job, an audit entry and
  a recommendation naming the result's engine are added, and the job's state becomes completed from every
  previous state: no transition is checked, so a late result turns a cancelled or failed job into a
  completed one.\<close>

theorem resultsHandler_completes_job:
  assumes "w_faults w = []" and "job_map w (r_JobID r) = Some j"
  shows "let (code, w') = resultsHandler (Inr r) w
    in code = 200 \<and> map_option job_State (job_map w' (r_JobID r)) = Some StateCompleted \<and>
      (\<exists>rs. fst (QueryByJob (r_JobID r) w') = Inr rs \<and> r\<lparr>r_RunID := []\<rparr> \<in> set rs) \<and>
      t_recommendations w' = t_recommendations w @ [(recommendation_of r, w_now w)] \<and>
      t_audit w' = t_audit w @ [(''internal'', ''job.completed'', r_JobID r, w_now w)]"
proof -
  let ?js = "update_where (\<lambda>j. job_ID j = r_JobID r)
      (\<lambda>j. j\<lparr>job_State := StateCompleted, job_UpdatedAt := w_now w, job_ErrorMsg := []\<rparr>) (t_jobs w)"
  have mem: "r_JobID r \<in> job_ID ` set ?js"
    using job_map_SomeD [OF assms(2)] by (force simp: in_update_where)
  obtain w' where run: "resultsHandler (Inr r) w = (200, w')"
      and js: "t_jobs w' = ?js" and w': "t_results w' = t_results w @ [result_row (w_now w) r]" "w_faults w' = []"
      "t_recommendations w' = t_recommendations w @ [(recommendation_of r, w_now w)]"
      "t_audit w' = t_audit w @ [(''internal'', ''job.completed'', r_JobID r, w_now w)]"
    using assms(1) mem
    by (auto simp: resultsHandler_def WriteBenchResultBatch_def UpdateJobState_def SaveRecommendation_def
        AppendAuditLog_def db_call_def recommendation_of_def)
  have "map_option job_State (job_map w' (r_JobID r)) = Some StateCompleted"
    using job_map_update [OF js, of "r_JobID r"] assms(2) by simp
  moreover have "\<exists>rs. fst (QueryByJob (r_JobID r) w') = Inr rs \<and> r\<lparr>r_RunID := []\<rparr> \<in> set rs"
    using w' by (force simp: QueryByJob_def db_call_def scanResults_def result_row_def)
  ultimately show ?thesis using run w' by simp
qed

definition demo_result :: result where
  "demo_result = zero_result\<lparr>r_JobID := ''1'', r_Engine := ''vllm'', r_RunID := ''r''\<rparr>"

theorem resultsHandler_completes_job_witness:
  "map_option job_State (job_map (snd (resultsHandler (Inr demo_result)
     (demo_orch [(demo_job ''1'' ''a'' 0)\<lparr>job_State := StateCancelled\<rparr>] demo_reg))) ''1'') = Some StateCompleted"
  using resultsHandler_completes_job [of "demo_orch [(demo_job ''1'' ''a'' 0)\<lparr>job_State := StateCancelled\<rparr>] demo_reg"
      demo_result "(demo_job ''1'' ''a'' 0)\<lparr>job_State := StateCancelled\<rparr>"]
  by (auto simp: demo_result_def zero_result_def job_map_def demo_job_def split: prod.splits)

end
