(* ===== verification/Router.thy ===== *)
theory Router
  imports Jobs Workers
begin

text \<open>
  The routing service: the rule based classifier of \<open>internal/router/classifier.go\<close>, the engine
  selector of \<open>engine_selector.go\<close> and the HTTP handler of \<open>cmd/router/main.go\<close>. The ristretto cache is
  a third-party component: what its \<open>Get\<close> returned is an argument of \<open>Select\<close>, and the \<open>SetWithTTL\<close>
  call that \<open>Select\<close> makes is part of its result.
\<close>

section \<open>The classifier\<close>

datatype workload_type = WorkloadChat | WorkloadBatch | WorkloadRAG | WorkloadAgent

fun workload_type_str :: "workload_type \<Rightarrow> string" where
  "workload_type_str WorkloadChat = ''chat''"
| "workload_type_str WorkloadBatch = ''batch''"
| "workload_type_str WorkloadRAG = ''rag''"
| "workload_type_str WorkloadAgent = ''agent''"

record classification_input =
  ci_PromptTokens :: int
  ci_OutputTokens :: int
  ci_Concurrency :: int
  ci_StructuredOutput :: bool
  ci_ToolCalls :: bool
  ci_SharedPrefixRatio :: real

record classification_result =
  cr_WorkloadType :: workload_type
  cr_RecommendedEngine :: string
  cr_Reasoning :: string
  cr_Confidence :: real

definition calculateConfidence :: "int \<Rightarrow> real" where
  "calculateConfidence matchedConditions =
     (if matchedConditions = 0 \<or> matchedConditions = 1 then 95 / 100
      else if matchedConditions = 2 then 75 / 100 else 6 / 10)"

definition Classify :: "classification_input \<Rightarrow> classification_result" where
  "Classify input =
     (let matched = 0 in
      if ci_ToolCalls input \<or> ci_StructuredOutput input then
        \<lparr>cr_WorkloadType = WorkloadAgent, cr_RecommendedEngine = ''sglang'',
         cr_Reasoning = ''SGLang provides superior constrained decoding with guided generation for structured outputs and tool calls, enabling 2-4x faster generation than vLLM for JSON schema validation and function calling patterns'',
         cr_Confidence = calculateConfidence (matched + 1)\<rparr>
      else if ci_SharedPrefixRatio input > 4 / 10 then
        \<lparr>cr_WorkloadType = WorkloadRAG, cr_RecommendedEngine = ''sglang'',
         cr_Reasoning = ''SGLang's RadixAttention reuses shared KV cache across requests with >40% common prefix, reducing memory bandwidth by up to 60% compared to vLLM for this workload pattern with ''
           @ fmt_fixed 1 (ci_SharedPrefixRatio input * 100) @ ''% shared prefix ratio'',
         cr_Confidence = calculateConfidence (matched + 1)\<rparr>
      else if ci_PromptTokens input > 1024 \<or> ci_OutputTokens input > 512 then
        \<lparr>cr_WorkloadType = WorkloadBatch, cr_RecommendedEngine = ''vllm'',
         cr_Reasoning = ''vLLM's PagedAttention and continuous batching optimizes throughput for long sequences, achieving 20-24x higher throughput than naive batching for prompts >1024 tokens or outputs >512 tokens'',
         cr_Confidence = calculateConfidence (matched + 1)\<rparr>
      else if ci_Concurrency input > 50 then
        \<lparr>cr_WorkloadType = WorkloadBatch, cr_RecommendedEngine = ''vllm'',
         cr_Reasoning = ''vLLM's continuous batching dynamically adjusts batch sizes for high concurrency workloads, maintaining 85%+ GPU utilization with >50 concurrent requests compared to static batching approaches'',
         cr_Confidence = calculateConfidence (matched + 1)\<rparr>
      else
        \<lparr>cr_WorkloadType = WorkloadChat, cr_RecommendedEngine = ''vllm'',
         cr_Reasoning = ''vLLM's optimized CUDA kernels and speculative decoding provide minimal time-to-first-token (TTFT) latency for interactive chat workloads, typically 40-60ms faster than other engines for sub-1024 token prompts'',
         cr_Confidence = calculateConfidence matched\<rparr>)"

section \<open>The selector\<close>

text \<open>\<open>ExtendedWorkerEntry\<close> embeds \<open>workers.WorkerEntry\<close> and adds the engine.\<close>

record extended_worker_entry = worker_entry +
  xw_Engine :: string

record selection_request =
  sr_Classification :: classification_result
  sr_GPUProfile :: string
  sr_TenantID :: string
  sr_FallbackAllowed :: bool

record selection_result =
  sel_Engine :: string
  sel_WorkerID :: string
  sel_WorkerURL :: string
  sel_UsedFallback :: bool
  sel_FallbackReason :: string

definition ErrNoWorkerAvailable :: goerr where
  "ErrNoWorkerAvailable = Sentinel ''no worker available''"

definition cacheKey :: "selection_request \<Rightarrow> string" where
  "cacheKey req = ''sel:'' @ sr_TenantID req @ '':'' @ sr_GPUProfile req"

text \<open>The call \<open>cache.SetWithTTL(key, value, 1, ttl)\<close>.\<close>

datatype 'v cache_set = SetWithTTL string 'v int

definition optimal :: "selection_request \<Rightarrow> extended_worker_entry \<Rightarrow> bool" where
  "optimal req worker \<longleftrightarrow> we_Status worker = StatusIdle \<and>
     xw_Engine worker = cr_RecommendedEngine (sr_Classification req) \<and>
     we_GPUType worker = sr_GPUProfile req"

definition any_engine :: "selection_request \<Rightarrow> extended_worker_entry \<Rightarrow> bool" where
  "any_engine req worker \<longleftrightarrow> we_Status worker = StatusIdle \<and> we_GPUType worker = sr_GPUProfile req"

definition Select ::
  "selection_result option \<Rightarrow> selection_request \<Rightarrow> extended_worker_entry list
   \<Rightarrow> selection_result res \<times> selection_result cache_set option" where
  "Select cached req availableWorkers =
     (case cached of
        Some result \<Rightarrow> (Inr result, None)
      | None \<Rightarrow>
          (case List.find (optimal req) availableWorkers of
             Some worker \<Rightarrow>
               let result = \<lparr>sel_Engine = xw_Engine worker, sel_WorkerID = we_ID worker,
                             sel_WorkerURL = we_URL worker, sel_UsedFallback = False,
                             sel_FallbackReason = []\<rparr>
               in (Inr result, Some (SetWithTTL (cacheKey req) result (30 * Second)))
           | None \<Rightarrow>
               (case (if sr_FallbackAllowed req then List.find (any_engine req) availableWorkers else None) of
                  Some worker \<Rightarrow>
                    let result = \<lparr>sel_Engine = xw_Engine worker, sel_WorkerID = we_ID worker,
                                  sel_WorkerURL = we_URL worker, sel_UsedFallback = True,
                                  sel_FallbackReason = ''no idle ''
                                    @ cr_RecommendedEngine (sr_Classification req)
                                    @ '' workers available, using '' @ xw_Engine worker @ '' instead''\<rparr>
                    in (Inr result, Some (SetWithTTL (cacheKey req) result (30 * Second)))
                | None \<Rightarrow> (Inl ErrNoWorkerAvailable, None))))"

section \<open>The HTTP service\<close>

text \<open>The engine is guessed from the first byte of the worker id.\<close>

definition inferEngineFromWorker :: "worker_entry \<Rightarrow> string" where
  "inferEngineFromWorker worker =
     (case we_ID worker of
        [] \<Rightarrow> ''vllm''
      | c # _ \<Rightarrow> if c = CHR ''v'' then ''vllm''
                 else if c = CHR ''s'' then ''sglang''
                 else if c = CHR ''t'' then ''tensorrt''
                 else if c = CHR ''l'' then ''llamacpp''
                 else ''vllm'')"

definition extend_worker :: "worker_entry \<Rightarrow> extended_worker_entry" where
  "extend_worker worker = worker_entry.extend worker \<lparr>xw_Engine = inferEngineFromWorker worker\<rparr>"

definition fetchWorkerStatus :: "worker_entry list http_out \<Rightarrow> extended_worker_entry list res" where
  "fetchWorkerStatus out =
     (case out of
        BuildErr e \<Rightarrow> Inl (Wrap ''creating request: '' (ErrNew e) [])
      | DoErr e \<Rightarrow> Inl (Wrap ''fetching workers: '' (ErrNew e) [])
      | Resp code body \<Rightarrow>
          if code \<noteq> 200 then Inl (ErrNew (''orchestrator returned status '' @ Itoa code))
          else (case body of
                  Inl e \<Rightarrow> Inl (Wrap ''decoding workers: '' (ErrNew e) [])
                | Inr rawWorkers \<Rightarrow> Inr (map extend_worker rawWorkers)))"

record route_request =
  rr_Input :: classification_input
  rr_GPUProfile :: string
  rr_TenantID :: string

text \<open>
  The handler: \<open>body\<close> is the decoded request or the decoding error, \<open>out\<close> the orchestrator's answer,
  \<open>get\<close> the cache lookup by key.
\<close>

definition routeHandler ::
  "(string \<Rightarrow> selection_result option) \<Rightarrow> worker_entry list http_out \<Rightarrow> string + route_request
   \<Rightarrow> selection_result http_reply \<times> selection_result cache_set option" where
  "routeHandler get out body =
     (case body of
        Inl _ \<Rightarrow> (HttpError ''invalid request body'' 400, None)
      | Inr req \<Rightarrow>
          let classification = Classify (rr_Input req) in
          (case fetchWorkerStatus out of
             Inl _ \<Rightarrow> (HttpError ''failed to fetch worker status'' 500, None)
           | Inr ws \<Rightarrow>
               let selectionReq = \<lparr>sr_Classification = classification, sr_GPUProfile = rr_GPUProfile req,
                                   sr_TenantID = rr_TenantID req, sr_FallbackAllowed = True\<rparr>;
                   (r, cset) = Select (get (cacheKey selectionReq)) selectionReq ws
               in (case r of
                     Inl e \<Rightarrow>
                       (if errors_Is e ErrNoWorkerAvailable
                        then HttpError ''no worker available'' 503
                        else HttpError ''worker selection failed'' 500, cset)
                   | Inr result \<Rightarrow> (HttpJSON 200 result, cset))))"

section \<open>Classification\<close>

text \<open>The classifier is a total priority list: tool calls or structured output make a workload an
  agent one, else a shared prefix above 0.4 makes it RAG, else long sequences or more than 50 concurrent
  requests make it batch, and only what is left is chat; SGLang is recommended exactly for agent and RAG,
  the recommendation is always an engine that job admission accepts, and the confidence reported is 0.95
  on every input (the lower levels of \<open>calculateConfidence\<close> are never reached).\<close>

theorem Classify_spec:
  "(cr_WorkloadType (Classify i) = WorkloadAgent \<longleftrightarrow> ci_ToolCalls i \<or> ci_StructuredOutput i) \<and>
   (cr_WorkloadType (Classify i) = WorkloadRAG \<longleftrightarrow>
      \<not> ci_ToolCalls i \<and> \<not> ci_StructuredOutput i \<and> 4 / 10 < ci_SharedPrefixRatio i) \<and>
   (cr_WorkloadType (Classify i) = WorkloadChat \<longleftrightarrow>
      \<not> ci_ToolCalls i \<and> \<not> ci_StructuredOutput i \<and> ci_SharedPrefixRatio i \<le> 4 / 10 \<and>
      ci_PromptTokens i \<le> 1024 \<and> ci_OutputTokens i \<le> 512 \<and> ci_Concurrency i \<le> 50) \<and>
   (cr_RecommendedEngine (Classify i) = ''sglang'' \<longleftrightarrow>
      cr_WorkloadType (Classify i) \<in> {WorkloadAgent, WorkloadRAG}) \<and>
   ValidateEngines [cr_RecommendedEngine (Classify i)] = None \<and>
   cr_Confidence (Classify i) = 95 / 100"
  by (auto simp: Classify_def calculateConfidence_def ValidEngines_def Let_def)

section \<open>Selection\<close>

lemma optimal_any: "optimal req w \<Longrightarrow> any_engine req w"
  by (simp add: optimal_def any_engine_def)

definition names_worker :: "selection_result \<Rightarrow> extended_worker_entry \<Rightarrow> bool" where
  "names_worker r w \<longleftrightarrow> sel_Engine r = xw_Engine w \<and> sel_WorkerID r = we_ID w \<and> sel_WorkerURL r = we_URL w"

lemma Select_miss:
  "case Select None req ws of
     (Inr r, cset) \<Rightarrow>
       (\<exists>w\<in>set ws. names_worker r w \<and> any_engine req w) \<and>
       (sel_UsedFallback r \<longleftrightarrow> (\<forall>w\<in>set ws. \<not> optimal req w)) \<and>
       (sel_UsedFallback r \<longrightarrow> sr_FallbackAllowed req) \<and>
       (sel_UsedFallback r \<or> sel_Engine r = cr_RecommendedEngine (sr_Classification req)) \<and>
       cset = Some (SetWithTTL (cacheKey req) r (30 * Second))
   | (Inl e, cset) \<Rightarrow>
       e = ErrNoWorkerAvailable \<and> cset = None \<and> (\<forall>w\<in>set ws. \<not> optimal req w) \<and>
       (sr_FallbackAllowed req \<longrightarrow> (\<forall>w\<in>set ws. \<not> any_engine req w))"
proof (cases "List.find (optimal req) ws")
  case (Some w)
  then have "w \<in> set ws" "optimal req w" by (auto dest: find_SomeD)
  moreover from this have "any_engine req w" by (simp add: optimal_any)
  ultimately show ?thesis
    using Some by (auto simp: Select_def Let_def names_worker_def optimal_def intro!: bexI [of _ w])
next
  case None
  then have no: "\<forall>w\<in>set ws. \<not> optimal req w" by (simp add: find_eq_None)
  show ?thesis
  proof (cases "sr_FallbackAllowed req \<and> (\<exists>w. List.find (any_engine req) ws = Some w)")
    case True
    then obtain w where w: "List.find (any_engine req) ws = Some w" by blast
    then have "w \<in> set ws" "any_engine req w" by (auto dest: find_SomeD)
    with None True w no show ?thesis
      by (auto simp: Select_def Let_def names_worker_def)
  next
    case False
    then have "(if sr_FallbackAllowed req then List.find (any_engine req) ws else None) = None"
      and "sr_FallbackAllowed req \<longrightarrow> (\<forall>w\<in>set ws. \<not> any_engine req w)"
      by (auto simp: find_eq_None)
    with None no show ?thesis by (simp add: Select_def)
  qed
qed

text \<open>On a cache miss the selector returns a worker exactly when a usable one exists: one of the workers
  it was given, idle, on the requested GPU profile; the recommended engine is used whenever an idle worker
  runs it, the result is marked as a fallback exactly when none does, fallback happens only when it is
  allowed, and otherwise the error is \<open>ErrNoWorkerAvailable\<close>. A result is cached for 30 seconds under the
  request's key and an error is not cached.\<close>

theorem Select_miss_spec:
  "case Select None req ws of
     (Inr r, cset) \<Rightarrow>
       (\<exists>w\<in>set ws. names_worker r w \<and> any_engine req w) \<and>
       (sel_UsedFallback r \<longleftrightarrow> (\<forall>w\<in>set ws. \<not> optimal req w)) \<and>
       (sel_UsedFallback r \<longrightarrow> sr_FallbackAllowed req) \<and>
       (sel_UsedFallback r \<or> sel_Engine r = cr_RecommendedEngine (sr_Classification req)) \<and>
       cset = Some (SetWithTTL (cacheKey req) r (30 * Second))
   | (Inl e, cset) \<Rightarrow>
       e = ErrNoWorkerAvailable \<and> cset = None \<and> (\<forall>w\<in>set ws. \<not> optimal req w) \<and>
       (sr_FallbackAllowed req \<longrightarrow> (\<forall>w\<in>set ws. \<not> any_engine req w))"
  by (rule Select_miss)

definition demo_req :: "classification_input \<Rightarrow> selection_request" where
  "demo_req i = \<lparr>sr_Classification = Classify i, sr_GPUProfile = ''cpu'', sr_TenantID = ''t'',
     sr_FallbackAllowed = True\<rparr>"

definition chat_input :: classification_input where
  "chat_input = \<lparr>ci_PromptTokens = 512, ci_OutputTokens = 256, ci_Concurrency = 8,
     ci_StructuredOutput = False, ci_ToolCalls = False, ci_SharedPrefixRatio = 0\<rparr>"

theorem Select_miss_spec_witness:
  "\<exists>r. Select None (demo_req chat_input) [extend_worker (demo_worker ''s1'')] =
     (Inr r, Some (SetWithTTL ''sel:t:cpu'' r (30 * Second))) \<and> sel_UsedFallback r \<and> sel_Engine r = ''sglang''"
  using Select_miss_spec [where req = "demo_req chat_input" and ws = "[extend_worker (demo_worker ''s1'')]"]
  by (simp add: Select_def Let_def demo_req_def chat_input_def Classify_def extend_worker_def
      demo_worker_def worker_entry.defs inferEngineFromWorker_def optimal_def any_engine_def cacheKey_def)

text \<open>The selection cache is keyed by tenant and GPU profile only. Once a selection has been cached, any
  later request of that tenant and profile that finds it gets the very same worker and engine back, not
  marked as a fallback if the first was not, whatever its own classification recommends and whatever the
  workers' current states are.\<close>

theorem Select_cached_ignores_request:
  assumes "Select None req1 ws1 = (Inr r, Some (SetWithTTL key v ttl))"
    and "sr_TenantID req2 = sr_TenantID req1" and "sr_GPUProfile req2 = sr_GPUProfile req1"
  shows "cacheKey req2 = key \<and> Select (Some v) req2 ws2 = (Inr r, None)"
proof -
  from Select_miss [where req = req1 and ws = ws1] assms(1)
  have "key = cacheKey req1" and "v = r" by auto
  with assms(2,3) show ?thesis by (simp add: Select_def cacheKey_def)
qed

definition agent_input :: classification_input where
  "agent_input = chat_input\<lparr>ci_ToolCalls := True\<rparr>"

theorem Select_cached_ignores_request_witness:
  "\<exists>r. fst (Select None (demo_req agent_input) [extend_worker (demo_worker ''s1'')]) = Inr r \<and>
     fst (Select (Some r) (demo_req chat_input)
       [extend_worker ((demo_worker ''s1'')\<lparr>we_Status := StatusBusy\<rparr>), extend_worker (demo_worker ''v1'')]) = Inr r \<and>
     sel_Engine r = ''sglang'' \<and> cr_RecommendedEngine (Classify chat_input) = ''vllm'' \<and> \<not> sel_UsedFallback r"
proof -
  let ?ws = "[extend_worker (demo_worker ''s1'')]"
  obtain r where r: "Select None (demo_req agent_input) ?ws = (Inr r, Some (SetWithTTL ''sel:t:cpu'' r (30 * Second)))"
      "sel_Engine r = ''sglang''" "\<not> sel_UsedFallback r"
    by (simp add: Select_def Let_def demo_req_def agent_input_def chat_input_def Classify_def extend_worker_def
      demo_worker_def worker_entry.defs inferEngineFromWorker_def optimal_def any_engine_def cacheKey_def)
  have "Select (Some r) (demo_req chat_input) ws2 = (Inr r, None)" for ws2
    using Select_cached_ignores_request [OF r(1), of "demo_req chat_input" ws2]
    by (simp add: demo_req_def)
  with r show ?thesis by (auto simp: Classify_def chat_input_def)
qed

section \<open>The route handler\<close>

text \<open>A well formed route request, with nothing cached for its tenant and profile, is answered 200 with
  an idle worker of the requested profile exactly when the orchestrator's list has one, 503 exactly when a
  readable list has none, and 500 exactly when the list could not be fetched; nothing is cached unless the
  answer is 200.\<close>

theorem routeHandler_spec:
  assumes "get (''sel:'' @ rr_TenantID req @ '':'' @ rr_GPUProfile req) = None"
  shows "(case routeHandler get out (Inr req) of
      (HttpJSON code r, cset) \<Rightarrow> code = 200 \<and> cset \<noteq> None \<and>
         (\<exists>ws w. out = Resp 200 (Inr ws) \<and> w \<in> set ws \<and> sel_WorkerID r = we_ID w \<and> idle_for (rr_GPUProfile req) w)
    | (HttpError msg code, cset) \<Rightarrow> cset = None \<and>
         (code = 503 \<and> (\<exists>ws. out = Resp 200 (Inr ws) \<and> (\<forall>w\<in>set ws. \<not> idle_for (rr_GPUProfile req) w)) \<or>
          code = 500 \<and> (\<nexists>ws. out = Resp 200 (Inr ws))))"
proof (cases "fetchWorkerStatus out")
  case (Inl e)
  then have "\<nexists>ws. out = Resp 200 (Inr ws)"
    by (auto simp: fetchWorkerStatus_def)
  with Inl show ?thesis by (simp add: routeHandler_def Let_def)
next
  case (Inr xs)
  then obtain ws where out: "out = Resp 200 (Inr ws)" and xs: "xs = map extend_worker ws"
    by (auto simp: fetchWorkerStatus_def split: http_out.splits sum.splits if_splits)
  let ?q = "\<lparr>sr_Classification = Classify (rr_Input req), sr_GPUProfile = rr_GPUProfile req,
    sr_TenantID = rr_TenantID req, sr_FallbackAllowed = True\<rparr>"
  have any: "any_engine ?q (extend_worker w) \<longleftrightarrow> idle_for (rr_GPUProfile req) w" for w
    by (simp add: any_engine_def idle_for_def extend_worker_def worker_entry.defs)
  have miss: "get (cacheKey ?q) = None" using assms by (simp add: cacheKey_def)
  obtain res cset where sel: "Select None ?q xs = (res, cset)" by (cases "Select None ?q xs")
  have eq: "routeHandler get out (Inr req) =
      (case res of Inl e \<Rightarrow> (if errors_Is e ErrNoWorkerAvailable then HttpError ''no worker available'' 503
         else HttpError ''worker selection failed'' 500, cset) | Inr result \<Rightarrow> (HttpJSON 200 result, cset))"
    using miss sel Inr by (simp add: routeHandler_def Let_def)
  show ?thesis
  proof (cases res)
    case (Inl e)
    with Select_miss [where req = ?q and ws = xs] sel have "e = ErrNoWorkerAvailable" "cset = None"
      "\<forall>x\<in>set xs. \<not> any_engine ?q x" by auto
    with Inl out xs any eq show ?thesis by simp
  next
    case (Inr r)
    with Select_miss [where req = ?q and ws = xs] sel obtain x where "x \<in> set xs" "names_worker r x" "any_engine ?q x"
      and "cset \<noteq> None" by auto
    then obtain w where "w \<in> set ws" "sel_WorkerID r = we_ID w" "idle_for (rr_GPUProfile req) w"
      using xs any by (auto simp: names_worker_def extend_worker_def worker_entry.defs)
    with Inr \<open>cset \<noteq> None\<close> out eq show ?thesis by auto
  qed
qed

theorem routeHandler_spec_witness:
  "\<exists>r cset. routeHandler (\<lambda>_. None) (Resp 200 (Inr [demo_worker ''s1'']))
     (Inr \<lparr>rr_Input = chat_input, rr_GPUProfile = ''cpu'', rr_TenantID = ''t''\<rparr>) = (HttpJSON 200 r, cset) \<and>
     sel_WorkerID r = ''s1''"
  using routeHandler_spec [of "\<lambda>_. None" "\<lparr>rr_Input = chat_input, rr_GPUProfile = ''cpu'', rr_TenantID = ''t''\<rparr>"
      "Resp 200 (Inr [demo_worker ''s1''])"]
  by (auto simp: demo_worker_def idle_for_def split: prod.splits http_reply.splits)

end
