(* ===== verification/GoTime.thy ===== *)
theory GoTime
  imports GoBase
begin

text \<open>
  The duration text of Go's \<open>time\<close> package, which the sources print and parse: \<open>Duration.String\<close>,
  \<open>Duration.Round\<close> and \<open>ParseDuration\<close>. The fraction of a parsed number is exact here (the library
  computes it in \<open>float64\<close>; the whole units, which is what the program writes, do not use it; the several error texts are one).
\<close>

section \<open>String and Round\<close>

definition trim_zeros :: "string \<Rightarrow> string" where
  "trim_zeros s = rev (dropWhile (\<lambda>c. c = CHR ''0'') (rev s))"

text \<open>The fraction of \<open>u / 10 ^ n\<close>, without its trailing zeros and without the point when it is zero.\<close>

definition fmtFrac :: "nat \<Rightarrow> int \<Rightarrow> string" where
  "fmtFrac n u = (let f = trim_zeros (pad_left n (Itoa (u mod 10 ^ n)))
                  in if f = [] then [] else CHR ''.'' # f)"

definition micro :: string where
  "micro = [CHR 0xC2, CHR 0xB5, CHR ''s'']"

definition small_duration :: "int \<Rightarrow> string" where
  "small_duration u =
     (if u = 0 then ''0s''
      else if u < 1000 then Itoa u @ ''ns''
      else if u < 1000000 then Itoa (u div 1000) @ fmtFrac 3 u @ micro
      else Itoa (u div 1000000) @ fmtFrac 6 u @ ''ms'')"

definition hms :: "int \<Rightarrow> string" where
  "hms u =
     (let s = u div Second; m = s div 60; h = m div 60
      in (if h > 0 then Itoa h @ ''h'' else [])
       @ (if m > 0 then Itoa (m mod 60) @ ''m'' else [])
       @ Itoa (s mod 60) @ fmtFrac 9 u @ ''s'')"

definition Duration_String :: "int \<Rightarrow> string" where
  "Duration_String d =
     (let u = \<bar>d\<bar>
      in (if d < 0 then ''-'' else []) @ (if u < Second then small_duration u else hms u))"

text \<open>\<open>Round\<close>: to the nearest multiple, half away from zero; a result outside 64 bits saturates.\<close>

definition Duration_Round :: "int \<Rightarrow> int \<Rightarrow> int" where
  "Duration_Round d m =
     (if m \<le> 0 then d
      else let r = \<bar>d\<bar> mod m;
               v = (if 2 * r < m then \<bar>d\<bar> - r else \<bar>d\<bar> + m - r)
           in if d < 0 then max (- (2 ^ 63)) (- v) else min (2 ^ 63 - 1) v)"

section \<open>ParseDuration\<close>

definition unit_map :: "string \<Rightarrow> int option" where
  "unit_map u =
     (if u = ''ns'' then Some 1
      else if u = ''us'' \<or> u = micro \<or> u = [CHR 0xCE, CHR 0xBC, CHR ''s''] then Some 1000
      else if u = ''ms'' then Some Millisecond
      else if u = ''s'' then Some Second
      else if u = ''m'' then Some Minute
      else if u = ''h'' then Some Hour
      else None)"

text \<open>One \<open>number unit\<close> group: its value and the rest of the text.\<close>

definition parse_group :: "string \<Rightarrow> (int \<times> string) option" where
  "parse_group s =
     (let ds = takeWhile is_digit s; s1 = dropWhile is_digit s;
          (fs, s2) = (case s1 of c # cs \<Rightarrow> if c = CHR ''.'' then (takeWhile is_digit cs, dropWhile is_digit cs) else ([], s1)
                      | [] \<Rightarrow> ([], s1));
          u = takeWhile (\<lambda>c. c \<noteq> CHR ''.'' \<and> \<not> is_digit c) s2;
          rest = dropWhile (\<lambda>c. c \<noteq> CHR ''.'' \<and> \<not> is_digit c) s2
      in if (ds = [] \<and> fs = []) \<or> u = [] then None
         else case (digits_val 0 ds, digits_val 0 fs, unit_map u) of
                (Some n, Some f, Some un) \<Rightarrow>
                  let v = int n * un + int f * un div 10 ^ length fs
                  in if v > 2 ^ 63 then None else Some (v, rest)
              | _ \<Rightarrow> None)"

lemma length_dropWhile_le: "length (dropWhile P xs) \<le> length xs"
  by (induction xs) auto

lemma length_dropWhile_less: "takeWhile P xs \<noteq> [] \<Longrightarrow> length (dropWhile P xs) < length xs"
proof -
  assume "takeWhile P xs \<noteq> []"
  moreover have "length xs = length (takeWhile P xs) + length (dropWhile P xs)"
    by (metis length_append takeWhile_dropWhile_id)
  ultimately show ?thesis by (metis length_greater_0_conv less_add_same_cancel2)
qed

lemma parse_group_shorter: "parse_group s = Some (v, rest) \<Longrightarrow> length rest < length s"
proof -
  assume a: "parse_group s = Some (v, rest)"
  define s1 where "s1 = dropWhile is_digit s"
  define s2 where "s2 = (case s1 of c # cs \<Rightarrow> if c = CHR ''.'' then dropWhile is_digit cs else s1 | [] \<Rightarrow> s1)"
  let ?U = "\<lambda>c. c \<noteq> CHR ''.'' \<and> \<not> is_digit c"
  from a have ne: "takeWhile ?U s2 \<noteq> []" and r: "rest = dropWhile ?U s2"
    by (auto simp: parse_group_def Let_def s1_def [symmetric] s2_def split: option.splits if_splits list.splits)
  have "length rest < length s2" unfolding r using ne by (rule length_dropWhile_less)
  also have "length s2 \<le> length s1"
    by (auto simp: s2_def split: list.splits intro: le_SucI length_dropWhile_le)
  also have "length s1 \<le> length s" by (simp add: s1_def length_dropWhile_le)
  finally show ?thesis .
qed

function parse_groups :: "int \<Rightarrow> string \<Rightarrow> int option" where
  "parse_groups d s =
     (if s = [] then Some d
      else case parse_group s of
             None \<Rightarrow> None
           | Some (v, rest) \<Rightarrow> if d + v > 2 ^ 63 then None else parse_groups (d + v) rest)"
  by pat_completeness auto
termination by (relation "measure (length \<circ> snd)") (auto dest: parse_group_shorter)

declare parse_groups.simps [simp del]

definition invalid_duration :: "string \<Rightarrow> goerr" where
  "invalid_duration s = ErrNew (''time: invalid duration '' @ s)"

definition ParseDuration :: "string \<Rightarrow> int res" where
  "ParseDuration s =
     (let (neg, t) = (case s of [] \<Rightarrow> (False, [])
                      | c # cs \<Rightarrow> if c = CHR ''-'' then (True, cs)
                                 else if c = CHR ''+'' then (False, cs) else (False, s))
      in if t = ''0'' then Inr 0
         else if t = [] then Inl (invalid_duration s)
         else case parse_groups 0 t of
                None \<Rightarrow> Inl (invalid_duration s)
              | Some d \<Rightarrow> if neg then Inr (- d)
                          else if d > 2 ^ 63 - 1 then Inl (invalid_duration s) else Inr d)"

section \<open>Whole seconds survive the round trip\<close>

lemma takeWhile_digits: "takeWhile is_digit (nat_str n @ c # cs) = nat_str n" if "\<not> is_digit c"
  using that by (simp add: takeWhile_append2 set_nat_str)

lemma dropWhile_digits: "dropWhile is_digit (nat_str n @ c # cs) = c # cs" if "\<not> is_digit c"
  using that by (simp add: dropWhile_append2 set_nat_str)

lemma unit_chars: "\<not> is_digit (CHR ''h'')" "\<not> is_digit (CHR ''m'')" "\<not> is_digit (CHR ''s'')"
  by (simp_all add: is_digit_def)

lemma unit_letters [simp]:
  "unit_map ''h'' = Some Hour" "unit_map ''m'' = Some Minute" "unit_map ''s'' = Some Second"
  by (simp_all add: unit_map_def micro_def)

text \<open>A number followed by a one letter unit and by the end or another number.\<close>

lemma parse_group_unit:
  assumes "unit_map [c] = Some un" and "\<not> is_digit c" and "c \<noteq> CHR ''.''"
    and "rest = [] \<or> is_digit (hd rest)" and "int n * un \<le> 2 ^ 63"
  shows "parse_group (nat_str n @ c # rest) = Some (int n * un, rest)"
proof -
  let ?U = "\<lambda>c. c \<noteq> CHR ''.'' \<and> \<not> is_digit c"
  have u: "takeWhile ?U (c # rest) = [c]" "dropWhile ?U (c # rest) = rest"
    using assms(2-4) by (cases rest; simp)+
  show ?thesis
    using assms u by (simp add: parse_group_def takeWhile_digits dropWhile_digits digits_val_nat_str)
qed

lemma parse_groups_unit:
  assumes "unit_map [c] = Some un" and "\<not> is_digit c" and "c \<noteq> CHR ''.''" and "0 \<le> un" and "0 \<le> d"
    and "rest = [] \<or> is_digit (hd rest)" and "d + int n * un \<le> 2 ^ 63"
  shows "parse_groups d (nat_str n @ c # rest) = parse_groups (d + int n * un) rest"
  using parse_group_unit [OF assms(1-3,6), of n] assms
  by (subst parse_groups.simps) (simp del: of_nat_mult)

lemma hd_nat_str_append: "is_digit (hd (nat_str n @ xs))"
  using hd_nat_str [of n] by (cases "nat_str n") auto

lemma not_sign_nat_str: "nat_str n @ xs = c # cs \<Longrightarrow> c \<noteq> CHR ''-'' \<and> c \<noteq> CHR ''+''"
  using hd_nat_str_append [of n xs] is_digit_not_sign by fastforce

lemma units_pos [simp]: "0 < Second" "0 < Minute" "0 < Hour" "0 \<le> Second" "0 \<le> Minute" "0 \<le> Hour" "Second \<noteq> 0"
  by (simp_all add: duration_units)

lemma hms_parts:
  assumes "0 \<le> s"
  shows "hms (s * Second) =
    (if s div 60 div 60 > 0 then nat_str (nat (s div 60 div 60)) @ ''h'' else [])
    @ (if s div 60 > 0 then nat_str (nat (s div 60 mod 60)) @ ''m'' else [])
    @ nat_str (nat (s mod 60)) @ ''s''"
proof -
  have frac: "fmtFrac 9 (s * Second) = []"
    by (simp add: fmtFrac_def Second_def Itoa_def pad_left_def trim_zeros_def nat_str.simps digit_char_def
        numeral_eq_Suc)
  have q: "s * Second div Second = s" by simp
  have a: "Itoa (s mod 60) = nat_str (nat (s mod 60))" "Itoa (s div 60 mod 60) = nat_str (nat (s div 60 mod 60))"
    by (simp_all add: Itoa_def not_less)
  have h: "(if 0 < x then Itoa x @ ''h'' else []) = (if 0 < x then nat_str (nat x) @ ''h'' else [])" for x
    by (simp add: Itoa_def)
  show ?thesis unfolding hms_def Let_def q a h frac append_Nil by (rule refl)
qed

lemma parse_S:
  assumes "0 \<le> d" and "d + int t * Second \<le> 2 ^ 63"
  shows "parse_groups d (nat_str t @ ''s'') = Some (d + int t * Second)"
proof -
  have "parse_groups d (nat_str t @ ''s'') = parse_groups (d + int t * Second) []"
    by (rule parse_groups_unit) (use assms unit_chars in simp_all)
  then show ?thesis by (simp add: parse_groups.simps)
qed

lemma parse_M:
  assumes "0 \<le> d" and "d + (if p then int m * Minute else 0) + int t * Second \<le> 2 ^ 63"
  shows "parse_groups d ((if p then nat_str m @ ''m'' else []) @ nat_str t @ ''s'') =
    Some (d + (if p then int m * Minute else 0) + int t * Second)"
proof (cases p)
  case True
  from assms(2) True have le: "d + int m * Minute + int t * Second \<le> 2 ^ 63" by simp
  moreover have "0 \<le> int t * Second" by simp
  ultimately have le': "d + int m * Minute \<le> 2 ^ 63" by linarith
  have "parse_groups d (nat_str m @ CHR ''m'' # (nat_str t @ ''s'')) =
      parse_groups (d + int m * Minute) (nat_str t @ ''s'')"
    by (rule parse_groups_unit) (use assms(1) le' unit_chars hd_nat_str_append in simp_all)
  also have "\<dots> = Some (d + int m * Minute + int t * Second)"
    by (rule parse_S) (use assms(1) le in simp_all)
  finally show ?thesis using True by simp
next
  case False
  with assms parse_S [of d t] show ?thesis by simp
qed

lemma parse_H:
  assumes "(if q then int h * Hour else 0) + (if p then int m * Minute else 0) + int t * Second \<le> 2 ^ 63"
  shows "parse_groups 0 ((if q then nat_str h @ ''h'' else []) @ (if p then nat_str m @ ''m'' else []) @ nat_str t @ ''s'') =
    Some ((if q then int h * Hour else 0) + (if p then int m * Minute else 0) + int t * Second)"
proof (cases q)
  case True
  let ?M = "(if p then nat_str m @ ''m'' else []) @ nat_str t @ ''s''"
  from assms True have le: "int h * Hour + (if p then int m * Minute else 0) + int t * Second \<le> 2 ^ 63" by simp
  moreover have "0 \<le> int t * Second" "0 \<le> (if p then int m * Minute else 0)" by simp_all
  ultimately have le': "0 + int h * Hour \<le> 2 ^ 63" by linarith
  have hd: "is_digit (hd ?M)" using hd_nat_str_append by auto
  have "parse_groups 0 (nat_str h @ CHR ''h'' # ?M) = parse_groups (0 + int h * Hour) ?M"
    by (rule parse_groups_unit) (use le' unit_chars hd in simp_all)
  also have "\<dots> = Some (0 + int h * Hour + (if p then int m * Minute else 0) + int t * Second)"
    by (rule parse_M) (use le in simp_all)
  finally show ?thesis using True by simp
next
  case False
  with assms parse_M [of 0 p m t] show ?thesis by simp
qed

lemma seconds_split:
  assumes "(0::int) \<le> s"
  shows "(if s div 60 div 60 > 0 then int (nat (s div 60 div 60)) * Hour else 0)
    + (if s div 60 > 0 then int (nat (s div 60 mod 60)) * Minute else 0)
    + int (nat (s mod 60)) * Second = s * Second"
proof -
  have nn: "0 \<le> s div 60" "0 \<le> s div 60 div 60" using assms by (simp_all add: pos_imp_zdiv_nonneg_iff)
  have "s = s div 60 * 60 + s mod 60" "s div 60 = s div 60 div 60 * 60 + s div 60 mod 60" by simp_all
  then have "s = s div 60 div 60 * 3600 + s div 60 mod 60 * 60 + s mod 60" by linarith
  then have "s * Second = (s div 60 div 60 * 3600 + s div 60 mod 60 * 60 + s mod 60) * Second" by simp
  also have "\<dots> = s div 60 div 60 * Hour + s div 60 mod 60 * Minute + s mod 60 * Second"
    by (simp add: Hour_def Minute_def distrib_right)
  finally have sum: "s * Second = s div 60 div 60 * Hour + s div 60 mod 60 * Minute + s mod 60 * Second" .
  have "(if 0 < x then int (nat x) * u else 0) = x * u" if "0 \<le> x" for x u :: int
    using that by simp
  from this [OF nn(2)] have "(if s div 60 div 60 > 0 then int (nat (s div 60 div 60)) * Hour else 0) =
    s div 60 div 60 * Hour" .
  moreover have "(if s div 60 > 0 then int (nat (s div 60 mod 60)) * Minute else 0) = s div 60 mod 60 * Minute"
  proof (cases "s div 60 > 0")
    case False
    with nn(1) have "s div 60 = 0" by linarith
    then show ?thesis by simp
  qed simp
  moreover have "int (nat (s mod 60)) = s mod 60" by simp
  ultimately show ?thesis using sum by presburger
qed

lemma parse_hms:
  assumes "0 \<le> s" and "s * Second \<le> 2 ^ 63"
  shows "parse_groups 0 (hms (s * Second)) = Some (s * Second)"
  unfolding hms_parts [OF assms(1)]
  using parse_H [of "s div 60 div 60 > 0" "nat (s div 60 div 60)" "s div 60 > 0" "nat (s div 60 mod 60)" "nat (s mod 60)"]
    seconds_split [OF assms(1)] assms(2) by (simp only: simp_thms)

lemma ParseDuration_plain:
  assumes "parse_groups 0 t = Some d" and "t = c # cs" and "c \<noteq> CHR ''-'' \<and> c \<noteq> CHR ''+''" and "t \<noteq> ''0''"
  shows "d \<le> 2 ^ 63 - 1 \<Longrightarrow> ParseDuration t = Inr d" and "ParseDuration (CHR ''-'' # t) = Inr (- d)"
  using assms by (auto simp: ParseDuration_def)

lemma hms_shape:
  assumes "0 \<le> s"
  obtains c cs where "hms (s * Second) = c # cs" "c \<noteq> CHR ''-'' \<and> c \<noteq> CHR ''+''" "hms (s * Second) \<noteq> ''0''"
proof -
  obtain A where "hms (s * Second) = A @ nat_str (nat (s mod 60)) @ ''s''"
    using hms_parts [OF assms] by (metis append.assoc)
  then have "last (hms (s * Second)) = CHR ''s''" by simp
  then have not0: "hms (s * Second) \<noteq> ''0''" by auto
  have "is_digit (hd ((if q then nat_str h @ ''h'' else []) @ (if p then nat_str m @ ''m'' else []) @ nat_str t @ ''s''))"
    for q p h m t by (cases q; cases p) (simp_all add: hd_nat_str)
  then have hd: "is_digit (hd (hms (s * Second)))" unfolding hms_parts [OF assms] .
  have "hms (s * Second) \<noteq> []" using \<open>hms (s * Second) = A @ _\<close> by simp
  then obtain c cs where t: "hms (s * Second) = c # cs" by (meson neq_Nil_conv)
  with hd have "is_digit c" by simp
  then show thesis using t not0 is_digit_not_sign that by blast
qed

lemma ParseDuration_String_seconds:
  assumes "in_int64 (s * Second)"
  shows "ParseDuration (Duration_String (s * Second)) = Inr (s * Second)"
proof (cases "s = 0")
  case True
  have "parse_groups 0 ''0s'' = Some 0"
    using parse_S [of 0 0] by (simp add: nat_str.simps digit_char_def)
  with True show ?thesis
    by (simp add: Duration_String_def small_duration_def ParseDuration_def)
next
  case False
  let ?a = "\<bar>s\<bar>"
  have big: "\<not> \<bar>s * Second\<bar> < Second" and abs: "\<bar>s * Second\<bar> = ?a * Second"
    using False by (auto simp: Second_def abs_mult)
  have bound: "?a * Second \<le> 2 ^ 63" using assms abs by (auto simp: in_int64_def)
  have p: "parse_groups 0 (hms (?a * Second)) = Some (?a * Second)" by (rule parse_hms) (use bound in simp_all)
  obtain c cs where t: "hms (?a * Second) = c # cs" "c \<noteq> CHR ''-'' \<and> c \<noteq> CHR ''+''" "hms (?a * Second) \<noteq> ''0''"
    by (rule hms_shape [of ?a]) auto
  have str: "Duration_String (s * Second) = (if s < 0 then ''-'' else []) @ hms (?a * Second)"
    using big abs by (simp add: Duration_String_def mult_less_0_iff Second_def)
  have parse: "?a * Second \<le> 2 ^ 63 - 1 \<Longrightarrow> ParseDuration (hms (?a * Second)) = Inr (?a * Second)"
      "ParseDuration (CHR ''-'' # hms (?a * Second)) = Inr (- (?a * Second))"
    using ParseDuration_plain [OF p t] by blast+
  show ?thesis
  proof (cases "s < 0")
    case True
    with parse(2) str show ?thesis by simp
  next
    case False
    with parse(1) str assms show ?thesis by (simp add: in_int64_def)
  qed
qed

end
