(* ===== verification/Drift.thy ===== *)
theory Drift
  imports Store GoTime "HOL-Library.Product_Lexorder" "HOL-Library.Monad_Syntax"
begin

text \<open>
  Drift detection: the baselines of \<open>internal/drift/baseline.go\<close>, the detector of \<open>detector.go\<close>, the
  notifier of \<open>notifier.go\<close> and the HTTP handlers of \<open>cmd/collector/main.go\<close>. The world of the services
  is extended with the table of baselines and with the buffered channel of alerts. A computation that can
  index out of range returns an \<open>option\<close>: \<open>None\<close> is the run-time panic.
\<close>

section \<open>Baselines\<close>

record baseline =
  bl_Engine :: string
  bl_Model :: string
  bl_TTFTP50Ms :: real
  bl_TTFTP99Ms :: real
  bl_TokPerSec :: real
  bl_GPUMemMB :: int
  bl_SetAt :: int
  bl_SampleCount :: int

record drift_alert =
  da_Engine :: string
  da_Model :: string
  da_Metric :: string
  da_BaselineValue :: real
  da_CurrentValue :: real
  da_DeviationPct :: real
  da_Severity :: string
  da_DetectedAt :: int

record detector_config =
  dc_WarningThresholdPct :: real
  dc_CriticalThresholdPct :: real
  dc_LookbackWindow :: int
  dc_MinSamples :: int

record drift_db = jobs_db +
  t_baselines :: "baseline list"
  alertCh :: "drift_alert list"

definition bl_key :: "baseline \<Rightarrow> string \<times> string" where
  "bl_key b = (bl_Engine b, bl_Model b)"

text \<open>\<open>INSERT ... ON CONFLICT (engine, model) DO UPDATE\<close>.\<close>

definition Baseline_Set :: "baseline \<Rightarrow> 'w drift_db_scheme \<Rightarrow> unit res \<times> 'w drift_db_scheme" where
  "Baseline_Set b = db_call ''set baseline: '' (\<lambda>w.
     (Inr (), w\<lparr>t_baselines :=
        (if bl_key b \<in> bl_key ` set (t_baselines w)
         then update_where (\<lambda>x. bl_key x = bl_key b) (\<lambda>_. b) (t_baselines w)
         else t_baselines w @ [b])\<rparr>))"

definition Baseline_Get ::
  "string \<Rightarrow> string \<Rightarrow> 'w drift_db_scheme \<Rightarrow> baseline option res \<times> 'w drift_db_scheme" where
  "Baseline_Get engine model = db_call ''get baseline: '' (\<lambda>w.
     (Inr (List.find (\<lambda>b. bl_key b = (engine, model)) (t_baselines w)), w))"

section \<open>The statistics\<close>

definition index :: "'a list \<Rightarrow> int \<Rightarrow> 'a option" where
  "index xs i = (if 0 \<le> i \<and> i < int (length xs) then Some (xs ! nat i) else None)"

definition computeMedian :: "real list \<Rightarrow> real option" where
  "computeMedian values =
     (let sorted = sort values; n = int (length sorted)
      in if n mod 2 = 0
         then do { a \<leftarrow> index sorted (n div 2 - 1); b \<leftarrow> index sorted (n div 2); Some ((a + b) / 2) }
         else index sorted (n div 2))"

text \<open>The conversion \<open>int(x)\<close> of a float drops the fraction towards zero.\<close>

definition trunc :: "real \<Rightarrow> int" where
  "trunc x = (if x < 0 then \<lceil>x\<rceil> else \<lfloor>x\<rfloor>)"

definition computePercentile :: "real list \<Rightarrow> real \<Rightarrow> real option" where
  "computePercentile values percentile =
     (let sorted = sort values; n = int (length sorted);
          ix = percentile * of_int (n - 1); lower = trunc ix; upper = lower + 1
      in if upper \<ge> n then index sorted (n - 1)
         else if lower < 0 then index sorted 0
         else let weight = ix - of_int lower
              in do { a \<leftarrow> index sorted lower; b \<leftarrow> index sorted upper; Some (a * (1 - weight) + b * weight) })"

definition computeMean :: "real list \<Rightarrow> real" where
  "computeMean values =
     (if values = [] then 0 else foldl (+) 0 values / of_int (int (length values)))"

definition computeMaxInt64 :: "int list \<Rightarrow> int" where
  "computeMaxInt64 values =
     (case values of [] \<Rightarrow> 0 | v # vs \<Rightarrow> foldl (\<lambda>m x. if x > m then x else m) v vs)"

text \<open>The outer \<open>None\<close> is a panic, the inner one the \<open>false\<close> of too few results.\<close>

definition ComputeFromResults ::
  "string \<Rightarrow> string \<Rightarrow> result list \<Rightarrow> int \<Rightarrow> baseline option option" where
  "ComputeFromResults engine model results now =
     (if length results < 5 then Some None
      else do {
        p50 \<leftarrow> computeMedian (map r_TTFTP50Ms results);
        p99 \<leftarrow> computePercentile (map r_TTFTP99Ms results) (95 / 100);
        Some (Some \<lparr>bl_Engine = engine, bl_Model = model, bl_TTFTP50Ms = p50, bl_TTFTP99Ms = p99,
          bl_TokPerSec = computeMean (map r_TokPerSec results),
          bl_GPUMemMB = computeMaxInt64 (map r_GPUMemMB results), bl_SetAt = now,
          bl_SampleCount = int (length results)\<rparr>)
      })"

section \<open>The detector\<close>

definition getActiveEngineModelPairs ::
  "int \<Rightarrow> 'w drift_db_scheme \<Rightarrow> (string \<times> string) list res \<times> 'w drift_db_scheme" where
  "getActiveEngineModelPairs since = db_call ''query active pairs: '' (\<lambda>w.
     (Inr (sort (remdups (map (\<lambda>(ts, r). (r_Engine r, r_Model r)) (filter (\<lambda>(ts, r). since < ts) (t_results w))))), w))"

definition deviation_of :: "string \<Rightarrow> real \<Rightarrow> real \<Rightarrow> real option" where
  "deviation_of metricName baselineVal currentVal =
     (let deviation = (currentVal - baselineVal) / baselineVal
      in if metricName = ''tok_per_sec'' then if deviation < 0 then Some (\<bar>deviation\<bar> * 100) else None
         else if metricName = ''gpu_mem'' then if deviation > 0 then Some (deviation * 100) else None
         else if metricName = ''ttft_p50'' \<or> metricName = ''ttft_p99''
         then if deviation > 0 then Some (deviation * 100) else None
         else None)"

definition severity_of :: "detector_config \<Rightarrow> real \<Rightarrow> string option" where
  "severity_of cfg deviationPct =
     (if deviationPct \<ge> dc_CriticalThresholdPct cfg then Some ''critical''
      else if deviationPct \<ge> dc_WarningThresholdPct cfg then Some ''warning''
      else None)"

definition checkMetric ::
  "detector_config \<Rightarrow> string \<Rightarrow> string \<Rightarrow> int \<Rightarrow> string \<Rightarrow> real \<Rightarrow> real \<Rightarrow> drift_alert option" where
  "checkMetric cfg engine model now metricName baselineVal currentVal =
     (if baselineVal = 0 then None
      else do {
        deviationPct \<leftarrow> deviation_of metricName baselineVal currentVal;
        severity \<leftarrow> severity_of cfg deviationPct;
        Some \<lparr>da_Engine = engine, da_Model = model, da_Metric = metricName, da_BaselineValue = baselineVal,
          da_CurrentValue = currentVal, da_DeviationPct = deviationPct, da_Severity = severity,
          da_DetectedAt = now\<rparr>
      })"

text \<open>The channel holds 100 alerts; the \<open>default\<close> branch of the \<open>select\<close> drops what does not fit.\<close>

definition send_alert :: "drift_alert \<Rightarrow> 'w drift_db_scheme \<Rightarrow> 'w drift_db_scheme" where
  "send_alert a w = (if length (alertCh w) < 100 then w\<lparr>alertCh := alertCh w @ [a]\<rparr> else w)"

definition metric_alerts ::
  "detector_config \<Rightarrow> string \<Rightarrow> string \<Rightarrow> int \<Rightarrow> baseline \<Rightarrow> baseline \<Rightarrow> drift_alert option list" where
  "metric_alerts cfg engine model now b c =
     [checkMetric cfg engine model now ''ttft_p50'' (bl_TTFTP50Ms b) (bl_TTFTP50Ms c),
      checkMetric cfg engine model now ''ttft_p99'' (bl_TTFTP99Ms b) (bl_TTFTP99Ms c),
      checkMetric cfg engine model now ''tok_per_sec'' (bl_TokPerSec b) (bl_TokPerSec c),
      checkMetric cfg engine model now ''gpu_mem'' (of_int (bl_GPUMemMB b)) (of_int (bl_GPUMemMB c))]"

definition send_alerts :: "drift_alert option list \<Rightarrow> 'w drift_db_scheme \<Rightarrow> 'w drift_db_scheme" where
  "send_alerts alerts w = foldl (\<lambda>w a. case a of None \<Rightarrow> w | Some a \<Rightarrow> send_alert a w) w alerts"

definition checkEngineModel ::
  "detector_config \<Rightarrow> string \<Rightarrow> string \<Rightarrow> int \<Rightarrow> 'w drift_db_scheme \<Rightarrow> (goerr option \<times> 'w drift_db_scheme) option" where
  "checkEngineModel cfg engine model since w =
     (let (results, w) = QueryByEngineAndModel engine model since w
      in case results of
           Inl e \<Rightarrow> Some (Some (Wrap ''query results: '' e []), w)
         | Inr results \<Rightarrow>
             if int (length results) < dc_MinSamples cfg then Some (None, w)
             else let (got, w) = Baseline_Get engine model w
                  in case got of
                       Inl e \<Rightarrow> Some (Some (Wrap ''get baseline: '' e []), w)
                     | Inr None \<Rightarrow> do {
                         computed \<leftarrow> ComputeFromResults engine model results (w_now w);
                         (case computed of
                            None \<Rightarrow> Some (None, w)
                          | Some newBaseline \<Rightarrow>
                              let (r, w) = Baseline_Set newBaseline w
                              in Some (case r of Inl e \<Rightarrow> Some (Wrap ''set new baseline: '' e []) | Inr _ \<Rightarrow> None, w))
                       }
                     | Inr (Some b) \<Rightarrow> do {
                         computed \<leftarrow> ComputeFromResults engine model results (w_now w);
                         (case computed of
                            None \<Rightarrow> Some (None, w)
                          | Some c \<Rightarrow> Some (None, send_alerts (metric_alerts cfg engine model (w_now w) b c) w))
                       })"

text \<open>An error of one pair is logged and the loop goes on.\<close>

fun check_pairs ::
  "detector_config \<Rightarrow> int \<Rightarrow> (string \<times> string) list \<Rightarrow> 'w drift_db_scheme \<Rightarrow> 'w drift_db_scheme option" where
  "check_pairs cfg since [] w = Some w"
| "check_pairs cfg since ((engine, model) # pairs) w =
     (case checkEngineModel cfg engine model since w of
        None \<Rightarrow> None
      | Some (_, w) \<Rightarrow> check_pairs cfg since pairs w)"

definition runCheck :: "detector_config \<Rightarrow> 'w drift_db_scheme \<Rightarrow> (goerr option \<times> 'w drift_db_scheme) option" where
  "runCheck cfg w =
     (let since = w_now w - dc_LookbackWindow cfg;
          (pairs, w) = getActiveEngineModelPairs since w
      in case pairs of
           Inl e \<Rightarrow> Some (Some (Wrap ''get active pairs: '' e []), w)
         | Inr pairs \<Rightarrow> map_option (\<lambda>w. (None, w)) (check_pairs cfg since pairs w))"

section \<open>The notifier\<close>

record slack_text =
  st_Type :: string
  st_Text :: string

record slack_block =
  sb_Type :: string
  sb_Text :: slack_text

record slack_message =
  sm_Text :: string
  sm_Blocks :: "slack_block list"

text \<open>The UTF-8 bytes of the yellow and the red circle, the police light and the right arrow.\<close>

definition yellow_circle :: string where
  "yellow_circle = [CHR 0xF0, CHR 0x9F, CHR 0x9F, CHR 0xA1]"

definition red_circle :: string where
  "red_circle = [CHR 0xF0, CHR 0x9F, CHR 0x94, CHR 0xB4]"

definition police_light :: string where
  "police_light = [CHR 0xF0, CHR 0x9F, CHR 0x9A, CHR 0xA8]"

definition right_arrow :: string where
  "right_arrow = [CHR 0xE2, CHR 0x86, CHR 0x92]"

definition alert_text :: "drift_alert \<Rightarrow> string" where
  "alert_text a =
     (if da_Severity a = ''critical'' then red_circle else yellow_circle) @ '' *'' @ da_Severity a
     @ ''* drift on `'' @ da_Engine a @ ''/'' @ da_Model a @ ''`'' @ [CHR 0x0A] @ ''Metric: `'' @ da_Metric a
     @ ''` deviated `'' @ fmt_fixed 1 (da_DeviationPct a) @ ''%` from baseline'' @ [CHR 0x0A]
     @ ''Baseline: `'' @ fmt_fixed 2 (da_BaselineValue a) @ ''` '' @ right_arrow @ '' Current: `''
     @ fmt_fixed 2 (da_CurrentValue a) @ ''`''"

definition slack_message_of :: "drift_alert \<Rightarrow> slack_message" where
  "slack_message_of a =
     \<lparr>sm_Text = police_light @ '' InferBolt drift detected'',
      sm_Blocks = [\<lparr>sb_Type = ''section'', sb_Text = \<lparr>st_Type = ''mrkdwn'', st_Text = alert_text a\<rparr>\<rparr>]\<rparr>"

text \<open>The second component is the message that was put on the wire, if the request got that far.\<close>

definition notifier_send :: "string \<Rightarrow> drift_alert \<Rightarrow> 'b http_out \<Rightarrow> goerr option \<times> slack_message option" where
  "notifier_send webhookURL a out =
     (if webhookURL = [] then (None, None)
      else case out of
             BuildErr e \<Rightarrow> (Some (Wrap ''create slack request: '' (ErrNew e) []), None)
           | DoErr e \<Rightarrow> (Some (Wrap ''send slack webhook: '' (ErrNew e) []), Some (slack_message_of a))
           | Resp code _ \<Rightarrow>
               (if code \<noteq> 200 then Some (ErrNew (''slack webhook returned status '' @ Itoa code)) else None,
                Some (slack_message_of a)))"

section \<open>The collector's handlers\<close>

text \<open>\<open>getenv\<close> is the environment; an unset variable reads as the empty string.\<close>

definition parseDuration :: "(string \<Rightarrow> string) \<Rightarrow> string \<Rightarrow> int \<Rightarrow> int" where
  "parseDuration getenv envVar defaultVal =
     (let val = getenv envVar
      in if val = [] then defaultVal
         else case ParseDuration val of Inr d \<Rightarrow> d | Inl _ \<Rightarrow> defaultVal)"

record metrics_query =
  mq_engine :: string
  mq_model :: string
  mq_since :: "(string + int) option"

text \<open>\<open>mq_since\<close> is absent, or the parsed RFC 3339 time, or the parse error.\<close>

definition metricsHandler ::
  "metrics_query \<Rightarrow> 'w drift_db_scheme \<Rightarrow> result list http_reply \<times> 'w drift_db_scheme" where
  "metricsHandler q w =
     (if mq_engine q = [] \<or> mq_model q = [] then (HttpError ''engine and model parameters are required'' 400, w)
      else case mq_since q of
             Some (Inl _) \<Rightarrow> (HttpError ''invalid since format (use RFC3339)'' 400, w)
           | since \<Rightarrow>
               let t = (case since of Some (Inr t) \<Rightarrow> t | _ \<Rightarrow> w_now w - 24 * Hour);
                   (r, w) = QueryByEngineAndModel (mq_engine q) (mq_model q) t w
               in (case r of Inl _ \<Rightarrow> HttpError ''failed to query metrics'' 500 | Inr rs \<Rightarrow> HttpJSON 200 rs, w))"

definition baselinesHandler ::
  "string \<Rightarrow> string \<Rightarrow> 'w drift_db_scheme \<Rightarrow> baseline http_reply \<times> 'w drift_db_scheme" where
  "baselinesHandler engine model w =
     (if engine = [] \<or> model = [] then (HttpError ''engine and model parameters are required'' 400, w)
      else let (r, w) = Baseline_Get engine model w
           in (case r of
                 Inl _ \<Rightarrow> HttpError ''failed to get baseline'' 500
               | Inr None \<Rightarrow> HttpError ''baseline not found'' 404
               | Inr (Some b) \<Rightarrow> HttpJSON 200 b, w))"

definition resetBaselineHandler ::
  "(string + string \<times> string) \<Rightarrow> 'w drift_db_scheme \<Rightarrow> string http_reply \<times> 'w drift_db_scheme" where
  "resetBaselineHandler body w =
     (case body of
        Inl _ \<Rightarrow> (HttpError ''invalid request body'' 400, w)
      | Inr (engine, model) \<Rightarrow>
          if engine = [] \<or> model = [] then (HttpError ''engine and model are required'' 400, w)
          else let (r, w) = db_call [] (\<lambda>w. (Inr (),
                   w\<lparr>t_baselines := filter (\<lambda>b. bl_key b \<noteq> (engine, model)) (t_baselines w)\<rparr>)) w
               in (case r of Inl _ \<Rightarrow> HttpError ''failed to delete baseline'' 500 | Inr () \<Rightarrow> HttpJSON 200 ''reset'', w))"

section \<open>The two goroutines\<close>

text \<open>
  \<open>CheckTick t\<close> is a tick of the detector at time \<open>t\<close>; \<open>NotifyNext out\<close> lets the notifier receive the next
  alert, if there is one, and the webhook answer with \<open>out\<close>; \<open>DetectorDone\<close> and \<open>NotifierDone\<close> are the moments
  at which the two loops see the cancelled context and return (the first closes the channel, whose queued
  alerts can still be received). The run returns the alerts the notifier handled, each with the outcome of
  its webhook call; \<open>None\<close> is a panic of the detector's goroutine.
\<close>

datatype drift_event = CheckTick int | NotifyNext "unit http_out" | DetectorDone | NotifierDone

type_synonym handled = "(drift_alert \<times> goerr option \<times> slack_message option) list"

fun drift_run ::
  "detector_config \<Rightarrow> string \<Rightarrow> bool \<Rightarrow> bool \<Rightarrow> drift_event list \<Rightarrow> drift_db \<Rightarrow> (handled \<times> drift_db) option" where
  "drift_run cfg url det nfy [] w = Some ([], w)"
| "drift_run cfg url det nfy (CheckTick t # evs) w =
     (if \<not> det then drift_run cfg url det nfy evs w
      else case runCheck cfg (w\<lparr>w_now := t\<rparr>) of
             None \<Rightarrow> None
           | Some (_, w) \<Rightarrow> drift_run cfg url det nfy evs w)"
| "drift_run cfg url det nfy (NotifyNext out # evs) w =
     (if \<not> nfy then drift_run cfg url det nfy evs w
      else case alertCh w of
             [] \<Rightarrow> drift_run cfg url det nfy evs w
           | a # as \<Rightarrow>
               map_option (\<lambda>(h, v). ((a, notifier_send url a out) # h, v))
                 (drift_run cfg url det nfy evs (w\<lparr>alertCh := as\<rparr>)))"
| "drift_run cfg url det nfy (DetectorDone # evs) w = drift_run cfg url False nfy evs w"
| "drift_run cfg url det nfy (NotifierDone # evs) w = drift_run cfg url det False evs w"

section \<open>Order statistics of a sorted list\<close>

lemma index_Some [simp]: "0 \<le> i \<Longrightarrow> i < int (length xs) \<Longrightarrow> index xs i = Some (xs ! nat i)"
  by (simp add: index_def)

lemma sort_nth_bounds:
  assumes "i < length xs"
  shows "Min (set xs) \<le> sort xs ! i" "sort xs ! i \<le> Max (set xs)"
proof -
  from assms have "sort xs ! i \<in> set xs" by (metis length_sort nth_mem set_sort)
  then show "Min (set xs) \<le> sort xs ! i" "sort xs ! i \<le> Max (set xs)" by simp_all
qed

lemma filter_prefix_length:
  assumes "\<forall>x\<in>set (take k xs). P x" and "k \<le> length xs"
  shows "k \<le> length (filter P xs)"
proof -
  have "filter P xs = filter P (take k xs) @ filter P (drop k xs)" by (metis append_take_drop_id filter_append)
  with assms show ?thesis by (simp add: filter_id_conv)
qed

lemma filter_suffix_length:
  assumes "\<forall>x\<in>set (drop k xs). P x"
  shows "length xs - k \<le> length (filter P xs)"
proof -
  have "filter P xs = filter P (take k xs) @ filter P (drop k xs)" by (metis append_take_drop_id filter_append)
  with assms show ?thesis by (simp add: filter_id_conv)
qed

lemma sorted_take_le: "sorted xs \<Longrightarrow> i < length xs \<Longrightarrow> xs ! i \<le> m \<Longrightarrow> \<forall>x\<in>set (take (Suc i) xs). x \<le> m"
  by (auto simp: in_set_conv_nth less_Suc_eq_le) (meson order.trans sorted_nth_mono)

lemma sorted_drop_ge: "sorted xs \<Longrightarrow> i < length xs \<Longrightarrow> m \<le> xs ! i \<Longrightarrow> \<forall>x\<in>set (drop i xs). m \<le> x"
  by (auto simp: in_set_conv_nth) (metis le_add1 less_diff_conv add.commute order.trans sorted_nth_mono)

lemma length_filter_sort: "length (filter P (sort xs)) = length (filter P xs)"
  by (metis filter_sort length_sort)

lemma count_le_sort:
  assumes "i < length xs" "sort xs ! i \<le> m"
  shows "Suc i \<le> length (filter (\<lambda>x. x \<le> m) xs)"
  using filter_prefix_length [OF sorted_take_le [OF sorted_sort, of i xs m]] assms by (simp add: length_filter_sort)

lemma count_ge_sort:
  assumes "i < length xs" "m \<le> sort xs ! i"
  shows "length xs - i \<le> length (filter (\<lambda>x. m \<le> x) xs)"
  using filter_suffix_length [OF sorted_drop_ge [OF sorted_sort, of i xs m]] assms by (simp add: length_filter_sort)

section \<open>What the statistics compute\<close>

lemma computeMedian_spec:
  assumes "xs \<noteq> []"
  obtains m where "computeMedian xs = Some m" "Min (set xs) \<le> m" "m \<le> Max (set xs)"
    "length xs \<le> 2 * length (filter (\<lambda>x. x \<le> m) xs)" "length xs \<le> 2 * length (filter (\<lambda>x. m \<le> x) xs)"
proof -
  define n where "n = length xs"
  have pos: "0 < n" using assms by (simp add: n_def)
  have i: "n div 2 < n" "n div 2 - 1 < n" using pos by auto
  have half: "nat (int n div 2) = n div 2" by (simp add: nat_div_distrib)
  show thesis
  proof (cases "even n")
    case False
    then have "int n mod 2 = 1" by presburger
    then have m: "computeMedian xs = Some (sort xs ! (n div 2))"
      using i by (simp add: computeMedian_def Let_def half flip: n_def)
    have "Suc (n div 2) \<le> length (filter (\<lambda>x. x \<le> sort xs ! (n div 2)) xs)"
      "n - n div 2 \<le> length (filter (\<lambda>x. sort xs ! (n div 2) \<le> x) xs)"
      using count_le_sort [of "n div 2" xs] count_ge_sort [of "n div 2" xs] i by (simp_all add: n_def)
    with that [OF m sort_nth_bounds [OF i(1) [unfolded n_def], folded n_def]] show thesis unfolding n_def [symmetric] by linarith
  next
    case True
    with pos have n2: "2 \<le> n" by presburger
    let ?a = "sort xs ! (n div 2 - 1)" and ?b = "sort xs ! (n div 2)"
    from True have "int n mod 2 = 0" by presburger
    moreover have "nat (int n div 2 - 1) = n div 2 - 1" using n2 half by simp
    ultimately have m: "computeMedian xs = Some ((?a + ?b) / 2)"
      using i n2 by (simp add: computeMedian_def Let_def half flip: n_def)
    have ab: "?a \<le> ?b" by (rule sorted_nth_mono) (use i n_def in auto)
    have "?a \<le> (?a + ?b) / 2" "(?a + ?b) / 2 \<le> ?b" using ab by simp_all
    from count_le_sort [OF i(2) [unfolded n_def], folded n_def, OF this(1)]
      count_ge_sort [OF i(1) [unfolded n_def], folded n_def, OF this(2)] n2
    have "n div 2 \<le> length (filter (\<lambda>x. x \<le> (?a + ?b) / 2) xs)"
      "n - n div 2 \<le> length (filter (\<lambda>x. (?a + ?b) / 2 \<le> x) xs)" by simp_all
    moreover have "Min (set xs) \<le> (?a + ?b) / 2" "(?a + ?b) / 2 \<le> Max (set xs)"
      using sort_nth_bounds [of "n div 2 - 1" xs] sort_nth_bounds [of "n div 2" xs] i by (auto simp: n_def)
    ultimately show thesis using that [OF m] True by (auto simp: n_def)
  qed
qed

lemma convex_bounds:
  fixes a b w :: real
  assumes "0 \<le> w" "w \<le> 1" "lo \<le> a" "a \<le> hi" "lo \<le> b" "b \<le> hi"
  shows "lo \<le> a * (1 - w) + b * w" "a * (1 - w) + b * w \<le> hi"
proof -
  have "lo * (1 - w) \<le> a * (1 - w)" "lo * w \<le> b * w" "a * (1 - w) \<le> hi * (1 - w)" "b * w \<le> hi * w"
    using assms by (auto intro: mult_right_mono)
  then show "lo \<le> a * (1 - w) + b * w" "a * (1 - w) + b * w \<le> hi" by (auto simp: algebra_simps)
qed

lemma computePercentile_spec:
  assumes "xs \<noteq> []" "0 \<le> p" "p \<le> 1"
  obtains m where "computePercentile xs p = Some m" "Min (set xs) \<le> m" "m \<le> Max (set xs)"
proof -
  define n where "n = length xs"
  define ix where "ix = p * real_of_int (int n - 1)"
  have pos: "0 < n" using assms by (simp add: n_def)
  have ix: "0 \<le> ix" using assms(2) pos by (simp add: ix_def)
  then have tr: "trunc ix = \<lfloor>ix\<rfloor>" "0 \<le> \<lfloor>ix\<rfloor>" by (simp_all add: trunc_def)
  show thesis
  proof (cases "\<lfloor>ix\<rfloor> + 1 \<ge> int n")
    case True
    then have "computePercentile xs p = Some (sort xs ! (n - 1))"
      using pos tr unfolding computePercentile_def Let_def length_sort n_def [symmetric] ix_def [symmetric]
      by (simp add: nat_diff_distrib' n_def)
    then show thesis using that sort_nth_bounds [of "n - 1" xs] pos by (auto simp: n_def)
  next
    case False
    then have m: "computePercentile xs p = Some (sort xs ! nat \<lfloor>ix\<rfloor> * (1 - (ix - real_of_int \<lfloor>ix\<rfloor>)) +
        sort xs ! nat (\<lfloor>ix\<rfloor> + 1) * (ix - real_of_int \<lfloor>ix\<rfloor>))"
      using tr unfolding computePercentile_def Let_def length_sort n_def [symmetric] ix_def [symmetric]
      by (simp add: n_def)
    have i: "nat \<lfloor>ix\<rfloor> < length xs" "nat (\<lfloor>ix\<rfloor> + 1) < length xs" using False tr by (simp_all add: n_def nat_less_iff)
    have w: "0 \<le> ix - real_of_int \<lfloor>ix\<rfloor>" "ix - real_of_int \<lfloor>ix\<rfloor> \<le> 1" by linarith+
    show thesis
      by (rule that [OF m]; rule convex_bounds [OF w sort_nth_bounds [OF i(1)] sort_nth_bounds [OF i(2)]])
  qed
qed

lemma foldl_sum: "foldl (+) s xs = s + sum_list (xs :: real list)"
  by (induction xs arbitrary: s) auto

lemma computeMean_bounds:
  assumes "xs \<noteq> []"
  shows "Min (set xs) \<le> computeMean xs" "computeMean xs \<le> Max (set xs)"
proof -
  have "(\<Sum>x\<leftarrow>xs. Min (set xs)) \<le> sum_list xs" "sum_list xs \<le> (\<Sum>x\<leftarrow>xs. Max (set xs))"
    using sum_list_mono [of xs "\<lambda>_. Min (set xs)" "\<lambda>x. x"] sum_list_mono [of xs "\<lambda>x. x" "\<lambda>_. Max (set xs)"] by simp_all
  with assms show "Min (set xs) \<le> computeMean xs" "computeMean xs \<le> Max (set xs)"
    by (simp_all add: computeMean_def foldl_sum sum_list_triv field_simps)
qed

lemma foldl_max: "foldl (\<lambda>m x. if x > m then x else m) v vs = Max (set ((v :: int) # vs))"
proof (induction vs arbitrary: v)
  case (Cons x vs)
  have "Max (insert v (insert x (set vs))) = Max (insert (max v x) (set vs))"
    by (cases "vs = []") (simp_all add: max.assoc [symmetric] max.left_commute)
  with Cons show ?case by (simp add: max_def)
qed simp

lemma computeMaxInt64_Max: "xs \<noteq> [] \<Longrightarrow> computeMaxInt64 xs = Max (set xs)"
  by (cases xs) (simp_all add: computeMaxInt64_def foldl_max del: foldl_Cons)

lemma statistics_mset:
  assumes "mset xs = mset ys"
  shows "computeMedian xs = computeMedian ys" "computePercentile xs p = computePercentile ys p"
    "computeMean xs = computeMean ys"
proof -
  have "sort xs = sort ys" by (rule properties_for_sort) (simp_all add: assms)
  then show "computeMedian xs = computeMedian ys" "computePercentile xs p = computePercentile ys p"
    by (simp_all add: computeMedian_def computePercentile_def)
  have "length xs = length ys" "sum_list xs = sum_list ys"
    using assms by (metis size_mset, metis sum_mset_sum_list)
  then show "computeMean xs = computeMean ys"
    by (cases xs; cases ys) (simp_all add: computeMean_def foldl_sum del: foldl_Cons)
qed

lemma computeMax_mset: "mset xs = mset ys \<Longrightarrow> computeMaxInt64 xs = computeMaxInt64 ys"
  by (metis computeMaxInt64_Max mset_zero_iff mset_eq_setD)

lemma ComputeFromResults_few: "length rs < 5 \<Longrightarrow> ComputeFromResults e m rs now = Some None"
  by (simp add: ComputeFromResults_def)

lemma ComputeFromResults_total:
  "\<exists>c. ComputeFromResults e m rs now = Some c \<and> (c = None \<longleftrightarrow> length rs < 5) \<and>
     (\<forall>b. c = Some b \<longrightarrow> bl_key b = (e, m))"
proof (cases "length rs < 5")
  case False
  then have "map r_TTFTP50Ms rs \<noteq> []" "map r_TTFTP99Ms rs \<noteq> []" by auto
  obtain a where a: "computeMedian (map r_TTFTP50Ms rs) = Some a"
    by (rule computeMedian_spec [OF \<open>map r_TTFTP50Ms rs \<noteq> []\<close>])
  obtain b where "computePercentile (map r_TTFTP99Ms rs) (95 / 100) = Some b"
    by (rule computePercentile_spec [OF \<open>map r_TTFTP99Ms rs \<noteq> []\<close>, of "95 / 100"]) simp_all
  with False a show ?thesis by (simp add: ComputeFromResults_def bl_key_def)
qed (simp add: ComputeFromResults_few)


definition demo_measurement :: "real \<Rightarrow> result" where
  "demo_measurement x = zero_result\<lparr>r_Engine := ''vllm'', r_Model := ''m'', r_TTFTP50Ms := x, r_TTFTP99Ms := 2 * x,
     r_TokPerSec := 100, r_GPUMemMB := 8000\<rparr>"


section \<open>What one check does\<close>

definition regression :: "string \<Rightarrow> real \<Rightarrow> real \<Rightarrow> real" where
  "regression metricName b c = (if metricName = ''tok_per_sec'' then (b - c) / b * 100 else (c - b) / b * 100)"

text \<open>The metric comparison is the threshold rule it documents. For a positive baseline and thresholds
  0 < warning <= critical, the regression is the percentage by which the current value is worse than the
  baseline (lower for throughput, higher for latency and memory): there is an alert exactly when it
  reaches the warning threshold, it carries that percentage and the two values, and it is critical exactly
  when the regression reaches the critical threshold.\<close>

theorem checkMetric_spec:
  assumes "0 < b" and "0 < dc_WarningThresholdPct cfg" and "dc_WarningThresholdPct cfg \<le> dc_CriticalThresholdPct cfg"
    and "metric \<in> {''ttft_p50'', ''ttft_p99'', ''tok_per_sec'', ''gpu_mem''}"
  shows "checkMetric cfg e m now metric b c =
    (if regression metric b c < dc_WarningThresholdPct cfg then None
     else Some \<lparr>da_Engine = e, da_Model = m, da_Metric = metric, da_BaselineValue = b, da_CurrentValue = c,
       da_DeviationPct = regression metric b c,
       da_Severity = (if dc_CriticalThresholdPct cfg \<le> regression metric b c then ''critical'' else ''warning''),
       da_DetectedAt = now\<rparr>)"
proof -
  define d where "d = (c - b) / b"
  have r: "regression metric b c = (if metric = ''tok_per_sec'' then - d * 100 else d * 100)"
    unfolding regression_def d_def by (simp add: minus_divide_left)
  have "deviation_of metric b c = (if 0 < regression metric b c then Some (regression metric b c) else None)"
    unfolding r unfolding deviation_of_def Let_def d_def [symmetric] using assms(4) by (elim insertE) simp_all
  moreover have "0 < regression metric b c" if "\<not> regression metric b c < dc_WarningThresholdPct cfg"
    using that assms(2) by linarith
  ultimately show ?thesis
    using assms(1-3) unfolding checkMetric_def severity_of_def
    by (cases "regression metric b c < dc_WarningThresholdPct cfg") simp_all
qed

definition demo_detector :: detector_config where
  "demo_detector = \<lparr>dc_WarningThresholdPct = 15, dc_CriticalThresholdPct = 30, dc_LookbackWindow = Hour, dc_MinSamples = 10\<rparr>"

theorem checkMetric_spec_witness:
  "map_option da_Severity (checkMetric demo_detector ''vllm'' ''m'' 0 ''tok_per_sec'' 100 60) = Some ''critical'' \<and>
   map_option da_Severity (checkMetric demo_detector ''vllm'' ''m'' 0 ''ttft_p99'' 100 120) = Some ''warning'' \<and>
   checkMetric demo_detector ''vllm'' ''m'' 0 ''tok_per_sec'' 100 130 = None"
  using checkMetric_spec [of 100 demo_detector "''tok_per_sec''" "''vllm''" "''m''" 0 60]
    checkMetric_spec [of 100 demo_detector "''ttft_p99''" "''vllm''" "''m''" 0 120]
    checkMetric_spec [of 100 demo_detector "''tok_per_sec''" "''vllm''" "''m''" 0 130]
  by (simp add: demo_detector_def regression_def)

lemma drift_tick [simp]:
  "t_baselines (tick w) = t_baselines w" "alertCh (tick w) = alertCh w"
  by (simp_all add: tick_def)

fun present :: "'a option list \<Rightarrow> 'a list" where
  "present [] = []"
| "present (None # xs) = present xs"
| "present (Some x # xs) = x # present xs"

lemma send_alerts_simps [simp]:
  "t_baselines (send_alerts xs w) = t_baselines w" "t_results (send_alerts xs w) = t_results w"
  "w_now (send_alerts xs w) = w_now w" "w_faults (send_alerts xs w) = w_faults w"
  by (induction xs arbitrary: w) (auto simp: send_alerts_def send_alert_def split: option.splits)

lemma take_take_append: "take k (take k xs @ ys) = take k (xs @ ys)"
  by (simp add: min_def)

lemma send_alert_eq: "length (alertCh w) \<le> 100 \<Longrightarrow> send_alert a w = w\<lparr>alertCh := take 100 (alertCh w @ [a])\<rparr>"
  by (simp add: send_alert_def take_Cons')

lemma send_alerts_eq:
  "length (alertCh w) \<le> 100 \<Longrightarrow> send_alerts xs w = w\<lparr>alertCh := take 100 (alertCh w @ present xs)\<rparr>"
proof (induction xs arbitrary: w rule: present.induct)
  case (3 x xs)
  let ?v = "w\<lparr>alertCh := take 100 (alertCh w @ [x])\<rparr>"
  have "send_alerts (Some x # xs) w = send_alerts xs ?v" using 3(2) by (simp add: send_alerts_def send_alert_eq)
  also have "\<dots> = ?v\<lparr>alertCh := take 100 (alertCh ?v @ present xs)\<rparr>" by (rule 3(1)) simp
  also have "\<dots> = w\<lparr>alertCh := take 100 (take 100 (alertCh w @ [x]) @ present xs)\<rparr>" by simp
  also have "\<dots> = w\<lparr>alertCh := take 100 ((alertCh w @ [x]) @ present xs)\<rparr>" by (simp only: take_take_append)
  finally show ?case by simp
qed (simp_all add: send_alerts_def)

lemma checkEngineModel_cases:
  "case checkEngineModel cfg e m since w of
     None \<Rightarrow> False
   | Some (err, w') \<Rightarrow>
       (t_baselines w' = t_baselines w \<and> alertCh w' = alertCh w) \<or>
       (\<exists>b. bl_key b = (e, m) \<and> (e, m) \<notin> bl_key ` set (t_baselines w) \<and>
          t_baselines w' = t_baselines w @ [b] \<and> alertCh w' = alertCh w) \<or>
       (\<exists>b c now. b \<in> set (t_baselines w) \<and> bl_key b = (e, m) \<and>
          w' = send_alerts (metric_alerts cfg e m now b c) (tick (tick w)))"
proof -
  note d = checkEngineModel_def QueryByEngineAndModel_def Baseline_Get_def Baseline_Set_def db_call_def Let_def
  let ?rs = "scanResults (filter (since_row e m since) (t_results w))"
  obtain c where c: "ComputeFromResults e m ?rs (w_now w) = Some c" "\<forall>b. c = Some b \<longrightarrow> bl_key b = (e, m)"
    using ComputeFromResults_total by blast
  show ?thesis
  proof (cases "List.find (\<lambda>b. bl_key b = (e, m)) (t_baselines w)")
    case (Some b)
    then have "b \<in> set (t_baselines w)" "bl_key b = (e, m)" by (auto dest: find_SomeD)
    with Some c show ?thesis by (cases c) (auto simp: d split: option.splits)
  next
    case None
    then have "(e, m) \<notin> bl_key ` set (t_baselines w)" by (auto simp: find_eq_None)
    with None c show ?thesis by (cases c) (simp_all add: d split: option.splits)
  qed
qed

section \<open>Alerts are justified by stored baselines\<close>

fun metric_of :: "baseline \<Rightarrow> string \<Rightarrow> real" where
  "metric_of b n = (if n = ''ttft_p50'' then bl_TTFTP50Ms b else if n = ''ttft_p99'' then bl_TTFTP99Ms b
     else if n = ''tok_per_sec'' then bl_TokPerSec b else of_int (bl_GPUMemMB b))"

text \<open>An alert is justified by a table of baselines when it is what the metric comparison says about the
  stored baseline of its pair.\<close>

definition justified :: "detector_config \<Rightarrow> baseline list \<Rightarrow> drift_alert \<Rightarrow> bool" where
  "justified cfg bs a \<longleftrightarrow> (\<exists>b\<in>set bs. bl_key b = (da_Engine a, da_Model a) \<and>
     da_BaselineValue a = metric_of b (da_Metric a) \<and>
     checkMetric cfg (da_Engine a) (da_Model a) (da_DetectedAt a) (da_Metric a) (da_BaselineValue a) (da_CurrentValue a) = Some a)"

definition drift_inv :: "detector_config \<Rightarrow> 'w drift_db_scheme \<Rightarrow> bool" where
  "drift_inv cfg w \<longleftrightarrow> length (alertCh w) \<le> 100 \<and> distinct (map bl_key (t_baselines w)) \<and>
     (\<forall>a\<in>set (alertCh w). justified cfg (t_baselines w) a)"

lemma drift_invD:
  "drift_inv cfg w \<Longrightarrow> length (alertCh w) \<le> 100"
  "drift_inv cfg w \<Longrightarrow> a \<in> set (alertCh w) \<Longrightarrow> justified cfg (t_baselines w) a"
  by (simp_all add: drift_inv_def)

lemma justified_mono: "justified cfg bs a \<Longrightarrow> set bs \<subseteq> set bs' \<Longrightarrow> justified cfg bs' a"
  by (auto simp: justified_def)

lemma set_present: "x \<in> set (present xs) \<longleftrightarrow> Some x \<in> set xs"
  by (induction xs rule: present.induct) auto

lemma checkMetric_fields:
  "checkMetric cfg e m now n b c = Some a \<Longrightarrow> da_Engine a = e \<and> da_Model a = m \<and> da_Metric a = n \<and>
     da_BaselineValue a = b \<and> da_CurrentValue a = c \<and> da_DetectedAt a = now"
  by (auto simp: checkMetric_def split: if_splits bind_splits)

lemma metric_alerts_map:
  "metric_alerts cfg e m now b c = map (\<lambda>n. checkMetric cfg e m now n (metric_of b n) (metric_of c n))
     [''ttft_p50'', ''ttft_p99'', ''tok_per_sec'', ''gpu_mem'']"
  by (simp add: metric_alerts_def)

lemma metric_alerts_justified:
  assumes "b \<in> set bs" and "bl_key b = (e, m)" and "Some a \<in> set (metric_alerts cfg e m now b c)"
  shows "justified cfg bs a"
proof -
  from assms(3) obtain n v where n: "checkMetric cfg e m now n (metric_of b n) v = Some a"
    unfolding metric_alerts_map set_map by (auto simp del: metric_of.simps dest: sym)
  with checkMetric_fields [OF n] assms(1,2) show ?thesis by (auto simp: justified_def simp del: metric_of.simps)
qed

lemma checkEngineModel_inv:
  assumes "drift_inv cfg w"
  shows "\<exists>err w'. checkEngineModel cfg e m since w = Some (err, w') \<and> drift_inv cfg w' \<and>
    set (t_baselines w) \<subseteq> set (t_baselines w')"
proof -
  obtain err w' where c: "checkEngineModel cfg e m since w = Some (err, w')"
    using checkEngineModel_cases [where cfg = cfg and e = e and m = m and since = since and w = w] by (auto split: option.splits)
  note ch = drift_invD(1) [OF assms] and ju = drift_invD(2) [OF assms]
  from checkEngineModel_cases [where cfg = cfg and e = e and m = m and since = since and w = w] c
  consider "t_baselines w' = t_baselines w" "alertCh w' = alertCh w"
    | b where "bl_key b = (e, m)" "(e, m) \<notin> bl_key ` set (t_baselines w)" "t_baselines w' = t_baselines w @ [b]" "alertCh w' = alertCh w"
    | b x now where "b \<in> set (t_baselines w)" "bl_key b = (e, m)"
      "w' = send_alerts (metric_alerts cfg e m now b x) (tick (tick w))" by auto
  then have "drift_inv cfg w' \<and> set (t_baselines w) \<subseteq> set (t_baselines w')"
  proof cases
    case 1
    with assms show ?thesis by (simp add: drift_inv_def)
  next
    case (2 b)
    with assms show ?thesis by (auto simp: drift_inv_def intro: justified_mono [OF ju])
  next
    case (3 b x now)
    let ?new = "present (metric_alerts cfg e m now b x)"
    have w': "t_baselines w' = t_baselines w" "alertCh w' = take 100 (alertCh w @ ?new)"
      using 3(3) ch by (simp_all add: send_alerts_eq)
    have "justified cfg (t_baselines w) a" if "a \<in> set (alertCh w')" for a
    proof -
      from that have "a \<in> set (alertCh w) \<or> a \<in> set ?new" unfolding w' by (auto dest!: in_set_takeD)
      with ju metric_alerts_justified [OF 3(1,2)] show ?thesis by (auto simp: set_present)
    qed
    moreover have "length (alertCh w') \<le> 100" unfolding w' length_take by simp
    ultimately show ?thesis using assms w'(1) by (simp add: drift_inv_def)
  qed
  with c show ?thesis by blast
qed

lemma check_pairs_inv:
  "drift_inv cfg w \<Longrightarrow> \<exists>w'. check_pairs cfg since ps w = Some w' \<and> drift_inv cfg w' \<and> set (t_baselines w) \<subseteq> set (t_baselines w')"
proof (induction ps arbitrary: w)
  case (Cons p ps)
  obtain e m where p: "p = (e, m)" by (cases p)
  from checkEngineModel_inv [OF Cons.prems, of e m since] obtain err v
    where "checkEngineModel cfg e m since w = Some (err, v)" "drift_inv cfg v" "set (t_baselines w) \<subseteq> set (t_baselines v)" by blast
  with Cons.IH [of v] show ?case by (auto simp: p)
qed simp

lemma runCheck_inv:
  assumes "drift_inv cfg w"
  shows "\<exists>err w'. runCheck cfg w = Some (err, w') \<and> drift_inv cfg w' \<and> set (t_baselines w) \<subseteq> set (t_baselines w')"
proof -
  have tk: "drift_inv cfg (tick w)" using assms by (simp add: drift_inv_def)
  from check_pairs_inv [OF tk] show ?thesis
    by (fastforce simp: runCheck_def getActiveEngineModelPairs_def db_call_def Let_def tk split: option.splits)
qed


section \<open>What a check learns\<close>

definition recent :: "string \<times> string \<Rightarrow> int \<Rightarrow> 'w jobs_db_scheme \<Rightarrow> result list" where
  "recent k since w = scanResults (filter (since_row (fst k) (snd k) since) (t_results w))"

definition enough :: "detector_config \<Rightarrow> string \<times> string \<Rightarrow> int \<Rightarrow> 'w jobs_db_scheme \<Rightarrow> bool" where
  "enough cfg k since w \<longleftrightarrow> 5 \<le> length (recent k since w) \<and> dc_MinSamples cfg \<le> int (length (recent k since w))"

definition keys :: "'w drift_db_scheme \<Rightarrow> (string \<times> string) set" where
  "keys w = bl_key ` set (t_baselines w)"

lemma tick_none: "w_faults w = [] \<Longrightarrow> tick w = w"
  by (simp add: tick_def)

lemma checkEngineModel_quiet:
  assumes "w_faults w = []"
  shows "\<exists>w'. checkEngineModel cfg e m since w = Some (None, w') \<and> w_faults w' = [] \<and> t_results w' = t_results w \<and>
    keys w' = keys w \<union> (if enough cfg (e, m) since w then {(e, m)} else {})"
proof -
  let ?rs = "recent (e, m) since w"
  note d = checkEngineModel_def QueryByEngineAndModel_def Baseline_Get_def Baseline_Set_def db_call_def Let_def tick_none
    recent_def [of "(e, m)", simplified, symmetric]
  obtain c where c: "ComputeFromResults e m ?rs (w_now w) = Some c" "c = None \<longleftrightarrow> length ?rs < 5" "\<forall>b. c = Some b \<longrightarrow> bl_key b = (e, m)"
    using ComputeFromResults_total by blast
  have res: "\<exists>w'. checkEngineModel cfg e m since w = Some (None, w') \<and> w_faults w' = [] \<and> t_results w' = t_results w \<and>
      keys w' = keys w \<union> (if enough cfg (e, m) since w \<and> (e, m) \<notin> keys w then {(e, m)} else {})"
  proof (cases "List.find (\<lambda>b. bl_key b = (e, m)) (t_baselines w)")
    case (Some b)
    from find_SomeD [OF this] have "(e, m) \<in> keys w" by (metis image_eqI keys_def)
    with Some c assms show ?thesis
      by (cases c; cases "int (length ?rs) < dc_MinSamples cfg") (simp_all add: d keys_def)
  next
    case None
    then have k: "(e, m) \<notin> keys w" by (auto simp: keys_def find_eq_None)
    show ?thesis
    proof (cases "int (length ?rs) < dc_MinSamples cfg \<or> c = None")
      case True
      then have "\<not> enough cfg (e, m) since w" using c by (auto simp: enough_def)
      with True None c assms show ?thesis by (cases "int (length ?rs) < dc_MinSamples cfg") (simp_all add: d)
    next
      case False
      then obtain b where b: "c = Some b" by auto
      with False c have "enough cfg (e, m) since w" by (auto simp: enough_def)
      with False b None c k assms show ?thesis by (simp add: d keys_def)
    qed
  qed
  then show ?thesis by (auto simp: insert_absorb)
qed

lemma check_pairs_quiet:
  "w_faults w = [] \<Longrightarrow> \<exists>w'. check_pairs cfg since ps w = Some w' \<and> keys w' = keys w \<union> {k \<in> set ps. enough cfg k since w}"
proof (induction ps arbitrary: w)
  case (Cons p ps)
  obtain e m where p: "p = (e, m)" by (cases p)
  from checkEngineModel_quiet [OF Cons.prems, of cfg e m since] obtain v where
    v: "checkEngineModel cfg e m since w = Some (None, v)" "w_faults v = []" "t_results v = t_results w"
      "keys v = keys w \<union> (if enough cfg p since w then {p} else {})" by (auto simp: p)
  have "enough cfg k since v = enough cfg k since w" for k using v(3) by (simp add: enough_def recent_def)
  with Cons.IH [OF v(2)] v show ?case by (auto simp: p)
qed simp

text \<open>What the detector learns. A check that meets no fault succeeds, and afterwards the engine and model
  pairs with a baseline are exactly those that had one and those with at least five, and at least the
  configured number, of measurements in the look-back window; so every active pair with enough data is
  compared against a baseline from the next check on.\<close>

theorem runCheck_learns:
  assumes "w_faults w = []"
  shows "\<exists>w'. runCheck cfg w = Some (None, w') \<and>
    keys w' = keys w \<union> {k. enough cfg k (w_now w - dc_LookbackWindow cfg) w}"
proof -
  let ?since = "w_now w - dc_LookbackWindow cfg"
  let ?ps = "sort (remdups (map (\<lambda>(ts, r). (r_Engine r, r_Model r)) (filter (\<lambda>(ts, r). ?since < ts) (t_results w))))"
  have "k \<in> set ?ps" if en: "enough cfg k ?since w" for k
  proof -
    from en have "filter (since_row (fst k) (snd k) ?since) (t_results w) \<noteq> []"
      by (auto simp: enough_def recent_def scanResults_def)
    then obtain ts r where r: "(ts, r) \<in> set (t_results w)" "since_row (fst k) (snd k) ?since (ts, r)"
      by (auto simp: filter_empty_conv)
    then have "k = (r_Engine r, r_Model r)" "?since < ts" by (auto simp: since_row_def prod_eq_iff)
    with r show ?thesis by (auto intro!: image_eqI [of _ _ "(ts, r)"])
  qed
  then have "{k \<in> set ?ps. enough cfg k ?since w} = {k. enough cfg k ?since w}" by blast
  with check_pairs_quiet [OF assms, of cfg ?since ?ps] assms show ?thesis
    by (auto simp: runCheck_def getActiveEngineModelPairs_def db_call_def tick_none Let_def)
qed

definition demo_drift_db :: "(int \<times> result) list \<Rightarrow> baseline list \<Rightarrow> drift_db" where
  "demo_drift_db rs bs = jobs_db.extend (demo_db [] rs) \<lparr>t_baselines = bs, alertCh = []\<rparr>"

lemma demo_drift_db_simps [simp]:
  "t_baselines (demo_drift_db rs bs) = bs" "alertCh (demo_drift_db rs bs) = []" "t_results (demo_drift_db rs bs) = rs"
  "w_faults (demo_drift_db rs bs) = []" "w_now (demo_drift_db rs bs) = w_now (demo_db [] rs)"
  by (simp_all add: demo_drift_db_def demo_db_def jobs_db.defs)

definition demo_rows :: "(int \<times> result) list" where
  "demo_rows = map (\<lambda>x. (100, demo_measurement x)) [1, 2, 3, 4, 5, 6, 7, 8, 9, 10]"

theorem runCheck_learns_witness:
  "\<exists>w'. runCheck demo_detector (demo_drift_db demo_rows []) = Some (None, w') \<and> (''vllm'', ''m'') \<in> keys w'"
proof -
  have "enough demo_detector (''vllm'', ''m'') (w_now (demo_db [] demo_rows) - dc_LookbackWindow demo_detector)
      (demo_drift_db demo_rows [])"
    by (simp add: enough_def recent_def demo_rows_def demo_measurement_def since_row_def scanResults_def demo_detector_def
        demo_db_def duration_units)
  with runCheck_learns [of "demo_drift_db demo_rows []" demo_detector] show ?thesis by auto
qed

text \<open>One comparison, end to end. When the pair has a baseline, enough recent measurements and no fault occurs,
  the check computes the current statistics from exactly those measurements, leaves every table alone, and
  appends to the channel the alerts of the four metric comparisons, in order, as far as the 100 places reach.\<close>

theorem checkEngineModel_exact:
  assumes "w_faults w = []" and "length (alertCh w) \<le> 100" and "enough cfg (e, m) since w"
    and "List.find (\<lambda>b. bl_key b = (e, m)) (t_baselines w) = Some b"
  shows "\<exists>c. ComputeFromResults e m (recent (e, m) since w) (w_now w) = Some (Some c) \<and>
    checkEngineModel cfg e m since w =
      Some (None, w\<lparr>alertCh := take 100 (alertCh w @ present (metric_alerts cfg e m (w_now w) b c))\<rparr>)"
proof -
  obtain c where c: "ComputeFromResults e m (recent (e, m) since w) (w_now w) = Some (Some c)"
    using ComputeFromResults_total [of e m "recent (e, m) since w" "w_now w"] assms(3) by (auto simp: enough_def)
  with assms show ?thesis
    by (simp add: checkEngineModel_def QueryByEngineAndModel_def Baseline_Get_def db_call_def Let_def tick_none enough_def
        send_alerts_eq recent_def [of "(e, m)", simplified, symmetric])
qed

definition demo_baseline :: baseline where
  "demo_baseline = \<lparr>bl_Engine = ''vllm'', bl_Model = ''m'', bl_TTFTP50Ms = 4, bl_TTFTP99Ms = 100, bl_TokPerSec = 100,
     bl_GPUMemMB = 8000, bl_SetAt = 0, bl_SampleCount = 10\<rparr>"

theorem checkEngineModel_exact_witness:
  "\<exists>w'. checkEngineModel demo_detector ''vllm'' ''m'' 0 (demo_drift_db demo_rows [demo_baseline]) = Some (None, w') \<and>
     t_baselines w' = [demo_baseline]"
proof -
  have "enough demo_detector (''vllm'', ''m'') 0 (demo_drift_db demo_rows [demo_baseline])"
    by (simp add: enough_def recent_def demo_rows_def demo_measurement_def since_row_def scanResults_def demo_detector_def)
  from checkEngineModel_exact [OF _ _ this, of demo_baseline] show ?thesis
    by (auto simp: bl_key_def demo_baseline_def)
qed


end
