(* ===== verification/Auth.thy ===== *)
theory Auth
  imports Jobs
begin

text \<open>
  Authentication, authorization and the HTTP middlewares of \<open>internal/auth\<close>: \<open>apikey.go\<close>, \<open>context.go\<close>,
  \<open>middleware.go\<close> and \<open>cors.go\<close>. A handler is a function from the request (with the values its context
  carries) and the state to an outcome and a state; a middleware is a function on handlers. The JWT
  library, SHA-256 and the eviction policy of the cache are fields of the key manager; what is relied on
  in them is stated where it is used. OpenTelemetry spans and the time-out handler are not modelled.
\<close>

section \<open>Requests, outcomes, handlers\<close>

record claims =
  cl_TenantID :: string
  cl_Scopes :: "string list"
  cl_IssuedAt :: "int option"
  cl_ExpiresAt :: "int option"

text \<open>The request: method, path segments, query, body (\<open>None\<close> is a nil body), the headers the middlewares
  read (an absent header reads as the empty string), and the three context values.\<close>

record request =
  rq_Method :: string
  rq_Path :: "string list"
  rq_Query :: "(string \<times> string) list"
  rq_Body :: "string option"
  rq_Authorization :: string
  rq_Origin :: string
  rq_XRequestID :: string
  rq_tenant :: "string option"
  rq_claims :: "claims option"
  rq_requestID :: string

text \<open>What a middleware or a handler writes as its body.\<close>

datatype 'b reply_body =
    NoBody | ErrBody string | ScopeBody string string | RetryBody string int | Body 'b

datatype 'b outcome = Panicked | Response int "(string \<times> string) list" "'b reply_body"

fun status_of :: "'b outcome \<Rightarrow> int" where
  "status_of Panicked = 0"
| "status_of (Response code hs b) = code"

fun headers_of :: "'b outcome \<Rightarrow> (string \<times> string) list" where
  "headers_of Panicked = []"
| "headers_of (Response code hs b) = hs"

fun with_headers :: "(string \<times> string) list \<Rightarrow> 'b outcome \<Rightarrow> 'b outcome" where
  "with_headers hs Panicked = Panicked"
| "with_headers hs (Response code ks b) = Response code (hs @ ks) b"

record log_line =
  lg_method :: string
  lg_path :: "string list"
  lg_status :: int
  lg_request_id :: string
  lg_tenant_id :: string

text \<open>What the middlewares keep between requests: the claims cache (key, claims, time the entry expires), the
  rate-limit buckets and the log.\<close>

record auth_state =
  au_cache :: "(string \<times> claims \<times> int) list"
  au_buckets :: "(string \<times> int) list"
  au_log :: "log_line list"

type_synonym ('w, 'b) handler =
  "request \<Rightarrow> auth_state \<times> 'w world_scheme \<Rightarrow> 'b outcome \<times> auth_state \<times> 'w world_scheme"

section \<open>The key manager\<close>

definition ErrTokenExpired :: goerr where "ErrTokenExpired = Sentinel ''token expired''"
definition ErrTokenInvalid :: goerr where "ErrTokenInvalid = Sentinel ''invalid token''"
definition ErrTokenMissing :: goerr where "ErrTokenMissing = Sentinel ''missing token''"

datatype scope = ScopeJobsWrite | ScopeJobsRead | ScopeMetricsRead | ScopeConfigWrite | ScopeAdminAll

fun scope_str :: "scope \<Rightarrow> string" where
  "scope_str ScopeJobsWrite = ''jobs:write''"
| "scope_str ScopeJobsRead = ''jobs:read''"
| "scope_str ScopeMetricsRead = ''metrics:read''"
| "scope_str ScopeConfigWrite = ''configs:write''"
| "scope_str ScopeAdminAll = ''admin:all''"

datatype jwt_alg = AlgHMAC string | AlgOther string

datatype jwt_error = JwtExpired | JwtError string

text \<open>
  \<open>km_Sign\<close> is \<open>NewWithClaims(HS256, c).SignedString(key)\<close>; \<open>km_Parse\<close> is \<open>ParseWithClaims\<close>, which asks the
  given function for the key of the token's algorithm; \<open>km_Numeric\<close> the rounding of \<open>NewNumericDate\<close>;
  \<open>km_sha256\<close> the hexadecimal digest; \<open>km_keeps key now\<close> tells whether the cache has not evicted \<open>key\<close>.
\<close>

record key_manager =
  km_secret :: string
  km_Sign :: "claims \<Rightarrow> string \<Rightarrow> string res"
  km_Parse :: "string \<Rightarrow> (jwt_alg \<Rightarrow> string res) \<Rightarrow> int \<Rightarrow> jwt_error + claims"
  km_Numeric :: "int \<Rightarrow> int"
  km_sha256 :: "string \<Rightarrow> string"
  km_keeps :: "string \<Rightarrow> int \<Rightarrow> bool"

definition Issue :: "key_manager \<Rightarrow> string \<Rightarrow> string list \<Rightarrow> int \<Rightarrow> 'w world_scheme \<Rightarrow> string res" where
  "Issue km tenantID scopes expiry w =
     km_Sign km \<lparr>cl_TenantID = tenantID, cl_Scopes = scopes, cl_IssuedAt = Some (km_Numeric km (w_now w)),
       cl_ExpiresAt = Some (km_Numeric km (w_now w + expiry))\<rparr> (km_secret km)"

definition cache_get :: "key_manager \<Rightarrow> string \<Rightarrow> int \<Rightarrow> (string \<times> claims \<times> int) list \<Rightarrow> claims option" where
  "cache_get km k now cache =
     (case map_of cache k of
        None \<Rightarrow> None
      | Some (c, expires) \<Rightarrow> if km_keeps km k now \<and> now < expires then Some c else None)"

fun signing_key :: "key_manager \<Rightarrow> jwt_alg \<Rightarrow> string res" where
  "signing_key km (AlgHMAC alg) = Inr (km_secret km)"
| "signing_key km (AlgOther alg) = Inl (ErrNew (''unexpected signing method: '' @ alg))"

definition Verify ::
  "key_manager \<Rightarrow> string \<Rightarrow> auth_state \<times> 'w world_scheme \<Rightarrow> claims res \<times> auth_state \<times> 'w world_scheme" where
  "Verify km tokenString = (\<lambda>(s, w).
     (if tokenString = [] then (Inl ErrTokenMissing, s, w)
      else
        let cacheKey = km_sha256 km tokenString
        in case cache_get km cacheKey (w_now w) (au_cache s) of
             Some c \<Rightarrow> (Inr c, s, w)
           | None \<Rightarrow>
               (case km_Parse km tokenString (signing_key km) (w_now w) of
                  Inl JwtExpired \<Rightarrow> (Inl ErrTokenExpired, s, w)
                | Inl (JwtError _) \<Rightarrow> (Inl ErrTokenInvalid, s, w)
                | Inr c \<Rightarrow>
                    if cl_TenantID c = [] then (Inl ErrTokenInvalid, s, w)
                    else (Inr c, s\<lparr>au_cache := (cacheKey, c, w_now w + 5 * Minute) # au_cache s\<rparr>, w))))"

definition HasScope :: "claims \<Rightarrow> scope \<Rightarrow> bool" where
  "HasScope c required \<longleftrightarrow> list_ex (\<lambda>s. s = scope_str ScopeAdminAll \<or> s = scope_str required) (cl_Scopes c)"

section \<open>The tenant in the context\<close>

definition SetTenantID :: "string \<Rightarrow> request \<Rightarrow> request" where
  "SetTenantID tenantID r = r\<lparr>rq_tenant := Some tenantID\<rparr>"

definition GetTenantID :: "request \<Rightarrow> string option" where
  "GetTenantID r = (case rq_tenant r of None \<Rightarrow> None | Some t \<Rightarrow> if t = [] then None else Some t)"

text \<open>\<open>MustGetTenantID\<close> panics where \<open>GetTenantID\<close> is not ok; the continuation is the rest of the handler.\<close>

definition MustGetTenantID ::
  "request \<Rightarrow> (string \<Rightarrow> 's \<Rightarrow> 'b outcome \<times> 's) \<Rightarrow> 's \<Rightarrow> 'b outcome \<times> 's" where
  "MustGetTenantID r k s = (case GetTenantID r of None \<Rightarrow> (Panicked, s) | Some t \<Rightarrow> k t s)"

section \<open>The middlewares\<close>

definition writeJSONError :: "int \<Rightarrow> string \<Rightarrow> 'b outcome" where
  "writeJSONError status msg = Response status [(''Content-Type'', ''application/json'')] (ErrBody msg)"

definition AuthMiddleware ::
  "(string \<Rightarrow> auth_state \<times> 'w world_scheme \<Rightarrow> claims res \<times> auth_state \<times> 'w world_scheme) \<Rightarrow>
   ('w, 'b) handler \<Rightarrow> ('w, 'b) handler" where
  "AuthMiddleware verify nxt r s =
     (if \<not> HasPrefix (rq_Authorization r) ''Bearer ''
      then (writeJSONError 401 ''missing authorization header'', s)
      else
        let (v, s) = verify (TrimPrefix (rq_Authorization r) ''Bearer '') s
        in case v of
             Inl err \<Rightarrow>
               (writeJSONError 401 (if errors_Is err ErrTokenExpired then ''token expired'' else ''invalid token''), s)
           | Inr c \<Rightarrow> nxt ((SetTenantID (cl_TenantID c) r)\<lparr>rq_claims := Some c\<rparr>) s)"

definition RequireScope :: "scope \<Rightarrow> ('w, 'b) handler \<Rightarrow> ('w, 'b) handler" where
  "RequireScope required nxt r s =
     (if (case rq_claims r of None \<Rightarrow> True | Some c \<Rightarrow> \<not> HasScope c required)
      then (Response 403 [(''Content-Type'', ''application/json'')] (ScopeBody ''insufficient scope'' (scope_str required)), s)
      else nxt r s)"

text \<open>The clock is after 1970, so the division that Go truncates towards zero is \<open>div\<close>.\<close>

definition Unix :: "int \<Rightarrow> int" where
  "Unix now = now div Second"

definition bucketKey :: "string \<Rightarrow> int \<Rightarrow> string" where
  "bucketKey tenantID minute = ''rl:'' @ tenantID @ '':'' @ Itoa minute"

definition bucket_count :: "string \<Rightarrow> (string \<times> int) list \<Rightarrow> int" where
  "bucket_count k bs = (case map_of bs k of None \<Rightarrow> 0 | Some n \<Rightarrow> n)"

definition set_bucket :: "string \<Rightarrow> int \<Rightarrow> (string \<times> int) list \<Rightarrow> (string \<times> int) list" where
  "set_bucket k n bs =
     (if k \<in> fst ` set bs then map (\<lambda>(j, m). (j, if j = k then n else m)) bs else bs @ [(k, n)])"

definition RateLimitMiddleware :: "('w, 'b) handler \<Rightarrow> ('w, 'b) handler" where
  "RateLimitMiddleware nxt r = (\<lambda>(s, w).
     (case GetTenantID r of
        None \<Rightarrow> nxt r (s, w)
      | Some tenantID \<Rightarrow>
          let minute = Unix (w_now w) div 60; k = bucketKey tenantID minute;
              nextMinute = (minute + 1) * 60; retryAfter = nextMinute - Unix (w_now w);
              curr = bucket_count k (au_buckets s)
          in if curr \<ge> 100
             then (Response 429 [(''Content-Type'', ''application/json''), (''X-RateLimit-Limit'', ''100''),
                      (''X-RateLimit-Remaining'', ''0''), (''X-RateLimit-Reset'', Itoa nextMinute)]
                      (RetryBody ''rate limit exceeded'' retryAfter),
                   s\<lparr>au_buckets := set_bucket k curr (au_buckets s)\<rparr>, w)
             else
               let (out, sw) = nxt r (s\<lparr>au_buckets := set_bucket k (curr + 1) (au_buckets s)\<rparr>, w)
               in (with_headers [(''X-RateLimit-Limit'', ''100''), (''X-RateLimit-Remaining'', Itoa (100 - (curr + 1))),
                      (''X-RateLimit-Reset'', Itoa nextMinute)] out, sw)))"

definition newReqID :: "'w world_scheme \<Rightarrow> string \<times> 'w world_scheme" where
  "newReqID w = (EncodeToString (rand_read 8 w), rand_adv 8 w)"

definition RequestIDMiddleware :: "('w, 'b) handler \<Rightarrow> ('w, 'b) handler" where
  "RequestIDMiddleware nxt r = (\<lambda>(s, w).
     let (i, w) = (if rq_XRequestID r = [] then newReqID w else (rq_XRequestID r, w));
         (out, sw) = nxt (r\<lparr>rq_requestID := i\<rparr>) (s, w)
     in (with_headers [(''X-Request-ID'', i)] out, sw))"

text \<open>The logger reads the tenant from the request it was given, after the handlers behind it have run.\<close>

definition LoggerMiddleware :: "('w, 'b) handler \<Rightarrow> ('w, 'b) handler" where
  "LoggerMiddleware nxt r sw =
     (let (out, s, w) = nxt r sw
      in case out of
           Panicked \<Rightarrow> (Panicked, s, w)
         | Response code _ _ \<Rightarrow>
             (out, s\<lparr>au_log := au_log s @ [\<lparr>lg_method = rq_Method r, lg_path = rq_Path r, lg_status = code,
                lg_request_id = rq_requestID r, lg_tenant_id = (case GetTenantID r of None \<Rightarrow> [] | Some t \<Rightarrow> t)\<rparr>]\<rparr>, w))"

section \<open>CORS\<close>

definition corsMaxAge :: int where
  "corsMaxAge = 10 * Minute"

definition allowed_origins :: "string list \<Rightarrow> string list" where
  "allowed_origins os = map ToLower (filter (\<lambda>o'. o' \<noteq> []) (map TrimSpace os))"

definition CORSMiddleware :: "string list \<Rightarrow> ('w, 'b) handler \<Rightarrow> ('w, 'b) handler" where
  "CORSMiddleware allowedOrigins nxt r s =
     (let origin = rq_Origin r; vary = (''Vary'', ''Origin'')
      in if origin = [] \<or> ToLower origin \<notin> set (allowed_origins allowedOrigins)
         then if rq_Method r = ''OPTIONS'' \<and> origin \<noteq> [] then (Response 403 [vary] NoBody, s)
              else let (out, s) = nxt r s in (with_headers [vary] out, s)
         else
           let allow = [vary, (''Access-Control-Allow-Origin'', origin), (''Access-Control-Allow-Credentials'', ''true'')]
           in if rq_Method r = ''OPTIONS''
              then (Response 204 (allow @ [(''Access-Control-Allow-Methods'', ''GET, POST, DELETE, OPTIONS''),
                      (''Access-Control-Allow-Headers'', ''Authorization, Content-Type, X-Request-ID''),
                      (''Access-Control-Max-Age'', Itoa (corsMaxAge div Second))]) NoBody, s)
              else let (out, s) = nxt r s
                   in (with_headers (allow @ [(''Access-Control-Expose-Headers'', ''X-Request-ID'')]) out, s))"

definition DefaultDevOrigins :: "string list" where
  "DefaultDevOrigins = [''http://localhost:5173'', ''http://127.0.0.1:5173'']"

text \<open>Cross-origin access is granted to the allow-list only. Around any handler, the answer to a request
  carries a grant for an origin, beside what the handler itself wrote, exactly when the request names an
  origin that is on the list (trimmed, letter case ignored), and the grant is for that very origin; a
  preflight never reaches the handler when it names an origin, and the answer always says it varies by origin.\<close>

theorem cors_grants_listed_origins:
  fixes nxt :: "('w, 'b) handler"
  assumes "CORSMiddleware os nxt r s = (Response code hs b, s')"
    and "\<And>r s. (''Access-Control-Allow-Origin'', v) \<notin> set (headers_of (fst (nxt r s)))"
  shows "((''Access-Control-Allow-Origin'', v) \<in> set hs \<longleftrightarrow>
      v = rq_Origin r \<and> v \<noteq> [] \<and> (\<exists>a\<in>set os. TrimSpace a \<noteq> [] \<and> ToLower (TrimSpace a) = ToLower v)) \<and>
    (rq_Method r = ''OPTIONS'' \<and> rq_Origin r \<noteq> [] \<longrightarrow> s' = s \<and> code \<in> {204, 403}) \<and> (''Vary'', ''Origin'') \<in> set hs"
proof -
  have grant: "ToLower v \<in> set (allowed_origins os) \<longleftrightarrow> (\<exists>a\<in>set os. TrimSpace a \<noteq> [] \<and> ToLower (TrimSpace a) = ToLower v)"
    by (simp add: allowed_origins_def image_iff eq_commute [of "ToLower v"]) blast
  obtain out s2 where n: "nxt r s = (out, s2)" by (cases "nxt r s")
  with assms(2) [of r s] have "(''Access-Control-Allow-Origin'', v) \<notin> set (headers_of out)" by simp
  with assms(1) n show ?thesis
    unfolding grant [symmetric] by (cases out) (auto simp: CORSMiddleware_def Let_def split: if_splits)
qed

definition demo_request :: "string \<Rightarrow> string list \<Rightarrow> string \<Rightarrow> request" where
  "demo_request meth path auth = \<lparr>rq_Method = meth, rq_Path = path, rq_Query = [], rq_Body = None, rq_Authorization = auth, rq_Origin = [],
     rq_XRequestID = [], rq_tenant = None, rq_claims = None, rq_requestID = []\<rparr>"

definition demo_world :: world where
  "demo_world = \<lparr>w_now = 0, w_rand = [], w_faults = []\<rparr>"

definition empty_auth :: auth_state where
  "empty_auth = \<lparr>au_cache = [], au_buckets = [], au_log = []\<rparr>"

definition ok_handler :: "('w, unit) handler" where
  "ok_handler r s = (Response 200 [] NoBody, s)"

theorem cors_grants_listed_origins_witness:
  "(''Access-Control-Allow-Origin'', ''http://LOCALHOST:5173'') \<in> set (headers_of (fst
     (CORSMiddleware DefaultDevOrigins ok_handler ((demo_request ''GET'' [''v1''] [])\<lparr>rq_Origin := ''http://LOCALHOST:5173''\<rparr>)
       (empty_auth, demo_world))))"
proof -
  let ?r = "(demo_request ''GET'' [''v1''] [])\<lparr>rq_Origin := ''http://LOCALHOST:5173''\<rparr>"
  have "fst (CORSMiddleware DefaultDevOrigins ok_handler ?r (empty_auth, demo_world)) \<noteq> Panicked"
    by (simp add: CORSMiddleware_def Let_def ok_handler_def)
  then obtain code hs b s' where out: "CORSMiddleware DefaultDevOrigins ok_handler ?r (empty_auth, demo_world) = (Response code hs b, s')"
    by (metis outcome.exhaust prod.collapse)
  have "TrimSpace ''http://localhost:5173'' \<noteq> [] \<and>
      ToLower (TrimSpace ''http://localhost:5173'') = ToLower ''http://LOCALHOST:5173''" by code_simp
  with cors_grants_listed_origins [OF out, of "''http://LOCALHOST:5173''"] out show ?thesis
    by (simp add: ok_handler_def demo_request_def DefaultDevOrigins_def)
qed

section \<open>Rate limiting\<close>

lemma Itoa_no_colon: "CHR '':'' \<notin> set (Itoa i)"
  using set_nat_str [of "CHR '':''"] by (auto simp: Itoa_def is_digit_def)

lemma split_at_last:
  "xs @ c # ys = xs' @ c # ys' \<Longrightarrow> c \<notin> set ys \<Longrightarrow> c \<notin> set ys' \<Longrightarrow> xs = xs' \<and> ys = ys'"
proof (induction xs arbitrary: xs')
  case Nil
  then show ?case by (cases xs') auto
next
  case (Cons x xs)
  show ?case
  proof (cases xs')
    case Nil
    with Cons.prems show ?thesis by auto
  next
    case (Cons z zs)
    with Cons.IH [of zs] Cons.prems show ?thesis by auto
  qed
qed

lemma Itoa_inj: "Itoa i = Itoa j \<Longrightarrow> i = j"
proof -
  have nd: "Itoa i \<noteq> CHR ''-'' # xs" if "0 \<le> i" for i xs
  proof
    assume "Itoa i = CHR ''-'' # xs"
    with that have "CHR ''-'' \<in> set (nat_str (nat i))" by (simp add: Itoa_def)
    from set_nat_str [OF this] show False by (simp add: is_digit_def)
  qed
  assume eq: "Itoa i = Itoa j"
  show ?thesis
  proof (cases "i < 0")
    case True
    with eq have "Itoa j = CHR ''-'' # nat_str (nat (- i))" by (simp add: Itoa_def)
    with nd [of j] have "j < 0" by force
    with eq True nat_str_inj [of "nat (- i)" "nat (- j)"] show ?thesis by (simp add: Itoa_def)
  next
    case False
    with eq nd [of i "nat_str (nat (- j))"] have "0 \<le> j" by (cases "j < 0") (simp_all add: Itoa_def)
    with eq False nat_str_inj [of "nat i" "nat j"] show ?thesis by (simp add: Itoa_def)
  qed
qed

lemma bucketKey_inj [simp]: "bucketKey t m = bucketKey t' m' \<longleftrightarrow> t = t' \<and> m = m'"
  using split_at_last [of t "CHR '':''" "Itoa m" t' "Itoa m'"] Itoa_no_colon Itoa_inj by (auto simp: bucketKey_def)

lemma map_of_overwrite:
  "map_of (map (\<lambda>(i, m). (i, if i = j then n else m)) bs) k = (if k = j then map_option (\<lambda>_. n) (map_of bs k) else map_of bs k)"
  by (induction bs) auto

lemma map_of_set_bucket [simp]: "map_of (set_bucket j n bs) k = (if k = j then Some n else map_of bs k)"
proof (cases "j \<in> fst ` set bs")
  case True
  then obtain m where "map_of bs j = Some m" by (metis map_of_eq_None_iff not_None_eq)
  with True show ?thesis by (simp add: set_bucket_def map_of_overwrite)
next
  case False
  then have "map_of bs j = None" by (simp add: map_of_eq_None_iff)
  with False show ?thesis by (simp add: set_bucket_def map_add_def split: option.split)
qed

lemma bucket_count_set [simp]: "bucket_count k (set_bucket j n bs) = (if k = j then n else bucket_count k bs)"
  by (simp add: bucket_count_def)

text \<open>A run of requests of the given tenants at the given times; the entries tell which were let through.\<close>

fun rate_run :: "(string \<times> int) list \<Rightarrow> auth_state \<times> 'w world_scheme \<Rightarrow> bool list" where
  "rate_run [] sw = []"
| "rate_run ((t, now) # reqs) (s, w) =
     (let (out, sw) = RateLimitMiddleware ok_handler ((demo_request ''GET'' [] [])\<lparr>rq_tenant := Some t\<rparr>) (s, w\<lparr>w_now := now\<rparr>)
      in (status_of out = 200) # rate_run reqs sw)"

definition in_bucket :: "string \<Rightarrow> int \<Rightarrow> string \<times> int \<Rightarrow> bool" where
  "in_bucket t m = (\<lambda>(t', now). t' = t \<and> Unix now div 60 = m)"

lemma length_rate_run [simp]: "length (rate_run reqs sw) = length reqs"
  by (induction reqs sw rule: rate_run.induct) (auto split: prod.splits)

lemma rate_step:
  "RateLimitMiddleware ok_handler (r\<lparr>rq_tenant := Some t\<rparr>) (s, w) = (out, s', w') \<Longrightarrow> t \<noteq> [] \<Longrightarrow>
     let k = bucketKey t (Unix (w_now w) div 60); n = bucket_count k (au_buckets s)
     in (status_of out = 200 \<longleftrightarrow> n < 100) \<and> au_buckets s' = set_bucket k (if n < 100 then n + 1 else n) (au_buckets s)"
  by (auto simp: RateLimitMiddleware_def GetTenantID_def Let_def ok_handler_def split: if_splits)

lemma rate_run_count:
  assumes "t \<noteq> []" and "\<forall>(t', _)\<in>set reqs. t' \<noteq> []" and "0 \<le> n" and "n \<le> 100"
    and "bucket_count (bucketKey t m) (au_buckets (fst sw)) = n"
  shows "int (length (filter (\<lambda>(q, ok). in_bucket t m q \<and> ok) (zip reqs (rate_run reqs sw)))) =
    min (100 - n) (int (length (filter (in_bucket t m) reqs)))"
  using assms(2-5)
proof (induction reqs sw arbitrary: n rule: rate_run.induct)
  case (2 t' now reqs s w)
  let ?r = "(demo_request ''GET'' [] [])\<lparr>rq_tenant := Some t'\<rparr>"
  obtain out s' w' where st: "RateLimitMiddleware ok_handler ?r (s, w\<lparr>w_now := now\<rparr>) = (out, s', w')"
    by (cases "RateLimitMiddleware ok_handler ?r (s, w\<lparr>w_now := now\<rparr>)") auto
  define k where "k = bucketKey t' (Unix now div 60)"
  define c where "c = bucket_count k (au_buckets s)"
  from rate_step [OF st] 2(2) have out: "status_of out = 200 \<longleftrightarrow> c < 100"
    and s': "au_buckets s' = set_bucket k (if c < 100 then c + 1 else c) (au_buckets s)"
    by (simp_all add: Let_def k_def c_def)
  show ?case
  proof (cases "in_bucket t m (t', now)")
    case True
    then have k: "k = bucketKey t m" by (simp add: in_bucket_def k_def)
    with 2(5) have cn: "c = n" by (simp add: c_def)
    have "bucket_count (bucketKey t m) (au_buckets (fst (s', w'))) = (if n < 100 then n + 1 else n)"
      using s' cn k by simp
    from 2(1) [OF st [symmetric] refl _ _ _ this] 2(2-4) True st out cn show ?thesis by auto
  next
    case False
    then have "bucketKey t m \<noteq> k" by (auto simp: in_bucket_def k_def)
    then have "bucket_count (bucketKey t m) (au_buckets (fst (s', w'))) = n" using s' 2(5) by simp
    from 2(1) [OF st [symmetric] refl _ _ _ this] 2(2-4) False st show ?thesis by auto
  qed
qed simp

text \<open>The rate limit is exact and per tenant. Over any sequence of requests of any tenants at any times, the
  number of a tenant's requests let through in a minute is the number it made in that minute, but at most
  100: no tenant is ever throttled below that by another one, and none gets more.\<close>

theorem rate_limit_exact:
  assumes "t \<noteq> []" and "\<forall>(t', _)\<in>set reqs. t' \<noteq> []"
  shows "int (length (filter (\<lambda>(q, ok). in_bucket t m q \<and> ok) (zip reqs (rate_run reqs (empty_auth, w))))) =
    min 100 (int (length (filter (in_bucket t m) reqs)))"
  using rate_run_count [OF assms, of 0 m "(empty_auth, w)"] by (simp add: empty_auth_def bucket_count_def)

theorem rate_limit_exact_witness:
  "int (length (filter (\<lambda>(q, ok). in_bucket ''a'' 0 q \<and> ok)
     (zip (replicate 150 (''a'', 0) @ [(''b'', 0)]) (rate_run (replicate 150 (''a'', 0) @ [(''b'', 0)]) (empty_auth, demo_world))))) = 100"
  using rate_limit_exact [of "''a''" "replicate 150 (''a'', 0) @ [(''b'', 0)]" 0 demo_world]
  by (simp add: in_bucket_def Unix_def)

section \<open>Tokens\<close>

text \<open>What is relied on in the JWT library: a token is accepted only before its expiry time, and a token it has
  signed is read back with its claims under the same key, as long as it has not expired; after that the
  error is the one for expiry.\<close>

definition jwt_expiry_checked :: "key_manager \<Rightarrow> bool" where
  "jwt_expiry_checked km \<longleftrightarrow> (\<forall>tok key now c e. km_Parse km tok key now = Inr c \<and> cl_ExpiresAt c = Some e \<longrightarrow> now < e)"

definition jwt_reads_back :: "key_manager \<Rightarrow> bool" where
  "jwt_reads_back km \<longleftrightarrow> (\<forall>c secret tok key now e.
     km_Sign km c secret = Inr tok \<and> key (AlgHMAC ''HS256'') = Inr secret \<and> cl_ExpiresAt c = Some e \<longrightarrow>
       tok \<noteq> [] \<and> km_Parse km tok key now = (if now < e then Inr c else Inl JwtExpired))"

text \<open>A run of verifications at given times; the results in order.\<close>

fun verify_run :: "key_manager \<Rightarrow> (int \<times> string) list \<Rightarrow> auth_state \<times> 'w world_scheme \<Rightarrow> claims res list" where
  "verify_run km [] sw = []"
| "verify_run km ((now, tok) # reqs) (s, w) =
     (let (r, sw) = Verify km tok (s, w\<lparr>w_now := now\<rparr>) in r # verify_run km reqs sw)"

definition proved :: "key_manager \<Rightarrow> (int \<times> string) list \<Rightarrow> string \<Rightarrow> claims \<Rightarrow> int \<Rightarrow> bool" where
  "proved km reqs k c t \<longleftrightarrow> (\<exists>tok. (t, tok) \<in> set reqs \<and> km_sha256 km tok = k \<and>
     km_Parse km tok (signing_key km) t = Inr c \<and> cl_TenantID c \<noteq> [])"

definition cache_ok :: "key_manager \<Rightarrow> (int \<times> string) list \<Rightarrow> auth_state \<Rightarrow> bool" where
  "cache_ok km reqs s \<longleftrightarrow> (\<forall>(k, c, x)\<in>set (au_cache s). proved km reqs k c (x - 5 * Minute))"

lemma Verify_sound:
  assumes "cache_ok km reqs s" and "(w_now w, tok) \<in> set reqs" and "Verify km tok (s, w) = (r, s', w')"
  shows "cache_ok km reqs s' \<and> (\<forall>c. r = Inr c \<longrightarrow> (\<exists>t. proved km reqs (km_sha256 km tok) c t \<and> w_now w < t + 5 * Minute))"
proof (cases "tok = [] \<or> cache_get km (km_sha256 km tok) (w_now w) (au_cache s) \<noteq> None")
  case True
  then show ?thesis
  proof
    assume "tok = []"
    with assms(1,3) show ?thesis by (auto simp: Verify_def)
  next
    assume "cache_get km (km_sha256 km tok) (w_now w) (au_cache s) \<noteq> None"
    then obtain c x where hit: "map_of (au_cache s) (km_sha256 km tok) = Some (c, x)" "w_now w < x"
      "cache_get km (km_sha256 km tok) (w_now w) (au_cache s) = Some c"
      by (auto simp: cache_get_def split: option.splits if_splits)
    from assms(1) map_of_SomeD [OF hit(1)] have p: "proved km reqs (km_sha256 km tok) c (x - 5 * Minute)"
      by (auto simp: cache_ok_def)
    show ?thesis
    proof (cases "tok = []")
      case False
      with assms(3) hit(3) have "r = Inr c" "s' = s" by (auto simp: Verify_def Let_def)
      with p hit(2) assms(1) show ?thesis by (intro conjI allI impI exI [of _ "x - 5 * Minute"]) auto
    qed (use assms(1,3) in \<open>auto simp: Verify_def\<close>)
  qed
next
  case False
  then have miss: "tok \<noteq> []" "cache_get km (km_sha256 km tok) (w_now w) (au_cache s) = None" by auto
  show ?thesis
  proof (cases "\<exists>c. km_Parse km tok (signing_key km) (w_now w) = Inr c \<and> cl_TenantID c \<noteq> []")
    case True
    then obtain c where c: "km_Parse km tok (signing_key km) (w_now w) = Inr c" "cl_TenantID c \<noteq> []" by blast
    with assms(2) have p: "proved km reqs (km_sha256 km tok) c (w_now w)" by (auto simp: proved_def)
    from miss c assms(3) have "r = Inr c" "au_cache s' = (km_sha256 km tok, c, w_now w + 5 * Minute) # au_cache s"
      by (auto simp: Verify_def Let_def)
    with p assms(1) show ?thesis by (auto simp: cache_ok_def duration_units intro: exI [of _ "w_now w"])
  next
    case no: False
    with miss assms(1,3) show ?thesis
      by (auto simp: Verify_def Let_def split: sum.splits jwt_error.splits if_splits)
  qed
qed

lemma Verify_world: "Verify km tok (s, w) = (r, s', w') \<Longrightarrow> w' = w"
  by (auto simp: Verify_def Let_def split: if_splits option.splits sum.splits jwt_error.splits)

lemma verify_run_sound:
  assumes "cache_ok km all (fst sw)" and "set reqs \<subseteq> set all" and "i < length reqs" and "verify_run km reqs sw ! i = Inr c"
  shows "\<exists>t. proved km all (km_sha256 km (snd (reqs ! i))) c t \<and> fst (reqs ! i) < t + 5 * Minute"
  using assms
proof (induction km reqs sw arbitrary: i rule: verify_run.induct)
  case (2 km now tok reqs s w)
  obtain r s' w' where v: "Verify km tok (s, w\<lparr>w_now := now\<rparr>) = (r, s', w')"
    by (cases "Verify km tok (s, w\<lparr>w_now := now\<rparr>)") auto
  from Verify_sound [OF _ _ v, of all] 2(2,3) have ok: "cache_ok km all s'"
    and hd: "r = Inr c \<Longrightarrow> \<exists>t. proved km all (km_sha256 km tok) c t \<and> now < t + 5 * Minute" by auto
  show ?case
  proof (cases i)
    case 0
    with 2(5) v hd show ?thesis by simp
  next
    case (Suc j)
    with 2(1) [OF v [symmetric] refl, of j] 2(3-5) ok v show ?thesis by auto
  qed
qed simp

text \<open>C24: What an accepted token means. Over any sequence of verifications, at any times and whatever the cache
  evicts, a token is accepted only if the JWT library accepted a token with the same digest, under the
  HMAC secret, in a verification of this sequence less than five minutes before; the claims returned are
  the ones it found, with a tenant that is not empty; and they are expired for less than five minutes. A
  cached acceptance can thus outlive the token's expiry, by no more than the five minutes of the cache.\<close>

theorem verify_staleness_bound:
  assumes "jwt_expiry_checked km" and "i < length reqs" and "verify_run km reqs (empty_auth, w) ! i = Inr c"
  shows "cl_TenantID c \<noteq> [] \<and>
    (\<exists>t tok. (t, tok) \<in> set reqs \<and> km_sha256 km tok = km_sha256 km (snd (reqs ! i)) \<and>
       km_Parse km tok (signing_key km) t = Inr c \<and> fst (reqs ! i) < t + 5 * Minute) \<and>
    (\<forall>e. cl_ExpiresAt c = Some e \<longrightarrow> fst (reqs ! i) < e + 5 * Minute)"
proof -
  have "cache_ok km reqs (fst (empty_auth, w))" by (simp add: cache_ok_def empty_auth_def)
  from verify_run_sound [OF this subset_refl assms(2,3)] obtain t tok where
    t: "(t, tok) \<in> set reqs" "km_sha256 km tok = km_sha256 km (snd (reqs ! i))"
      "km_Parse km tok (signing_key km) t = Inr c" "cl_TenantID c \<noteq> []" "fst (reqs ! i) < t + 5 * Minute"
    by (auto simp: proved_def)
  moreover have "t < e" if "cl_ExpiresAt c = Some e" for e
    using assms(1) t(3) that unfolding jwt_expiry_checked_def by blast
  ultimately show ?thesis by fastforce
qed

text \<open>A concrete key manager: the token spells the expiry time in decimal, for tenant ``dev''.\<close>

definition demo_claims :: "int \<Rightarrow> claims" where
  "demo_claims e = \<lparr>cl_TenantID = ''dev'', cl_Scopes = [''jobs:read''], cl_IssuedAt = Some 0, cl_ExpiresAt = Some e\<rparr>"

definition demo_km :: key_manager where
  "demo_km = \<lparr>km_secret = ''s'',
     km_Sign = (\<lambda>c k. case cl_ExpiresAt c of Some e \<Rightarrow> if c = demo_claims e \<and> in_int64 e then Inr (Itoa e) else Inl (ErrNew ''claims'')
                       | None \<Rightarrow> Inl (ErrNew ''claims'')),
     km_Parse = (\<lambda>tok key now. case Atoi tok of None \<Rightarrow> Inl (JwtError ''malformed'')
                   | Some e \<Rightarrow> if now < e then Inr (demo_claims e) else Inl JwtExpired),
     km_Numeric = (\<lambda>t. t), km_sha256 = (\<lambda>t. t), km_keeps = (\<lambda>_ _. True)\<rparr>"

lemma Itoa_nonempty [simp]: "Itoa i \<noteq> []"
  by (simp add: Itoa_def)

lemma demo_km_laws: "jwt_expiry_checked demo_km" "jwt_reads_back demo_km"
proof -
  show "jwt_expiry_checked demo_km"
    by (auto simp: jwt_expiry_checked_def demo_km_def demo_claims_def split: option.splits if_splits)
  show "jwt_reads_back demo_km"
    unfolding jwt_reads_back_def by (auto simp: demo_km_def Atoi_Itoa split: option.splits if_splits)
qed

text \<open>The second verification, two minutes after the expiry at time 1, is answered from the cache.\<close>

theorem verify_staleness_bound_witness:
  "verify_run demo_km [(0, ''1''), (2 * Minute, ''1'')] (empty_auth, demo_world) ! 1 = Inr (demo_claims 1) \<and>
   2 * Minute < 1 + 5 * Minute"
proof -
  have at: "Atoi ''1'' = Some 1" by code_simp
  have v: "verify_run demo_km [(0, ''1''), (2 * Minute, ''1'')] (empty_auth, demo_world) ! 1 = Inr (demo_claims 1)"
    using at by (simp add: Verify_def demo_km_def cache_get_def empty_auth_def demo_claims_def duration_units)
  have "1 < length [(0, ''1''), (2 * Minute, ''1'')]" by simp
  from verify_staleness_bound [OF demo_km_laws(1) this v] v show ?thesis by (simp add: demo_claims_def)
qed



section \<open>What stands before a handler\<close>

text \<open>
  The contract between the authentication middleware and the key manager it calls: an accepted token has
  a tenant. A handler behind the middleware is then entered with that tenant in its context.
\<close>

locale authenticator =
  fixes verify :: "string \<Rightarrow> auth_state \<times> 'w world_scheme \<Rightarrow> claims res \<times> auth_state \<times> 'w world_scheme"
    and sound :: "auth_state \<Rightarrow> bool"
  assumes verify_tenant: "sound s \<Longrightarrow> verify tok (s, w) = (Inr c, s', w') \<Longrightarrow> cl_TenantID c \<noteq> []"
    and verify_sound: "sound s \<Longrightarrow> verify tok (s, w) = (v, s', w') \<Longrightarrow> sound s' \<and> w' = w \<and> au_buckets s' = au_buckets s"
begin

lemma auth_cases:
  assumes "sound s" and "AuthMiddleware verify nxt r (s, w) = (out, s', w')"
  obtains msg where "out = writeJSONError 401 msg" "sound s'" "w' = w"
  | c s1 where "verify (TrimPrefix (rq_Authorization r) ''Bearer '') (s, w) = (Inr c, s1, w)" "sound s1"
      "GetTenantID ((SetTenantID (cl_TenantID c) r)\<lparr>rq_claims := Some c\<rparr>) = Some (cl_TenantID c)"
      "nxt ((SetTenantID (cl_TenantID c) r)\<lparr>rq_claims := Some c\<rparr>) (s1, w) = (out, s', w')"
proof (cases "HasPrefix (rq_Authorization r) ''Bearer ''")
  case False
  with assms that(1) show thesis by (auto simp: AuthMiddleware_def)
next
  case True
  obtain v s1 w1 where v: "verify (TrimPrefix (rq_Authorization r) ''Bearer '') (s, w) = (v, s1, w1)"
    by (cases "verify (TrimPrefix (rq_Authorization r) ''Bearer '') (s, w)") auto
  from verify_sound [OF assms(1) v] have s1: "sound s1" "w1 = w" by auto
  show thesis
  proof (cases v)
    case (Inl e)
    with True v s1 assms(2) that(1) show thesis by (auto simp: AuthMiddleware_def)
  next
    case (Inr c)
    with v s1 have "verify (TrimPrefix (rq_Authorization r) ''Bearer '') (s, w) = (Inr c, s1, w)" by simp
    from verify_tenant [OF assms(1) this] this show thesis
      using that(2) [of c s1] True v s1 Inr assms(2) by (auto simp: AuthMiddleware_def GetTenantID_def SetTenantID_def)
  qed
qed

end

definition cached_tenants :: "auth_state \<Rightarrow> bool" where
  "cached_tenants s \<longleftrightarrow> (\<forall>(k, c, x)\<in>set (au_cache s). cl_TenantID c \<noteq> [])"

interpretation km: authenticator "Verify km" cached_tenants for km :: key_manager
proof unfold_locales
  fix s tok and w :: "'w world_scheme" and c s' w'
  assume ok: "cached_tenants s" and v: "Verify km tok (s, w) = (Inr c, s', w')"
  then show "cl_TenantID c \<noteq> []"
    by (auto simp: Verify_def Let_def cache_get_def cached_tenants_def
        split: if_splits option.splits sum.splits jwt_error.splits dest!: map_of_SomeD)
next
  fix s tok and w :: "'w world_scheme" and v s' w'
  assume "cached_tenants s" "Verify km tok (s, w) = (v, s', w')"
  then show "cached_tenants s' \<and> w' = w \<and> au_buckets s' = au_buckets s"
    by (auto simp: Verify_def Let_def cached_tenants_def split: if_splits option.splits sum.splits jwt_error.splits)
qed

end
