(* ===== verification/Budget.thy ===== *)
theory Budget
  imports Jobs GoTime
begin

text \<open>
  The campaign budget of \<open>internal/agent/budget.go\<close>: the caps and their wire form, what a campaign has
  spent against them, and the planner's token usage with its price.
\<close>

section \<open>The budget and its wire form\<close>

record budget =
  MaxTrials :: int
  MaxDuration :: int
  MaxTurns :: int

record budget_json =
  bj_MaxTrials :: int
  bj_MaxDuration :: string
  bj_MaxTurns :: int

definition Budget_MarshalJSON :: "budget \<Rightarrow> budget_json" where
  "Budget_MarshalJSON b =
     \<lparr>bj_MaxTrials = MaxTrials b, bj_MaxDuration = Duration_String (MaxDuration b), bj_MaxTurns = MaxTurns b\<rparr>"

definition Budget_UnmarshalJSON :: "budget_json \<Rightarrow> budget res" where
  "Budget_UnmarshalJSON raw =
     (if bj_MaxDuration raw = []
      then Inr \<lparr>MaxTrials = bj_MaxTrials raw, MaxDuration = 0, MaxTurns = bj_MaxTurns raw\<rparr>
      else case ParseDuration (bj_MaxDuration raw) of
             Inl e \<Rightarrow> Inl (Wrap (''budget: max_duration '' @ quoted (bj_MaxDuration raw) @ '' is not a duration: '') e [])
           | Inr d \<Rightarrow> Inr \<lparr>MaxTrials = bj_MaxTrials raw, MaxDuration = d, MaxTurns = bj_MaxTurns raw\<rparr>)"

definition DefaultBudget :: budget where
  "DefaultBudget = \<lparr>MaxTrials = 6, MaxDuration = 2 * Hour, MaxTurns = 40\<rparr>"

definition Budget_Validate :: "budget \<Rightarrow> goerr option" where
  "Budget_Validate b =
     (if MaxTrials b < 1 then Some (ErrNew (''budget: max_trials must be at least 1, got '' @ Itoa (MaxTrials b)))
      else if MaxDuration b \<le> 0
      then Some (ErrNew (''budget: max_duration must be positive, got '' @ Duration_String (MaxDuration b)))
      else if MaxTurns b < 1 then Some (ErrNew (''budget: max_turns must be at least 1, got '' @ Itoa (MaxTurns b)))
      else None)"

definition budget_ok :: "budget \<Rightarrow> bool" where
  "budget_ok b \<longleftrightarrow> 1 \<le> MaxTrials b \<and> 0 < MaxDuration b \<and> 1 \<le> MaxTurns b"

lemma Budget_Validate_None: "Budget_Validate b = None \<longleftrightarrow> budget_ok b"
  by (auto simp: Budget_Validate_def budget_ok_def)

text \<open>A budget of whole seconds crosses the wire and the JSONB column unchanged: decoding what
  \<open>MarshalJSON\<close> writes gives the same budget back, for every duration of whole seconds that fits 64 bits,
  negative ones included; and a budget written without a duration reads back as zero.\<close>

theorem Budget_JSON_roundtrip:
  assumes "in_int64 (MaxDuration b)" and "Second dvd MaxDuration b"
  shows "Budget_UnmarshalJSON (Budget_MarshalJSON b) = Inr b"
proof -
  obtain s where s: "MaxDuration b = s * Second" using assms(2) by (auto elim: dvdE simp: mult.commute)
  have p: "ParseDuration (Duration_String (MaxDuration b)) = Inr (MaxDuration b)"
    using ParseDuration_String_seconds [of s] assms(1) s by simp
  then have "Duration_String (MaxDuration b) \<noteq> []" by (auto simp: ParseDuration_def)
  with p show ?thesis by (simp add: Budget_UnmarshalJSON_def Budget_MarshalJSON_def)
qed

theorem Budget_JSON_roundtrip_witness:
  "Budget_UnmarshalJSON (Budget_MarshalJSON DefaultBudget) = Inr DefaultBudget"
  by (rule Budget_JSON_roundtrip) (simp_all add: DefaultBudget_def duration_units in_int64_def)

section \<open>Spending\<close>

record usage =
  InputTokens :: int
  u_OutputTokens :: int
  CacheReadTokens :: int
  CacheCreationTokens :: int
  Turns :: int

definition zero_usage :: usage where
  "zero_usage = \<lparr>InputTokens = 0, u_OutputTokens = 0, CacheReadTokens = 0, CacheCreationTokens = 0, Turns = 0\<rparr>"

record spend =
  sp_budget :: budget
  sp_started :: int
  sp_trials :: int
  sp_turns :: int
  sp_usage :: usage

definition newSpend :: "budget \<Rightarrow> int \<Rightarrow> spend" where
  "newSpend b now = \<lparr>sp_budget = b, sp_started = now, sp_trials = 0, sp_turns = 0, sp_usage = zero_usage\<rparr>"

definition elapsed :: "spend \<Rightarrow> int \<Rightarrow> int" where
  "elapsed s now = now - sp_started s"

definition trialsLeft :: "spend \<Rightarrow> int" where
  "trialsLeft s = MaxTrials (sp_budget s) - sp_trials s"

definition timeLeft :: "spend \<Rightarrow> int \<Rightarrow> int" where
  "timeLeft s now = MaxDuration (sp_budget s) - elapsed s now"

text \<open>\<open>Some why\<close> when no further trial may start.\<close>

definition exhausted :: "spend \<Rightarrow> int \<Rightarrow> string option" where
  "exhausted s now =
     (if sp_trials s \<ge> MaxTrials (sp_budget s)
      then Some (''trial budget exhausted ('' @ Itoa (sp_trials s) @ '' of ''
                 @ Itoa (MaxTrials (sp_budget s)) @ '' used)'')
      else if elapsed s now \<ge> MaxDuration (sp_budget s)
      then Some (''time budget exhausted ('' @ Duration_String (Duration_Round (elapsed s now) Second)
                 @ '' of '' @ Duration_String (MaxDuration (sp_budget s)) @ '' elapsed)'')
      else None)"

lemma exhausted_None:
  "exhausted s now = None \<longleftrightarrow> sp_trials s < MaxTrials (sp_budget s) \<and> elapsed s now < MaxDuration (sp_budget s)"
  by (auto simp: exhausted_def)

section \<open>The price of planning\<close>

definition modelPricing :: "string \<Rightarrow> (real \<times> real) option" where
  "modelPricing = map_of [(''claude-opus-5'', (5, 25)), (''claude-sonnet-5'', (2, 10)), (''claude-haiku-4-5'', (1, 5))]"

definition EstimateUSD :: "usage \<Rightarrow> string \<Rightarrow> real \<times> bool" where
  "EstimateUSD u model =
     (case modelPricing model of
        None \<Rightarrow> (0, False)
      | Some (input, output) \<Rightarrow>
          (of_int (InputTokens u) / 1000000 * input
           + of_int (u_OutputTokens u) / 1000000 * output
           + of_int (CacheReadTokens u) / 1000000 * input * (1 / 10)
           + of_int (CacheCreationTokens u) / 1000000 * input * (125 / 100), True))"

end
