(* ===== verification/Agent.thy ===== *)
theory Agent
  imports Budget Router
begin

text \<open>
  The campaign agent of \<open>internal/agent\<close>: the tool calls of \<open>tools.go\<close>, the events, the loop and the
  mechanical conclusion of \<open>agent.go\<close>. The platform the agent acts on is a record of functions, as the Go
  interface is; the Anthropic planner is a third-party service and so a function too. All of them run on
  a state \<open>'w\<close> that the agent does not look into. A tool's answer is a \<open>content\<close> value: its text, or the
  value that the code encodes as JSON together with the text around it.
\<close>

section \<open>Types\<close>

record agent_worker =
  aw_ID :: string
  aw_GPUType :: string
  aw_Status :: string

record trial_spec =
  ts_Model :: string
  ts_Engine :: string
  ts_GPUProfile :: string
  ts_Workload :: workload_config
  ts_EngineConfig :: engine_config

record trial =
  tr_Spec :: trial_spec
  tr_Result :: result
  tr_Err :: string
  tr_Duration :: int
  tr_Hypothesis :: string
  tr_Reused :: bool

definition OK :: "trial \<Rightarrow> bool" where
  "OK t \<longleftrightarrow> tr_Err t = [] \<and> r_TokPerSec (tr_Result t) > 0"

datatype event_kind =
  EventPlan | EventThinking | EventTrialStart | EventTrialDone | EventTrialFailed | EventLookup | EventWarn | EventDone

record event =
  ev_Kind :: event_kind
  ev_Text :: string
  ev_Trial :: "trial_spec option"
  ev_Result :: "result option"
  ev_Elapsed :: int

definition mk_event :: "event_kind \<Rightarrow> string \<Rightarrow> event" where
  "mk_event k txt = \<lparr>ev_Kind = k, ev_Text = txt, ev_Trial = None, ev_Result = None, ev_Elapsed = 0\<rparr>"

record agent_campaign =
  ac_Goal :: string
  ac_Model :: string
  ac_GPUProfile :: string
  ac_Workload :: workload_config
  ac_Engines :: "string list"
  ac_Budget :: budget

record recommendation =
  rec_Engine :: string
  rec_EngineConfig :: engine_config
  rec_Reasoning :: string
  rec_RunnerUp :: string
  rec_Confidence :: string
  rec_Caveats :: string
  rec_Measured :: "result option"
  rec_Fallback :: bool

record report =
  rp_Campaign :: agent_campaign
  rp_Recommendation :: "recommendation option"
  rp_Trials :: "trial list"
  rp_Usage :: usage
  rp_PlannerModel :: string
  rp_Elapsed :: int

definition DefaultModel :: string where
  "DefaultModel = ''claude-opus-5''"

definition ErrNoRecommendation :: goerr where
  "ErrNoRecommendation = Sentinel ''agent: campaign produced no usable measurement''"

section \<open>The platform, the planner and the agent\<close>

record 'w platform =
  pf_ListWorkers :: "'w \<Rightarrow> agent_worker list res \<times> 'w"
  pf_ClassifyWorkload :: "classification_input \<Rightarrow> 'w \<Rightarrow> classification_result res \<times> 'w"
  pf_RunBenchmark :: "trial_spec \<Rightarrow> 'w \<Rightarrow> result res \<times> 'w"
  pf_HistoricalResults :: "string \<Rightarrow> string \<Rightarrow> int \<Rightarrow> 'w \<Rightarrow> result list res \<times> 'w"

text \<open>The arguments of a tool call as the planner wrote them: whether they decode, and the fields the tools
  read, with Go's zero value for what is missing.\<close>

record tool_input =
  ti_Err :: "string option"
  ti_StructuredOutput :: bool
  ti_ToolCalls :: bool
  ti_SharedPrefixRatio :: real
  ti_Engine :: string
  ti_SinceHours :: int
  ti_Hypothesis :: string
  ti_Config :: engine_config
  ti_Reasoning :: string
  ti_RunnerUp :: string
  ti_Confidence :: string
  ti_Caveats :: string

datatype block = TextBlock string | ThinkingBlock string | ToolUseBlock string string tool_input | OtherBlock

datatype stop_reason = StopToolUse | StopRefusal string string | StopOther

record planner_reply =
  pr_Usage :: usage
  pr_StopReason :: stop_reason
  pr_Content :: "block list"

datatype content =
    CText string
  | CWorkers "agent_worker list"
  | CClass classification_result
  | CResults "result list"
  | CReused result
  | CMeasured result string

datatype message =
    UserText string
  | Assistant planner_reply
  | ToolResults "(string \<times> content \<times> bool) list"

text \<open>An error of the planner: the API's status code when it is an API error.\<close>

datatype planner_error = ApiError int string | PlainError goerr

text \<open>What the agent is built on: the platform, the planner called with the model's name and the
  conversation, the clock and the observer, if any.\<close>

record 'w agent_env =
  ae_platform :: "'w platform"
  ae_planner :: "string \<Rightarrow> message list \<Rightarrow> 'w \<Rightarrow> (planner_error + planner_reply) \<times> 'w"
  ae_now :: "'w \<Rightarrow> int"
  ae_observer :: "(event \<Rightarrow> 'w \<Rightarrow> 'w) option"

record agent =
  ag_model :: string
  ag_campaign :: agent_campaign
  ag_allowedEngines :: "string list"
  ag_trials :: "trial list"
  ag_recommendation :: "recommendation option"
  ag_spend :: spend

definition emit :: "'w agent_env \<Rightarrow> agent \<Rightarrow> event \<Rightarrow> 'w \<Rightarrow> 'w" where
  "emit env a e w =
     (case ae_observer env of
        None \<Rightarrow> w
      | Some obs \<Rightarrow> obs (e\<lparr>ev_Elapsed := elapsed (ag_spend a) (ae_now env w)\<rparr>) w)"

definition New :: "agent_campaign \<Rightarrow> string \<Rightarrow> int \<Rightarrow> agent res" where
  "New c model now =
     (if ac_Goal c = [] then Inl (ErrNew ''agent: campaign goal is required'')
      else if ac_Model c = [] then Inl (ErrNew ''agent: campaign model is required'')
      else if ac_GPUProfile c = [] then Inl (ErrNew ''agent: campaign gpu_profile is required'')
      else if ac_Engines c = [] then Inl (ErrNew ''agent: at least one candidate engine is required'')
      else case Budget_Validate (ac_Budget c) of
             Some e \<Rightarrow> Inl e
           | None \<Rightarrow> Inr \<lparr>ag_model = (if model \<noteq> [] then model else DefaultModel), ag_campaign = c,
               ag_allowedEngines = ac_Engines c, ag_trials = [], ag_recommendation = None,
               ag_spend = newSpend (ac_Budget c) now\<rparr>)"

section \<open>The tools\<close>

definition findTrial :: "agent \<Rightarrow> trial_spec \<Rightarrow> trial option" where
  "findTrial a spec = List.find (\<lambda>t. tr_Spec t = spec) (ag_trials a)"

definition parse_error :: "string \<Rightarrow> content" where
  "parse_error e = CText (''could not parse arguments: '' @ e)"

definition callListWorkers :: "'w agent_env \<Rightarrow> agent \<Rightarrow> 'w \<Rightarrow> (content \<times> bool) \<times> agent \<times> 'w" where
  "callListWorkers env a w =
     (let w = emit env a (mk_event EventLookup ''checking registered workers'') w;
          (r, w) = pf_ListWorkers (ae_platform env) w
      in case r of
           Inl e \<Rightarrow> ((CText (''could not list workers: '' @ Error e), True), a, w)
         | Inr ws \<Rightarrow>
             if ws = [] then ((CText ''No workers are registered. No benchmark can run until one registers.'', False), a, w)
             else ((CWorkers ws, False), a, w))"

definition callClassify :: "'w agent_env \<Rightarrow> tool_input \<Rightarrow> agent \<Rightarrow> 'w \<Rightarrow> (content \<times> bool) \<times> agent \<times> 'w" where
  "callClassify env inp a w =
     (case ti_Err inp of
        Some e \<Rightarrow> ((parse_error e, True), a, w)
      | None \<Rightarrow>
          let w = emit env a (mk_event EventLookup ''classifying workload shape'') w;
              wl = ac_Workload (ag_campaign a);
              (r, w) = pf_ClassifyWorkload (ae_platform env)
                \<lparr>ci_PromptTokens = PromptTokens wl, ci_OutputTokens = OutputTokens wl,
                 ci_Concurrency = Concurrency wl, ci_StructuredOutput = ti_StructuredOutput inp,
                 ci_ToolCalls = ti_ToolCalls inp, ci_SharedPrefixRatio = ti_SharedPrefixRatio inp\<rparr> w
          in (case r of
                Inl e \<Rightarrow> ((CText (''could not classify workload: '' @ Error e), True), a, w)
              | Inr c \<Rightarrow> ((CClass c, False), a, w)))"

text \<open>The look-back window: \<open>-time.Duration(h) * time.Hour\<close> is 64 bit arithmetic.\<close>

definition since_of :: "int \<Rightarrow> int \<Rightarrow> int" where
  "since_of now hours = now + wrap64 (wrap64 (- hours) * Hour)"

definition callHistorical :: "'w agent_env \<Rightarrow> tool_input \<Rightarrow> agent \<Rightarrow> 'w \<Rightarrow> (content \<times> bool) \<times> agent \<times> 'w" where
  "callHistorical env inp a w =
     (case ti_Err inp of
        Some e \<Rightarrow> ((parse_error e, True), a, w)
      | None \<Rightarrow>
          let hours = (if ti_SinceHours inp \<le> 0 then 168 else ti_SinceHours inp);
              w = emit env a (mk_event EventLookup (''looking up past '' @ ti_Engine inp @ '' results'')) w;
              since = since_of (ae_now env w) hours;
              (r, w) = pf_HistoricalResults (ae_platform env) (ti_Engine inp) (ac_Model (ag_campaign a)) since w
          in (case r of
                Inl e \<Rightarrow> ((CText (''could not read historical results: '' @ Error e), True), a, w)
              | Inr rs \<Rightarrow>
                  if rs = [] then ((CText (''No results for '' @ ti_Engine inp @ '' on '' @ ac_Model (ag_campaign a)
                    @ '' in the last '' @ Itoa hours @ '' hours.''), False), a, w)
                  else ((CResults rs, False), a, w)))"

definition trial_spec_of :: "agent \<Rightarrow> tool_input \<Rightarrow> trial_spec" where
  "trial_spec_of a inp =
     \<lparr>ts_Model = ac_Model (ag_campaign a), ts_Engine = ti_Engine inp,
      ts_GPUProfile = ac_GPUProfile (ag_campaign a), ts_Workload = ac_Workload (ag_campaign a),
      ts_EngineConfig = ti_Config inp\<rparr>"

definition add_trial :: "trial \<Rightarrow> agent \<Rightarrow> agent" where
  "add_trial t a = a\<lparr>ag_trials := ag_trials a @ [t]\<rparr>"

definition count_trial :: "agent \<Rightarrow> agent" where
  "count_trial a = a\<lparr>ag_spend := (ag_spend a)\<lparr>sp_trials := sp_trials (ag_spend a) + 1\<rparr>\<rparr>"

text \<open>The trial proper, once the checks have passed.\<close>

definition run_trial :: "'w agent_env \<Rightarrow> tool_input \<Rightarrow> agent \<Rightarrow> 'w \<Rightarrow> (content \<times> bool) \<times> agent \<times> 'w" where
  "run_trial env inp a w =
     (let spec = trial_spec_of a inp;
          w = emit env a ((mk_event EventTrialStart (ti_Hypothesis inp))\<lparr>ev_Trial := Some spec\<rparr>) w;
          start = ae_now env w;
          (r, w) = pf_RunBenchmark (ae_platform env) spec w;
          a = count_trial a;
          t = \<lparr>tr_Spec = spec, tr_Result = (case r of Inl _ \<Rightarrow> zero_result | Inr x \<Rightarrow> x), tr_Err = [],
               tr_Duration = ae_now env w - start, tr_Hypothesis = ti_Hypothesis inp, tr_Reused = False\<rparr>;
          left = Itoa (trialsLeft (ag_spend a)) @ '' of '' @ Itoa (MaxTrials (ac_Budget (ag_campaign a)))
      in case r of
           Inl e \<Rightarrow>
             let a = add_trial (t\<lparr>tr_Err := Error e\<rparr>) a;
                 w = emit env a ((mk_event EventTrialFailed (Error e))\<lparr>ev_Trial := Some spec\<rparr>) w
             in ((CText (''Benchmark failed: '' @ Error e @ [CHR 0x0A] @ left @ '' trials remain.''), True), a, w)
         | Inr x \<Rightarrow>
             let a = add_trial t a;
                 w = emit env a ((mk_event EventTrialDone [])\<lparr>ev_Trial := Some spec, ev_Result := Some x\<rparr>) w
             in ((CMeasured x (left @ '' trials remain; ''
                    @ Duration_String (Duration_Round (timeLeft (ag_spend a) (ae_now env w)) Second)
                    @ '' of wall clock left.''), False), a, w))"

definition callRunBenchmark :: "'w agent_env \<Rightarrow> tool_input \<Rightarrow> agent \<Rightarrow> 'w \<Rightarrow> (content \<times> bool) \<times> agent \<times> 'w" where
  "callRunBenchmark env inp a w =
     (case ti_Err inp of
        Some e \<Rightarrow> ((parse_error e, True), a, w)
      | None \<Rightarrow>
          if ti_Engine inp \<notin> set (ag_allowedEngines a)
          then ((CText (''engine '' @ quoted (ti_Engine inp) @ '' is not available in this campaign; choose one of: ''
                  @ Join '', '' (ac_Engines (ag_campaign a))), True), a, w)
          else case exhausted (ag_spend a) (ae_now env w) of
                 Some why \<Rightarrow>
                   ((CText (''Trial refused: '' @ why
                      @ ''. Call submit_recommendation now with the best configuration you measured.''), True),
                    a, emit env a (mk_event EventWarn why) w)
               | None \<Rightarrow>
                   (case findTrial a (trial_spec_of a inp) of
                      Some prior \<Rightarrow>
                        ((CReused (tr_Result prior), False),
                         add_trial \<lparr>tr_Spec = trial_spec_of a inp, tr_Result = tr_Result prior, tr_Err = tr_Err prior,
                           tr_Duration = 0, tr_Hypothesis = ti_Hypothesis inp, tr_Reused = True\<rparr> a, w)
                    | None \<Rightarrow> run_trial env inp a w))"

definition callRecommend :: "'w agent_env \<Rightarrow> tool_input \<Rightarrow> agent \<Rightarrow> 'w \<Rightarrow> (content \<times> bool) \<times> agent \<times> 'w" where
  "callRecommend env inp a w =
     (case ti_Err inp of
        Some e \<Rightarrow> ((parse_error e, True), a, w)
      | None \<Rightarrow>
          let r = \<lparr>rec_Engine = ti_Engine inp, rec_EngineConfig = ti_Config inp, rec_Reasoning = ti_Reasoning inp,
                   rec_RunnerUp = ti_RunnerUp inp, rec_Confidence = ti_Confidence inp, rec_Caveats = ti_Caveats inp,
                   rec_Measured = (case findTrial a (trial_spec_of a inp) of
                       Some t \<Rightarrow> if OK t then Some (tr_Result t) else None | None \<Rightarrow> None),
                   rec_Fallback = False\<rparr>;
              a = a\<lparr>ag_recommendation := Some r\<rparr>
          in ((CText ''Recommendation recorded. The campaign is complete.'', False), a,
              emit env a (mk_event EventDone (ti_Reasoning inp)) w))"

definition dispatchTool ::
  "'w agent_env \<Rightarrow> string \<Rightarrow> tool_input \<Rightarrow> agent \<Rightarrow> 'w \<Rightarrow> (content \<times> bool) \<times> agent \<times> 'w" where
  "dispatchTool env name inp a w =
     (if name = ''list_workers'' then callListWorkers env a w
      else if name = ''classify_workload'' then callClassify env inp a w
      else if name = ''historical_results'' then callHistorical env inp a w
      else if name = ''run_benchmark'' then callRunBenchmark env inp a w
      else if name = ''submit_recommendation'' then callRecommend env inp a w
      else ((CText (''unknown tool: '' @ name), True), a, w))"

section \<open>The loop\<close>

definition set_turns :: "(int \<Rightarrow> int) \<Rightarrow> agent \<Rightarrow> agent" where
  "set_turns f a = a\<lparr>ag_spend := (ag_spend a)\<lparr>sp_turns := f (sp_turns (ag_spend a))\<rparr>\<rparr>"

definition add_usage :: "usage \<Rightarrow> agent \<Rightarrow> agent" where
  "add_usage u a =
     (let s = ag_spend a; v = sp_usage s
      in a\<lparr>ag_spend := s\<lparr>sp_usage := v\<lparr>InputTokens := InputTokens v + InputTokens u,
            u_OutputTokens := u_OutputTokens v + u_OutputTokens u,
            CacheReadTokens := CacheReadTokens v + CacheReadTokens u,
            CacheCreationTokens := CacheCreationTokens v + CacheCreationTokens u\<rparr>\<rparr>\<rparr>)"

text \<open>The blocks of one reply, in order; the tool results are collected for the next turn.\<close>

fun run_blocks ::
  "'w agent_env \<Rightarrow> block list \<Rightarrow> agent \<Rightarrow> 'w \<Rightarrow> (string \<times> content \<times> bool) list \<times> agent \<times> 'w" where
  "run_blocks env [] a w = ([], a, w)"
| "run_blocks env (TextBlock t # bs) a w =
     run_blocks env bs a (if t \<noteq> [] then emit env a (mk_event EventPlan t) w else w)"
| "run_blocks env (ThinkingBlock t # bs) a w =
     run_blocks env bs a (if t \<noteq> [] then emit env a (mk_event EventThinking t) w else w)"
| "run_blocks env (OtherBlock # bs) a w = run_blocks env bs a w"
| "run_blocks env (ToolUseBlock i name inp # bs) a w =
     (let ((c, isErr), a, w) = dispatchTool env name inp a w;
          (rs, a, w) = run_blocks env bs a w
      in ((i, c, isErr) # rs, a, w))"

definition emdash :: string where
  "emdash = [CHR 0xE2, CHR 0x80, CHR 0x94]"

definition annotatePlannerError :: "planner_error \<Rightarrow> goerr" where
  "annotatePlannerError err =
     (case err of
        PlainError e \<Rightarrow> e
      | ApiError code msg \<Rightarrow>
          if code = 401 \<or> code = 403
          then Wrap [] (ErrNew msg) ('' '' @ emdash @ '' set ANTHROPIC_API_KEY, or sign in with the Anthropic CLI'')
          else if code = 429
          then Wrap [] (ErrNew msg) ('' '' @ emdash @ '' the planner is rate limited; retry, or lower --max-trials'')
          else ErrNew msg)"

text \<open>One turn: it stops the campaign with an error, finishes it with the submitted recommendation, leaves
  the loop without one, or goes on with the extended conversation.\<close>

datatype turn_result = TurnError goerr | TurnRecommended | TurnBreak | TurnNext "message list"

definition turn :: "'w agent_env \<Rightarrow> message list \<Rightarrow> agent \<Rightarrow> 'w \<Rightarrow> turn_result \<times> agent \<times> 'w" where
  "turn env msgs a w =
     (let a = set_turns (\<lambda>n. n + 1) a;
          (resp, w) = ae_planner env (ag_model a) msgs w
      in case resp of
           Inl err \<Rightarrow>
             (TurnError (Wrap (''planner turn '' @ Itoa (sp_turns (ag_spend a)) @ '': '') (annotatePlannerError err) []), a, w)
         | Inr resp \<Rightarrow>
             let a = add_usage (pr_Usage resp) a
             in (case pr_StopReason resp of
                   StopRefusal cat why \<Rightarrow>
                     (TurnError (ErrNew (''planner declined the request ('' @ cat @ ''): '' @ why)), a, w)
                 | stop \<Rightarrow>
                     let (rs, a, w) = run_blocks env (pr_Content resp) a w
                     in if ag_recommendation a \<noteq> None then (TurnRecommended, a, w)
                        else if stop \<noteq> StopToolUse then (TurnBreak, a, w)
                        else (TurnNext (msgs @ [Assistant resp, ToolResults rs]), a, w)))"

definition usable :: "trial \<Rightarrow> bool" where
  "usable t \<longleftrightarrow> OK t \<and> r_ErrorRate (tr_Result t) \<le> 0 \<and> r_CostPerMTok (tr_Result t) > 0"

fun best_from :: "trial option \<Rightarrow> trial list \<Rightarrow> trial option" where
  "best_from best [] = best"
| "best_from best (t # ts) =
     (if \<not> usable t then best_from best ts
      else case best of
             None \<Rightarrow> best_from (Some t) ts
           | Some b \<Rightarrow> best_from (if r_CostPerMTok (tr_Result t) < r_CostPerMTok (tr_Result b) then Some t else Some b) ts)"

definition bestTrial :: "trial list \<Rightarrow> trial option" where
  "bestTrial ts = best_from None ts"

definition concludeFromTrials :: "'w agent_env \<Rightarrow> agent \<Rightarrow> 'w \<Rightarrow> goerr option \<times> agent \<times> 'w" where
  "concludeFromTrials env a w =
     (case bestTrial (ag_trials a) of
        None \<Rightarrow> (Some ErrNoRecommendation, a, w)
      | Some best \<Rightarrow>
          let w = emit env a (mk_event EventWarn ''planner ended without a recommendation; reporting the best measured trial'') w;
              r = tr_Result best
          in (None, a\<lparr>ag_recommendation := Some
               \<lparr>rec_Engine = ts_Engine (tr_Spec best), rec_EngineConfig = ts_EngineConfig (tr_Spec best),
                rec_Reasoning = ''Selected mechanically after the campaign ended without a conclusion: lowest measured cost per million tokens ($''
                  @ fmt_fixed 4 (r_CostPerMTok r) @ '' at '' @ fmt_fixed 0 (r_TokPerSec r) @ '' tok/s) among ''
                  @ Itoa (int (length (ag_trials a))) @ '' trials.'',
                rec_RunnerUp = [], rec_Confidence = ''low'',
                rec_Caveats = ''Not the planner's judgement. The campaign hit its budget or turn limit first.'',
                rec_Measured = Some r, rec_Fallback = True\<rparr>\<rparr>, w))"

definition report_of :: "'w agent_env \<Rightarrow> agent \<Rightarrow> 'w \<Rightarrow> report" where
  "report_of env a w =
     \<lparr>rp_Campaign = ag_campaign a, rp_Recommendation = ag_recommendation a, rp_Trials = ag_trials a,
      rp_Usage = (sp_usage (ag_spend a))\<lparr>Turns := sp_turns (ag_spend a)\<rparr>, rp_PlannerModel = ag_model a,
      rp_Elapsed = elapsed (ag_spend a) (ae_now env w)\<rparr>"

text \<open>What the tools leave alone: the campaign, the caps and the count of turns.\<close>

definition same_frame :: "agent \<Rightarrow> agent \<Rightarrow> bool" where
  "same_frame a b \<longleftrightarrow> ag_campaign b = ag_campaign a \<and> ag_allowedEngines b = ag_allowedEngines a \<and>
     ag_model b = ag_model a \<and> sp_turns (ag_spend b) = sp_turns (ag_spend a) \<and>
     sp_budget (ag_spend b) = sp_budget (ag_spend a) \<and> sp_started (ag_spend b) = sp_started (ag_spend a)"

lemma same_frame_refl [simp]: "same_frame a a"
  by (simp add: same_frame_def)

lemma same_frame_trans: "same_frame a b \<Longrightarrow> same_frame b c \<Longrightarrow> same_frame a c"
  by (simp add: same_frame_def)

lemmas tool_defs = callListWorkers_def callClassify_def callHistorical_def callRunBenchmark_def run_trial_def
  callRecommend_def

lemma dispatchTool_frame: "dispatchTool env name inp a w = (x, a', w') \<Longrightarrow> same_frame a a'"
  by (auto simp: dispatchTool_def tool_defs Let_def same_frame_def add_trial_def count_trial_def
      split: if_splits option.splits sum.splits prod.splits)

lemma run_blocks_frame: "run_blocks env bs a w = (rs, a', w') \<Longrightarrow> same_frame a a'"
proof (induction env bs a w arbitrary: rs a' w' rule: run_blocks.induct)
  case (5 env i name inp bs a w)
  obtain c isErr a1 w1 where d: "dispatchTool env name inp a w = ((c, isErr), a1, w1)"
    by (metis prod.collapse)
  obtain rs2 a2 w2 where r: "run_blocks env bs a1 w1 = (rs2, a2, w2)" by (metis prod.collapse)
  have "same_frame a1 a2" using 5(1) [of "((c, isErr), a1, w1)"] d r by auto
  with dispatchTool_frame [OF d] have "same_frame a a2" by (rule same_frame_trans)
  with 5(2) d r show ?case by simp
qed auto

lemma turn_frame:
  assumes "turn env msgs a w = (r, a', w')"
  shows "same_frame (set_turns (\<lambda>n. n + 1) a) a'"
proof -
  have u: "same_frame b (add_usage v b)" for v b by (simp add: same_frame_def add_usage_def Let_def)
  from assms show ?thesis
    by (auto simp: turn_def Let_def u split: prod.splits sum.splits stop_reason.splits if_splits
        dest!: run_blocks_frame intro: same_frame_trans [OF u])
qed

lemma turn_turns:
  "turn env msgs a w = (r, a', w') \<Longrightarrow> sp_turns (ag_spend a') = sp_turns (ag_spend a) + 1 \<and>
     ag_campaign a' = ag_campaign a"
  by (drule turn_frame) (auto simp: same_frame_def set_turns_def)

text \<open>\<open>loop\<close> is the \<open>for\<close> statement of \<open>Run\<close>; each iteration uses up one turn.\<close>

function loop :: "'w agent_env \<Rightarrow> message list \<Rightarrow> agent \<Rightarrow> 'w \<Rightarrow> goerr option \<times> agent \<times> 'w" where
  "loop env msgs a w =
     (if sp_turns (ag_spend a) < MaxTurns (ac_Budget (ag_campaign a)) then
        (case turn env msgs a w of
           (TurnError e, a', w') \<Rightarrow> (Some e, a', w')
         | (TurnRecommended, a', w') \<Rightarrow> (None, a', w')
         | (TurnBreak, a', w') \<Rightarrow> concludeFromTrials env a' w'
         | (TurnNext msgs', a', w') \<Rightarrow> loop env msgs' a' w')
      else concludeFromTrials env a w)"
  by pat_completeness auto
termination
  by (relation "measure (\<lambda>(env, msgs, a, w). nat (MaxTurns (ac_Budget (ag_campaign a)) - sp_turns (ag_spend a)))")
     (auto dest: turn_turns [OF sym])

declare loop.simps [simp del]

definition first_message :: "message list" where
  "first_message = [UserText ''Begin the campaign. Check what workers are available first, then plan and run your trials.'']"

definition Run :: "'w agent_env \<Rightarrow> agent \<Rightarrow> 'w \<Rightarrow> (report \<times> goerr option) \<times> 'w" where
  "Run env a w =
     (let a = a\<lparr>ag_spend := (ag_spend a)\<lparr>sp_started := ae_now env w\<rparr>\<rparr>;
          (err, a, w) = loop env first_message a w
      in ((report_of env a w, err), w))"

section \<open>The agent's invariant\<close>

definition fresh :: "agent \<Rightarrow> trial list" where
  "fresh a = filter (\<lambda>t. \<not> tr_Reused t) (ag_trials a)"

definition comparable :: "agent_campaign \<Rightarrow> trial \<Rightarrow> bool" where
  "comparable c t \<longleftrightarrow> ts_Model (tr_Spec t) = ac_Model c \<and> ts_GPUProfile (tr_Spec t) = ac_GPUProfile c \<and>
     ts_Workload (tr_Spec t) = ac_Workload c \<and> ts_Engine (tr_Spec t) \<in> set (ac_Engines c)"

definition grounded :: "trial list \<Rightarrow> recommendation \<Rightarrow> bool" where
  "grounded ts r \<longleftrightarrow> (\<forall>m. rec_Measured r = Some m \<longrightarrow> (\<exists>t\<in>set ts. OK t \<and> tr_Result t = m \<and>
     ts_Engine (tr_Spec t) = rec_Engine r \<and> ts_EngineConfig (tr_Spec t) = rec_EngineConfig r))"

definition agent_inv :: "agent_campaign \<Rightarrow> agent \<Rightarrow> bool" where
  "agent_inv c a \<longleftrightarrow>
     ag_campaign a = c \<and> ag_allowedEngines a = ac_Engines c \<and> sp_budget (ag_spend a) = ac_Budget c \<and>
     (\<forall>t\<in>set (ag_trials a). comparable c t) \<and>
     sp_trials (ag_spend a) = int (length (fresh a)) \<and>
     (0 \<le> MaxTrials (ac_Budget c) \<longrightarrow> sp_trials (ag_spend a) \<le> MaxTrials (ac_Budget c)) \<and>
     distinct (map tr_Spec (fresh a)) \<and>
     (\<forall>t\<in>set (ag_trials a). \<exists>u\<in>set (fresh a). tr_Spec u = tr_Spec t \<and> tr_Result u = tr_Result t \<and> tr_Err u = tr_Err t) \<and>
     (\<forall>r. ag_recommendation a = Some r \<longrightarrow> grounded (ag_trials a) r \<and> \<not> rec_Fallback r)"

lemma agent_inv_New: "New c model now = Inr a \<Longrightarrow> agent_inv c a"
  by (auto simp: New_def agent_inv_def fresh_def newSpend_def split: if_splits option.splits)

lemma grounded_mono: "grounded ts r \<Longrightarrow> set ts \<subseteq> set ts' \<Longrightarrow> grounded ts' r"
  unfolding grounded_def by blast

lemma agent_inv_reuse:
  assumes inv: "agent_inv c a" and prior: "findTrial a spec = Some p"
    and t: "tr_Spec t = spec" "tr_Result t = tr_Result p" "tr_Err t = tr_Err p" "tr_Reused t"
  shows "agent_inv c (add_trial t a)"
proof -
  have p: "p \<in> set (ag_trials a)" "tr_Spec p = spec"
    using prior by (auto simp: findTrial_def dest: find_SomeD)
  have fr: "fresh (add_trial t a) = fresh a" using t by (simp add: fresh_def add_trial_def)
  have "comparable c t" using inv p t by (auto simp: agent_inv_def comparable_def)
  moreover obtain u where "u \<in> set (fresh a)" "tr_Spec u = tr_Spec t" "tr_Result u = tr_Result t" "tr_Err u = tr_Err t"
    using inv p t unfolding agent_inv_def by metis
  ultimately show ?thesis
    using inv unfolding agent_inv_def fr
    by (auto simp: add_trial_def intro: grounded_mono)
qed

lemma agent_inv_fresh:
  assumes inv: "agent_inv c a" and new: "findTrial a spec = None" and room: "sp_trials (ag_spend a) < MaxTrials (ac_Budget c)"
    and t: "tr_Spec t = spec" "\<not> tr_Reused t" and cmp: "comparable c t"
  shows "agent_inv c (add_trial t (count_trial a))"
proof -
  let ?b = "add_trial t (count_trial a)"
  have fr: "fresh ?b = fresh a @ [t]" using t by (simp add: fresh_def add_trial_def count_trial_def)
  have "spec \<notin> tr_Spec ` set (fresh a)"
    using new by (auto simp: findTrial_def find_eq_None fresh_def)
  moreover have "distinct (map tr_Spec (fresh a))" using inv by (simp add: agent_inv_def)
  ultimately have d: "distinct (map tr_Spec (fresh ?b))" using t by (simp add: fr)
  have old: "\<forall>x\<in>set (ag_trials a). \<exists>u\<in>set (fresh ?b). tr_Spec u = tr_Spec x \<and> tr_Result u = tr_Result x \<and> tr_Err u = tr_Err x"
    using inv unfolding agent_inv_def fr set_append by blast
  have tr: "ag_trials ?b = ag_trials a @ [t]" by (simp add: add_trial_def count_trial_def)
  have rest: "ag_campaign ?b = ag_campaign a" "ag_allowedEngines ?b = ag_allowedEngines a"
    "sp_budget (ag_spend ?b) = sp_budget (ag_spend a)" "ag_recommendation ?b = ag_recommendation a"
    "sp_trials (ag_spend ?b) = sp_trials (ag_spend a) + 1"
    by (simp_all add: add_trial_def count_trial_def)
  show ?thesis
    using inv d old room cmp unfolding agent_inv_def rest tr
    by (auto simp: fr intro: grounded_mono)
qed

lemma callRunBenchmark_inv:
  assumes inv: "agent_inv c a" and call: "callRunBenchmark env inp a w = (x, a', w')"
  shows "agent_inv c a'"
proof (cases "ti_Err inp = None \<and> ti_Engine inp \<in> set (ag_allowedEngines a) \<and>
    exhausted (ag_spend a) (ae_now env w) = None")
  case False
  with call have "a' = a" by (auto simp: callRunBenchmark_def split: option.splits if_splits)
  with inv show ?thesis by simp
next
  case True
  have cmp: "comparable c t" if "tr_Spec t = trial_spec_of a inp" for t
    using that True inv by (auto simp: comparable_def trial_spec_of_def agent_inv_def)
  show ?thesis
  proof (cases "findTrial a (trial_spec_of a inp)")
    case (Some p)
    with True call inv show ?thesis
      by (auto simp: callRunBenchmark_def intro: agent_inv_reuse)
  next
    case None
    with True call have run: "run_trial env inp a w = (x, a', w')" by (simp add: callRunBenchmark_def)
    have room: "sp_trials (ag_spend a) < MaxTrials (ac_Budget c)"
      using True inv by (simp add: exhausted_None agent_inv_def)
    obtain t where "a' = add_trial t (count_trial a)" "tr_Spec t = trial_spec_of a inp" "\<not> tr_Reused t"
      using run by (auto simp: run_trial_def Let_def split: prod.splits sum.splits)
    with agent_inv_fresh [OF inv None room] cmp show ?thesis by blast
  qed
qed

lemma callRecommend_inv:
  assumes inv: "agent_inv c a" and call: "callRecommend env inp a w = (x, a', w')"
  shows "agent_inv c a'"
proof -
  have "grounded (ag_trials a) r \<and> \<not> rec_Fallback r" if r: "ag_recommendation a' = Some r" and ok: "ti_Err inp = None" for r
  proof -
    have f: "\<not> rec_Fallback r" "rec_Engine r = ti_Engine inp" "rec_EngineConfig r = ti_Config inp"
      and m: "rec_Measured r = (case findTrial a (trial_spec_of a inp) of
          Some t \<Rightarrow> if OK t then Some (tr_Result t) else None | None \<Rightarrow> None)"
      using call r ok by (auto simp: callRecommend_def Let_def)
    have "\<exists>t\<in>set (ag_trials a). OK t \<and> tr_Result t = x \<and> ts_Engine (tr_Spec t) = rec_Engine r \<and>
        ts_EngineConfig (tr_Spec t) = rec_EngineConfig r" if x: "rec_Measured r = Some x" for x
    proof -
      obtain t where t: "findTrial a (trial_spec_of a inp) = Some t" "OK t" "tr_Result t = x"
        using m x by (auto split: option.splits if_splits)
      then have "t \<in> set (ag_trials a)" "tr_Spec t = trial_spec_of a inp"
        by (auto simp: findTrial_def dest: find_SomeD)
      with t f show ?thesis by (intro bexI [of _ t]) (auto simp: trial_spec_of_def)
    qed
    with f show ?thesis by (auto simp: grounded_def)
  qed
  moreover have "ag_trials a' = ag_trials a" "ag_campaign a' = ag_campaign a" "ag_spend a' = ag_spend a"
      "ag_allowedEngines a' = ag_allowedEngines a" "ti_Err inp \<noteq> None \<Longrightarrow> a' = a"
    using call by (auto simp: callRecommend_def Let_def split: option.splits)
  ultimately show ?thesis
    using inv by (cases "ti_Err inp") (auto simp: agent_inv_def fresh_def)
qed

lemma dispatchTool_inv:
  assumes "agent_inv c a" and "dispatchTool env name inp a w = (x, a', w')"
  shows "agent_inv c a'"
proof (cases "name = ''run_benchmark'' \<or> name = ''submit_recommendation''")
  case True
  with assms(2) show ?thesis
    by (auto simp: dispatchTool_def intro: callRunBenchmark_inv [OF assms(1)] callRecommend_inv [OF assms(1)]
        split: if_splits)
next
  case False
  with assms(2) have "a' = a"
    by (auto simp: dispatchTool_def callListWorkers_def callClassify_def callHistorical_def Let_def
        split: if_splits option.splits prod.splits sum.splits)
  with assms(1) show ?thesis by simp
qed

section \<open>The best trial\<close>

definition cost_of :: "trial \<Rightarrow> real" where
  "cost_of t = r_CostPerMTok (tr_Result t)"

lemma best_from_spec:
  assumes "\<forall>b. best = Some b \<longrightarrow> usable b"
  shows "case best_from best ts of
      None \<Rightarrow> best = None \<and> (\<forall>t\<in>set ts. \<not> usable t)
    | Some b \<Rightarrow> usable b \<and> (best = Some b \<or> b \<in> set ts) \<and>
        (\<forall>b'. best = Some b' \<longrightarrow> cost_of b \<le> cost_of b') \<and> (\<forall>t\<in>set ts. usable t \<longrightarrow> cost_of b \<le> cost_of t)"
  using assms
proof (induction ts arbitrary: best)
  case Nil
  then show ?case by (auto split: option.splits)
next
  case (Cons t ts)
  define nb where "nb = (if \<not> usable t then best else case best of None \<Rightarrow> Some t
    | Some b \<Rightarrow> if cost_of t < cost_of b then Some t else Some b)"
  have step: "best_from best (t # ts) = best_from nb ts"
    by (auto simp: nb_def cost_of_def split: option.splits)
  have "\<forall>b. nb = Some b \<longrightarrow> usable b" using Cons.prems by (auto simp: nb_def split: option.splits)
  from Cons.IH [OF this] show ?case
    unfolding step by (auto simp: nb_def split: option.splits if_splits)
qed

lemma bestTrial_Some:
  "bestTrial ts = Some b \<Longrightarrow> b \<in> set ts \<and> usable b \<and> (\<forall>t\<in>set ts. usable t \<longrightarrow> cost_of b \<le> cost_of t)"
  using best_from_spec [of None ts] by (auto simp: bestTrial_def)

lemma bestTrial_None: "bestTrial ts = None \<longleftrightarrow> (\<forall>t\<in>set ts. \<not> usable t)"
  using best_from_spec [of None ts] by (auto simp: bestTrial_def split: option.splits)

section \<open>The whole run\<close>

definition trials_inv :: "agent_campaign \<Rightarrow> agent \<Rightarrow> bool" where
  "trials_inv c a \<longleftrightarrow> agent_inv c (a\<lparr>ag_recommendation := None\<rparr>)"

text \<open>What a recommendation rests on: the planner's own on a trial it names, if that was measured; the
  mechanical one on the cheapest error-free trial.\<close>

definition concluded :: "trial list \<Rightarrow> recommendation \<Rightarrow> bool" where
  "concluded ts r \<longleftrightarrow> grounded ts r \<and> (rec_Fallback r \<longrightarrow>
     (\<exists>b\<in>set ts. usable b \<and> (\<forall>t\<in>set ts. usable t \<longrightarrow> cost_of b \<le> cost_of t) \<and>
        rec_Measured r = Some (tr_Result b) \<and> rec_Engine r = ts_Engine (tr_Spec b) \<and>
        rec_EngineConfig r = ts_EngineConfig (tr_Spec b) \<and> rec_Confidence r = ''low''))"

lemma trials_invI: "agent_inv c a \<Longrightarrow> trials_inv c a"
  by (auto simp: trials_inv_def agent_inv_def fresh_def)

lemma agent_inv_set [simp]:
  "agent_inv c (set_turns f a) = agent_inv c a" "agent_inv c (add_usage u a) = agent_inv c a"
  "agent_inv c (a\<lparr>ag_spend := (ag_spend a)\<lparr>sp_started := t\<rparr>\<rparr>) = agent_inv c a"
  by (simp_all add: agent_inv_def set_turns_def add_usage_def Let_def fresh_def)

lemma run_blocks_inv: "run_blocks env bs a w = (rs, a', w') \<Longrightarrow> agent_inv c a \<Longrightarrow> agent_inv c a'"
proof (induction env bs a w arbitrary: rs a' w' rule: run_blocks.induct)
  case (5 env i name inp bs a w)
  obtain c' isErr a1 w1 where d: "dispatchTool env name inp a w = ((c', isErr), a1, w1)"
    by (metis prod.collapse)
  obtain rs2 a2 w2 where r: "run_blocks env bs a1 w1 = (rs2, a2, w2)" by (metis prod.collapse)
  have "agent_inv c a1" using dispatchTool_inv [OF 5(3) d] .
  then have "agent_inv c a2" using 5(1) [of "((c', isErr), a1, w1)"] d r by auto
  with 5(2) d r show ?case by simp
qed auto

lemma turn_inv: "turn env msgs a w = (r, a', w') \<Longrightarrow> agent_inv c a \<Longrightarrow>
    agent_inv c a' \<and> (r = TurnRecommended \<longrightarrow> ag_recommendation a' \<noteq> None)"
  by (auto simp: turn_def Let_def split: prod.splits sum.splits stop_reason.splits if_splits
      dest!: run_blocks_inv [where c = c])

lemma conclude_cases:
  assumes inv: "agent_inv c a" and run: "concludeFromTrials env a w = (err, a', w')"
  obtains (nothing) "err = Some ErrNoRecommendation" "a' = a" "\<forall>t\<in>set (ag_trials a). \<not> usable t"
  | (best) r where "err = None" "a' = a\<lparr>ag_recommendation := Some r\<rparr>" "concluded (ag_trials a) r"
proof (cases "bestTrial (ag_trials a)")
  case None
  then have no: "\<forall>t\<in>set (ag_trials a). \<not> usable t" by (simp add: bestTrial_None)
  from run None have "err = Some ErrNoRecommendation" "a' = a" by (simp_all add: concludeFromTrials_def)
  then show thesis using no by (rule nothing)
next
  case (Some b)
  from bestTrial_Some [OF Some] have b: "b \<in> set (ag_trials a)" "usable b"
    "\<forall>t\<in>set (ag_trials a). usable t \<longrightarrow> cost_of b \<le> cost_of t" by auto
  from Some run obtain r where r: "err = None" "a' = a\<lparr>ag_recommendation := Some r\<rparr>" "rec_Fallback r"
      "rec_Measured r = Some (tr_Result b)" "rec_Engine r = ts_Engine (tr_Spec b)"
      "rec_EngineConfig r = ts_EngineConfig (tr_Spec b)" "rec_Confidence r = ''low''"
    by (auto simp: concludeFromTrials_def Let_def)
  have "grounded (ag_trials a) r" using b r by (auto simp: grounded_def usable_def)
  with b r have "concluded (ag_trials a) r" by (auto simp: concluded_def)
  with r show thesis by (intro best)
qed

lemma trials_inv_rec: "agent_inv c a \<Longrightarrow> trials_inv c (a\<lparr>ag_recommendation := z\<rparr>)"
  by (drule trials_invI) (simp add: trials_inv_def)

lemma conclude_loop:
  assumes "agent_inv c a" and "concludeFromTrials env a w = (err, a', w')"
    and "sp_turns (ag_spend a) \<le> MaxTurns (ac_Budget c)"
  shows "trials_inv c a' \<and> sp_turns (ag_spend a') \<le> MaxTurns (ac_Budget c) \<and>
    (err = None \<longrightarrow> (\<exists>r. ag_recommendation a' = Some r \<and> concluded (ag_trials a') r)) \<and>
    (err = Some ErrNoRecommendation \<longrightarrow> (\<forall>t\<in>set (ag_trials a'). \<not> usable t))"
  using assms(1,2)
proof (cases rule: conclude_cases)
  case nothing
  with assms show ?thesis by (simp add: trials_invI)
next
  case (best r)
  with assms show ?thesis by (simp add: trials_inv_rec)
qed

lemma turn_error:
  assumes "turn env msgs a w = (TurnError e, a', w')"
  shows "e \<noteq> ErrNoRecommendation"
proof -
  have "(\<exists>p x q. e = Wrap p x q) \<or> (\<exists>s. e = ErrNew s)"
    using assms by (simp add: turn_def Let_def split: prod.splits sum.splits stop_reason.splits if_splits) blast+
  then show ?thesis by (auto simp: ErrNoRecommendation_def)
qed

lemma loop_spec:
  assumes "agent_inv c a" and "loop env msgs a w = (err, a', w')"
    and "0 \<le> sp_turns (ag_spend a)" "sp_turns (ag_spend a) \<le> MaxTurns (ac_Budget c)"
  shows "trials_inv c a' \<and> sp_turns (ag_spend a') \<le> MaxTurns (ac_Budget c) \<and>
    (err = None \<longrightarrow> (\<exists>r. ag_recommendation a' = Some r \<and> concluded (ag_trials a') r)) \<and>
    (err = Some ErrNoRecommendation \<longrightarrow> (\<forall>t\<in>set (ag_trials a'). \<not> usable t))"
  using assms
proof (induction env msgs a w arbitrary: err a' w' rule: loop.induct)
  case (1 env msgs a w)
  have c: "ag_campaign a = c" using 1(2) by (simp add: agent_inv_def)
  show ?case
  proof (cases "sp_turns (ag_spend a) < MaxTurns (ac_Budget c)")
    case False
    with 1(3) c have "concludeFromTrials env a w = (err, a', w')" by (simp add: loop.simps [of env msgs a w])
    from conclude_loop [OF 1(2) this 1(5)] show ?thesis .
  next
    case True
    obtain r a1 w1 where t: "turn env msgs a w = (r, a1, w1)" by (metis prod.collapse)
    from turn_inv [OF t 1(2)] have inv1: "agent_inv c a1"
      and rec: "r = TurnRecommended \<Longrightarrow> ag_recommendation a1 \<noteq> None" by auto
    from turn_turns [OF t] True 1(4) have turns: "0 \<le> sp_turns (ag_spend a1)" "sp_turns (ag_spend a1) \<le> MaxTurns (ac_Budget c)"
      by auto
    have eq: "(case r of TurnError e \<Rightarrow> (Some e, a1, w1) | TurnRecommended \<Rightarrow> (None, a1, w1)
        | TurnBreak \<Rightarrow> concludeFromTrials env a1 w1 | TurnNext msgs' \<Rightarrow> loop env msgs' a1 w1) = (err, a', w')"
      using 1(3) True c t by (simp add: loop.simps [of env msgs a w] split: turn_result.splits)
    show ?thesis
    proof (cases r)
      case (TurnError e)
      with eq turn_error [OF t [unfolded TurnError]] turns inv1 show ?thesis by (auto simp: trials_invI)
    next
      case TurnRecommended
      with eq have "err = None" "a' = a1" by simp_all
      moreover obtain x where "ag_recommendation a1 = Some x" using rec TurnRecommended by auto
      moreover from this inv1 have "concluded (ag_trials a1) x" by (simp add: agent_inv_def concluded_def)
      ultimately show ?thesis using turns inv1 by (simp add: trials_invI)
    next
      case TurnBreak
      with eq have "concludeFromTrials env a1 w1 = (err, a', w')" by simp
      from conclude_loop [OF inv1 this turns(2)] show ?thesis .
    next
      case (TurnNext msgs')
      with eq have lp: "loop env msgs' a1 w1 = (err, a', w')" by simp
      from 1(1) [OF _ t [symmetric] TurnNext refl inv1 lp turns] True c show ?thesis by simp
    qed
  qed
qed

lemma Run_loop:
  assumes new: "New c model now = Inr a" and run: "Run env a w = ((rep, err), w')"
  obtains a' where "trials_inv c a'" "sp_turns (ag_spend a') \<le> MaxTurns (ac_Budget c)"
    "err = None \<Longrightarrow> \<exists>r. ag_recommendation a' = Some r \<and> concluded (ag_trials a') r"
    "err = Some ErrNoRecommendation \<Longrightarrow> \<forall>t\<in>set (ag_trials a'). \<not> usable t"
    "rep = report_of env a' w'"
    "loop env first_message (a\<lparr>ag_spend := (ag_spend a)\<lparr>sp_started := ae_now env w\<rparr>\<rparr>) w = (err, a', w')"
proof -
  let ?a = "a\<lparr>ag_spend := (ag_spend a)\<lparr>sp_started := ae_now env w\<rparr>\<rparr>"
  obtain a' where lp: "loop env first_message ?a w = (err, a', w')" and rep: "rep = report_of env a' w'"
    using run by (auto simp: Run_def split: prod.splits)
  have inv: "agent_inv c ?a" using agent_inv_New [OF new] by simp
  have "budget_ok (ac_Budget c)" and "sp_turns (ag_spend a) = 0"
    using new by (auto simp: New_def newSpend_def Budget_Validate_None [symmetric] split: if_splits option.splits)
  then have "0 \<le> sp_turns (ag_spend ?a)" "sp_turns (ag_spend ?a) \<le> MaxTurns (ac_Budget c)"
    by (auto simp: budget_ok_def)
  from loop_spec [OF inv lp this] lp rep show thesis by (intro that) auto
qed

lemma New_budget: "New c model now = Inr a \<Longrightarrow> budget_ok (ac_Budget c)"
  by (auto simp: New_def Budget_Validate_None [symmetric] split: if_splits option.splits)

definition measured :: "report \<Rightarrow> trial list" where
  "measured rep = filter (\<lambda>t. \<not> tr_Reused t) (rp_Trials rep)"

lemma trials_inv_facts:
  assumes "trials_inv c a" and "budget_ok (ac_Budget c)"
  shows "ag_campaign a = c" "\<forall>t\<in>set (ag_trials a). comparable c t"
    "int (length (fresh a)) \<le> MaxTrials (ac_Budget c)" "sp_trials (ag_spend a) = int (length (fresh a))"
    "distinct (map tr_Spec (fresh a))"
    "\<forall>t\<in>set (ag_trials a). \<exists>u\<in>set (fresh a). tr_Spec u = tr_Spec t \<and> tr_Result u = tr_Result t \<and> tr_Err u = tr_Err t"
  using assms by (auto simp: trials_inv_def agent_inv_def fresh_def budget_ok_def)

text \<open>C2: A campaign always ends, within its caps. Whatever the planner answers and however the platform
  behaves, \<open>Run\<close> returns (it is a total function, its loop bounded by the turns) with a report of at most
  \<open>MaxTurns\<close> turns and at most \<open>MaxTrials\<close> measured trials, and no specification is measured twice:
  a trial marked as reused repeats the result of an earlier measured one.\<close>

theorem Run_within_budget:
  assumes "New c model now = Inr a" and "Run env a w = ((rep, err), w')"
  shows "Turns (rp_Usage rep) \<le> MaxTurns (ac_Budget c) \<and>
    int (length (measured rep)) \<le> MaxTrials (ac_Budget c) \<and>
    distinct (map tr_Spec (measured rep)) \<and>
    (\<forall>t\<in>set (rp_Trials rep). \<exists>u\<in>set (measured rep).
       tr_Spec u = tr_Spec t \<and> tr_Result u = tr_Result t \<and> tr_Err u = tr_Err t)"
proof -
  from Run_loop [OF assms] obtain a' where inv: "trials_inv c a'" and
    turns: "sp_turns (ag_spend a') \<le> MaxTurns (ac_Budget c)" and rep: "rep = report_of env a' w'" by metis
  have m: "measured rep = fresh a'" by (simp add: measured_def rep report_of_def fresh_def)
  show ?thesis
    using trials_inv_facts [OF inv New_budget [OF assms(1)]] turns
    by (simp add: m) (simp add: rep report_of_def)
qed

text \<open>C18: Trials are comparable. Every trial of a report, measured or reused, is for the campaign's own model,
  GPU profile and workload and for one of its candidate engines, whatever arguments the planner passed;
  only the engine and its configuration vary.\<close>

theorem trials_are_comparable:
  assumes "New c model now = Inr a" and "Run env a w = ((rep, err), w')"
  shows "\<forall>t\<in>set (rp_Trials rep). ts_Model (tr_Spec t) = ac_Model c \<and> ts_GPUProfile (tr_Spec t) = ac_GPUProfile c \<and>
    ts_Workload (tr_Spec t) = ac_Workload c \<and> ts_Engine (tr_Spec t) \<in> set (ac_Engines c)"
proof -
  from Run_loop [OF assms] obtain a' where inv: "trials_inv c a'" and rep: "rep = report_of env a' w'" by metis
  show ?thesis
    using trials_inv_facts(2) [OF inv New_budget [OF assms(1)]] by (auto simp: rep report_of_def comparable_def)
qed

text \<open>C11: A recommendation is grounded in measurements. A campaign that ends without an error has a
  recommendation; its headline figures, when it has any, are those of a successful trial of the report
  with the recommended engine and configuration; a mechanical one (\<open>Fallback\<close>) always has them, from an
  error-free trial of least cost; and the campaign ends with \<open>ErrNoRecommendation\<close> only if no trial was
  usable.\<close>

theorem recommendation_grounded:
  assumes "New c model now = Inr a" and "Run env a w = ((rep, err), w')"
  shows "(err = None \<longrightarrow> (\<exists>r. rp_Recommendation rep = Some r \<and>
      (\<forall>m. rec_Measured r = Some m \<longrightarrow> (\<exists>t\<in>set (rp_Trials rep). OK t \<and> tr_Result t = m \<and>
         ts_Engine (tr_Spec t) = rec_Engine r \<and> ts_EngineConfig (tr_Spec t) = rec_EngineConfig r)) \<and>
      (rec_Fallback r \<longrightarrow> (\<exists>b\<in>set (rp_Trials rep). usable b \<and> rec_Measured r = Some (tr_Result b) \<and>
         (\<forall>t\<in>set (rp_Trials rep). usable t \<longrightarrow> r_CostPerMTok (tr_Result b) \<le> r_CostPerMTok (tr_Result t)))))) \<and>
    (err = Some ErrNoRecommendation \<longrightarrow> (\<forall>t\<in>set (rp_Trials rep). \<not> usable t))"
proof -
  from Run_loop [OF assms] obtain a' where
    rec: "err = None \<Longrightarrow> \<exists>r. ag_recommendation a' = Some r \<and> concluded (ag_trials a') r" and
    none: "err = Some ErrNoRecommendation \<Longrightarrow> \<forall>t\<in>set (ag_trials a'). \<not> usable t" and
    rep: "rep = report_of env a' w'" by metis
  have r: "rp_Recommendation rep = ag_recommendation a'" "rp_Trials rep = ag_trials a'"
    by (simp_all add: rep report_of_def)
  show ?thesis
  proof (intro conjI impI)
    assume "err = None"
    with rec obtain x where x: "ag_recommendation a' = Some x" "grounded (ag_trials a') x"
      and f: "rec_Fallback x \<longrightarrow> (\<exists>b\<in>set (ag_trials a'). usable b \<and>
        (\<forall>t\<in>set (ag_trials a'). usable t \<longrightarrow> cost_of b \<le> cost_of t) \<and> rec_Measured x = Some (tr_Result b))"
      unfolding concluded_def by blast
    from f have f': "rec_Fallback x \<longrightarrow> (\<exists>b\<in>set (ag_trials a'). usable b \<and> rec_Measured x = Some (tr_Result b) \<and>
        (\<forall>t\<in>set (ag_trials a'). usable t \<longrightarrow> r_CostPerMTok (tr_Result b) \<le> r_CostPerMTok (tr_Result t)))"
      unfolding cost_of_def by blast
    from x f' show "\<exists>r. rp_Recommendation rep = Some r \<and>
      (\<forall>m. rec_Measured r = Some m \<longrightarrow> (\<exists>t\<in>set (rp_Trials rep). OK t \<and> tr_Result t = m \<and>
         ts_Engine (tr_Spec t) = rec_Engine r \<and> ts_EngineConfig (tr_Spec t) = rec_EngineConfig r)) \<and>
      (rec_Fallback r \<longrightarrow> (\<exists>b\<in>set (rp_Trials rep). usable b \<and> rec_Measured r = Some (tr_Result b) \<and>
         (\<forall>t\<in>set (rp_Trials rep). usable t \<longrightarrow> r_CostPerMTok (tr_Result b) \<le> r_CostPerMTok (tr_Result t))))"
      unfolding r grounded_def by blast
  next
    assume "err = Some ErrNoRecommendation"
    with none show "\<forall>t\<in>set (rp_Trials rep). \<not> usable t" unfolding r by blast
  qed
qed

section \<open>A concrete campaign\<close>

text \<open>A planner that measures once and then recommends what it measured, on a platform whose state is a
  clock.\<close>

definition demo_campaign :: agent_campaign where
  "demo_campaign = \<lparr>ac_Goal = ''cheap'', ac_Model = ''m'', ac_GPUProfile = ''cpu'',
     ac_Workload = \<lparr>Concurrency = 8, PromptTokens = 512, OutputTokens = 128, NumRequests = 100\<rparr>,
     ac_Engines = [''vllm''], ac_Budget = \<lparr>MaxTrials = 2, MaxDuration = Hour, MaxTurns = 5\<rparr>\<rparr>"

definition demo_config :: engine_config where
  "demo_config = \<lparr>Quantization = [], TensorParallel = 0, MaxBatchSize = 0, MaxModelLen = 0, GPUMemoryUtilization = 0\<rparr>"

definition demo_tool_input :: tool_input where
  "demo_tool_input = \<lparr>ti_Err = None, ti_StructuredOutput = False, ti_ToolCalls = False, ti_SharedPrefixRatio = 0,
     ti_Engine = ''vllm'', ti_SinceHours = 0, ti_Hypothesis = ''h'', ti_Config = demo_config, ti_Reasoning = ''r'',
     ti_RunnerUp = [], ti_Confidence = ''high'', ti_Caveats = []\<rparr>"

definition demo_measure :: result where
  "demo_measure = zero_result\<lparr>r_Engine := ''vllm'', r_TokPerSec := 10, r_CostPerMTok := 1\<rparr>"

definition demo_reply :: "string \<Rightarrow> planner_reply" where
  "demo_reply tool = \<lparr>pr_Usage = zero_usage, pr_StopReason = StopToolUse,
     pr_Content = [ToolUseBlock ''1'' tool demo_tool_input]\<rparr>"

definition demo_platform :: "int platform" where
  "demo_platform = \<lparr>pf_ListWorkers = (\<lambda>w. (Inr [], w)), pf_ClassifyWorkload = (\<lambda>i w. (Inr (Classify i), w)),
     pf_RunBenchmark = (\<lambda>s w. (Inr demo_measure, w + 1)), pf_HistoricalResults = (\<lambda>e m s w. (Inr [], w))\<rparr>"

definition demo_env :: "int agent_env" where
  "demo_env = \<lparr>ae_platform = demo_platform,
     ae_planner = (\<lambda>m msgs w. (Inr (demo_reply (if length msgs = 1 then ''run_benchmark'' else ''submit_recommendation'')), w + 1)),
     ae_now = (\<lambda>w. w), ae_observer = None\<rparr>"

definition demo_agent :: agent where
  "demo_agent = \<lparr>ag_model = DefaultModel, ag_campaign = demo_campaign, ag_allowedEngines = [''vllm''], ag_trials = [],
     ag_recommendation = None, ag_spend = newSpend (ac_Budget demo_campaign) 0\<rparr>"

lemma demo_New: "New demo_campaign [] 0 = Inr demo_agent"
  by (simp add: New_def demo_agent_def demo_campaign_def Budget_Validate_def duration_units)

lemmas demo_run = Run_def turn_def demo_env_def demo_reply_def dispatchTool_def callRunBenchmark_def
  callRecommend_def run_trial_def demo_platform_def demo_agent_def demo_campaign_def demo_tool_input_def emit_def
  set_turns_def add_usage_def newSpend_def zero_usage_def exhausted_def elapsed_def findTrial_def trial_spec_of_def
  add_trial_def count_trial_def first_message_def report_of_def OK_def

lemma demo_Run: "\<exists>rep. Run demo_env demo_agent 0 = ((rep, None), 3) \<and> length (rp_Trials rep) = 1 \<and>
    Turns (rp_Usage rep) = 2 \<and> (\<exists>r. rp_Recommendation rep = Some r \<and> rec_Measured r = Some demo_measure)"
  by (simp add: demo_run loop.simps demo_measure_def zero_result_def duration_units)

theorem Run_within_budget_witness:
  "\<exists>rep. Run demo_env demo_agent 0 = ((rep, None), 3) \<and> Turns (rp_Usage rep) \<le> 5 \<and> int (length (measured rep)) \<le> 2"
proof -
  obtain rep where "Run demo_env demo_agent 0 = ((rep, None), 3)" using demo_Run by blast
  with Run_within_budget [OF demo_New this] show ?thesis by (auto simp: demo_campaign_def)
qed

theorem trials_are_comparable_witness:
  "\<exists>rep. Run demo_env demo_agent 0 = ((rep, None), 3) \<and> rp_Trials rep \<noteq> [] \<and>
     (\<forall>t\<in>set (rp_Trials rep). ts_Model (tr_Spec t) = ''m'')"
proof -
  obtain rep where "Run demo_env demo_agent 0 = ((rep, None), 3)" "length (rp_Trials rep) = 1" using demo_Run by blast
  with trials_are_comparable [OF demo_New this(1)] show ?thesis by (auto simp: demo_campaign_def)
qed

theorem recommendation_grounded_witness:
  "\<exists>rep r t. Run demo_env demo_agent 0 = ((rep, None), 3) \<and> rp_Recommendation rep = Some r \<and>
     rec_Measured r = Some demo_measure \<and> t \<in> set (rp_Trials rep) \<and> tr_Result t = demo_measure \<and> OK t"
proof -
  obtain rep r where "Run demo_env demo_agent 0 = ((rep, None), 3)" "rp_Recommendation rep = Some r"
      "rec_Measured r = Some demo_measure" using demo_Run by blast
  with recommendation_grounded [OF demo_New this(1)] show ?thesis by auto
qed

section \<open>What a campaign costs its platform\<close>

text \<open>
  The contract of the \<open>Platform\<close> interface as far as cost goes: \<open>cnt\<close> reads off the platform's state how
  many benchmarks have been started; only \<open>RunBenchmark\<close> starts one, and at most one a call. Inside it,
  the bound on a whole campaign is proved once for every platform.
\<close>

locale metered_platform =
  fixes env :: "'w agent_env" and cnt :: "'w \<Rightarrow> nat"
  assumes planner_free: "cnt (snd (ae_planner env m msgs w)) = cnt w"
    and observer_free: "ae_observer env = Some obs \<Longrightarrow> cnt (obs e w) = cnt w"
    and list_free: "cnt (snd (pf_ListWorkers (ae_platform env) w)) = cnt w"
    and classify_free: "cnt (snd (pf_ClassifyWorkload (ae_platform env) inp w)) = cnt w"
    and history_free: "cnt (snd (pf_HistoricalResults (ae_platform env) eng mdl since w)) = cnt w"
    and benchmark_once: "cnt (snd (pf_RunBenchmark (ae_platform env) spec w)) \<le> cnt w + 1"
begin

definition slack :: "agent \<Rightarrow> 'w \<Rightarrow> int" where
  "slack a w = int (cnt w) - sp_trials (ag_spend a)"

lemma emit_free [simp]: "cnt (emit env a e w) = cnt w"
  by (simp add: emit_def observer_free split: option.splits)

lemma slack_emit: "slack b (emit env a e w) = slack b w"
  by (simp add: slack_def)

lemma free_calls:
  "pf_ListWorkers (ae_platform env) w = (r1, w1) \<Longrightarrow> cnt w1 = cnt w"
  "pf_ClassifyWorkload (ae_platform env) ci w = (r2, w2) \<Longrightarrow> cnt w2 = cnt w"
  "pf_HistoricalResults (ae_platform env) e m s w = (r3, w3) \<Longrightarrow> cnt w3 = cnt w"
  "ae_planner env m msgs w = (r4, w4) \<Longrightarrow> cnt w4 = cnt w"
  using list_free [of w] classify_free [of ci w] history_free [of e m s w] planner_free [of m msgs w] by auto

lemma run_trial_slack: "run_trial env inp a w = (x, a', w') \<Longrightarrow> slack a' w' \<le> slack a w"
proof -
  assume run: "run_trial env inp a w = (x, a', w')"
  define v where "v = emit env a ((mk_event EventTrialStart (ti_Hypothesis inp))\<lparr>ev_Trial := Some (trial_spec_of a inp)\<rparr>) w"
  obtain r u where r: "pf_RunBenchmark (ae_platform env) (trial_spec_of a inp) v = (r, u)"
    by (metis prod.collapse)
  have "cnt u \<le> cnt w + 1" using benchmark_once [of "trial_spec_of a inp" v] r by (simp add: v_def)
  moreover have "cnt w' = cnt u \<and> sp_trials (ag_spend a') = sp_trials (ag_spend a) + 1"
    using run r by (auto simp: run_trial_def Let_def v_def [symmetric] add_trial_def count_trial_def split: sum.splits)
  ultimately show ?thesis by (simp add: slack_def)
qed

lemma dispatch_slack: "dispatchTool env name inp a w = (x, a', w') \<Longrightarrow> slack a' w' \<le> slack a w"
  by (auto simp: dispatchTool_def callListWorkers_def callClassify_def callHistorical_def callRunBenchmark_def
      callRecommend_def Let_def slack_def [of a w for a w] add_trial_def
      split: if_splits option.splits sum.splits prod.splits
      dest!: free_calls run_trial_slack [unfolded slack_def])

lemma run_blocks_slack: "run_blocks env bs a w = (rs, a', w') \<Longrightarrow> slack a' w' \<le> slack a w"
proof (induction bs arbitrary: a w rs a' w')
  case Nil
  then show ?case by simp
next
  case (Cons b bs)
  show ?case
  proof (cases b)
    case (ToolUseBlock i name inp)
    obtain c isErr a1 w1 where d: "dispatchTool env name inp a w = ((c, isErr), a1, w1)"
      by (metis prod.collapse)
    obtain rs2 a2 w2 where r: "run_blocks env bs a1 w1 = (rs2, a2, w2)" by (metis prod.collapse)
    from Cons.prems ToolUseBlock d r have "a' = a2" "w' = w2" by auto
    with dispatch_slack [OF d] Cons.IH [OF r] show ?thesis by simp
  next
    case (TextBlock t)
    with Cons.prems Cons.IH [of a "if t \<noteq> [] then emit env a (mk_event EventPlan t) w else w"]
    show ?thesis by (auto simp: slack_emit split: if_splits)
  next
    case (ThinkingBlock t)
    with Cons.prems Cons.IH [of a "if t \<noteq> [] then emit env a (mk_event EventThinking t) w else w"]
    show ?thesis by (auto simp: slack_emit split: if_splits)
  next
    case OtherBlock
    with Cons show ?thesis by auto
  qed
qed

lemma slack_sets [simp]:
  "slack (set_turns f a) w = slack a w" "slack (add_usage u a) w = slack a w"
  "slack (a\<lparr>ag_spend := (ag_spend a)\<lparr>sp_started := t\<rparr>\<rparr>) w = slack a w"
  by (simp_all add: slack_def set_turns_def add_usage_def Let_def)

lemma turn_slack:
  assumes "turn env msgs a w = (r, a', w')"
  shows "slack a' w' \<le> slack a w"
proof -
  let ?a = "set_turns (\<lambda>n. n + 1) a"
  obtain p v where p: "ae_planner env (ag_model ?a) msgs w = (p, v)" by (metis prod.collapse)
  have v: "slack b v = slack b w" for b using free_calls(4) [OF p] by (simp add: slack_def)
  show ?thesis
  proof (cases p)
    case (Inl e)
    with assms p v show ?thesis by (auto simp: turn_def Let_def)
  next
    case (Inr resp)
    obtain rs a2 w2 where b: "run_blocks env (pr_Content resp) (add_usage (pr_Usage resp) ?a) v = (rs, a2, w2)"
      by (metis prod.collapse)
    from assms p Inr b have "(a' = a2 \<and> w' = w2) \<or> (a' = add_usage (pr_Usage resp) ?a \<and> w' = v)"
      by (auto simp: turn_def Let_def split: stop_reason.splits if_splits)
    with run_blocks_slack [OF b] v show ?thesis by auto
  qed
qed

lemma conclude_slack: "concludeFromTrials env a w = (err, a', w') \<Longrightarrow> slack a' w' = slack a w"
  by (auto simp: concludeFromTrials_def Let_def slack_def split: option.splits)

lemma loop_slack: "loop env msgs a w = (err, a', w') \<Longrightarrow> slack a' w' \<le> slack a w"
proof (induction "nat (MaxTurns (ac_Budget (ag_campaign a)) - sp_turns (ag_spend a))" arbitrary: msgs a w
    rule: less_induct)
  case less
  show ?case
  proof (cases "sp_turns (ag_spend a) < MaxTurns (ac_Budget (ag_campaign a))")
    case False
    with less.prems conclude_slack show ?thesis by (fastforce simp: loop.simps [of env msgs a w])
  next
    case True
    obtain r a1 w1 where t: "turn env msgs a w = (r, a1, w1)" by (metis prod.collapse)
    note s = turn_slack [OF t] and tt = turn_turns [OF t]
    show ?thesis
    proof (cases r)
      case (TurnNext msgs')
      with less.prems True t have "loop env msgs' a1 w1 = (err, a', w')" by (simp add: loop.simps [of env msgs a w])
      from less.hyps [OF _ this] tt True s show ?thesis by fastforce
    next
      case TurnBreak
      with less.prems True t have "concludeFromTrials env a1 w1 = (err, a', w')"
        by (simp add: loop.simps [of env msgs a w])
      from conclude_slack [OF this] s show ?thesis by simp
    qed (use less.prems True t s in \<open>auto simp: loop.simps [of env msgs a w]\<close>)
  qed
qed

lemma Run_cost:
  assumes new: "New c model now = Inr a" and run: "Run env a w = ((rep, err), w')"
  shows "int (cnt w') \<le> int (cnt w) + MaxTrials (ac_Budget c)"
proof -
  let ?a = "a\<lparr>ag_spend := (ag_spend a)\<lparr>sp_started := ae_now env w\<rparr>\<rparr>"
  from Run_loop [OF new run] obtain a' where inv: "trials_inv c a'"
    and lp: "loop env first_message ?a w = (err, a', w')" by metis
  have "sp_trials (ag_spend a) = 0"
    using new by (auto simp: New_def newSpend_def split: if_splits option.splits)
  with loop_slack [OF lp] trials_inv_facts(3,4) [OF inv New_budget [OF new]] show ?thesis
    by (simp add: slack_def)
qed

end

section \<open>What a campaign may do to the rest of the state\<close>

text \<open>
  A rely condition on everything the agent calls: each call moves the state along \<open>R\<close>, a preorder. Then a
  whole campaign does. It carries every property of the state that the single calls keep.
\<close>

locale agent_rely =
  fixes env :: "'w agent_env" and R :: "'w \<Rightarrow> 'w \<Rightarrow> bool"
  assumes R_refl: "R w w"
    and R_trans: "R w v \<Longrightarrow> R v u \<Longrightarrow> R w u"
    and planner_R: "R w (snd (ae_planner env m msgs w))"
    and observer_R: "ae_observer env = Some obs \<Longrightarrow> R w (obs e w)"
    and list_R: "R w (snd (pf_ListWorkers (ae_platform env) w))"
    and classify_R: "R w (snd (pf_ClassifyWorkload (ae_platform env) inp w))"
    and history_R: "R w (snd (pf_HistoricalResults (ae_platform env) eng mdl since w))"
    and benchmark_R: "R w (snd (pf_RunBenchmark (ae_platform env) spec w))"
begin

lemma emit_R: "R w (emit env a e w)"
  by (simp add: emit_def observer_R R_refl split: option.splits)

lemma calls_R:
  "pf_ListWorkers (ae_platform env) w = (r1, w1) \<Longrightarrow> R w w1"
  "pf_ClassifyWorkload (ae_platform env) ci w = (r2, w2) \<Longrightarrow> R w w2"
  "pf_HistoricalResults (ae_platform env) e m s w = (r3, w3) \<Longrightarrow> R w w3"
  "pf_RunBenchmark (ae_platform env) spec w = (r4, w4) \<Longrightarrow> R w w4"
  "ae_planner env m msgs w = (r5, w5) \<Longrightarrow> R w w5"
  using list_R [of w] classify_R [of w ci] history_R [of w e m s] benchmark_R [of w spec] planner_R [of w m msgs]
  by auto

lemma run_trial_R: "run_trial env inp a w = (x, a', w') \<Longrightarrow> R w w'"
  by (auto simp: run_trial_def Let_def split: prod.splits sum.splits)
     (blast intro: R_trans emit_R dest: calls_R(4))+

lemma dispatch_R: "dispatchTool env name inp a w = (x, a', w') \<Longrightarrow> R w w'"
  by (auto simp: dispatchTool_def callListWorkers_def callClassify_def callHistorical_def callRunBenchmark_def
      callRecommend_def Let_def R_refl emit_R dest: run_trial_R
      split: if_splits option.splits prod.splits sum.splits)
     (blast intro: R_trans emit_R dest: calls_R)+

lemma run_blocks_R: "run_blocks env bs a w = (rs, a', w') \<Longrightarrow> R w w'"
proof (induction bs arbitrary: a w rs a' w')
  case Nil
  then show ?case by (simp add: R_refl)
next
  case (Cons b bs)
  show ?case
  proof (cases b)
    case (ToolUseBlock i name inp)
    obtain c isErr a1 w1 where d: "dispatchTool env name inp a w = ((c, isErr), a1, w1)"
      by (metis prod.collapse)
    obtain rs2 a2 w2 where r: "run_blocks env bs a1 w1 = (rs2, a2, w2)" by (metis prod.collapse)
    from Cons.prems ToolUseBlock d r have "w' = w2" by auto
    with dispatch_R [OF d] Cons.IH [OF r] show ?thesis by (auto intro: R_trans)
  next
    case (TextBlock t)
    with Cons.prems have "run_blocks env bs a (if t \<noteq> [] then emit env a (mk_event EventPlan t) w else w) = (rs, a', w')"
      by simp
    from Cons.IH [OF this] show ?thesis by (auto split: if_splits intro: R_trans [OF emit_R])
  next
    case (ThinkingBlock t)
    with Cons.prems have "run_blocks env bs a (if t \<noteq> [] then emit env a (mk_event EventThinking t) w else w) = (rs, a', w')"
      by simp
    from Cons.IH [OF this] show ?thesis by (auto split: if_splits intro: R_trans [OF emit_R])
  next
    case OtherBlock
    with Cons show ?thesis by auto
  qed
qed

lemma turn_R: "turn env msgs a w = (r, a', w') \<Longrightarrow> R w w'"
  by (auto simp: turn_def Let_def split: prod.splits sum.splits stop_reason.splits if_splits
      dest!: calls_R(5) run_blocks_R intro: R_trans)

lemma conclude_R: "concludeFromTrials env a w = (err, a', w') \<Longrightarrow> R w w'"
  by (auto simp: concludeFromTrials_def Let_def R_refl emit_R split: option.splits)

lemma loop_R: "loop env msgs a w = (err, a', w') \<Longrightarrow> R w w'"
proof (induction "nat (MaxTurns (ac_Budget (ag_campaign a)) - sp_turns (ag_spend a))" arbitrary: msgs a w
    rule: less_induct)
  case less
  show ?case
  proof (cases "sp_turns (ag_spend a) < MaxTurns (ac_Budget (ag_campaign a))")
    case False
    with less.prems show ?thesis by (auto simp: loop.simps [of env msgs a w] dest: conclude_R)
  next
    case True
    obtain r a1 w1 where t: "turn env msgs a w = (r, a1, w1)" by (metis prod.collapse)
    note s = turn_R [OF t] and tt = turn_turns [OF t]
    show ?thesis
    proof (cases r)
      case (TurnNext msgs')
      with less.prems True t have "loop env msgs' a1 w1 = (err, a', w')" by (simp add: loop.simps [of env msgs a w])
      from less.hyps [OF _ this] tt True s show ?thesis by (fastforce intro: R_trans)
    next
      case TurnBreak
      with less.prems True t have "concludeFromTrials env a1 w1 = (err, a', w')"
        by (simp add: loop.simps [of env msgs a w])
      from conclude_R [OF this] s show ?thesis by (auto intro: R_trans)
    qed (use less.prems True t s in \<open>auto simp: loop.simps [of env msgs a w]\<close>)
  qed
qed

lemma Run_R: "Run env a w = (x, w') \<Longrightarrow> R w w'"
  by (auto simp: Run_def Let_def split: prod.splits dest: loop_R)

end

section \<open>How a run can fail\<close>

lemma turn_error_kinds:
  assumes "turn env msgs a w = (TurnError err, a', w')"
  shows "(\<exists>s. err = ErrNew s) \<or> (\<exists>pre s post. err = Wrap pre (ErrNew s) []) \<or>
    (\<exists>pre s post. err = Wrap pre (Wrap [] (ErrNew s) post) []) \<or>
    (\<exists>pre e m w v. err = Wrap pre e [] \<and> ae_planner env m msgs w = (Inl (PlainError e), v))"
proof -
  obtain r v where p: "ae_planner env (ag_model (set_turns (\<lambda>n. n + 1) a)) msgs w = (r, v)" by (metis prod.collapse)
  show ?thesis
  proof (cases r)
    case (Inl pe)
    with assms p obtain pre where err: "err = Wrap pre (annotatePlannerError pe) []"
      by (auto simp: turn_def Let_def)
    show ?thesis
    proof (cases pe)
      case (PlainError e)
      with err p Inl show ?thesis by (auto simp: annotatePlannerError_def)
    next
      case (ApiError code msg)
      with err show ?thesis by (simp add: annotatePlannerError_def)
    qed
  next
    case (Inr resp)
    with assms p show ?thesis
      by (auto simp: turn_def Let_def split: stop_reason.splits prod.splits if_splits)
  qed
qed

lemma loop_error_kinds:
  assumes ok: "\<forall>m msgs w e v. ae_planner env m msgs w = (Inl (PlainError e), v) \<longrightarrow> \<not> errors_Is e (Sentinel s)"
    and "ErrNoRecommendation \<noteq> Sentinel s" and "loop env msgs a w = (Some err, a', w')"
  shows "\<not> errors_Is err (Sentinel s)"
  using assms(3)
proof (induction "nat (MaxTurns (ac_Budget (ag_campaign a)) - sp_turns (ag_spend a))" arbitrary: msgs a w
    rule: less_induct)
  case less
  have no: "concludeFromTrials env b u = (Some err, a', w') \<Longrightarrow> \<not> errors_Is err (Sentinel s)" for b u
    using assms(2) by (auto simp: concludeFromTrials_def Let_def ErrNoRecommendation_def split: option.splits)
  show ?case
  proof (cases "sp_turns (ag_spend a) < MaxTurns (ac_Budget (ag_campaign a))")
    case False
    with less.prems no show ?thesis by (simp add: loop.simps [of env msgs a w])
  next
    case True
    obtain r a1 w1 where t: "turn env msgs a w = (r, a1, w1)" by (metis prod.collapse)
    show ?thesis
    proof (cases r)
      case (TurnNext msgs')
      with less.prems True t have "loop env msgs' a1 w1 = (Some err, a', w')" by (simp add: loop.simps [of env msgs a w])
      from less.hyps [OF _ this] turn_turns [OF t] True show ?thesis by simp
    next
      case TurnBreak
      with less.prems True t no show ?thesis by (simp add: loop.simps [of env msgs a w])
    next
      case (TurnError e)
      with less.prems True t have "turn env msgs a w = (TurnError err, a1, w1)" by (simp add: loop.simps [of env msgs a w])
      from turn_error_kinds [OF this] ok show ?thesis by (elim disjE exE conjE) (simp_all, blast)
    next
      case TurnRecommended
      with less.prems True t show ?thesis by (simp add: loop.simps [of env msgs a w])
    qed
  qed
qed

lemma Run_error_kinds:
  assumes "\<forall>m msgs w e v. ae_planner env m msgs w = (Inl (PlainError e), v) \<longrightarrow> \<not> errors_Is e (Sentinel s)"
    and "ErrNoRecommendation \<noteq> Sentinel s" and "Run env a w = ((rep, Some err), w')"
  shows "\<not> errors_Is err (Sentinel s)"
  using loop_error_kinds [OF assms(1,2)] assms(3) by (auto simp: Run_def Let_def split: prod.splits)

end
