(* ===== verification/Campaigns.thy ===== *)
theory Campaigns
  imports Agent JobWorker
begin

text \<open>
  Campaigns at rest: the stored record of \<open>internal/campaigns/campaign.go\<close> and every statement of
  \<open>internal/campaigns/store.go\<close>, over two tables added to the orchestrator's state. A budget, a report and
  an event are kept as values (their JSON columns are not serialised; \<open>Budget_JSON_roundtrip\<close> is about
  the one hand-written encoding).
\<close>

section \<open>The record\<close>

datatype camp_state = CampPending | CampRunning | CampCompleted | CampFailed | CampCancelled

fun camp_state_str :: "camp_state \<Rightarrow> string" where
  "camp_state_str CampPending = ''pending''"
| "camp_state_str CampRunning = ''running''"
| "camp_state_str CampCompleted = ''completed''"
| "camp_state_str CampFailed = ''failed''"
| "camp_state_str CampCancelled = ''cancelled''"

definition Camp_IsTerminal :: "camp_state \<Rightarrow> bool" where
  "Camp_IsTerminal s \<longleftrightarrow> s = CampCompleted \<or> s = CampFailed \<or> s = CampCancelled"

record campaign =
  c_ID :: string
  c_TenantID :: string
  c_Goal :: string
  c_Model :: string
  c_GPUProfile :: string
  c_Engines :: "string list"
  c_Workload :: workload_config
  c_Budget :: budget
  c_PlannerModel :: string
  c_State :: camp_state
  c_Recommendation :: "recommendation option"
  c_Trials :: "trial list"
  c_Usage :: "usage option"
  c_ErrorMsg :: string
  c_CreatedAt :: int
  c_UpdatedAt :: int
  c_StartedAt :: "int option"
  c_CompletedAt :: "int option"

definition ToAgentCampaign :: "campaign \<Rightarrow> agent_campaign" where
  "ToAgentCampaign c =
     \<lparr>ac_Goal = c_Goal c, ac_Model = c_Model c, ac_GPUProfile = c_GPUProfile c, ac_Workload = c_Workload c,
      ac_Engines = c_Engines c, ac_Budget = c_Budget c\<rparr>"

definition ToReport :: "int \<Rightarrow> campaign \<Rightarrow> report" where
  "ToReport now c =
     \<lparr>rp_Campaign = ToAgentCampaign c, rp_Recommendation = c_Recommendation c, rp_Trials = c_Trials c,
      rp_Usage = (case c_Usage c of None \<Rightarrow> zero_usage | Some u \<Rightarrow> u), rp_PlannerModel = c_PlannerModel c,
      rp_Elapsed = (case c_StartedAt c of
          None \<Rightarrow> 0
        | Some started \<Rightarrow> (case c_CompletedAt c of Some t \<Rightarrow> t | None \<Rightarrow> now) - started)\<rparr>"

record camp_event =
  ce_Seq :: int
  ce_Kind :: event_kind
  ce_Text :: string
  ce_Trial :: "trial_spec option"
  ce_Result :: "result option"
  ce_ElapsedMs :: int
  ce_CreatedAt :: int

record camp_db = orch +
  t_campaigns :: "campaign list"
  t_events :: "(string \<times> camp_event) list"

section \<open>The store\<close>

definition ErrNotFound :: goerr where
  "ErrNotFound = Sentinel ''campaign not found''"

definition stored_campaign :: "campaign \<Rightarrow> campaign" where
  "stored_campaign c = c\<lparr>c_Recommendation := None, c_Trials := [], c_Usage := None, c_ErrorMsg := [],
     c_UpdatedAt := c_CreatedAt c, c_StartedAt := None, c_CompletedAt := None\<rparr>"

definition Campaign_Create :: "campaign \<Rightarrow> 'w camp_db_scheme \<Rightarrow> unit res \<times> 'w camp_db_scheme" where
  "Campaign_Create c = db_call ''create campaign: '' (\<lambda>w.
     if c_ID c \<in> c_ID ` set (t_campaigns w)
     then (Inl (Wrap ''create campaign: '' (ErrNew ''duplicate key value violates unique constraint'') []), w)
     else (Inr (), w\<lparr>t_campaigns := t_campaigns w @ [stored_campaign c]\<rparr>))"

text \<open>\<open>queryOne\<close>: the first row of a query, or \<open>ErrNotFound\<close>.\<close>

definition queryOne :: "(campaign \<Rightarrow> bool) \<Rightarrow> 'w camp_db_scheme \<Rightarrow> campaign res \<times> 'w camp_db_scheme" where
  "queryOne p = db_call ''query campaign: '' (\<lambda>w.
     (case List.find p (t_campaigns w) of None \<Rightarrow> Inl ErrNotFound | Some c \<Rightarrow> Inr c, w))"

definition Campaign_Get :: "string \<Rightarrow> string \<Rightarrow> 'w camp_db_scheme \<Rightarrow> campaign res \<times> 'w camp_db_scheme" where
  "Campaign_Get i tenantID = queryOne (\<lambda>c. c_ID c = i \<and> c_TenantID c = tenantID)"

definition Campaign_GetByID :: "string \<Rightarrow> 'w camp_db_scheme \<Rightarrow> campaign res \<times> 'w camp_db_scheme" where
  "Campaign_GetByID i = queryOne (\<lambda>c. c_ID c = i)"

definition camp_listed :: "string \<Rightarrow> string \<Rightarrow> campaign \<Rightarrow> bool" where
  "camp_listed tenantID state c \<longleftrightarrow> c_TenantID c = tenantID \<and>
     (state \<noteq> [] \<longrightarrow> camp_state_str (c_State c) = state)"

definition Campaign_List ::
  "string \<Rightarrow> string \<Rightarrow> int \<Rightarrow> int \<Rightarrow> 'w camp_db_scheme \<Rightarrow> campaign list res \<times> 'w camp_db_scheme" where
  "Campaign_List tenantID state limit offset = db_call ''list campaigns: '' (\<lambda>w.
     (case page c_CreatedAt limit offset (filter (camp_listed tenantID state) (t_campaigns w)) of
        Inl e \<Rightarrow> Inl (Wrap ''list campaigns: '' e [])
      | Inr out \<Rightarrow> Inr out, w))"

definition Campaign_Count :: "string \<Rightarrow> string \<Rightarrow> 'w camp_db_scheme \<Rightarrow> int res \<times> 'w camp_db_scheme" where
  "Campaign_Count tenantID state = db_call ''count campaigns: '' (\<lambda>w.
     (Inr (int (length (filter (camp_listed tenantID state) (t_campaigns w)))), w))"

text \<open>An \<open>UPDATE\<close> of the campaigns and the number of rows it affected.\<close>

definition update_campaigns ::
  "(campaign \<Rightarrow> bool) \<Rightarrow> (campaign \<Rightarrow> campaign) \<Rightarrow> 'w camp_db_scheme \<Rightarrow> nat \<times> 'w camp_db_scheme" where
  "update_campaigns p f w =
     (length (filter p (t_campaigns w)), w\<lparr>t_campaigns := update_where p f (t_campaigns w)\<rparr>)"

text \<open>The row that each of the four updates writes, at the time \<open>now\<close>.\<close>

definition claim_row :: "int \<Rightarrow> campaign \<Rightarrow> campaign" where
  "claim_row now c = c\<lparr>c_State := CampRunning, c_StartedAt := Some now, c_UpdatedAt := now\<rparr>"

definition complete_row :: "report option \<Rightarrow> int \<Rightarrow> campaign \<Rightarrow> campaign" where
  "complete_row rep now c =
     c\<lparr>c_State := (if c_State c = CampCancelled then CampCancelled else CampCompleted),
       c_Recommendation := Option.bind rep rp_Recommendation,
       c_Trials := (case rep of None \<Rightarrow> [] | Some r \<Rightarrow> rp_Trials r),
       c_Usage := map_option rp_Usage rep,
       c_CompletedAt := Some now, c_UpdatedAt := now\<rparr>"

definition fail_row :: "string \<Rightarrow> report option \<Rightarrow> int \<Rightarrow> campaign \<Rightarrow> campaign" where
  "fail_row msg rep now c =
     c\<lparr>c_State := (if c_State c = CampCancelled then CampCancelled else CampFailed),
       c_ErrorMsg := msg,
       c_Trials := (case rep of None \<Rightarrow> c_Trials c | Some r \<Rightarrow> rp_Trials r),
       c_Usage := (case rep of None \<Rightarrow> c_Usage c | Some r \<Rightarrow> Some (rp_Usage r)),
       c_CompletedAt := Some now, c_UpdatedAt := now\<rparr>"

definition cancel_row :: "int \<Rightarrow> campaign \<Rightarrow> campaign" where
  "cancel_row now c = c\<lparr>c_State := CampCancelled, c_UpdatedAt := now\<rparr>"

definition cancellable :: "string \<Rightarrow> campaign \<Rightarrow> bool" where
  "cancellable tenantID c \<longleftrightarrow> c_TenantID c = tenantID \<and> (c_State c = CampPending \<or> c_State c = CampRunning)"

definition MarkRunning :: "string \<Rightarrow> 'w camp_db_scheme \<Rightarrow> bool res \<times> 'w camp_db_scheme" where
  "MarkRunning i = db_call ''mark campaign running: '' (\<lambda>w.
     let (n, w) = update_campaigns (\<lambda>c. c_ID c = i \<and> c_State c = CampPending) (claim_row (w_now w)) w
     in (Inr (n = 1), w))"

definition Campaign_Complete :: "string \<Rightarrow> report option \<Rightarrow> 'w camp_db_scheme \<Rightarrow> unit res \<times> 'w camp_db_scheme" where
  "Campaign_Complete i rep = db_call ''complete campaign: '' (\<lambda>w.
     let (n, w) = update_campaigns (\<lambda>c. c_ID c = i \<and> True) (complete_row rep (w_now w)) w in (Inr (), w))"

definition Campaign_Fail ::
  "string \<Rightarrow> string \<Rightarrow> report option \<Rightarrow> 'w camp_db_scheme \<Rightarrow> unit res \<times> 'w camp_db_scheme" where
  "Campaign_Fail i msg rep = db_call ''fail campaign: '' (\<lambda>w.
     let (n, w) = update_campaigns (\<lambda>c. c_ID c = i \<and> True) (fail_row msg rep (w_now w)) w in (Inr (), w))"

definition Campaign_Cancel :: "string \<Rightarrow> string \<Rightarrow> 'w camp_db_scheme \<Rightarrow> unit res \<times> 'w camp_db_scheme" where
  "Campaign_Cancel i tenantID = db_call ''cancel campaign: '' (\<lambda>w.
     let (n, w) = update_campaigns (\<lambda>c. c_ID c = i \<and> cancellable tenantID c) (cancel_row (w_now w)) w
     in (if n = 0 then Inl ErrNotFound else Inr (), w))"

definition Campaign_State :: "string \<Rightarrow> 'w camp_db_scheme \<Rightarrow> camp_state res \<times> 'w camp_db_scheme" where
  "Campaign_State i = db_call ''read campaign state: '' (\<lambda>w.
     (case List.find (\<lambda>c. c_ID c = i) (t_campaigns w) of
        None \<Rightarrow> Inl (Wrap ''read campaign state: '' ErrNoRows [])
      | Some c \<Rightarrow> Inr (c_State c), w))"

definition Milliseconds :: "int \<Rightarrow> int" where
  "Milliseconds d = (if d < 0 then - (- d div Millisecond) else d div Millisecond)"

definition events_of :: "string \<Rightarrow> (string \<times> camp_event) list \<Rightarrow> camp_event list" where
  "events_of i rows = map snd (filter (\<lambda>(k, e). k = i) rows)"

text \<open>\<open>COALESCE(MAX(seq), 0) + 1\<close>; the row is refused when the campaign does not exist.\<close>

definition next_seq :: "camp_event list \<Rightarrow> int" where
  "next_seq es = (if es = [] then 0 else Max (set (map ce_Seq es))) + 1"

definition AppendEvent :: "string \<Rightarrow> event \<Rightarrow> 'w camp_db_scheme \<Rightarrow> unit res \<times> 'w camp_db_scheme" where
  "AppendEvent i e = db_call ''append campaign event: '' (\<lambda>w.
     if i \<notin> c_ID ` set (t_campaigns w)
     then (Inl (Wrap ''append campaign event: '' (ErrNew ''violates foreign key constraint'') []), w)
     else (Inr (), w\<lparr>t_events := t_events w @ [(i,
        \<lparr>ce_Seq = next_seq (events_of i (t_events w)), ce_Kind = ev_Kind e, ce_Text = ev_Text e,
         ce_Trial = ev_Trial e, ce_Result = ev_Result e, ce_ElapsedMs = Milliseconds (ev_Elapsed e),
         ce_CreatedAt = w_now w\<rparr>)]\<rparr>))"

definition Campaign_Events ::
  "string \<Rightarrow> int \<Rightarrow> int \<Rightarrow> 'w camp_db_scheme \<Rightarrow> camp_event list res \<times> 'w camp_db_scheme" where
  "Campaign_Events i afterSeq limit = db_call ''read campaign events: '' (\<lambda>w.
     (if limit < 0 then Inl (Wrap ''read campaign events: '' (ErrNew ''LIMIT must not be negative'') [])
      else Inr (take (nat limit) (sort_key ce_Seq (filter (\<lambda>e. ce_Seq e > afterSeq) (events_of i (t_events w))))), w))"

section \<open>The abstract view: a map from ids to campaigns\<close>

definition camp_map :: "'w camp_db_scheme \<Rightarrow> string \<Rightarrow> campaign option" where
  "camp_map w i = List.find (\<lambda>c. c_ID c = i) (t_campaigns w)"

definition camps_ok :: "'w camp_db_scheme \<Rightarrow> bool" where
  "camps_ok w \<longleftrightarrow> distinct (map c_ID (t_campaigns w))"

lemma tick_camp [simp]: "t_campaigns (tick w) = t_campaigns w" "t_events (tick w) = t_events w"
    "camp_map (tick w) = camp_map w" "o_registry (tick v) = o_registry v"
  by (simp_all add: tick_def camp_map_def fun_eq_iff)

lemma camp_map_update:
  assumes "t_campaigns w' = update_where (\<lambda>c. c_ID c = i \<and> q c) f (t_campaigns w)" and "\<And>c. c_ID (f c) = c_ID c"
  shows "camp_map w' k = map_option (\<lambda>c. if k = i \<and> q c then f c else c) (camp_map w k)"
proof -
  have "camp_map w' k = map_option (\<lambda>c. if c_ID c = i \<and> q c then f c else c) (camp_map w k)"
    unfolding camp_map_def assms(1) by (rule find_update_where_key) (rule assms(2))
  also have "\<dots> = map_option (\<lambda>c. if k = i \<and> q c then f c else c) (camp_map w k)"
    by (cases "camp_map w k") (auto simp: camp_map_def dest: find_SomeD)
  finally show ?thesis .
qed

lemma camp_map_append:
  assumes "t_campaigns w' = t_campaigns w @ [c]" and "camp_map w (c_ID c) = None"
  shows "camp_map w' = (camp_map w)(c_ID c \<mapsto> c)"
  using assms by (auto simp: camp_map_def find_append fun_eq_iff split: option.splits)

lemma camp_map_None: "camp_map w i = None \<longleftrightarrow> i \<notin> c_ID ` set (t_campaigns w)"
  by (auto simp: camp_map_def find_None_iff)

lemma camp_map_in: "camps_ok w \<Longrightarrow> c \<in> set (t_campaigns w) \<longleftrightarrow> camp_map w (c_ID c) = Some c"
proof
  assume "camps_ok w" and c: "c \<in> set (t_campaigns w)"
  then obtain d where d: "camp_map w (c_ID c) = Some d" by (cases "camp_map w (c_ID c)") (auto simp: camp_map_None)
  then have "d \<in> set (t_campaigns w)" "c_ID d = c_ID c" by (auto simp: camp_map_def dest: find_SomeD)
  with c \<open>camps_ok w\<close> have "d = c" by (auto simp: camps_ok_def distinct_map inj_on_def)
  with d show "camp_map w (c_ID c) = Some c" by simp
qed (auto simp: camp_map_def dest: find_SomeD)

lemma distinct_filter_key:
  "distinct (map k xs) \<Longrightarrow> length (filter (\<lambda>x. k x = i \<and> q x) xs) \<le> 1"
proof (induction xs)
  case (Cons x xs)
  show ?case
  proof (cases "k x = i")
    case True
    with Cons.prems have "filter (\<lambda>y. k y = i \<and> q y) xs = []"
      by (auto simp: filter_empty_conv) (metis imageI)
    then show ?thesis by simp
  qed (use Cons in simp)
qed simp

lemma affected:
  assumes "camps_ok w"
  shows "length (filter (\<lambda>c. c_ID c = i \<and> q c) (t_campaigns w)) =
    (if \<exists>c. camp_map w i = Some c \<and> q c then 1 else 0)"
proof (cases "\<exists>c. camp_map w i = Some c \<and> q c")
  case True
  then obtain c where "c \<in> set (t_campaigns w)" "c_ID c = i" "q c"
    by (auto simp: camp_map_def dest: find_SomeD)
  then have "filter (\<lambda>c. c_ID c = i \<and> q c) (t_campaigns w) \<noteq> []" by (auto simp: filter_empty_conv)
  then have "1 \<le> length (filter (\<lambda>c. c_ID c = i \<and> q c) (t_campaigns w))"
    by (metis One_nat_def Suc_leI length_greater_0_conv)
  with distinct_filter_key [of c_ID "t_campaigns w" i q] assms True show ?thesis by (simp add: camps_ok_def)
next
  case False
  then have "\<forall>c\<in>set (t_campaigns w). \<not> (c_ID c = i \<and> q c)"
    using assms by (auto simp: camp_map_in)
  then show ?thesis using False by (auto simp: filter_empty_conv)
qed

section \<open>The event log\<close>

definition events_ok :: "'w camp_db_scheme \<Rightarrow> bool" where
  "events_ok w \<longleftrightarrow> (\<forall>i. map ce_Seq (events_of i (t_events w)) = [1..int (length (events_of i (t_events w)))])"

lemma upto_snoc: "0 \<le> n \<Longrightarrow> [1..n + 1] = [1..n] @ [n + 1]" for n :: int
  using upto_rec2 [of 1 "n + 1"] by simp

lemma next_seq_upto: "map ce_Seq es = [1..int (length es)] \<Longrightarrow> next_seq es = int (length es) + 1"
proof (cases "es = []")
  case False
  assume eq: "map ce_Seq es = [1..int (length es)]"
  have "Max (set [1..int (length es)]) = int (length es)"
    using False by (intro Max_eqI) (auto simp: Suc_le_eq)
  with eq False show ?thesis by (simp add: next_seq_def)
qed (simp add: next_seq_def)

lemma AppendEvent_ok: "events_ok w \<Longrightarrow> events_ok (snd (AppendEvent i e w))"
proof -
  assume ok: "events_ok w"
  have "map ce_Seq (events_of k (t_events w @ [(i, x)])) = [1..int (length (events_of k (t_events w @ [(i, x)])))]"
    if "ce_Seq x = next_seq (events_of i (t_events w))" for k x
    using ok that upto_snoc [of "int (length (events_of i (t_events w)))"]
    by (auto simp: events_ok_def events_of_def next_seq_upto add.commute)
  then show ?thesis
    using ok by (auto simp: AppendEvent_def db_call_def events_ok_def split: option.splits)
qed

lemma sort_key_sorted: "sorted (map f xs) \<Longrightarrow> sort_key f xs = xs"
  by (metis sort_key_id_if_sorted)

text \<open>Reading after a cursor returns precisely the steps behind it, oldest first, cut at the limit.\<close>

lemma event_log_replay:
  assumes "events_ok w" and "w_faults w = []" and "0 \<le> afterSeq" and "0 \<le> limit"
  shows "fst (Campaign_Events i afterSeq limit w) = Inr (take (nat limit) (drop (nat afterSeq) (events_of i (t_events w)))) \<and>
    events_ok (snd (AppendEvent j e w))"
proof
  let ?es = "events_of i (t_events w)"
  have sq: "map ce_Seq ?es = [1..int (length ?es)]" using assms(1) by (simp add: events_ok_def)
  have nth: "ce_Seq (?es ! n) = int n + 1" if "n < length ?es" for n
    using arg_cong [OF sq, of "\<lambda>l. l ! n"] that by (simp add: add.commute)
  have "filter (\<lambda>e. ce_Seq e > afterSeq) ?es = drop (nat afterSeq) ?es"
  proof -
    have a: "\<forall>x\<in>set (take (nat afterSeq) ?es). \<not> ce_Seq x > afterSeq"
      using nth by (auto simp: in_set_conv_nth)
    have b: "\<forall>x\<in>set (drop (nat afterSeq) ?es). ce_Seq x > afterSeq"
      using nth assms(3) by (auto simp: in_set_conv_nth)
    have "filter (\<lambda>e. ce_Seq e > afterSeq) (take (nat afterSeq) ?es @ drop (nat afterSeq) ?es) = drop (nat afterSeq) ?es"
      using a b by (simp add: filter_empty_conv del: append_take_drop_id)
    then show ?thesis by simp
  qed
  moreover have "sorted (map ce_Seq (drop (nat afterSeq) ?es))"
    using sq by (metis drop_map sorted_wrt_drop sorted_upto)
  ultimately show "fst (Campaign_Events i afterSeq limit w) = Inr (take (nat limit) (drop (nat afterSeq) ?es))"
    using assms(2,4) by (simp add: Campaign_Events_def db_call_def sort_key_sorted)
  show "events_ok (snd (AppendEvent j e w))" by (rule AppendEvent_ok) (rule assms(1))
qed

definition demo_stored :: "string \<Rightarrow> string \<Rightarrow> campaign" where
  "demo_stored i t = \<lparr>c_ID = i, c_TenantID = t, c_Goal = ''cheap'', c_Model = ''m'', c_GPUProfile = ''cpu'',
     c_Engines = [''vllm''], c_Workload = demo_workload,
     c_Budget = \<lparr>MaxTrials = 2, MaxDuration = Hour, MaxTurns = 5\<rparr>, c_PlannerModel = [], c_State = CampPending,
     c_Recommendation = None, c_Trials = [], c_Usage = None, c_ErrorMsg = [], c_CreatedAt = 0, c_UpdatedAt = 0,
     c_StartedAt = None, c_CompletedAt = None\<rparr>"

definition demo_camp_db :: "campaign list \<Rightarrow> camp_db" where
  "demo_camp_db cs = orch.extend (demo_orch [] demo_reg) \<lparr>t_campaigns = cs, t_events = []\<rparr>"

lemma demo_camp_db_simps [simp]:
  "t_campaigns (demo_camp_db cs) = cs" "t_events (demo_camp_db cs) = []" "w_faults (demo_camp_db cs) = []"
  "t_jobs (demo_camp_db cs) = []" "fault (demo_camp_db cs) = None" "w_now (demo_camp_db cs) = 0"
  "q_benchmarks (demo_camp_db cs) = []"
  by (simp_all add: demo_camp_db_def orch.defs demo_orch_def demo_db_def jobs_db.defs fault_def)

section \<open>What each statement does to the map\<close>

lemma queryOne_cases:
  assumes "Campaign_GetByID i w = (r, w')"
  shows "w' = tick w \<and> (\<forall>c. r = Inr c \<longrightarrow> camp_map w i = Some c) \<and> (r = Inl ErrNotFound \<longrightarrow> camp_map w i = None)"
  using assms by (auto simp: Campaign_GetByID_def queryOne_def db_call_def camp_map_def ErrNotFound_def split: option.splits)

lemma row_keys [simp]:
  "c_ID (claim_row t c) = c_ID c" "c_ID (complete_row rep t c) = c_ID c" "c_ID (fail_row msg rep t c) = c_ID c"
  "c_ID (cancel_row t c) = c_ID c" "c_TenantID (claim_row t c) = c_TenantID c"
  "c_TenantID (complete_row rep t c) = c_TenantID c" "c_TenantID (fail_row msg rep t c) = c_TenantID c"
  "c_TenantID (cancel_row t c) = c_TenantID c"
  by (simp_all add: claim_row_def complete_row_def fail_row_def cancel_row_def)

definition finished_as :: "camp_state \<Rightarrow> camp_state \<Rightarrow> camp_state" where
  "finished_as new old = (if old = CampCancelled then CampCancelled else new)"

lemma row_states [simp]:
  "c_State (claim_row t c) = CampRunning" "c_State (cancel_row t c) = CampCancelled"
  "c_State (complete_row rep t c) = finished_as CampCompleted (c_State c)"
  "c_State (fail_row msg rep t c) = finished_as CampFailed (c_State c)"
  by (simp_all add: claim_row_def complete_row_def fail_row_def cancel_row_def finished_as_def)

text \<open>One update by id and condition: \<open>q\<close> decides the row, \<open>f\<close> is what it becomes.\<close>

lemma camp_update:
  assumes f: "\<And>c. c_ID (f c) = c_ID c" and "camps_ok w"
    and u: "update_campaigns (\<lambda>c. c_ID c = i \<and> q c) f w = (n, w')"
  obtains (hit) c where "n = 1" "camp_map w i = Some c" "q c" "camp_map w' = (camp_map w)(i \<mapsto> f c)"
  | (miss) "n = 0" "\<not> (\<exists>c. camp_map w i = Some c \<and> q c)" "camp_map w' = camp_map w"
proof -
  from u have rows: "t_campaigns w' = update_where (\<lambda>c. c_ID c = i \<and> q c) f (t_campaigns w)"
    and n: "n = (if \<exists>c. camp_map w i = Some c \<and> q c then 1 else 0)"
    using affected [OF assms(2)] by (auto simp: update_campaigns_def)
  note m = camp_map_update [OF rows f]
  show thesis
  proof (cases "\<exists>c. camp_map w i = Some c \<and> q c")
    case True
    then obtain c where c: "camp_map w i = Some c" "q c" by blast
    have "camp_map w' k = ((camp_map w)(i \<mapsto> f c)) k" for k
      using m [of k] c by (cases "camp_map w k") auto
    with c n True show thesis by (intro hit) auto
  next
    case False
    have "camp_map w' k = camp_map w k" for k
      using m [of k] False by (cases "camp_map w k") auto
    with n False show thesis by (intro miss) auto
  qed
qed

lemma camps_ok_tick [simp]: "camps_ok (tick w) = camps_ok w"
  by (simp add: camps_ok_def)

lemma MarkRunning_cases:
  assumes "MarkRunning i w = (r, w')" and ok: "camps_ok w"
  obtains (won) c where "r = Inr True" "camp_map w i = Some c" "c_State c = CampPending"
      "camp_map w' = (camp_map w)(i \<mapsto> claim_row (w_now w) c)"
  | (lost) "r \<noteq> Inr True" "camp_map w' = camp_map w"
proof (cases "fault w")
  case (Some e)
  with assms(1) show thesis by (intro lost) (auto simp: MarkRunning_def db_call_def)
next
  case None
  obtain n v where u: "update_campaigns (\<lambda>c. c_ID c = i \<and> c_State c = CampPending) (claim_row (w_now w)) (tick w) = (n, v)"
    by (metis prod.collapse)
  with None assms(1) have r: "r = Inr (n = 1)" "w' = v" by (auto simp: MarkRunning_def db_call_ok Let_def)
  from camp_update [OF _ _ u] ok r show thesis by (cases) (auto intro: won lost)
qed

lemma Complete_cases:
  assumes "Campaign_Complete i rep w = (r, w')" and ok: "camps_ok w"
  obtains (wrote) c where "r = Inr ()" "camp_map w i = Some c" "camp_map w' = (camp_map w)(i \<mapsto> complete_row rep (w_now w) c)"
  | (same) "camp_map w' = camp_map w" "isErr r \<or> camp_map w i = None"
proof (cases "fault w")
  case (Some e)
  with assms(1) show thesis by (intro same) (auto simp: Campaign_Complete_def db_call_def)
next
  case None
  obtain n v where u: "update_campaigns (\<lambda>c. c_ID c = i \<and> True) (complete_row rep (w_now w)) (tick w) = (n, v)"
    by (metis prod.collapse)
  with None assms(1) have r: "r = Inr ()" "w' = v" by (auto simp: Campaign_Complete_def db_call_ok Let_def)
  from camp_update [OF _ _ u] ok r show thesis by (cases) (auto intro: wrote same)
qed

lemma Fail_cases:
  assumes "Campaign_Fail i msg rep w = (r, w')" and ok: "camps_ok w"
  obtains (wrote) c where "r = Inr ()" "camp_map w i = Some c" "camp_map w' = (camp_map w)(i \<mapsto> fail_row msg rep (w_now w) c)"
  | (same) "camp_map w' = camp_map w" "isErr r \<or> camp_map w i = None"
proof (cases "fault w")
  case (Some e)
  with assms(1) show thesis by (intro same) (auto simp: Campaign_Fail_def db_call_def)
next
  case None
  obtain n v where u: "update_campaigns (\<lambda>c. c_ID c = i \<and> True) (fail_row msg rep (w_now w)) (tick w) = (n, v)"
    by (metis prod.collapse)
  with None assms(1) have r: "r = Inr ()" "w' = v" by (auto simp: Campaign_Fail_def db_call_ok Let_def)
  from camp_update [OF _ _ u] ok r show thesis by (cases) (auto intro: wrote same)
qed

lemma Cancel_cases:
  assumes "Campaign_Cancel i t w = (r, w')" and ok: "camps_ok w"
  obtains (wrote) c where "r = Inr ()" "camp_map w i = Some c" "cancellable t c"
      "camp_map w' = (camp_map w)(i \<mapsto> cancel_row (w_now w) c)"
  | (same) "isErr r" "camp_map w' = camp_map w"
proof (cases "fault w")
  case (Some e)
  with assms(1) show thesis by (intro same) (auto simp: Campaign_Cancel_def db_call_def)
next
  case None
  obtain n v where u: "update_campaigns (\<lambda>c. c_ID c = i \<and> cancellable t c) (cancel_row (w_now w)) (tick w) = (n, v)"
    by (metis prod.collapse)
  with None assms(1) have r: "r = (if n = 0 then Inl ErrNotFound else Inr ())" "w' = v"
    by (auto simp: Campaign_Cancel_def db_call_ok Let_def)
  from camp_update [OF _ _ u] ok r show thesis by (cases) (auto intro: wrote same)
qed

lemma AppendEvent_map: "AppendEvent i e w = (r, w') \<Longrightarrow> camp_map w' = camp_map w"
  by (auto simp: AppendEvent_def db_call_def camp_map_def fun_eq_iff split: option.splits if_splits)

lemma camps_ok_ops:
  "camps_ok w \<Longrightarrow> camps_ok (snd (Campaign_Create c w))"
  "camps_ok w \<Longrightarrow> camps_ok (snd (MarkRunning i w))"
  "camps_ok w \<Longrightarrow> camps_ok (snd (Campaign_Complete i rep w))"
  "camps_ok w \<Longrightarrow> camps_ok (snd (Campaign_Fail i msg rep w))"
  "camps_ok w \<Longrightarrow> camps_ok (snd (Campaign_Cancel i t w))"
  "camps_ok w \<Longrightarrow> camps_ok (snd (AppendEvent i e w))"
  by (auto simp: camps_ok_def Campaign_Create_def MarkRunning_def Campaign_Complete_def Campaign_Fail_def
      Campaign_Cancel_def AppendEvent_def db_call_def update_campaigns_def stored_campaign_def Let_def
      map_update_where split: option.splits)

end
