(* ===== verification/Gateway.thy ===== *)
theory Gateway
  imports Auth Campaigns
begin

text \<open>
  The public API: the handlers of \<open>internal/gateway/handlers.go\<close> and \<open>campaigns.go\<close>, and the route table and
  middleware chain of \<open>cmd/gateway/main.go\<close>. The store, queue and metrics interfaces of the handlers are the
  model of the database; request bodies are text, and the JSON decoders and the RFC 3339 parser of the
  library are fields of the environment, as are the orchestrator's answer to a relayed request and the key
  manager. A handler that would read the tenant from a context without one panics (\<open>Panicked\<close>).
\<close>

section \<open>The environment and the replies\<close>

record create_job_request =
  jq_Model :: string
  jq_Engines :: "string list"
  jq_Workload :: workload_config
  jq_EngineConfig :: engine_config
  jq_GPUProfile :: string
  jq_AutoRoute :: bool

record create_campaign_request =
  cq_Goal :: string
  cq_Model :: string
  cq_Engines :: "string list"
  cq_GPUProfile :: string
  cq_Workload :: workload_config
  cq_MaxTrials :: int
  cq_MaxDuration :: string
  cq_PlannerModel :: string

record create_key_request =
  kq_TenantID :: string
  kq_Scopes :: "string list"
  kq_ExpiryDays :: int

record api_key =
  ak_tenant_id :: string
  ak_key_hash :: string
  ak_scopes :: "string list"
  ak_expires_at :: int
  ak_revoked_at :: "int option"

record gw_db = camp_db +
  t_api_keys :: "api_key list"

record gw_env =
  ge_km :: key_manager
  ge_origins :: "string list"
  ge_decode_job :: "string \<Rightarrow> string + create_job_request"
  ge_decode_campaign :: "string \<Rightarrow> string + create_campaign_request"
  ge_decode_input :: "string \<Rightarrow> string + classification_input"
  ge_decode_key :: "string \<Rightarrow> string + create_key_request"
  ge_rfc3339 :: "string \<Rightarrow> string + int"
  ge_workers :: "string http_out"
  ge_has_pool :: bool

datatype gw_body =
    JobAccepted string string bool string
  | JobBody job
  | ResultsBody "result list"
  | JobsPage "job list" int int int
  | CancelledBody
  | ClassBody classification_result
  | EnginesBody "(string \<times> string) list"
  | RelayBody string
  | KeyBody string int
  | HealthBody string string string
  | DashboardBody
  | CampaignAccepted string string
  | CampaignsPage "campaign list" int int int
  | CampaignBody campaign
  | EventsPage "camp_event list" int string bool

type_synonym 'w gw_handler =
  "request \<Rightarrow> auth_state \<times> 'w gw_db_scheme \<Rightarrow> gw_body outcome \<times> auth_state \<times> 'w gw_db_scheme"

section \<open>Helpers\<close>

definition writeJSON :: "int \<Rightarrow> gw_body \<Rightarrow> gw_body outcome" where
  "writeJSON status b = Response status [(''Content-Type'', ''application/json'')] (Body b)"

definition errBadBody :: string where
  "errBadBody = ''empty or malformed request body''"

definition readJSON :: "(string \<Rightarrow> string + 'a) \<Rightarrow> request \<Rightarrow> string + 'a" where
  "readJSON decode r = (case rq_Body r of None \<Rightarrow> Inl errBadBody | Some b \<Rightarrow> decode b)"

definition query_get :: "request \<Rightarrow> string \<Rightarrow> string" where
  "query_get r k = (case map_of (rq_Query r) k of None \<Rightarrow> [] | Some v \<Rightarrow> v)"

definition queryInt :: "request \<Rightarrow> string \<Rightarrow> int \<Rightarrow> int \<Rightarrow> int" where
  "queryInt r key defaultVal maxVal =
     (let s = query_get r key
      in if s = [] then defaultVal
         else case Atoi s of
                None \<Rightarrow> defaultVal
              | Some n \<Rightarrow> if n < 0 then defaultVal
                          else if maxVal > 0 \<and> n > maxVal then maxVal else n)"

section \<open>Jobs\<close>

text \<open>The checks of \<open>CreateJob\<close>, in the order of the code: the text of the first that fails.\<close>

definition job_request_error :: "create_job_request \<Rightarrow> string option" where
  "job_request_error q =
     (if jq_Model q = [] then Some ''model is required''
      else if \<not> jq_AutoRoute q \<and> jq_Engines q = [] then Some ''at least one engine is required (or set auto_route)''
      else case ValidateEngines (jq_Engines q) of
             Some e \<Rightarrow> Some (Error e)
           | None \<Rightarrow>
               if jq_GPUProfile q = [] then Some ''gpu_profile is required''
               else case ValidateWorkload (jq_Workload q) of
                      Some e \<Rightarrow> Some (Error e)
                    | None \<Rightarrow> map_option Error (ValidateEngineConfig (jq_EngineConfig q)))"

definition recommended :: "create_job_request \<Rightarrow> string" where
  "recommended q =
     (if jq_AutoRoute q
      then cr_RecommendedEngine (Classify \<lparr>ci_PromptTokens = PromptTokens (jq_Workload q),
             ci_OutputTokens = OutputTokens (jq_Workload q), ci_Concurrency = Concurrency (jq_Workload q),
             ci_StructuredOutput = False, ci_ToolCalls = False, ci_SharedPrefixRatio = 0\<rparr>)
      else [])"

definition routed_engines :: "create_job_request \<Rightarrow> string list" where
  "routed_engines q =
     (if jq_AutoRoute q then (case jq_Engines q of [] \<Rightarrow> [recommended q] | _ # es \<Rightarrow> recommended q # es)
      else jq_Engines q)"

definition requested_job :: "create_job_request \<Rightarrow> string \<Rightarrow> string \<Rightarrow> int \<Rightarrow> job" where
  "requested_job q tenantID i now =
     \<lparr>job_ID = i, job_TenantID = tenantID, job_Model = jq_Model q, job_Engines = routed_engines q,
      job_WorkloadConfig = jq_Workload q, job_EngineConfig = jq_EngineConfig q, job_GPUProfile = jq_GPUProfile q,
      job_State = StatePending, job_CreatedAt = now, job_UpdatedAt = now, job_ErrorMsg = [], job_RunID = []\<rparr>"

definition requested_args :: "create_job_request \<Rightarrow> string \<Rightarrow> string \<Rightarrow> bench_job_args" where
  "requested_args q tenantID i =
     \<lparr>ba_JobID = i, ba_Model = jq_Model q, ba_Engines = routed_engines q, ba_Workload = jq_Workload q,
      ba_EngineConfig = jq_EngineConfig q, ba_GPUProfile = jq_GPUProfile q, ba_TenantID = tenantID\<rparr>"

definition save_and_enqueue ::
  "create_job_request \<Rightarrow> string \<Rightarrow> 'w gw_db_scheme \<Rightarrow> gw_body outcome \<times> 'w gw_db_scheme" where
  "save_and_enqueue q tenantID w =
     (let now = w_now w; (i, w) = NewID w; (saved, w) = SaveJob (requested_job q tenantID i now) w
      in case saved of
           Inl _ \<Rightarrow> (writeJSONError 500 ''failed to save job'', w)
         | Inr _ \<Rightarrow>
             let (queued, w) = Enqueue (requested_args q tenantID i) w
             in (case queued of
                   Inl _ \<Rightarrow> writeJSONError 500 ''failed to enqueue job''
                 | Inr _ \<Rightarrow> writeJSON 202 (JobAccepted i (job_state_str StatePending) (jq_AutoRoute q) (recommended q)), w))"

text \<open>\<open>on_db\<close> runs a handler of the database in a state that also has the middlewares' part.\<close>

definition on_db :: "('w \<Rightarrow> 'o \<times> 'w) \<Rightarrow> auth_state \<times> 'w \<Rightarrow> 'o \<times> auth_state \<times> 'w" where
  "on_db f = (\<lambda>(s, w). let (out, w) = f w in (out, s, w))"

definition CreateJob :: "gw_env \<Rightarrow> 'w gw_handler" where
  "CreateJob env r s =
     (case readJSON (ge_decode_job env) r of
        Inl e \<Rightarrow> (writeJSONError 400 e, s)
      | Inr q \<Rightarrow>
          (case job_request_error q of
             Some e \<Rightarrow> (writeJSONError 400 e, s)
           | None \<Rightarrow> MustGetTenantID r (\<lambda>tenantID. on_db (save_and_enqueue q tenantID)) s))"

definition GetJob_handler :: "string \<Rightarrow> 'w gw_handler" where
  "GetJob_handler jobID r = MustGetTenantID r (\<lambda>tenantID. on_db (\<lambda>w.
     let (j, w) = GetJob jobID tenantID w
     in (case j of Inl _ \<Rightarrow> writeJSONError 404 ''job not found'' | Inr j \<Rightarrow> writeJSON 200 (JobBody j), w)))"

definition GetJobResults :: "string \<Rightarrow> 'w gw_handler" where
  "GetJobResults jobID r = MustGetTenantID r (\<lambda>tenantID. on_db (\<lambda>w.
     let (j, w) = GetJob jobID tenantID w
     in case j of
          Inl _ \<Rightarrow> (writeJSONError 404 ''job not found'', w)
        | Inr _ \<Rightarrow>
            let (rs, w) = QueryByJob jobID w
            in (case rs of Inl _ \<Rightarrow> writeJSONError 500 ''failed to query results'' | Inr rs \<Rightarrow> writeJSON 200 (ResultsBody rs), w)))"

definition ListJobs_handler :: "'w gw_handler" where
  "ListJobs_handler r = MustGetTenantID r (\<lambda>tenantID. on_db (\<lambda>w.
     let state = query_get r ''state''; limit = queryInt r ''limit'' 20 100; offset = queryInt r ''offset'' 0 (-1);
         (jobList, w) = ListJobs tenantID state limit offset w
     in case jobList of
          Inl _ \<Rightarrow> (writeJSONError 500 ''failed to list jobs'', w)
        | Inr js \<Rightarrow>
            let (total, w) = CountJobs tenantID state w
            in (writeJSON 200 (JobsPage js (case total of Inl _ \<Rightarrow> int (length js) | Inr n \<Rightarrow> n) limit offset), w)))"

text \<open>\<open>CancelJob\<close> reads the job and then writes its state: two statements, between which the rest of the system
  may act. The notification it then sends is fire and forget.\<close>

definition cancel_check :: "string \<Rightarrow> string \<Rightarrow> 'w gw_db_scheme \<Rightarrow> gw_body outcome option \<times> 'w gw_db_scheme" where
  "cancel_check jobID tenantID w =
     (let (j, w) = GetJob jobID tenantID w
      in (case j of
            Inl _ \<Rightarrow> Some (writeJSONError 404 ''job not found'')
          | Inr j \<Rightarrow> if IsTerminal (job_State j) then Some (writeJSONError 409 ''job already in terminal state'') else None, w))"

definition cancel_write :: "string \<Rightarrow> 'w gw_db_scheme \<Rightarrow> gw_body outcome \<times> 'w gw_db_scheme" where
  "cancel_write jobID w =
     (let (u, w) = UpdateJobState jobID StateCancelled [] w
      in (case u of Inl _ \<Rightarrow> writeJSONError 500 ''failed to cancel job'' | Inr _ \<Rightarrow> writeJSON 200 CancelledBody, w))"

definition CancelJob :: "string \<Rightarrow> 'w gw_handler" where
  "CancelJob jobID r = MustGetTenantID r (\<lambda>tenantID. on_db (\<lambda>w.
     let (early, w) = cancel_check jobID tenantID w
     in case early of Some out \<Rightarrow> (out, w) | None \<Rightarrow> cancel_write jobID w))"

definition GetMetrics :: "gw_env \<Rightarrow> 'w gw_handler" where
  "GetMetrics env r = (\<lambda>(s, w).
     let sinceStr = query_get r ''since'';
         since = (if sinceStr = [] then Inr (w_now w - 24 * Hour) else ge_rfc3339 env sinceStr)
     in case since of
          Inl _ \<Rightarrow> (writeJSONError 400 ''invalid since format (use RFC3339)'', s, w)
        | Inr t \<Rightarrow> MustGetTenantID r (\<lambda>tenantID. on_db (\<lambda>w.
            let (rs, w) = QueryByTenantEngineAndModel tenantID (query_get r ''engine'') (query_get r ''model'') t w
            in (case rs of Inl _ \<Rightarrow> writeJSONError 500 ''failed to query metrics'' | Inr rs \<Rightarrow> writeJSON 200 (ResultsBody rs), w))) (s, w))"

definition ClassifyWorkload :: "gw_env \<Rightarrow> 'w gw_handler" where
  "ClassifyWorkload env r s =
     (case readJSON (ge_decode_input env) r of
        Inl e \<Rightarrow> (writeJSONError 400 e, s)
      | Inr i \<Rightarrow> (writeJSON 200 (ClassBody (Classify i)), s))"

definition ListEngines :: "'w gw_handler" where
  "ListEngines r s = (writeJSON 200 (EnginesBody
     [(''vllm'', ''Broad model support, continuous batching, PagedAttention''),
      (''sglang'', ''Agent workloads, structured output, RadixAttention''),
      (''tensorrt'', ''Maximum throughput on NVIDIA hardware''),
      (''llamacpp'', ''CPU inference, edge deployment, GGUF quantization''),
      (''ollama'', ''Local development, easy model management''),
      (''mock'', ''No-GPU smoke test, no real model server'')]), s)"

text \<open>The orchestrator's answer is relayed with its status, whatever the body holds.\<close>

definition ListWorkers_handler :: "gw_env \<Rightarrow> 'w gw_handler" where
  "ListWorkers_handler env r s =
     (case ge_workers env of
        BuildErr _ \<Rightarrow> (writeJSONError 500 ''failed to build orchestrator request'', s)
      | DoErr _ \<Rightarrow> (writeJSONError 502 ''orchestrator unreachable'', s)
      | Resp code b \<Rightarrow> (writeJSON code (RelayBody (case b of Inl t \<Rightarrow> t | Inr t \<Rightarrow> t)), s))"

section \<open>API keys and health\<close>

definition insert_key :: "api_key \<Rightarrow> 'w gw_db_scheme \<Rightarrow> unit res \<times> 'w gw_db_scheme" where
  "insert_key k = db_call [] (\<lambda>w.
     if ak_key_hash k \<in> ak_key_hash ` set (t_api_keys w)
     then (Inl (ErrNew ''duplicate key value violates unique constraint''), w)
     else (Inr (), w\<lparr>t_api_keys := t_api_keys w @ [k]\<rparr>))"

definition key_request_error :: "create_key_request \<Rightarrow> string option" where
  "key_request_error q =
     (if kq_TenantID q = [] then Some ''tenant_id is required''
      else if kq_Scopes q = [] then Some ''scopes must not be empty''
      else if kq_ExpiryDays q < 1 \<or> kq_ExpiryDays q > 365 then Some ''expiry_days must be between 1 and 365''
      else None)"

definition CreateAPIKey :: "gw_env \<Rightarrow> 'w gw_handler" where
  "CreateAPIKey env r = (\<lambda>(s, w).
     case readJSON (ge_decode_key env) r of
       Inl e \<Rightarrow> (writeJSONError 400 e, s, w)
     | Inr q \<Rightarrow>
         (case key_request_error q of
            Some e \<Rightarrow> (writeJSONError 400 e, s, w)
          | None \<Rightarrow>
              let expiry = kq_ExpiryDays q * 24 * Hour
              in case Issue (ge_km env) (kq_TenantID q) (kq_Scopes q) expiry w of
                   Inl _ \<Rightarrow> (writeJSONError 500 ''failed to issue token'', s, w)
                 | Inr token \<Rightarrow>
                     let expiresAt = w_now w + expiry;
                         (stored, w) = (if ge_has_pool env
                           then insert_key \<lparr>ak_tenant_id = kq_TenantID q, ak_key_hash = km_sha256 (ge_km env) token,
                             ak_scopes = kq_Scopes q, ak_expires_at = expiresAt, ak_revoked_at = None\<rparr> w
                           else (Inr (), w))
                     in (case stored of
                           Inl _ \<Rightarrow> writeJSONError 500 ''failed to persist api key''
                         | Inr _ \<Rightarrow> writeJSON 200 (KeyBody token expiresAt), s, w)))"

definition ping :: "'w world_scheme \<Rightarrow> unit res \<times> 'w world_scheme" where
  "ping = db_call [] (\<lambda>w. (Inr (), w))"

definition Health :: "'w gw_handler" where
  "Health r = on_db (\<lambda>w.
     let (p, w) = ping w
     in (writeJSON 200 (HealthBody ''ok'' ''0.1.0'' (case p of Inl _ \<Rightarrow> ''error'' | Inr _ \<Rightarrow> ''ok'')), w))"

definition Dashboard :: "'w gw_handler" where
  "Dashboard r s = (Response 200 [(''Content-Type'', ''text/html; charset=utf-8'')] (Body DashboardBody), s)"

section \<open>Campaigns\<close>

definition maxCampaignTrials :: int where "maxCampaignTrials = 50"
definition maxCampaignDuration :: int where "maxCampaignDuration = 24 * Hour"
definition maxEventPageSize :: int where "maxEventPageSize = 500"

definition campaignBudget :: "create_campaign_request \<Rightarrow> string + budget" where
  "campaignBudget q =
     (let b = DefaultBudget;
          b = (if cq_MaxTrials q > 0 then b\<lparr>MaxTrials := cq_MaxTrials q\<rparr> else b)
      in case (if cq_MaxDuration q = [] then Inr b
               else case ParseDuration (cq_MaxDuration q) of
                      Inl _ \<Rightarrow> Inl (''max_duration must be a duration such as '' @ quoted ''90m'' @ '' or '' @ quoted ''2h'')
                    | Inr d \<Rightarrow> Inr (b\<lparr>MaxDuration := d\<rparr>)) of
           Inl e \<Rightarrow> Inl e
         | Inr b \<Rightarrow>
             if MaxTrials b > maxCampaignTrials then Inl ''max_trials must not exceed 50''
             else if MaxDuration b > maxCampaignDuration then Inl ''max_duration must not exceed 24h''
             else (case Budget_Validate b of Some e \<Rightarrow> Inl (Error e) | None \<Rightarrow> Inr b))"

definition campaign_request_error :: "create_campaign_request \<Rightarrow> string option" where
  "campaign_request_error q =
     (if cq_Goal q = [] then Some ''goal is required''
      else if cq_Model q = [] then Some ''model is required''
      else if cq_GPUProfile q = [] then Some ''gpu_profile is required''
      else if cq_Engines q = [] then Some ''at least one candidate engine is required''
      else case ValidateEngines (cq_Engines q) of
             Some e \<Rightarrow> Some (Error e)
           | None \<Rightarrow> map_option Error (ValidateWorkload (cq_Workload q)))"

definition requested_campaign :: "create_campaign_request \<Rightarrow> budget \<Rightarrow> string \<Rightarrow> string \<Rightarrow> int \<Rightarrow> campaign" where
  "requested_campaign q b tenantID i now =
     \<lparr>c_ID = i, c_TenantID = tenantID, c_Goal = cq_Goal q, c_Model = cq_Model q, c_GPUProfile = cq_GPUProfile q,
      c_Engines = cq_Engines q, c_Workload = cq_Workload q, c_Budget = b,
      c_PlannerModel = (if cq_PlannerModel q = [] then DefaultModel else cq_PlannerModel q), c_State = CampPending,
      c_Recommendation = None, c_Trials = [], c_Usage = None, c_ErrorMsg = [], c_CreatedAt = now, c_UpdatedAt = 0,
      c_StartedAt = None, c_CompletedAt = None\<rparr>"

definition save_and_enqueue_campaign ::
  "create_campaign_request \<Rightarrow> budget \<Rightarrow> string \<Rightarrow> 'w gw_db_scheme \<Rightarrow> gw_body outcome \<times> 'w gw_db_scheme" where
  "save_and_enqueue_campaign q b tenantID w =
     (let now = w_now w; (i, w) = NewID w; (saved, w) = Campaign_Create (requested_campaign q b tenantID i now) w
      in case saved of
           Inl _ \<Rightarrow> (writeJSONError 500 ''failed to save campaign'', w)
         | Inr _ \<Rightarrow>
             let (queued, w) = EnqueueCampaign \<lparr>ca_CampaignID = i, ca_TenantID = tenantID,
                    ca_MaxDurationSec = MaxDuration b div Second\<rparr> w
             in (case queued of
                   Inl _ \<Rightarrow> (writeJSONError 500 ''failed to enqueue campaign'', snd (Campaign_Cancel i tenantID w))
                 | Inr _ \<Rightarrow> (writeJSON 202 (CampaignAccepted i (camp_state_str CampPending)), w)))"

definition CreateCampaign :: "gw_env \<Rightarrow> 'w gw_handler" where
  "CreateCampaign env r s =
     (case readJSON (ge_decode_campaign env) r of
        Inl e \<Rightarrow> (writeJSONError 400 e, s)
      | Inr q \<Rightarrow>
          (case campaign_request_error q of
             Some e \<Rightarrow> (writeJSONError 400 e, s)
           | None \<Rightarrow>
               (case campaignBudget q of
                  Inl e \<Rightarrow> (writeJSONError 400 e, s)
                | Inr b \<Rightarrow> MustGetTenantID r (\<lambda>tenantID. on_db (save_and_enqueue_campaign q b tenantID)) s)))"

definition ListCampaigns :: "'w gw_handler" where
  "ListCampaigns r = MustGetTenantID r (\<lambda>tenantID. on_db (\<lambda>w.
     let state = query_get r ''state''; limit = queryInt r ''limit'' 20 100; offset = queryInt r ''offset'' 0 (-1);
         (cs, w) = Campaign_List tenantID state limit offset w
     in case cs of
          Inl _ \<Rightarrow> (writeJSONError 500 ''failed to list campaigns'', w)
        | Inr cs \<Rightarrow>
            let (total, w) = Campaign_Count tenantID state w
            in (writeJSON 200 (CampaignsPage cs (case total of Inl _ \<Rightarrow> int (length cs) | Inr n \<Rightarrow> n) limit offset), w)))"

definition GetCampaign :: "string \<Rightarrow> 'w gw_handler" where
  "GetCampaign i r = MustGetTenantID r (\<lambda>tenantID. on_db (\<lambda>w.
     let (c, w) = Campaign_Get i tenantID w
     in (case c of Inl _ \<Rightarrow> writeJSONError 404 ''campaign not found'' | Inr c \<Rightarrow> writeJSON 200 (CampaignBody c), w)))"

definition GetCampaignEvents :: "string \<Rightarrow> 'w gw_handler" where
  "GetCampaignEvents i r = MustGetTenantID r (\<lambda>tenantID. on_db (\<lambda>w.
     let (c, w) = Campaign_Get i tenantID w
     in case c of
          Inl _ \<Rightarrow> (writeJSONError 404 ''campaign not found'', w)
        | Inr c \<Rightarrow>
            let afterSeq = queryInt r ''after_seq'' 0 (-1); limit = queryInt r ''limit'' 200 maxEventPageSize;
                (es, w) = Campaign_Events i afterSeq limit w
            in (case es of
                  Inl _ \<Rightarrow> writeJSONError 500 ''failed to read campaign events''
                | Inr es \<Rightarrow> writeJSON 200 (EventsPage es (if es = [] then afterSeq else ce_Seq (last es))
                    (camp_state_str (c_State c)) (Camp_IsTerminal (c_State c))), w)))"

definition CancelCampaign :: "string \<Rightarrow> 'w gw_handler" where
  "CancelCampaign i r = MustGetTenantID r (\<lambda>tenantID. on_db (\<lambda>w.
     let (u, w) = Campaign_Cancel i tenantID w
     in (case u of
           Inl e \<Rightarrow> if errors_Is e ErrNotFound then writeJSONError 404 ''no cancellable campaign with that id''
                    else writeJSONError 500 ''failed to cancel campaign''
         | Inr _ \<Rightarrow> writeJSON 200 CancelledBody, w)))"

section \<open>The routes and the chain\<close>

datatype endpoint =
    EpHealth | EpDashboard
  | EpCreateJob | EpCancelJob string | EpCreateCampaign | EpCancelCampaign string
  | EpListJobs | EpGetJob string | EpGetJobResults string | EpClassify | EpListEngines | EpListWorkers
  | EpListCampaigns | EpGetCampaign string | EpGetCampaignEvents string
  | EpMetrics | EpCreateAPIKey

text \<open>The routes of a path, with their methods. A path parameter matches one non-empty segment.\<close>

definition routes :: "string list \<Rightarrow> (string \<times> endpoint) list" where
  "routes path =
     (case path of
        [a] \<Rightarrow> if a = ''health'' then [(''GET'', EpHealth)] else if a = ''dashboard'' then [(''GET'', EpDashboard)] else []
      | [v, b] \<Rightarrow>
          if v \<noteq> ''v1'' then []
          else if b = ''jobs'' then [(''POST'', EpCreateJob), (''GET'', EpListJobs)]
          else if b = ''campaigns'' then [(''POST'', EpCreateCampaign), (''GET'', EpListCampaigns)]
          else if b = ''route'' then [(''POST'', EpClassify)]
          else if b = ''engines'' then [(''GET'', EpListEngines)]
          else if b = ''workers'' then [(''GET'', EpListWorkers)]
          else if b = ''metrics'' then [(''GET'', EpMetrics)]
          else []
      | [v, b, i] \<Rightarrow>
          if v \<noteq> ''v1'' \<or> i = [] then []
          else if b = ''jobs'' then [(''DELETE'', EpCancelJob i), (''GET'', EpGetJob i)]
          else if b = ''campaigns'' then [(''DELETE'', EpCancelCampaign i), (''GET'', EpGetCampaign i)]
          else if b = ''admin'' \<and> i = ''apikeys'' then [(''POST'', EpCreateAPIKey)]
          else []
      | [v, b, i, t] \<Rightarrow>
          if v \<noteq> ''v1'' \<or> i = [] then []
          else if b = ''jobs'' \<and> t = ''results'' then [(''GET'', EpGetJobResults i)]
          else if b = ''campaigns'' \<and> t = ''events'' then [(''GET'', EpGetCampaignEvents i)]
          else []
      | _ \<Rightarrow> [])"

text \<open>The scope the group of a route requires; the two routes outside the groups have none.\<close>

fun guard_of :: "endpoint \<Rightarrow> scope option" where
  "guard_of EpHealth = None"
| "guard_of EpDashboard = None"
| "guard_of EpCreateJob = Some ScopeJobsWrite"
| "guard_of (EpCancelJob i) = Some ScopeJobsWrite"
| "guard_of EpCreateCampaign = Some ScopeJobsWrite"
| "guard_of (EpCancelCampaign i) = Some ScopeJobsWrite"
| "guard_of EpMetrics = Some ScopeMetricsRead"
| "guard_of EpCreateAPIKey = Some ScopeAdminAll"
| "guard_of _ = Some ScopeJobsRead"

fun handle :: "gw_env \<Rightarrow> endpoint \<Rightarrow> 'w gw_handler" where
  "handle env EpHealth = Health"
| "handle env EpDashboard = Dashboard"
| "handle env EpCreateJob = CreateJob env"
| "handle env (EpCancelJob i) = CancelJob i"
| "handle env EpCreateCampaign = CreateCampaign env"
| "handle env (EpCancelCampaign i) = CancelCampaign i"
| "handle env EpListJobs = ListJobs_handler"
| "handle env (EpGetJob i) = GetJob_handler i"
| "handle env (EpGetJobResults i) = GetJobResults i"
| "handle env EpClassify = ClassifyWorkload env"
| "handle env EpListEngines = ListEngines"
| "handle env EpListWorkers = ListWorkers_handler env"
| "handle env EpListCampaigns = ListCampaigns"
| "handle env (EpGetCampaign i) = GetCampaign i"
| "handle env (EpGetCampaignEvents i) = GetCampaignEvents i"
| "handle env EpMetrics = GetMetrics env"
| "handle env EpCreateAPIKey = CreateAPIKey env"

definition guarded :: "gw_env \<Rightarrow> endpoint \<Rightarrow> 'w gw_handler" where
  "guarded env ep =
     (case guard_of ep of
        None \<Rightarrow> handle env ep
      | Some required \<Rightarrow> AuthMiddleware (Verify (ge_km env)) (RateLimitMiddleware (RequireScope required (handle env ep))))"

definition mux :: "gw_env \<Rightarrow> 'w gw_handler" where
  "mux env r s =
     (case routes (rq_Path r) of
        [] \<Rightarrow> (Response 404 [] NoBody, s)
      | rs \<Rightarrow> (case map_of rs (rq_Method r) of
                None \<Rightarrow> (Response 405 [] NoBody, s)
              | Some ep \<Rightarrow> guarded env ep r s))"

definition gateway :: "gw_env \<Rightarrow> 'w gw_handler" where
  "gateway env = CORSMiddleware (ge_origins env) (RequestIDMiddleware (LoggerMiddleware (mux env)))"

end
