(* ===== verification/GatewaySafety.thy ===== *)
theory GatewaySafety
  imports Gateway
begin

text \<open>
  What the gateway guarantees to its tenants. A relation between database states says that only the rows
  and queue entries of given tenants differ; every handler is shown to keep the others', and the
  middleware chain to enter a handler only for the tenant of a verified token with the route's scope.
\<close>

section \<open>Keeping the other tenants' data\<close>

definition jobs_of :: "string \<Rightarrow> 'w jobs_db_scheme \<Rightarrow> job list" where
  "jobs_of t w = filter (\<lambda>j. job_TenantID j = t) (t_jobs w)"

definition campaigns_of_tenant :: "string \<Rightarrow> 'w camp_db_scheme \<Rightarrow> campaign list" where
  "campaigns_of_tenant t w = filter (\<lambda>c. c_TenantID c = t) (t_campaigns w)"

text \<open>\<open>kept ts w w'\<close>: from \<open>w\<close> to \<open>w'\<close> only jobs and campaigns of the tenants \<open>ts\<close> changed, only their work
  was queued, and measurements, events, recommendations, audit log and worker registry are as before.\<close>

definition kept :: "string set \<Rightarrow> 'w camp_db_scheme \<Rightarrow> 'w camp_db_scheme \<Rightarrow> bool" where
  "kept ts w w' \<longleftrightarrow>
     (\<forall>t. t \<notin> ts \<longrightarrow> jobs_of t w' = jobs_of t w \<and> campaigns_of_tenant t w' = campaigns_of_tenant t w) \<and>
     (\<exists>xs. q_benchmarks w' = q_benchmarks w @ xs \<and> (\<forall>x\<in>set xs. ba_TenantID (rr_args x) \<in> ts)) \<and>
     (\<exists>xs. q_campaigns w' = q_campaigns w @ xs \<and> (\<forall>x\<in>set xs. ca_TenantID (rr_args x) \<in> ts)) \<and>
     t_results w' = t_results w \<and> t_events w' = t_events w \<and> t_recommendations w' = t_recommendations w \<and>
     t_audit w' = t_audit w \<and> o_registry w' = o_registry w"

lemma kept_refl [simp]: "kept ts w w"
  by (simp add: kept_def)

lemma kept_trans [trans]: "kept ts u v \<Longrightarrow> kept ts v w \<Longrightarrow> kept ts u w"
  unfolding kept_def by (elim conjE exE) (intro conjI; force)

lemma kept_mono: "kept ts v w \<Longrightarrow> ts \<subseteq> us \<Longrightarrow> kept us v w"
  unfolding kept_def by blast

lemma filter_update_where:
  "(\<And>r. r \<in> set rows \<Longrightarrow> p r \<Longrightarrow> \<not> P r \<and> \<not> P (f r)) \<Longrightarrow> filter P (update_where p f rows) = filter P rows"
  by (induction rows) (auto simp: update_where_def)

text \<open>The statements that read; each is a \<open>tick\<close>.\<close>

lemma kept_tick [simp]: "kept ts w (tick w)"
  by (simp add: kept_def jobs_of_def campaigns_of_tenant_def)

lemma kept_tick_left [simp]: "kept ts (tick v) w = kept ts v w"
  by (simp add: kept_def jobs_of_def campaigns_of_tenant_def)

lemma reads_tick:
  "GetJob i t v = (r, v') \<Longrightarrow> v' = tick v" "ListJobs t st l off v = (rs, v') \<Longrightarrow> v' = tick v"
  "CountJobs t st v = (n, v') \<Longrightarrow> v' = tick v" "QueryByJob i v = (q, v') \<Longrightarrow> v' = tick v"
  "QueryByTenantEngineAndModel t e m s v = (q, v') \<Longrightarrow> v' = tick v"
  "Campaign_Get i t w = (c, w') \<Longrightarrow> w' = tick w" "Campaign_List t st l off w = (cs, w') \<Longrightarrow> w' = tick w"
  "Campaign_Count t st w = (n, w') \<Longrightarrow> w' = tick w" "Campaign_Events i aft l w = (es, w') \<Longrightarrow> w' = tick w"
  "ping v = (p, v') \<Longrightarrow> v' = tick v"
  by (auto simp: GetJob_def ListJobs_def CountJobs_def QueryByJob_def QueryByTenantEngineAndModel_def Campaign_Get_def
      queryOne_def Campaign_List_def Campaign_Count_def Campaign_Events_def ping_def db_call_def split: option.splits if_splits)

lemma kept_NewID: "NewID w = (i, w') \<Longrightarrow> kept ts w w'"
  by (auto simp: NewID_def rand_adv_def kept_def jobs_of_def campaigns_of_tenant_def)

lemma kept_SaveJob: "SaveJob j w = (r, w') \<Longrightarrow> job_TenantID j \<in> ts \<Longrightarrow> kept ts w w'"
  by (auto simp: SaveJob_def db_call_def kept_def jobs_of_def campaigns_of_tenant_def stored_job_def split: option.splits if_splits)

lemma kept_Enqueue: "Enqueue a w = (r, w') \<Longrightarrow> ba_TenantID a \<in> ts \<Longrightarrow> kept ts w w'"
  by (auto simp: Enqueue_def db_call_def kept_def jobs_of_def campaigns_of_tenant_def split: option.splits)

lemma kept_UpdateJobState:
  assumes "UpdateJobState i st msg w = (r, w')" and "\<And>j. j \<in> set (t_jobs w) \<Longrightarrow> job_ID j = i \<Longrightarrow> job_TenantID j \<in> ts"
  shows "kept ts w w'"
proof -
  have "filter (\<lambda>j. job_TenantID j = t) (update_where (\<lambda>j. job_ID j = i)
      (\<lambda>j. j\<lparr>job_State := st, job_UpdatedAt := now, job_ErrorMsg := msg\<rparr>) (t_jobs w)) =
      filter (\<lambda>j. job_TenantID j = t) (t_jobs w)" if "t \<notin> ts" for t now
    by (rule filter_update_where) (use assms(2) that in auto)
  with assms(1) show ?thesis
    by (auto simp: UpdateJobState_def db_call_def kept_def jobs_of_def campaigns_of_tenant_def split: option.splits)
qed

lemma kept_Create: "Campaign_Create c w = (r, w') \<Longrightarrow> c_TenantID c \<in> ts \<Longrightarrow> kept ts w w'"
  by (auto simp: Campaign_Create_def db_call_def kept_def jobs_of_def campaigns_of_tenant_def stored_campaign_def
      split: option.splits if_splits)

lemma kept_EnqueueCampaign: "EnqueueCampaign a w = (r, w') \<Longrightarrow> ca_TenantID a \<in> ts \<Longrightarrow> kept ts w w'"
  by (auto simp: EnqueueCampaign_def db_call_def kept_def jobs_of_def campaigns_of_tenant_def split: option.splits)

lemma kept_Cancel:
  assumes "t \<in> ts"
  shows "kept ts w (snd (Campaign_Cancel i t w))"
proof -
  have "filter (\<lambda>c. c_TenantID c = t') (update_where (\<lambda>c. c_ID c = i \<and> cancellable t c) (cancel_row now) (t_campaigns w)) =
      filter (\<lambda>c. c_TenantID c = t') (t_campaigns w)" if "t' \<notin> ts" for t' now
    by (rule filter_update_where) (use assms that in \<open>auto simp: cancellable_def cancel_row_def\<close>)
  then show ?thesis
    by (auto simp: Campaign_Cancel_def update_campaigns_def db_call_def kept_def jobs_of_def campaigns_of_tenant_def
        Let_def split: option.splits)
qed

lemmas kept_ops = kept_NewID kept_SaveJob kept_Enqueue kept_Create kept_EnqueueCampaign kept_Cancel

section \<open>What each handler does to the database\<close>

lemma kept_read [simp]: "kept ts v (tick w) = kept ts v w"
proof
  assume "kept ts v (tick w)"
  moreover have "kept ts (tick w) w" by simp
  ultimately show "kept ts v w" by (rule kept_trans)
next
  assume "kept ts v w"
  then show "kept ts v (tick w)" by (rule kept_trans) simp
qed

lemma replies_defined [simp]: "writeJSON code b \<noteq> Panicked" "writeJSONError code msg \<noteq> Panicked"
  by (simp_all add: writeJSON_def writeJSONError_def)

lemma save_and_enqueue_kept:
  assumes "save_and_enqueue q t w = (out, w')"
  shows "kept {t} w w' \<and> out \<noteq> Panicked"
proof -
  obtain i w1 where i: "NewID w = (i, w1)" by (cases "NewID w")
  obtain r w2 where s: "SaveJob (requested_job q t i (w_now w)) w1 = (r, w2)" by (metis prod.exhaust)
  obtain e w3 where e: "Enqueue (requested_args q t i) w2 = (e, w3)" by (metis prod.exhaust)
  have "kept {t} w w2" using kept_NewID [OF i] kept_SaveJob [OF s] by (auto simp: requested_job_def intro: kept_trans)
  moreover have "kept {t} w2 w3" using kept_Enqueue [OF e] by (simp add: requested_args_def)
  ultimately have "kept {t} w w2" "kept {t} w w3" by (auto intro: kept_trans)
  with assms i s e show ?thesis by (auto simp: save_and_enqueue_def Let_def split: sum.splits)
qed

lemma save_and_enqueue_campaign_kept:
  assumes "save_and_enqueue_campaign q b t w = (out, w')"
  shows "kept {t} w w' \<and> out \<noteq> Panicked"
proof -
  obtain i w1 where i: "NewID w = (i, w1)" by (cases "NewID w")
  obtain r w2 where s: "Campaign_Create (requested_campaign q b t i (w_now w)) w1 = (r, w2)" by (metis prod.exhaust)
  let ?a = "\<lparr>ca_CampaignID = i, ca_TenantID = t, ca_MaxDurationSec = MaxDuration b div Second\<rparr>"
  obtain e w3 where e: "EnqueueCampaign ?a w2 = (e, w3)" by (metis prod.exhaust)
  have "kept {t} w w2" using kept_NewID [OF i] kept_Create [OF s] by (auto simp: requested_campaign_def intro: kept_trans)
  moreover have "kept {t} w2 w3" using kept_EnqueueCampaign [OF e] by simp
  moreover have "kept {t} w3 (snd (Campaign_Cancel i t w3))" by (rule kept_Cancel) simp
  ultimately have "kept {t} w w2" "kept {t} w w3" "kept {t} w (snd (Campaign_Cancel i t w3))" by (blast intro: kept_trans)+
  with assms i s e show ?thesis by (auto simp: save_and_enqueue_campaign_def Let_def split: sum.splits)
qed

lemma GetJob_ok: "GetJob i t w = (Inr j, w') \<Longrightarrow> j \<in> set (t_jobs w) \<and> job_ID j = i \<and> job_TenantID j = t \<and> w' = tick w"
  by (auto simp: GetJob_def db_call_def split: option.splits dest!: find_SomeD)

lemma cancel_check_None:
  assumes "cancel_check i t w = (None, w')"
  obtains j where "GetJob i t w = (Inr j, w')" "\<not> IsTerminal (job_State j)"
proof -
  obtain r v where g: "GetJob i t w = (r, v)" by (metis prod.exhaust)
  with assms that show thesis by (cases r) (auto simp: cancel_check_def split: if_splits)
qed

lemma cancel_kept:
  assumes "cancel_check i t w = (None, w1)" and "cancel_write i w1 = (out, w')" and "jobs_ok w"
  shows "kept {t} w w' \<and> out \<noteq> Panicked"
proof -
  obtain j where j: "j \<in> set (t_jobs w)" "job_ID j = i" "job_TenantID j = t" and w1: "w1 = tick w"
    using cancel_check_None [OF assms(1)] GetJob_ok by metis
  obtain u w2 where u: "UpdateJobState i StateCancelled [] w1 = (u, w2)" by (metis prod.exhaust)
  have "kept {t} w1 w2"
  proof (rule kept_UpdateJobState [OF u])
    fix k assume "k \<in> set (t_jobs w1)" "job_ID k = i"
    with w1 j(1,2) assms(3) have "k = j" by (auto simp: jobs_ok_def distinct_map dest: inj_onD)
    with j(3) show "job_TenantID k \<in> {t}" by simp
  qed
  with assms(2) u w1 show ?thesis by (auto simp: cancel_write_def Let_def split: sum.splits)
qed

lemmas handler_defs = CreateJob_def GetJob_handler_def GetJobResults_def ListJobs_handler_def CancelJob_def GetMetrics_def
  ClassifyWorkload_def ListEngines_def ListWorkers_handler_def CreateAPIKey_def CreateCampaign_def ListCampaigns_def
  GetCampaign_def GetCampaignEvents_def CancelCampaign_def

lemma cancel_check_tick: "cancel_check i t w = (e, w') \<Longrightarrow> w' = tick w \<and> e \<noteq> Some Panicked"
  by (auto simp: cancel_check_def Let_def split: prod.splits sum.splits if_splits dest: reads_tick(1))

lemma insert_key_kept: "insert_key k w = (r, w') \<Longrightarrow> kept ts w w'"
  by (auto simp: insert_key_def db_call_def kept_def jobs_of_def campaigns_of_tenant_def split: option.splits if_splits)

text \<open>The tables of API keys change in one handler only.\<close>

definition keys_kept :: "'w gw_db_scheme \<Rightarrow> 'w gw_db_scheme \<Rightarrow> bool" where
  "keys_kept w w' \<longleftrightarrow> t_api_keys w' = t_api_keys w"

lemma keys_kept_tick [simp]: "keys_kept w (tick w)"
  by (simp add: keys_kept_def tick_def)

lemma keys_kept_ops:
  "NewID w = (i, w') \<Longrightarrow> t_api_keys w' = t_api_keys w" "SaveJob j w = (r, w') \<Longrightarrow> t_api_keys w' = t_api_keys w"
  "Enqueue a w = (r, w') \<Longrightarrow> t_api_keys w' = t_api_keys w" "Campaign_Create c w = (r, w') \<Longrightarrow> t_api_keys w' = t_api_keys w"
  "EnqueueCampaign ca w = (r, w') \<Longrightarrow> t_api_keys w' = t_api_keys w"
  "UpdateJobState i st msg w = (r, w') \<Longrightarrow> t_api_keys w' = t_api_keys w"
  by (auto simp: NewID_def rand_adv_def SaveJob_def Enqueue_def Campaign_Create_def EnqueueCampaign_def Campaign_Cancel_def
      UpdateJobState_def update_campaigns_def db_call_def tick_def Let_def split: option.splits if_splits)

lemma Cancel_keys: "Campaign_Cancel i t w = (r, w') \<Longrightarrow> t_api_keys w' = t_api_keys w"
  by (auto simp: Campaign_Cancel_def update_campaigns_def db_call_def tick_def Let_def split: option.splits if_splits)

lemma Cancel_keys_snd [simp]: "t_api_keys (snd (Campaign_Cancel i t w)) = t_api_keys w"
  by (rule Cancel_keys [OF prod.collapse [symmetric]])

lemma handle_kept:
  assumes "handle env ep r (s, w) = (out, s', w')" and "GetTenantID r = Some t" and "jobs_ok w" and "guard_of ep \<noteq> None"
  shows "s' = s \<and> out \<noteq> Panicked \<and> kept {t} w w'"
proof (cases ep)
  case EpCreateJob
  with assms(1,2) show ?thesis
    by (auto simp: CreateJob_def MustGetTenantID_def on_db_def split: sum.splits option.splits prod.splits
        dest!: save_and_enqueue_kept)
next
  case (EpCancelJob i)
  with assms(1,2,3) cancel_kept [of i t w] cancel_check_tick [of i t w] show ?thesis
    by (auto simp: CancelJob_def MustGetTenantID_def on_db_def Let_def split: option.splits prod.splits)
next
  case EpCreateCampaign
  with assms(1,2) show ?thesis
    by (auto simp: CreateCampaign_def MustGetTenantID_def on_db_def split: sum.splits option.splits prod.splits
        dest!: save_and_enqueue_campaign_kept)
next
  case (EpCancelCampaign i)
  with assms(1,2) kept_Cancel [of t "{t}" w i] show ?thesis
    by (auto simp: CancelCampaign_def MustGetTenantID_def on_db_def Let_def split: sum.splits prod.splits if_splits)
next
  case EpCreateAPIKey
  with assms(1) show ?thesis
    by (auto simp: CreateAPIKey_def Let_def split: sum.splits option.splits prod.splits if_splits dest!: insert_key_kept)
next
  case EpClassify
  with assms(1) show ?thesis by (auto simp: ClassifyWorkload_def split: sum.splits)
next
  case EpListWorkers
  with assms(1) show ?thesis by (auto simp: ListWorkers_handler_def split: http_out.splits)
next
  case EpHealth
  with assms(4) show ?thesis by simp
next
  case EpDashboard
  with assms(4) show ?thesis by simp
qed (use assms(1,2) in \<open>auto simp: handler_defs MustGetTenantID_def on_db_def Let_def
       split: prod.splits sum.splits dest!: reads_tick\<close>)

lemma handle_keys:
  assumes "handle env ep r (s, w) = (out, s', w')" and "ep \<noteq> EpCreateAPIKey"
  shows "t_api_keys w' = t_api_keys w"
proof -
  have tk: "t_api_keys (tick v) = t_api_keys v" for v :: "'w gw_db_scheme" by (simp add: tick_def)
  show ?thesis
    using assms
    by (cases ep)
       (auto simp: handler_defs Health_def Dashboard_def MustGetTenantID_def on_db_def Let_def save_and_enqueue_def
         save_and_enqueue_campaign_def cancel_write_def tk
         split: prod.splits sum.splits option.splits http_out.splits dest!: reads_tick cancel_check_tick keys_kept_ops
           Cancel_keys)
qed

section \<open>The chain\<close>

lemma with_headers_defined [simp]: "with_headers hs out = Panicked \<longleftrightarrow> out = Panicked"
  by (cases out) auto

lemma Verify_now: "w_now v = w_now w \<Longrightarrow> fst (Verify km tok (s, v)) = fst (Verify km tok (s, w))"
  by (auto simp: Verify_def Let_def split: option.splits sum.splits jwt_error.splits)

definition bearer :: "request \<Rightarrow> string" where
  "bearer r = TrimPrefix (rq_Authorization r) ''Bearer ''"

lemma RateLimit_cases:
  assumes "RateLimitMiddleware nxt r (s, w) = (out, s', w')"
  obtains "out \<noteq> Panicked" "w' = w" "au_cache s' = au_cache s"
  | s1 o1 where "nxt r (s1, w) = (o1, s', w')" "au_cache s1 = au_cache s" "out = Panicked \<longleftrightarrow> o1 = Panicked"
proof (cases "GetTenantID r")
  case None
  with assms that(2) show thesis by (simp add: RateLimitMiddleware_def)
next
  case (Some t)
  define k where "k = bucketKey t (Unix (w_now w) div 60)"
  define n where "n = bucket_count k (au_buckets s)"
  show thesis
  proof (cases "n \<ge> 100")
    case True
    with assms Some that(1) show thesis by (auto simp: RateLimitMiddleware_def Let_def k_def n_def)
  next
    case False
    let ?s1 = "s\<lparr>au_buckets := set_bucket k (n + 1) (au_buckets s)\<rparr>"
    obtain o1 s2 w2 where o1: "nxt r (?s1, w) = (o1, s2, w2)" by (cases "nxt r (?s1, w)") auto
    from assms Some False o1 that(2) [OF _ _ , of ?s1 o1] show thesis
      by (auto simp: RateLimitMiddleware_def Let_def k_def n_def)
  qed
qed

lemma guarded_cases:
  fixes w :: "'w gw_db_scheme"
  assumes "guarded env ep r (s, w) = (out, s', w')" and "guard_of ep = Some required" and "cached_tenants s" and "jobs_ok w"
  shows "out \<noteq> Panicked \<and> cached_tenants s' \<and>
    (w' = w \<or> (\<exists>c. fst (Verify (ge_km env) (bearer r) (s, w)) = Inr c \<and> HasScope c required \<and>
       kept {cl_TenantID c} w w' \<and> (t_api_keys w' = t_api_keys w \<or> required = ScopeAdminAll)))"
proof -
  let ?nxt = "RateLimitMiddleware (RequireScope required (handle env ep))"
  from assms(1,2) have m: "AuthMiddleware (Verify (ge_km env)) ?nxt r (s, w) = (out, s', w')" by (simp add: guarded_def)
  from assms(3) m show ?thesis
  proof (cases rule: km.auth_cases)
    case (1 msg)
    then show ?thesis by simp
  next
    case (2 c s1)
    let ?r = "(SetTenantID (cl_TenantID c) r)\<lparr>rq_claims := Some c\<rparr>"
    have v: "fst (Verify (ge_km env) (bearer r) (s, w)) = Inr c" using 2(1) by (simp add: bearer_def)
    from 2(4) show ?thesis
    proof (cases rule: RateLimit_cases)
      case 1
      with 2(2) show ?thesis by (simp add: cached_tenants_def)
    next
      case (2 s2 o1)
      have ok2: "cached_tenants s2" using \<open>cached_tenants s1\<close> 2(2) by (simp add: cached_tenants_def)
      show ?thesis
      proof (cases "HasScope c required")
        case False
        with 2 ok2 show ?thesis by (auto simp: RequireScope_def)
      next
        case True
        with 2(1) have h: "handle env ep ?r (s2, w) = (o1, s', w')" by (simp add: RequireScope_def)
        from handle_kept [OF h \<open>GetTenantID ?r = _\<close> assms(4)] assms(2)
        have k: "s' = s2" "o1 \<noteq> Panicked" "kept {cl_TenantID c} w w'" by auto
        moreover have "t_api_keys w' = t_api_keys w \<or> required = ScopeAdminAll"
          using handle_keys [OF h] assms(2) by (cases "ep = EpCreateAPIKey") auto
        ultimately show ?thesis using v True 2(3) ok2 by auto
      qed
    qed
  qed
qed

lemma open_endpoint:
  assumes "guarded env ep r (s, w) = (out, s', w')" and "guard_of ep = None"
  shows "out \<noteq> Panicked \<and> s' = s \<and> kept {} w w' \<and> t_api_keys w' = t_api_keys w"
proof -
  from assms(2) have "ep = EpHealth \<or> ep = EpDashboard" by (cases ep) auto
  moreover have "t_api_keys (tick v) = t_api_keys v" for v :: "'a gw_db_scheme" by (simp add: tick_def)
  ultimately show ?thesis
    using assms(1) by (auto simp: guarded_def Health_def Dashboard_def on_db_def Let_def split: prod.splits dest!: reads_tick)
qed

lemma routes_distinct: "map_of (routes p) m = Some ep \<Longrightarrow> (m, ep) \<in> set (routes p)"
  by (rule map_of_SomeD)

lemma mux_cases:
  fixes w :: "'w gw_db_scheme"
  assumes "mux env r (s, w) = (out, s', w')" and "cached_tenants s" and "jobs_ok w"
  shows "out \<noteq> Panicked \<and> cached_tenants s' \<and>
    ((kept {} w w' \<and> t_api_keys w' = t_api_keys w) \<or>
     (\<exists>c ep required. fst (Verify (ge_km env) (bearer r) (s, w)) = Inr c \<and>
       map_of (routes (rq_Path r)) (rq_Method r) = Some ep \<and> guard_of ep = Some required \<and> HasScope c required \<and>
       kept {cl_TenantID c} w w' \<and> (t_api_keys w' = t_api_keys w \<or> HasScope c ScopeAdminAll)))"
proof (cases "map_of (routes (rq_Path r)) (rq_Method r)")
  case None
  with assms(1,2) show ?thesis by (auto simp: mux_def split: list.splits)
next
  case (Some ep)
  then have "routes (rq_Path r) \<noteq> []" by auto
  with assms(1) Some have g: "guarded env ep r (s, w) = (out, s', w')" by (auto simp: mux_def split: list.splits)
  show ?thesis
  proof (cases "guard_of ep")
    case None
    from open_endpoint [OF g None] assms(2) show ?thesis by auto
  next
    case (Some required)
    from guarded_cases [OF g Some assms(2,3)] \<open>map_of _ _ = _\<close> Some show ?thesis by auto
  qed
qed

text \<open>C1: Tenant isolation at the gateway. Whatever request comes in, with whatever faults: the gateway never
  panics for want of a tenant, and either no job, campaign, queue entry or API key changes, or the bearer
  token was verified, its claims have the scope of the matched route, only jobs and campaigns of the
  token's own tenant changed, only that tenant's work was queued, and an API key was added only if the claims
  have the admin scope. Measurements, events, recommendations, audit log and registry never change.\<close>

theorem gateway_isolates_tenants:
  fixes w :: "'w gw_db_scheme"
  assumes "gateway env r (s, w) = (out, s', w')" and "cached_tenants s" and "jobs_ok w"
  shows "out \<noteq> Panicked \<and>
    ((kept {} w w' \<and> t_api_keys w' = t_api_keys w) \<or>
     (\<exists>c ep required. fst (Verify (ge_km env) (bearer r) (s, w)) = Inr c \<and>
       map_of (routes (rq_Path r)) (rq_Method r) = Some ep \<and> guard_of ep = Some required \<and> HasScope c required \<and>
       kept {cl_TenantID c} w w' \<and> (t_api_keys w' = t_api_keys w \<or> HasScope c ScopeAdminAll)))"
proof -
  let ?inner = "RequestIDMiddleware (LoggerMiddleware (mux env))"
  define w0 where "w0 = (if rq_XRequestID r = [] then rand_adv 8 w else w)"
  define r0 where "r0 = r\<lparr>rq_requestID := (if rq_XRequestID r = [] then EncodeToString (rand_read 8 w) else rq_XRequestID r)\<rparr>"
  obtain o1 s1 w1 where m: "mux env r0 (s, w0) = (o1, s1, w1)" by (cases "mux env r0 (s, w0)") auto
  have w0: "kept ts w w0" "t_api_keys w0 = t_api_keys w" "w_now w0 = w_now w" "jobs_ok w0" for ts
    using assms(3) by (simp_all add: w0_def kept_def rand_adv_def jobs_of_def campaigns_of_tenant_def jobs_ok_def)
  have r0: "rq_Path r0 = rq_Path r" "rq_Method r0 = rq_Method r" "bearer r0 = bearer r" by (simp_all add: r0_def bearer_def)
  have inner: "w' = w1 \<and> (out = Panicked \<longleftrightarrow> o1 = Panicked)" if "?inner r (s, w) = (o', s', w')" "out = with_headers hs o'" for o' hs
    using that m by (cases o1) (auto simp: RequestIDMiddleware_def LoggerMiddleware_def newReqID_def w0_def r0_def split: if_splits)
  from assms(1) consider "out \<noteq> Panicked" "w' = w" | o' hs where "?inner r (s, w) = (o', s', w')" "out = with_headers hs o'"
    unfolding gateway_def CORSMiddleware_def Let_def by (auto split: if_splits prod.splits)
  then show ?thesis
  proof cases
    case 1
    then show ?thesis by simp
  next
    case 2
    from inner [OF this] have e: "w' = w1" "out = Panicked \<longleftrightarrow> o1 = Panicked" by auto
    have k: "kept ts w w1" if "kept ts w0 w1" for ts by (rule kept_trans [OF w0(1) that])
    from mux_cases [OF m assms(2) w0(4)] show ?thesis
      unfolding e r0 Verify_now [OF w0(3)] w0(2) by (auto dest: k)
  qed
qed

definition demo_gw_db :: "job list \<Rightarrow> gw_db" where
  "demo_gw_db js = camp_db.extend ((demo_camp_db [])\<lparr>t_jobs := js\<rparr>) \<lparr>t_api_keys = []\<rparr>"

lemma demo_gw_db_simps [simp]:
  "t_jobs (demo_gw_db js) = js" "t_api_keys (demo_gw_db js) = []" "t_campaigns (demo_gw_db js) = []"
  "w_faults (demo_gw_db js) = []" "w_now (demo_gw_db js) = 0" "q_benchmarks (demo_gw_db js) = []" "t_events (demo_gw_db js) = []"
  using demo_camp_db_simps [of "[]"]
  by (simp_all add: demo_gw_db_def camp_db.defs orch.defs demo_camp_db_def demo_orch_def demo_db_def jobs_db.defs)

definition demo_job_request :: create_job_request where
  "demo_job_request = \<lparr>jq_Model = ''m'', jq_Engines = [''vllm''], jq_Workload = demo_workload,
     jq_EngineConfig = zero_engine_config, jq_GPUProfile = ''cpu'', jq_AutoRoute = False\<rparr>"

definition demo_campaign_request :: create_campaign_request where
  "demo_campaign_request = \<lparr>cq_Goal = ''cheap'', cq_Model = ''m'', cq_Engines = [''vllm''], cq_GPUProfile = ''cpu'',
     cq_Workload = demo_workload, cq_MaxTrials = 3, cq_MaxDuration = ''30m'', cq_PlannerModel = []\<rparr>"

definition demo_gw :: gw_env where
  "demo_gw = \<lparr>ge_km = demo_km, ge_origins = [], ge_decode_job = (\<lambda>_. Inr demo_job_request),
     ge_decode_campaign = (\<lambda>_. Inr demo_campaign_request), ge_decode_input = (\<lambda>_. Inl ''unused''),
     ge_decode_key = (\<lambda>_. Inl ''unused''), ge_rfc3339 = (\<lambda>_. Inl ''unused''), ge_workers = DoErr ''down'', ge_has_pool = True\<rparr>"

theorem gateway_isolates_tenants_witness:
  "let (out, s, w) = gateway demo_gw (demo_request ''GET'' [''v1'', ''jobs''] ''Bearer 1'') (empty_auth, demo_gw_db [demo_job ''1'' ''a'' 5])
   in out \<noteq> Panicked \<and> (kept {} (demo_gw_db [demo_job ''1'' ''a'' 5]) w \<or> (\<exists>t. kept {t} (demo_gw_db [demo_job ''1'' ''a'' 5]) w))"
proof -
  let ?w = "demo_gw_db [demo_job ''1'' ''a'' 5]" and ?r = "demo_request ''GET'' [''v1'', ''jobs''] ''Bearer 1''"
  obtain out s' w' where g: "gateway demo_gw ?r (empty_auth, ?w) = (out, s', w')"
    by (cases "gateway demo_gw ?r (empty_auth, ?w)") auto
  have "cached_tenants empty_auth" "jobs_ok ?w" by (simp_all add: cached_tenants_def empty_auth_def jobs_ok_def)
  from gateway_isolates_tenants [OF g this] g show ?thesis by auto
qed

end
