(* ===== verification/Http.thy ===== *)
theory Http
  imports GatewaySafety
begin

text \<open>
  The wire between the processes. An outgoing request is what \<open>http.NewRequestWithContext\<close> and the header
  calls after it build; its URL is the base address followed by a path, the query stays a list of pairs.
  A peer answers in a state of its own. \<open>gateway_peer\<close> is the gateway as such a peer: the request as its
  server sees it, the chain of \<open>gateway\<close>, and a dropped connection where a handler panics. Percent escapes
  are not modelled: path segments are those of the text.
\<close>

section \<open>Requests and answers\<close>

record http_request =
  hr_Method :: string
  hr_URL :: string
  hr_Query :: "(string \<times> string) list"
  hr_Headers :: "(string \<times> string) list"
  hr_Body :: "string option"

text \<open>What \<open>Do\<close> returns: an error before or after sending, or an answer with its code, status line and body.\<close>

datatype 'b http_answer = NotBuilt goerr | NotSent goerr | Answer int string 'b

type_synonym ('b, 's) peer = "http_request \<Rightarrow> 's \<Rightarrow> 'b http_answer \<times> 's"

definition header_of :: "http_request \<Rightarrow> string \<Rightarrow> string" where
  "header_of q k = (case map_of (hr_Headers q) k of None \<Rightarrow> [] | Some v \<Rightarrow> v)"

section \<open>The gateway as a peer\<close>

text \<open>A server never sees a nil body: a request without one has an empty body.\<close>

definition served_request :: "string \<Rightarrow> http_request \<Rightarrow> request" where
  "served_request base q =
     \<lparr>rq_Method = hr_Method q, rq_Path = tl (Split (CHR ''/'') (TrimPrefix (hr_URL q) base)), rq_Query = hr_Query q,
      rq_Body = Some (case hr_Body q of None \<Rightarrow> [] | Some b \<Rightarrow> b), rq_Authorization = header_of q ''Authorization'',
      rq_Origin = header_of q ''Origin'', rq_XRequestID = header_of q ''X-Request-ID'', rq_tenant = None,
      rq_claims = None, rq_requestID = []\<rparr>"

fun answer_of :: "(int \<Rightarrow> string) \<Rightarrow> 'b outcome \<Rightarrow> 'b reply_body http_answer" where
  "answer_of line Panicked = NotSent (ErrNew ''EOF'')"
| "answer_of line (Response code hs b) = Answer code (line code) b"

definition gateway_peer ::
  "(int \<Rightarrow> string) \<Rightarrow> string \<Rightarrow> gw_env \<Rightarrow> (gw_body reply_body, auth_state \<times> 'w gw_db_scheme) peer" where
  "gateway_peer line base env q s =
     (if HasPrefix (hr_URL q) base
      then let (out, s) = gateway env (served_request base q) s in (answer_of line out, s)
      else (NotSent (ErrNew ''no such host''), s))"

section \<open>Through the chain\<close>

text \<open>Without an \<open>Origin\<close> the chain adds headers only; what reaches the router is the request with an id.\<close>

lemma CORS_without_origin:
  "rq_Origin r = [] \<Longrightarrow> CORSMiddleware os nxt r s = (let (out, s) = nxt r s in (with_headers [(''Vary'', ''Origin'')] out, s))"
  unfolding CORSMiddleware_def Let_def by simp

definition request_id :: "request \<Rightarrow> 'w world_scheme \<Rightarrow> string \<times> 'w world_scheme" where
  "request_id r w = (if rq_XRequestID r = [] then newReqID w else (rq_XRequestID r, w))"

lemma request_id_world: "snd (request_id r w) = w \<or> snd (request_id r w) = rand_adv 8 w"
  by (simp add: request_id_def newReqID_def)

lemma gateway_without_origin:
  assumes "rq_Origin r = []" and "request_id r w = (i, w0)"
    and "mux env (r\<lparr>rq_requestID := i\<rparr>) (s, w0) = (Response code ks b, s1, w1)"
  shows "\<exists>hs l. gateway env r (s, w) = (Response code (hs @ ks) b, s1\<lparr>au_log := au_log s1 @ [l]\<rparr>, w1)"
proof -
  from assms(2) have i: "(if rq_XRequestID r = [] then newReqID w else (rq_XRequestID r, w)) = (i, w0)"
    by (simp only: request_id_def)
  define l where "l = \<lparr>lg_method = rq_Method r, lg_path = rq_Path r, lg_status = code, lg_request_id = i,
      lg_tenant_id = (case GetTenantID r of None \<Rightarrow> [] | Some t \<Rightarrow> t)\<rparr>"
  have "GetTenantID (r\<lparr>rq_requestID := i\<rparr>) = GetTenantID r" by (simp add: GetTenantID_def)
  with assms(3) have "LoggerMiddleware (mux env) (r\<lparr>rq_requestID := i\<rparr>) (s, w0) =
      (Response code ks b, s1\<lparr>au_log := au_log s1 @ [l]\<rparr>, w1)"
    by (simp add: LoggerMiddleware_def l_def)
  then have "RequestIDMiddleware (LoggerMiddleware (mux env)) r (s, w) =
      (Response code ([(''X-Request-ID'', i)] @ ks) b, s1\<lparr>au_log := au_log s1 @ [l]\<rparr>, w1)"
    unfolding RequestIDMiddleware_def prod.case i Let_def by simp
  then have "gateway env r (s, w) =
      (Response code ([(''Vary'', ''Origin''), (''X-Request-ID'', i)] @ ks) b, s1\<lparr>au_log := au_log s1 @ [l]\<rparr>, w1)"
    unfolding gateway_def CORS_without_origin [OF assms(1)] Let_def by simp
  then show ?thesis by blast
qed

text \<open>A request without a bearer token gets no further than the authentication, whatever the route behind it.\<close>

lemma mux_unauthenticated:
  assumes "\<not> HasPrefix (rq_Authorization r) ''Bearer ''"
    and "\<forall>ep. map_of (routes (rq_Path r)) (rq_Method r) = Some ep \<longrightarrow> guard_of ep \<noteq> None"
  shows "mux env r sw = (out, sw') \<Longrightarrow> sw' = sw \<and> status_of out \<in> {401, 404, 405}"
proof (cases "map_of (routes (rq_Path r)) (rq_Method r)")
  case None
  then show "mux env r sw = (out, sw') \<Longrightarrow> sw' = sw \<and> status_of out \<in> {401, 404, 405}"
    by (auto simp: mux_def split: list.splits)
next
  case (Some ep)
  with assms(2) obtain required where "guard_of ep = Some required" by auto
  with Some assms(1) show "mux env r sw = (out, sw') \<Longrightarrow> sw' = sw \<and> status_of out \<in> {401, 404, 405}"
    by (auto simp: mux_def guarded_def AuthMiddleware_def writeJSONError_def split: list.splits)
qed


lemma Verify_state: "Verify km tok (s, w) = (v, s1, w1) \<Longrightarrow> w1 = w \<and> au_buckets s1 = au_buckets s \<and> au_log s1 = au_log s"
  by (auto simp: Verify_def Let_def split: if_splits option.splits sum.splits jwt_error.splits)

text \<open>A token accepted once is accepted again at the same time, with the same claims.\<close>

lemma Verify_again:
  assumes "Verify km tok (s, w) = (Inr c, s1, w1)" and "au_cache s2 = au_cache s1" and "w_now v = w_now w"
  shows "fst (Verify km tok (s2, v)) = Inr c"
proof (cases "cache_get km (km_sha256 km tok) (w_now w) (au_cache s)")
  case None
  with assms(1) obtain cl: "tok \<noteq> []" "km_Parse km tok (signing_key km) (w_now w) = Inr c" "cl_TenantID c \<noteq> []"
    and s1: "au_cache s1 = (km_sha256 km tok, c, w_now w + 5 * Minute) # au_cache s"
    by (auto simp: Verify_def Let_def split: if_splits sum.splits jwt_error.splits)
  have "cache_get km (km_sha256 km tok) (w_now w) (au_cache s1) \<in> {None, Some c}"
    by (simp add: s1 cache_get_def)
  with cl assms(2,3) show ?thesis by (auto simp: Verify_def Let_def)
next
  case (Some d)
  with assms(1) have "tok \<noteq> []" "d = c" "s1 = s" by (auto simp: Verify_def Let_def split: if_splits)
  with Some assms(2,3) show ?thesis by (simp add: Verify_def Let_def)
qed

text \<open>What a handler behind the chain is entered with.\<close>

definition entered :: "request \<Rightarrow> string \<Rightarrow> claims \<Rightarrow> request" where
  "entered r i c = r\<lparr>rq_requestID := i, rq_tenant := Some (cl_TenantID c), rq_claims := Some c\<rparr>"

lemma gateway_enters:
  fixes w :: "'w gw_db_scheme"
  assumes "rq_Origin r = []" and "map_of (routes (rq_Path r)) (rq_Method r) = Some ep" and "guard_of ep = Some required"
    and "HasPrefix (rq_Authorization r) ''Bearer ''" and "Verify (ge_km env) (bearer r) (s, w) = (Inr c, s1, w1)"
    and "HasScope c required" and "cl_TenantID c \<noteq> []"
    and "n = bucket_count (bucketKey (cl_TenantID c) (Unix (w_now w) div 60)) (au_buckets s)" and "n < 100"
  obtains i w0 where "request_id r w = (i, w0)"
    "\<And>code ks b s3 w3. handle env ep (entered r i c)
        (s1\<lparr>au_buckets := set_bucket (bucketKey (cl_TenantID c) (Unix (w_now w) div 60)) (n + 1) (au_buckets s)\<rparr>, w0) =
        (Response code ks b, s3, w3) \<Longrightarrow>
      \<exists>hs l. gateway env r (s, w) = (Response code (hs @ ks) b, s3\<lparr>au_log := au_log s3 @ [l]\<rparr>, w3)"
proof -
  obtain i w0 where i: "request_id r w = (i, w0)" by (cases "request_id r w")
  have now: "w_now w0 = w_now w" using request_id_world [of r w] i by (auto simp: rand_adv_def)
  let ?s1 = "s1\<lparr>au_buckets := set_bucket (bucketKey (cl_TenantID c) (Unix (w_now w) div 60)) (n + 1) (au_buckets s)\<rparr>"
  let ?r = "r\<lparr>rq_requestID := i\<rparr>"
  have v: "Verify (ge_km env) (bearer r) (s, w0) = (Inr c, s1, w0)"
    using assms(5) now
    by (auto simp: Verify_def Let_def split: if_splits option.splits sum.splits jwt_error.splits)
  show thesis
  proof (rule that [OF i])
    fix code ks b s3 w3
    assume h: "handle env ep (entered r i c) (?s1, w0) = (Response code ks b, s3, w3)"
    have e: "(SetTenantID (cl_TenantID c) ?r)\<lparr>rq_claims := Some c\<rparr> = entered r i c"
      by (simp add: entered_def SetTenantID_def)
    have t: "GetTenantID (entered r i c) = Some (cl_TenantID c)" using assms(7) by (simp add: entered_def GetTenantID_def)
    have "RequireScope required (handle env ep) (entered r i c) (?s1, w0) = (Response code ks b, s3, w3)"
      using h assms(6) by (simp add: RequireScope_def entered_def)
    then have "\<exists>hs. RateLimitMiddleware (RequireScope required (handle env ep)) (entered r i c) (s1, w0) =
        (Response code (hs @ ks) b, s3, w3)"
      using assms(8,9) t now Verify_state [OF v] by (simp add: RateLimitMiddleware_def Let_def)
    then obtain hs where r: "RateLimitMiddleware (RequireScope required (handle env ep)) (entered r i c) (s1, w0) =
        (Response code (hs @ ks) b, s3, w3)" ..
    have "guarded env ep ?r (s, w0) = (Response code (hs @ ks) b, s3, w3)"
      using r v assms(3,4) by (simp add: guarded_def AuthMiddleware_def e Let_def bearer_def)
    with assms(2) have "mux env ?r (s, w0) = (Response code (hs @ ks) b, s3, w3)"
      by (auto simp: mux_def split: list.splits)
    from gateway_without_origin [OF assms(1) i this]
    show "\<exists>hs l. gateway env r (s, w) = (Response code (hs @ ks) b, s3\<lparr>au_log := au_log s3 @ [l]\<rparr>, w3)"
      by (metis append.assoc)
  qed
qed

end
