(* ===== verification/CampaignRun.thy ===== *)
theory CampaignRun
  imports Campaigns
begin

text \<open>
  Campaigns in motion: the in-process platform of \<open>internal/campaigns/platform.go\<close> and the River worker of
  \<open>worker.go\<close>. The Go interfaces are records of functions here too (\<open>platform_deps\<close> for \<open>PlatformDeps\<close> and
  the package functions it uses, \<open>campaign_store\<close> for the worker's \<open>campaignStore\<close>); the locales state what
  the code relies on in them, and the interpretations at the end discharge it for the model of the
  database. While a platform call waits for a job, the rest of the system goes on: a tick of the waiting
  loop carries the steps the others took.
\<close>

section \<open>The platform\<close>

datatype other_op =
    OtherJobState string job_state string | OtherResult result | OtherCancel string string | OtherWorker worker_entry

datatype wait_event = WaitDone goerr | WaitTick "other_op list"

record 'w platform_deps =
  pd_SaveJob :: "job \<Rightarrow> 'w \<Rightarrow> unit res \<times> 'w"
  pd_GetJobByID :: "string \<Rightarrow> 'w \<Rightarrow> job res \<times> 'w"
  pd_Enqueue :: "bench_job_args \<Rightarrow> 'w \<Rightarrow> unit res \<times> 'w"
  pd_QueryByJob :: "string \<Rightarrow> 'w \<Rightarrow> result list res \<times> 'w"
  pd_QueryTenant :: "string \<Rightarrow> string \<Rightarrow> string \<Rightarrow> int \<Rightarrow> 'w \<Rightarrow> result list res \<times> 'w"
  pd_List :: "'w \<Rightarrow> worker_entry list"
  pd_State :: "string \<Rightarrow> 'w \<Rightarrow> camp_state res \<times> 'w"
  pd_NewID :: "'w \<Rightarrow> string \<times> 'w"
  pd_Now :: "'w \<Rightarrow> int"
  pd_Others :: "other_op list \<Rightarrow> 'w \<Rightarrow> 'w"

record camp_platform =
  cp_campaignID :: string
  cp_tenantID :: string
  cp_pollInterval :: int
  cp_jobTimeout :: int

definition NewPlatform :: "string \<Rightarrow> string \<Rightarrow> int \<Rightarrow> int \<Rightarrow> camp_platform" where
  "NewPlatform campaignID tenantID pollInterval jobTimeout =
     \<lparr>cp_campaignID = campaignID, cp_tenantID = tenantID,
      cp_pollInterval = (if pollInterval \<le> 0 then 3 * Second else pollInterval),
      cp_jobTimeout = (if jobTimeout \<le> 0 then 60 * Minute else jobTimeout)\<rparr>"

definition ErrCampaignCancelled :: goerr where
  "ErrCampaignCancelled = Sentinel ''campaign cancelled''"

definition Platform_ListWorkers :: "'w platform_deps \<Rightarrow> 'w \<Rightarrow> agent_worker list res \<times> 'w" where
  "Platform_ListWorkers deps w =
     (Inr (map (\<lambda>e. \<lparr>aw_ID = we_ID e, aw_GPUType = we_GPUType e, aw_Status = worker_status_str (we_Status e)\<rparr>)
        (pd_List deps w)), w)"

definition Platform_ClassifyWorkload :: "classification_input \<Rightarrow> 'w \<Rightarrow> classification_result res \<times> 'w" where
  "Platform_ClassifyWorkload inp w = (Inr (Classify inp), w)"

definition HistoricalResults ::
  "'w platform_deps \<Rightarrow> camp_platform \<Rightarrow> string \<Rightarrow> string \<Rightarrow> int \<Rightarrow> 'w \<Rightarrow> result list res \<times> 'w" where
  "HistoricalResults deps p engine model since w = pd_QueryTenant deps (cp_tenantID p) engine model since w"

definition checkCancelled :: "'w platform_deps \<Rightarrow> camp_platform \<Rightarrow> 'w \<Rightarrow> goerr option \<times> 'w" where
  "checkCancelled deps p w =
     (let (st, w) = pd_State deps (cp_campaignID p) w
      in (case st of
            Inl _ \<Rightarrow> None
          | Inr s \<Rightarrow> if s = CampCancelled then Some ErrCampaignCancelled else None, w))"

text \<open>The \<open>select\<close> loop: what it receives before the job timer fires, then the timer.\<close>

fun waitForJob :: "'w platform_deps \<Rightarrow> camp_platform \<Rightarrow> string \<Rightarrow> wait_event list \<Rightarrow> 'w \<Rightarrow> job res \<times> 'w" where
  "waitForJob deps p jobID [] w =
     (Inl (ErrNew (''job '' @ jobID @ '' did not finish within '' @ Duration_String (cp_jobTimeout p))), w)"
| "waitForJob deps p jobID (WaitDone e # evs) w = (Inl e, w)"
| "waitForJob deps p jobID (WaitTick ops # evs) w =
     (let (r, w) = pd_GetJobByID deps jobID (pd_Others deps ops w)
      in case r of
           Inl _ \<Rightarrow> waitForJob deps p jobID evs w
         | Inr j \<Rightarrow> if IsTerminal (job_State j) then (Inr j, w) else waitForJob deps p jobID evs w)"

definition validate_spec :: "trial_spec \<Rightarrow> goerr option" where
  "validate_spec spec =
     (case ValidateEngines [ts_Engine spec] of
        Some e \<Rightarrow> Some e
      | None \<Rightarrow> (case ValidateWorkload (ts_Workload spec) of
            Some e \<Rightarrow> Some e
          | None \<Rightarrow> ValidateEngineConfig (ts_EngineConfig spec)))"

definition trial_job :: "camp_platform \<Rightarrow> trial_spec \<Rightarrow> string \<Rightarrow> int \<Rightarrow> job" where
  "trial_job p spec jobID now =
     \<lparr>job_ID = jobID, job_TenantID = cp_tenantID p, job_Model = ts_Model spec, job_Engines = [ts_Engine spec],
      job_WorkloadConfig = ts_Workload spec, job_EngineConfig = ts_EngineConfig spec,
      job_GPUProfile = ts_GPUProfile spec, job_State = StatePending, job_CreatedAt = now, job_UpdatedAt = now,
      job_ErrorMsg = [], job_RunID = []\<rparr>"

definition job_args :: "job \<Rightarrow> bench_job_args" where
  "job_args j =
     \<lparr>ba_JobID = job_ID j, ba_Model = job_Model j, ba_Engines = job_Engines j, ba_Workload = job_WorkloadConfig j,
      ba_EngineConfig = job_EngineConfig j, ba_GPUProfile = job_GPUProfile j, ba_TenantID = job_TenantID j\<rparr>"

text \<open>After the enqueue: wait, then read the result of the spec's engine.\<close>

definition collect_result ::
  "'w platform_deps \<Rightarrow> camp_platform \<Rightarrow> wait_event list \<Rightarrow> trial_spec \<Rightarrow> string \<Rightarrow> 'w \<Rightarrow> result res \<times> 'w" where
  "collect_result deps p evs spec jobID w =
     (let (final, w) = waitForJob deps p jobID evs w
      in case final of
           Inl e \<Rightarrow> (Inl e, w)
         | Inr j \<Rightarrow>
             if job_State j \<noteq> StateCompleted
             then (Inl (ErrNew (''job '' @ jobID @ '' ended '' @ job_state_str (job_State j) @ '': ''
                    @ (if job_ErrorMsg j = [] then ''no error message recorded'' else job_ErrorMsg j))), w)
             else let (rs, w) = pd_QueryByJob deps jobID w
                  in (case rs of
                        Inl e \<Rightarrow> (Inl (Wrap (''read results for job '' @ jobID @ '': '') e []), w)
                      | Inr results \<Rightarrow>
                          (case List.find (\<lambda>r. r_Engine r = ts_Engine spec) results of
                             Some r \<Rightarrow> (Inr r, w)
                           | None \<Rightarrow> (Inl (ErrNew (''job '' @ jobID @ '' completed but produced no ''
                               @ ts_Engine spec @ '' result'')), w))))"

definition RunBenchmark ::
  "'w platform_deps \<Rightarrow> camp_platform \<Rightarrow> (string \<Rightarrow> wait_event list) \<Rightarrow> trial_spec \<Rightarrow> 'w \<Rightarrow> result res \<times> 'w" where
  "RunBenchmark deps p wt spec w =
     (let (c, w) = checkCancelled deps p w
      in case c of
           Some e \<Rightarrow> (Inl e, w)
         | None \<Rightarrow>
             (case validate_spec spec of
                Some e \<Rightarrow> (Inl e, w)
              | None \<Rightarrow>
                  let now = pd_Now deps w;
                      (jobID, w) = pd_NewID deps w;
                      job = trial_job p spec jobID now;
                      (s, w) = pd_SaveJob deps job w
                  in (case s of
                        Inl e \<Rightarrow> (Inl (Wrap ''save benchmark job: '' e []), w)
                      | Inr _ \<Rightarrow>
                          let (q, w) = pd_Enqueue deps (job_args job) w
                          in (case q of
                                Inl e \<Rightarrow> (Inl (Wrap ''enqueue benchmark job: '' e []), w)
                              | Inr _ \<Rightarrow> collect_result deps p (wt jobID) spec jobID w))))"

section \<open>The worker\<close>

record 'w campaign_store =
  cs_GetByID :: "string \<Rightarrow> 'w \<Rightarrow> campaign res \<times> 'w"
  cs_MarkRunning :: "string \<Rightarrow> 'w \<Rightarrow> bool res \<times> 'w"
  cs_Complete :: "string \<Rightarrow> report option \<Rightarrow> 'w \<Rightarrow> unit res \<times> 'w"
  cs_Fail :: "string \<Rightarrow> string \<Rightarrow> report option \<Rightarrow> 'w \<Rightarrow> unit res \<times> 'w"
  cs_AppendEvent :: "string \<Rightarrow> event \<Rightarrow> 'w \<Rightarrow> unit res \<times> 'w"

definition Campaign_Timeout :: "int \<Rightarrow> int" where
  "Campaign_Timeout maxDurationSec =
     (let d = wrap64 (maxDurationSec * Second);
          d = (if d \<le> 0 then MaxDuration DefaultBudget else d)
      in wrap64 (d + 10 * Minute))"

text \<open>The environment of the agent that \<open>NewWorker\<close>'s factory builds: the platform, the observer that
  records events and drops its errors, and the planner.\<close>

definition campaign_env ::
  "'w campaign_store \<Rightarrow> 'w platform_deps \<Rightarrow> (string \<Rightarrow> message list \<Rightarrow> 'w \<Rightarrow> (planner_error + planner_reply) \<times> 'w)
   \<Rightarrow> (string \<Rightarrow> wait_event list) \<Rightarrow> camp_platform \<Rightarrow> 'w agent_env" where
  "campaign_env store deps planner wt p =
     \<lparr>ae_platform = \<lparr>pf_ListWorkers = Platform_ListWorkers deps, pf_ClassifyWorkload = Platform_ClassifyWorkload,
         pf_RunBenchmark = RunBenchmark deps p wt, pf_HistoricalResults = HistoricalResults deps p\<rparr>,
      ae_planner = planner, ae_now = pd_Now deps,
      ae_observer = Some (\<lambda>e w. snd (cs_AppendEvent store (cp_campaignID p) e w))\<rparr>"

definition finishFailed ::
  "'w campaign_store \<Rightarrow> string \<Rightarrow> goerr \<Rightarrow> report option \<Rightarrow> 'w \<Rightarrow> goerr option \<times> 'w" where
  "finishFailed store i cause rep w =
     (let (r, w) = cs_Fail store i (Error cause) rep w
      in (case r of Inl e \<Rightarrow> Some (Wrap (''record failed campaign '' @ i @ '': '') e []) | Inr _ \<Rightarrow> None, w))"

definition complete_campaign ::
  "'w campaign_store \<Rightarrow> string \<Rightarrow> string \<Rightarrow> report \<Rightarrow> 'w \<Rightarrow> goerr option \<times> 'w" where
  "complete_campaign store what i rep w =
     (let (r, w) = cs_Complete store i (Some rep) w
      in (case r of Inl e \<Rightarrow> Some (Wrap (''record '' @ what @ '' campaign '' @ i @ '': '') e []) | Inr _ \<Rightarrow> None, w))"

text \<open>\<open>run_claimed\<close> is \<open>Work\<close> from the successful claim on.\<close>

definition run_claimed ::
  "'w campaign_store \<Rightarrow> 'w platform_deps \<Rightarrow> (string \<Rightarrow> message list \<Rightarrow> 'w \<Rightarrow> (planner_error + planner_reply) \<times> 'w)
   \<Rightarrow> (string \<Rightarrow> wait_event list) \<Rightarrow> campaign \<Rightarrow> 'w \<Rightarrow> goerr option \<times> 'w" where
  "run_claimed store deps planner wt c w =
     (let p = NewPlatform (c_ID c) (c_TenantID c) 0 0;
          env = campaign_env store deps planner wt p
      in case New (ToAgentCampaign c) (c_PlannerModel c) (pd_Now deps w) of
           Inl e \<Rightarrow> finishFailed store (c_ID c) e None w
         | Inr a \<Rightarrow>
             let ((rep, runErr), w) = Run env a w
             in (case runErr of
                   Some e \<Rightarrow>
                     if errors_Is e ErrCampaignCancelled
                     then complete_campaign store ''cancelled'' (c_ID c) rep w
                     else finishFailed store (c_ID c) e (Some rep) w
                 | None \<Rightarrow> complete_campaign store ''completed'' (c_ID c) rep w))"

definition Campaign_Work ::
  "'w campaign_store \<Rightarrow> 'w platform_deps \<Rightarrow> (string \<Rightarrow> message list \<Rightarrow> 'w \<Rightarrow> (planner_error + planner_reply) \<times> 'w)
   \<Rightarrow> (string \<Rightarrow> wait_event list) \<Rightarrow> campaign_job_args \<Rightarrow> 'w \<Rightarrow> goerr option \<times> 'w" where
  "Campaign_Work store deps planner wt args w =
     (let (r, w) = cs_GetByID store (ca_CampaignID args) w
      in case r of
           Inl e \<Rightarrow>
             (if errors_Is e ErrNotFound then None
              else Some (Wrap (''load campaign '' @ ca_CampaignID args @ '': '') e []), w)
         | Inr c \<Rightarrow>
             let (claimed, w) = cs_MarkRunning store (c_ID c) w
             in (case claimed of
                   Inl e \<Rightarrow> (Some (Wrap (''claim campaign '' @ c_ID c @ '': '') e []), w)
                 | Inr False \<Rightarrow> (None, w)
                 | Inr True \<Rightarrow> run_claimed store deps planner wt c w))"

section \<open>What the platform relies on\<close>

text \<open>
  The contract behind \<open>PlatformDeps\<close>: the job store's, and a view of the benchmark queue that only a
  successful enqueue extends, with the arguments it was given.
\<close>

locale bench_backend = job_store "pd_SaveJob deps" "pd_GetJobByID deps" view
  for deps :: "'w platform_deps" and view :: "'w \<Rightarrow> string \<Rightarrow> job option" +
  fixes queued :: "'w \<Rightarrow> bench_job_args list"
  assumes enqueue_q: "pd_Enqueue deps a w = (r, w') \<Longrightarrow> queued w' = queued w @ (if isErr r then [] else [a])"
    and save_q: "queued (snd (pd_SaveJob deps j w)) = queued w"
    and get_q: "queued (snd (pd_GetJobByID deps k w)) = queued w"
    and results_q: "queued (snd (pd_QueryByJob deps k w)) = queued w"
    and tenant_q: "queued (snd (pd_QueryTenant deps t e m s w)) = queued w"
    and state_q: "queued (snd (pd_State deps i w)) = queued w"
    and newid_q: "queued (snd (pd_NewID deps w)) = queued w"
    and others_q: "queued (pd_Others deps ops w) = queued w"
    and results_own: "pd_QueryByJob deps k w = (Inr rs, w') \<Longrightarrow> x \<in> set rs \<Longrightarrow> r_JobID x = k"
begin

lemma waitForJob_q: "waitForJob deps p k evs w = (r, w') \<Longrightarrow> queued w' = queued w"
proof (induction evs arbitrary: w)
  case (Cons ev evs)
  show ?case
  proof (cases ev)
    case (WaitTick ops)
    obtain x v where g: "pd_GetJobByID deps k (pd_Others deps ops w) = (x, v)" by (metis prod.collapse)
    have v: "queued v = queued w" using get_q [of k "pd_Others deps ops w"] others_q [of ops w] g by simp
    from Cons.prems WaitTick g have "w' = v \<or> waitForJob deps p k evs v = (r, w')"
      by (auto split: sum.splits if_splits)
    with v Cons.IH show ?thesis by auto
  qed (use Cons.prems in auto)
qed simp

lemma collect_result_q:
  assumes "collect_result deps p evs spec k w = (r, w')"
  shows "queued w' = queued w \<and> (\<forall>x. r = Inr x \<longrightarrow> r_Engine x = ts_Engine spec \<and> r_JobID x = k)"
proof -
  obtain f v where wt: "waitForJob deps p k evs w = (f, v)" by (metis prod.collapse)
  note q = waitForJob_q [OF wt]
  obtain rs u where rs: "pd_QueryByJob deps k v = (rs, u)" by (metis prod.collapse)
  have u: "queued u = queued w" using results_q [of k v] rs q by simp
  show ?thesis
  proof (cases "\<exists>j. f = Inr j \<and> job_State j = StateCompleted")
    case False
    with assms wt q show ?thesis by (auto simp: collect_result_def split: sum.splits if_splits)
  next
    case True
    with assms wt rs have "w' = u" and r: "\<forall>x. r = Inr x \<longrightarrow> (\<exists>xs. rs = Inr xs \<and>
        List.find (\<lambda>r. r_Engine r = ts_Engine spec) xs = Some x)"
      by (auto simp: collect_result_def split: sum.splits option.splits)
    have "r_Engine x = ts_Engine spec \<and> r_JobID x = k" if x: "r = Inr x" for x
    proof -
      from r x obtain xs where xs: "rs = Inr xs" and f: "List.find (\<lambda>r. r_Engine r = ts_Engine spec) xs = Some x"
        by blast
      from find_SomeD [OF f] results_own [of k v xs u x] rs xs show ?thesis by simp
    qed
    with u \<open>w' = u\<close> show ?thesis by simp
  qed
qed

text \<open>One call either queues nothing and fails, or queues exactly the one job that its specification
  describes, for the platform's tenant.\<close>

lemma RunBenchmark_cases:
  assumes "RunBenchmark deps p wt spec w = (r, w')"
  obtains (refused) e where "r = Inl e" "queued w' = queued w"
  | (queued) k now where "queued w' = queued w @ [job_args (trial_job p spec k now)]" "validate_spec spec = None"
      "\<And>x. r = Inr x \<Longrightarrow> r_Engine x = ts_Engine spec \<and> r_JobID x = k"
proof -
  obtain st w1 where st: "pd_State deps (cp_campaignID p) w = (st, w1)" by (metis prod.collapse)
  have q1: "queued w1 = queued w" using state_q [of "cp_campaignID p" w] st by simp
  have cc: "checkCancelled deps p w = (case st of Inl _ \<Rightarrow> None
      | Inr s \<Rightarrow> if s = CampCancelled then Some ErrCampaignCancelled else None, w1)"
    using st by (simp add: checkCancelled_def)
  show thesis
  proof (cases "fst (checkCancelled deps p w) = None \<and> validate_spec spec = None")
    case False
    with assms cc q1 show thesis by (auto simp: RunBenchmark_def split: option.splits intro: refused)
  next
    case True
    obtain k w2 where n: "pd_NewID deps w1 = (k, w2)" by (metis prod.collapse)
    let ?j = "trial_job p spec k (pd_Now deps w1)"
    obtain s w3 where s: "pd_SaveJob deps ?j w2 = (s, w3)" by (metis prod.collapse)
    obtain q w4 where e: "pd_Enqueue deps (job_args ?j) w3 = (q, w4)" by (metis prod.collapse)
    have q3: "queued w3 = queued w" using newid_q [of w1] save_q [of ?j w2] n s q1 by simp
    have q4: "queued w4 = queued w @ (if isErr q then [] else [job_args ?j])" using enqueue_q [OF e] q3 by simp
    have run: "(r, w') = (case s of Inl e \<Rightarrow> (Inl (Wrap ''save benchmark job: '' e []), w3)
        | Inr _ \<Rightarrow> (case q of Inl e \<Rightarrow> (Inl (Wrap ''enqueue benchmark job: '' e []), w4)
            | Inr _ \<Rightarrow> collect_result deps p (wt k) spec k w4))"
      using assms True cc n s e by (simp add: RunBenchmark_def Let_def split: sum.splits)
    show thesis
    proof (cases s)
      case (Inl x)
      with run q3 show thesis by (auto intro: refused)
    next
      case s: (Inr x)
      show thesis
      proof (cases q)
        case (Inl y)
        with run s q4 show thesis by (auto intro: refused)
      next
        case (Inr y)
        with run s have c: "collect_result deps p (wt k) spec k w4 = (r, w')" by simp
        from collect_result_q [OF c] q4 Inr True show thesis by (intro queued [of k "pd_Now deps w1"]) auto
      qed
    qed
  qed
qed

lemma RunBenchmark_cancelled:
  "pd_State deps (cp_campaignID p) w = (Inr CampCancelled, v) \<Longrightarrow>
   RunBenchmark deps p wt spec w = (Inl ErrCampaignCancelled, v) \<and> queued v = queued w"
  using state_q [of "cp_campaignID p" w] by (simp add: RunBenchmark_def checkCancelled_def)

end

section \<open>The orchestrator's own wiring\<close>

definition apply_other :: "other_op \<Rightarrow> camp_db \<Rightarrow> camp_db" where
  "apply_other oop w =
     (case oop of
        OtherJobState k st msg \<Rightarrow> snd (UpdateJobState k st msg w)
      | OtherResult r \<Rightarrow> snd (resultsHandler (Inr r) w)
      | OtherCancel i t \<Rightarrow> snd (Campaign_Cancel i t w)
      | OtherWorker e \<Rightarrow> w\<lparr>o_registry := Register (w_now w) e (o_registry w)\<rparr>)"

text \<open>\<open>ord\<close> is the order in which Go walks the registry map.\<close>

definition model_deps :: "(registry \<Rightarrow> string list) \<Rightarrow> camp_db platform_deps" where
  "model_deps ord =
     \<lparr>pd_SaveJob = SaveJob, pd_GetJobByID = GetJobByID, pd_Enqueue = Enqueue, pd_QueryByJob = QueryByJob,
      pd_QueryTenant = QueryByTenantEngineAndModel, pd_List = (\<lambda>w. ListWorkers (ord (o_registry w)) (o_registry w)),
      pd_State = Campaign_State, pd_NewID = NewID, pd_Now = w_now, pd_Others = fold apply_other\<rparr>"

definition model_store :: "camp_db campaign_store" where
  "model_store = \<lparr>cs_GetByID = Campaign_GetByID, cs_MarkRunning = MarkRunning, cs_Complete = Campaign_Complete,
     cs_Fail = Campaign_Fail, cs_AppendEvent = AppendEvent\<rparr>"

text \<open>The planner is a remote service: it sees the conversation and takes time.\<close>

definition remote_planner ::
  "(string \<Rightarrow> message list \<Rightarrow> int \<Rightarrow> (planner_error + planner_reply) \<times> int)
   \<Rightarrow> string \<Rightarrow> message list \<Rightarrow> camp_db \<Rightarrow> (planner_error + planner_reply) \<times> camp_db" where
  "remote_planner f model msgs w = (let (r, t) = f model msgs (w_now w) in (r, w\<lparr>w_now := max (w_now w) t\<rparr>))"

definition bench_queue :: "'w jobs_db_scheme \<Rightarrow> bench_job_args list" where
  "bench_queue w = map rr_args (q_benchmarks w)"

lemma bench_queue_ops [simp]:
  "bench_queue (tick w) = bench_queue w" "bench_queue (snd (SaveJob j w)) = bench_queue w"
  "bench_queue (snd (GetJobByID k w)) = bench_queue w" "bench_queue (snd (QueryByJob k w)) = bench_queue w"
  "bench_queue (snd (QueryByTenantEngineAndModel t e m s w)) = bench_queue w"
  "bench_queue (snd (UpdateJobState k st msg w)) = bench_queue w"
  "bench_queue (snd (WriteBenchResultBatch rs w)) = bench_queue w"
  "bench_queue (snd (SaveRecommendation rec w)) = bench_queue w"
  "bench_queue (snd (AppendAuditLog t a r w)) = bench_queue w"
  by (auto simp: bench_queue_def SaveJob_def GetJobByID_def QueryByJob_def QueryByTenantEngineAndModel_def
      UpdateJobState_def WriteBenchResultBatch_def SaveRecommendation_def AppendAuditLog_def db_call_def
      split: option.splits)

lemma bench_queue_camp_ops [simp]:
  "bench_queue (snd (Campaign_State i v)) = bench_queue v" "bench_queue (snd (Campaign_Cancel i t v)) = bench_queue v"
  "bench_queue (snd (AppendEvent i e v)) = bench_queue v" "bench_queue (snd (Campaign_GetByID i v)) = bench_queue v"
  "bench_queue (snd (MarkRunning i v)) = bench_queue v" "bench_queue (snd (Campaign_Complete i rep v)) = bench_queue v"
  "bench_queue (snd (Campaign_Fail i msg rep v)) = bench_queue v"
  by (auto simp: bench_queue_def Campaign_State_def Campaign_Cancel_def AppendEvent_def Campaign_GetByID_def
      queryOne_def MarkRunning_def Campaign_Complete_def Campaign_Fail_def db_call_def update_campaigns_def Let_def
      tick_def split: option.splits)

lemma bench_queue_results [simp]: "bench_queue (snd (resultsHandler body w)) = bench_queue w"
  by (simp add: resultsHandler_def Let_def case_prod_beta split: sum.splits)

lemma bench_queue_other [simp]: "bench_queue (apply_other oop w) = bench_queue w"
  by (cases oop) (simp_all add: apply_other_def, simp add: bench_queue_def)

lemma bench_queue_others [simp]: "bench_queue (fold apply_other ops w) = bench_queue w"
  by (induction ops arbitrary: w) simp_all

lemma bench_queue_NewID [simp]: "bench_queue (snd (NewID w)) = bench_queue w"
  by (simp add: NewID_def rand_adv_def bench_queue_def Let_def)

interpretation backend: bench_backend "model_deps ord" job_map bench_queue
  for ord
proof (unfold_locales, goal_cases)
  case (1 j w u w') then show ?case using js.save_ok by (simp add: model_deps_def)
next
  case (2 j w e w') then show ?case using js.save_err by (simp add: model_deps_def)
next
  case (3 k w r w') then show ?case using js.get_view by (simp add: model_deps_def)
next
  case (4 k w j w') then show ?case using js.get_ok by (simp add: model_deps_def)
next
  case (5 a w r w')
  then show ?case
    by (auto simp: model_deps_def Enqueue_def db_call_def bench_queue_def split: option.splits)
next
  case (13 k w rs w' x)
  then show ?case
    by (auto simp: model_deps_def QueryByJob_def db_call_def scanResults_def split: option.splits)
qed (simp_all add: model_deps_def)

section \<open>What else the platform's calls may change\<close>

text \<open>A rely condition \<open>S\<close> for the single operations carries over to a whole platform call.\<close>

locale deps_rely =
  fixes deps :: "'w platform_deps" and S :: "'w \<Rightarrow> 'w \<Rightarrow> bool"
  assumes S_refl: "S w w"
    and S_trans: "S w v \<Longrightarrow> S v u \<Longrightarrow> S w u"
    and save_S: "S w (snd (pd_SaveJob deps j w))"
    and get_S: "S w (snd (pd_GetJobByID deps k w))"
    and enqueue_S: "S w (snd (pd_Enqueue deps a w))"
    and results_S: "S w (snd (pd_QueryByJob deps k w))"
    and tenant_S: "S w (snd (pd_QueryTenant deps t e m s w))"
    and state_S: "S w (snd (pd_State deps i w))"
    and newid_S: "S w (snd (pd_NewID deps w))"
    and others_S: "S w (pd_Others deps ops w)"
begin

lemma step_S:
  "pd_SaveJob deps j w = (r1, v1) \<Longrightarrow> S w v1" "pd_GetJobByID deps k w = (r2, v2) \<Longrightarrow> S w v2"
  "pd_Enqueue deps a w = (r3, v3) \<Longrightarrow> S w v3" "pd_QueryByJob deps k w = (r4, v4) \<Longrightarrow> S w v4"
  "pd_State deps i w = (r5, v5) \<Longrightarrow> S w v5" "pd_NewID deps w = (r6, v6) \<Longrightarrow> S w v6"
  using save_S [of w j] get_S [of w k] enqueue_S [of w a] results_S [of w k] state_S [of w i] newid_S [of w] by auto

lemma waitForJob_S: "waitForJob deps p k evs w = (r, w') \<Longrightarrow> S w w'"
proof (induction evs arbitrary: w)
  case (Cons ev evs)
  show ?case
  proof (cases ev)
    case (WaitTick ops)
    obtain x v where g: "pd_GetJobByID deps k (pd_Others deps ops w) = (x, v)" by (metis prod.collapse)
    have v: "S w v" using S_trans [OF others_S step_S(2) [OF g]] .
    from Cons.prems WaitTick g have "w' = v \<or> waitForJob deps p k evs v = (r, w')"
      by (auto split: sum.splits if_splits)
    with v Cons.IH show ?thesis by (auto intro: S_trans)
  qed (use Cons.prems S_refl in auto)
qed (simp add: S_refl)

lemma collect_result_S: "collect_result deps p evs spec k w = (r, w') \<Longrightarrow> S w w'"
  by (auto simp: collect_result_def Let_def split: prod.splits sum.splits if_splits option.splits
      dest!: waitForJob_S step_S(4) intro: S_trans)

lemma RunBenchmark_S: "S w (snd (RunBenchmark deps p wt spec w))"
proof -
  obtain c w1 where c: "checkCancelled deps p w = (c, w1)" by (metis prod.collapse)
  then have 1: "S w w1" by (auto simp: checkCancelled_def split: prod.splits dest: step_S(5))
  obtain k w2 where n: "pd_NewID deps w1 = (k, w2)" by (metis prod.collapse)
  have 2: "S w w2" using S_trans [OF 1 step_S(6) [OF n]] .
  let ?j = "trial_job p spec k (pd_Now deps w1)"
  obtain s w3 where s: "pd_SaveJob deps ?j w2 = (s, w3)" by (metis prod.collapse)
  have 3: "S w w3" using S_trans [OF 2 step_S(1) [OF s]] .
  obtain q w4 where e: "pd_Enqueue deps (job_args ?j) w3 = (q, w4)" by (metis prod.collapse)
  have 4: "S w w4" using S_trans [OF 3 step_S(3) [OF e]] .
  have 5: "S w (snd (collect_result deps p (wt k) spec k w4))"
    using S_trans [OF 4 collect_result_S] by (metis prod.collapse)
  from c n s e 1 3 4 5 show ?thesis
    by (auto simp: RunBenchmark_def Let_def split: option.splits sum.splits)
qed

end

text \<open>While a campaign runs, others may cancel campaigns; they, and the campaign itself before its end, do
  nothing else to the campaign rows.\<close>

definition moved :: "campaign option \<Rightarrow> campaign option \<Rightarrow> bool" where
  "moved x y \<longleftrightarrow> (case (x, y) of
     (None, None) \<Rightarrow> True
   | (Some c, Some d) \<Rightarrow> c_State d = c_State c \<or> (c_State c \<in> {CampPending, CampRunning} \<and> c_State d = CampCancelled)
   | _ \<Rightarrow> False)"

lemma moved_refl [simp]: "moved x x"
  by (simp add: moved_def split: option.splits)

lemma moved_trans: "moved x y \<Longrightarrow> moved y z \<Longrightarrow> moved x z"
  by (auto simp: moved_def split: option.splits)

definition camps_rely :: "camp_db \<Rightarrow> camp_db \<Rightarrow> bool" where
  "camps_rely w v \<longleftrightarrow> (camps_ok w \<longrightarrow> camps_ok v \<and> (\<forall>k. moved (camp_map w k) (camp_map v k)))"

lemma camps_rely_same: "t_campaigns v = t_campaigns w \<Longrightarrow> camps_rely w v"
  by (simp add: camps_rely_def camps_ok_def camp_map_def)

lemma camps_rely_trans: "camps_rely w v \<Longrightarrow> camps_rely v u \<Longrightarrow> camps_rely w u"
  unfolding camps_rely_def using moved_trans by blast

lemma camps_rely_Cancel: "camps_rely w (snd (Campaign_Cancel i t w))"
  unfolding camps_rely_def
proof (intro impI conjI allI)
  fix k assume ok: "camps_ok w"
  obtain r v where c: "Campaign_Cancel i t w = (r, v)" by (metis prod.collapse)
  from c ok show "moved (camp_map w k) (camp_map (snd (Campaign_Cancel i t w)) k)"
  proof (cases rule: Cancel_cases)
    case (wrote x)
    then show ?thesis by (auto simp: moved_def cancellable_def c split: option.splits)
  qed (simp add: c)
qed (rule camps_ok_ops(5))

lemma campaigns_of_ops [simp]:
  "t_campaigns (snd (UpdateJobState k st msg w)) = t_campaigns w" "t_campaigns (snd (SaveJob j w)) = t_campaigns w"
  "t_campaigns (snd (GetJobByID k w)) = t_campaigns w" "t_campaigns (snd (Enqueue a w)) = t_campaigns w"
  "t_campaigns (snd (QueryByJob k w)) = t_campaigns w" "t_campaigns (snd (Campaign_State i w)) = t_campaigns w"
  "t_campaigns (snd (QueryByTenantEngineAndModel t e m s w)) = t_campaigns w"
  "t_campaigns (snd (WriteBenchResultBatch rs w)) = t_campaigns w" "t_campaigns (snd (NewID w)) = t_campaigns w"
  "t_campaigns (snd (SaveRecommendation rec w)) = t_campaigns w"
  "t_campaigns (snd (AppendAuditLog t act r w)) = t_campaigns w"
  "t_campaigns (snd (AppendEvent i ev w)) = t_campaigns w"
  by (auto simp: UpdateJobState_def SaveJob_def GetJobByID_def Enqueue_def QueryByJob_def Campaign_State_def
      QueryByTenantEngineAndModel_def WriteBenchResultBatch_def NewID_def SaveRecommendation_def
      AppendAuditLog_def AppendEvent_def db_call_def rand_adv_def Let_def split: option.splits)

lemma camps_rely_other: "camps_rely w (apply_other oop w)"
proof (cases oop)
  case (OtherResult r)
  have "t_campaigns (snd (resultsHandler (Inr r) w)) = t_campaigns w"
    by (simp add: resultsHandler_def Let_def case_prod_beta)
  with OtherResult show ?thesis by (simp add: apply_other_def camps_rely_same)
qed (auto simp: apply_other_def camps_rely_Cancel intro: camps_rely_same)

lemma camps_rely_others: "camps_rely w (fold apply_other ops w)"
  by (induction ops arbitrary: w) (auto intro: camps_rely_trans camps_rely_other camps_rely_same)

interpretation camps_deps: deps_rely "model_deps ord" camps_rely for ord
proof (unfold_locales, goal_cases)
  case (2 w v u) then show ?case by (rule camps_rely_trans)
qed (simp_all add: model_deps_def camps_rely_same camps_rely_others)

section \<open>A campaign in the orchestrator\<close>

definition orch_env ::
  "(registry \<Rightarrow> string list) \<Rightarrow> (string \<Rightarrow> message list \<Rightarrow> int \<Rightarrow> (planner_error + planner_reply) \<times> int)
   \<Rightarrow> (string \<Rightarrow> wait_event list) \<Rightarrow> camp_platform \<Rightarrow> camp_db agent_env" where
  "orch_env ord f wt p = campaign_env model_store (model_deps ord) (remote_planner f) wt p"

lemma orch_env_simps:
  "ae_platform (orch_env ord f wt p) = \<lparr>pf_ListWorkers = Platform_ListWorkers (model_deps ord),
     pf_ClassifyWorkload = Platform_ClassifyWorkload, pf_RunBenchmark = RunBenchmark (model_deps ord) p wt,
     pf_HistoricalResults = HistoricalResults (model_deps ord) p\<rparr>"
  "ae_planner (orch_env ord f wt p) = remote_planner f" "ae_now (orch_env ord f wt p) = w_now"
  "ae_observer (orch_env ord f wt p) = Some (\<lambda>e w. snd (AppendEvent (cp_campaignID p) e w))"
  by (simp_all add: orch_env_def campaign_env_def model_store_def model_deps_def)

definition admitted :: "bench_job_args \<Rightarrow> bool" where
  "admitted d \<longleftrightarrow> ValidateEngines (ba_Engines d) = None \<and> ValidateWorkload (ba_Workload d) = None \<and>
     ValidateEngineConfig (ba_EngineConfig d) = None"

text \<open>Only admitted jobs of tenant \<open>t\<close> join the queue.\<close>

definition queue_rely :: "string \<Rightarrow> camp_db \<Rightarrow> camp_db \<Rightarrow> bool" where
  "queue_rely t w v \<longleftrightarrow> (\<exists>ds. bench_queue v = bench_queue w @ ds \<and> (\<forall>d\<in>set ds. ba_TenantID d = t \<and> admitted d))"

lemma queue_rely_same: "bench_queue v = bench_queue w \<Longrightarrow> queue_rely t w v"
  by (simp add: queue_rely_def)

lemma bench_queue_planner [simp]: "bench_queue (snd (remote_planner f m msgs w)) = bench_queue w"
  by (simp add: remote_planner_def bench_queue_def split: prod.splits)

lemma remote_planner_campaigns [simp]: "t_campaigns (snd (remote_planner f m msgs w)) = t_campaigns w"
  by (simp add: remote_planner_def split: prod.splits)

lemma validate_spec_admitted:
  "validate_spec spec = None \<Longrightarrow> admitted (job_args (trial_job p spec k now)) \<and>
     ba_TenantID (job_args (trial_job p spec k now)) = cp_tenantID p"
  by (auto simp: validate_spec_def admitted_def job_args_def trial_job_def split: option.splits if_splits)

interpretation meter: metered_platform "orch_env ord f wt p" "\<lambda>w. length (bench_queue w)" for ord f wt p
proof (unfold_locales, goal_cases)
  case (6 spec w)
  obtain r v where run: "RunBenchmark (model_deps ord) p wt spec w = (r, v)" by (metis prod.collapse)
  then show ?case by (cases rule: backend.RunBenchmark_cases) (simp_all add: orch_env_simps run)
qed (auto simp: orch_env_simps Platform_ListWorkers_def Platform_ClassifyWorkload_def HistoricalResults_def model_deps_def)

interpretation own_jobs: agent_rely "orch_env ord f wt p" "queue_rely (cp_tenantID p)" for ord f wt p
proof (unfold_locales, goal_cases)
  case (2 w v u)
  then show ?case unfolding queue_rely_def by (metis append.assoc set_append Un_iff)
next
  case (8 w spec)
  obtain r v where run: "RunBenchmark (model_deps ord) p wt spec w = (r, v)" by (metis prod.collapse)
  then show ?case
    by (cases rule: backend.RunBenchmark_cases)
       (auto simp: orch_env_simps run queue_rely_def dest: validate_spec_admitted)
qed (auto simp: orch_env_simps Platform_ListWorkers_def Platform_ClassifyWorkload_def HistoricalResults_def model_deps_def
    intro: queue_rely_same)

interpretation camps_run: agent_rely "orch_env ord f wt p" camps_rely for ord f wt p
proof (unfold_locales, goal_cases)
  case (2 w v u) then show ?case by (rule camps_rely_trans)
next
  case (8 w spec) then show ?case using camps_deps.RunBenchmark_S by (simp add: orch_env_simps)
qed (auto simp: orch_env_simps Platform_ListWorkers_def Platform_ClassifyWorkload_def HistoricalResults_def model_deps_def
    intro: camps_rely_same)

text \<open>The three ways an attempt goes: nothing claimed, refused by the agent's checks, or run.\<close>

abbreviation work_model ::
  "(registry \<Rightarrow> string list) \<Rightarrow> (string \<Rightarrow> message list \<Rightarrow> int \<Rightarrow> (planner_error + planner_reply) \<times> int)
   \<Rightarrow> (string \<Rightarrow> wait_event list) \<Rightarrow> campaign_job_args \<Rightarrow> camp_db \<Rightarrow> goerr option \<times> camp_db" where
  "work_model ord f wt \<equiv> Campaign_Work model_store (model_deps ord) (remote_planner f) wt"

lemma finish_queue [simp]:
  "bench_queue (snd (finishFailed model_store i e rep w)) = bench_queue w"
  "bench_queue (snd (complete_campaign model_store what i rp w)) = bench_queue w"
  by (simp_all add: finishFailed_def complete_campaign_def model_store_def case_prod_beta)

lemma run_claimed_cases:
  assumes "run_claimed model_store (model_deps ord) (remote_planner f) wt c w = (res, w')"
  obtains (bad) e where "(res, w') = finishFailed model_store (c_ID c) e None w"
  | (ran) a rep err v where "New (ToAgentCampaign c) (c_PlannerModel c) (w_now w) = Inr a"
      "Run (orch_env ord f wt (NewPlatform (c_ID c) (c_TenantID c) 0 0)) a w = ((rep, err), v)"
      "(\<exists>e. (res, w') = finishFailed model_store (c_ID c) e (Some rep) v) \<or>
       (\<exists>what. (res, w') = complete_campaign model_store what (c_ID c) rep v)"
proof (cases "New (ToAgentCampaign c) (c_PlannerModel c) (w_now w)")
  case (Inl e)
  with assms show thesis by (intro bad [of e]) (simp add: run_claimed_def model_deps_def)
next
  case (Inr a)
  obtain rep err v where run: "Run (orch_env ord f wt (NewPlatform (c_ID c) (c_TenantID c) 0 0)) a w = ((rep, err), v)"
    by (metis prod.collapse)
  moreover have "pd_Now (model_deps ord) = w_now" by (simp add: model_deps_def)
  ultimately have "(res, w') = (case err of Some e \<Rightarrow> if errors_Is e ErrCampaignCancelled
        then complete_campaign model_store ''cancelled'' (c_ID c) rep v
        else finishFailed model_store (c_ID c) e (Some rep) v
      | None \<Rightarrow> complete_campaign model_store ''completed'' (c_ID c) rep v)"
    using assms Inr by (simp add: run_claimed_def orch_env_def [symmetric] Let_def split: option.splits)
  then have "(\<exists>e. (res, w') = finishFailed model_store (c_ID c) e (Some rep) v) \<or>
       (\<exists>what. (res, w') = complete_campaign model_store what (c_ID c) rep v)"
    by (auto split: option.splits if_splits)
  with Inr run show thesis by (intro ran [of a rep err v]) auto
qed

lemma run_claimed_queue:
  assumes "run_claimed model_store (model_deps ord) (remote_planner f) wt c w = (res, w')"
  shows "\<exists>ds. bench_queue w' = bench_queue w @ ds \<and> int (length ds) \<le> max 0 (MaxTrials (c_Budget c)) \<and>
    (\<forall>d\<in>set ds. ba_TenantID d = c_TenantID c \<and> admitted d)"
  using assms
proof (cases rule: run_claimed_cases)
  case (bad e)
  then have "bench_queue w' = bench_queue w" using finish_queue(1) by (metis snd_conv)
  then show ?thesis by simp
next
  case (ran a rep err v)
  from ran(3) have q: "bench_queue w' = bench_queue v" using finish_queue by (metis snd_conv)
  from meter.Run_cost [OF ran(1,2)]
  have n: "int (length (bench_queue v)) \<le> int (length (bench_queue w)) + MaxTrials (c_Budget c)"
    by (simp add: ToAgentCampaign_def)
  from own_jobs.Run_R [OF ran(2)] obtain ds where
    "bench_queue v = bench_queue w @ ds" "\<forall>d\<in>set ds. ba_TenantID d = c_TenantID c \<and> admitted d"
    by (auto simp: queue_rely_def NewPlatform_def)
  with q n show ?thesis by (intro exI [of _ ds]) auto
qed

text \<open>Up to the claim.\<close>

lemma Work_claim_cases:
  assumes run: "work_model ord f wt args w = (res, w')" and ok: "camps_ok w"
  obtains (idle) "bench_queue w' = bench_queue w" "camp_map w' = camp_map w" "t_events w' = t_events w"
      "res = None \<Longrightarrow> \<forall>c. camp_map w (ca_CampaignID args) = Some c \<longrightarrow> c_State c \<noteq> CampPending"
  | (claimed) c v where "camp_map w (ca_CampaignID args) = Some c" "c_ID c = ca_CampaignID args" "c_State c = CampPending"
      "camp_map v = (camp_map w)(ca_CampaignID args \<mapsto> claim_row (w_now w) c)" "camps_ok v"
      "bench_queue v = bench_queue w"
      "run_claimed model_store (model_deps ord) (remote_planner f) wt c v = (res, w')"
proof -
  let ?i = "ca_CampaignID args"
  obtain r w1 where g: "Campaign_GetByID ?i w = (r, w1)" by (metis prod.collapse)
  note gc = queryOne_cases [OF g]
  have evs: "t_events (snd (MarkRunning k u)) = t_events u" for k and u :: camp_db
    by (auto simp: MarkRunning_def db_call_def update_campaigns_def Let_def split: option.splits)
  show thesis
  proof (cases r)
    case (Inl e)
    with run g have *: "w' = w1" "res = (if errors_Is e ErrNotFound then None
        else Some (Wrap (''load campaign '' @ ?i @ '': '') e []))"
      by (auto simp: Campaign_Work_def model_store_def)
    have "camp_map w ?i = None" if "res = None"
    proof -
      from that * have "errors_Is e ErrNotFound" by (auto split: if_splits)
      moreover from g Inl have "e = ErrNotFound \<or> (\<exists>m. e = Wrap ''query campaign: '' (ErrNew m) [])"
        by (auto simp: Campaign_GetByID_def queryOne_def db_call_def split: option.splits)
      ultimately have "e = ErrNotFound" by (auto simp: ErrNotFound_def)
      with gc Inl show ?thesis by simp
    qed
    with * gc show thesis by (intro idle) auto
  next
    case (Inr c)
    with gc have c: "camp_map w ?i = Some c" and w1: "w1 = tick w" by auto
    then have cid: "c_ID c = ?i" by (auto simp: camp_map_def dest: find_SomeD)
    obtain m w2 where m: "MarkRunning (c_ID c) w1 = (m, w2)" by (metis prod.collapse)
    have q2: "bench_queue w2 = bench_queue w" using bench_queue_camp_ops(5) [of "c_ID c" w1] m w1
      by (metis bench_queue_ops(1) snd_conv)
    have e2: "t_events w2 = t_events w" using evs [of "c_ID c" w1] m w1 by simp
    from run g Inr m have r: "(res, w') = (case m of
          Inl e \<Rightarrow> (Some (Wrap (''claim campaign '' @ c_ID c @ '': '') e []), w2)
        | Inr False \<Rightarrow> (None, w2) | Inr True \<Rightarrow> run_claimed model_store (model_deps ord) (remote_planner f) wt c w2)"
      by (simp add: Campaign_Work_def model_store_def split: sum.splits bool.splits)
    have ok1: "camps_ok w1" using ok w1 by simp
    have ok2: "camps_ok w2" using camps_ok_ops(2) [OF ok1, of "c_ID c"] m by simp
    from m ok1 show thesis
    proof (cases rule: MarkRunning_cases)
      case (won d)
      then have "d = c" using c cid w1 by simp
      with won r c cid w1 ok2 q2 show thesis by (intro claimed [of c w2]) auto
    next
      case lost
      have "c_State c \<noteq> CampPending" if "res = None"
      proof
        assume p: "c_State c = CampPending"
        from that r lost(1) have "m = Inr False" by (auto split: sum.splits bool.splits)
        with m p c cid w1 ok affected [OF ok, of ?i "\<lambda>c. c_State c = CampPending"] show False
          by (auto simp: MarkRunning_def db_call_def update_campaigns_def Let_def split: option.splits)
      qed
      with lost r c w1 q2 e2 show thesis by (intro idle) (auto split: sum.splits bool.splits)
    qed
  qed
qed

text \<open>C19: A campaign cannot overspend. Whatever the planner asks for, however jobs end and whatever faults
  occur, one run of the campaign worker adds to the benchmark queue at most \<open>MaxTrials\<close> jobs, all of them
  for the campaign's own tenant and all passing the admission checks of the jobs API; and it adds none
  unless it found the campaign pending, so a repeated delivery of the same River job starts nothing.\<close>

theorem campaign_job_bound:
  assumes "camps_ok w" and "camp_map w (ca_CampaignID args) = Some c"
    and "Campaign_Work model_store (model_deps ord) (remote_planner f) wt args w = (res, w')"
  shows "\<exists>ds. bench_queue w' = bench_queue w @ ds \<and> int (length ds) \<le> max 0 (MaxTrials (c_Budget c)) \<and>
    (\<forall>d\<in>set ds. ba_TenantID d = c_TenantID c \<and> admitted d) \<and> (c_State c \<noteq> CampPending \<longrightarrow> ds = [])"
  using assms(3,1)
proof (cases rule: Work_claim_cases)
  case idle
  then show ?thesis by (intro exI [of _ "[]"]) simp
next
  case (claimed d v)
  with assms(2) have "d = c" by simp
  with claimed run_claimed_queue [OF claimed(7)] show ?thesis by auto
qed

lemma finish_state:
  assumes "(\<exists>e. (res, w') = finishFailed model_store i e rep v) \<or> (\<exists>what rp. (res, w') = complete_campaign model_store what i rp v)"
    and ok: "camps_ok v" and c: "camp_map v i = Some c"
  shows "\<exists>d. camp_map w' i = Some d \<and> (res = None \<longrightarrow>
      c_State d \<in> {finished_as CampCompleted (c_State c), finished_as CampFailed (c_State c)}) \<and>
    (res \<noteq> None \<longrightarrow> d = c) \<and> (\<forall>k. k \<noteq> i \<longrightarrow> camp_map w' k = camp_map v k)"
  using assms(1)
proof
  assume "\<exists>e. (res, w') = finishFailed model_store i e rep v"
  then obtain e where e: "(res, w') = finishFailed model_store i e rep v" by blast
  obtain r u where "Campaign_Fail i (Error e) rep v = (r, u)" by (metis prod.collapse)
  with e have f: "Campaign_Fail i (Error e) rep v = (r, w')" and r: "res = None \<longleftrightarrow> r = Inr ()"
    by (auto simp: finishFailed_def model_store_def split: sum.splits)
  from f ok show ?thesis using c r
  proof (cases rule: Fail_cases)
    case same
    with c r show ?thesis by auto
  qed auto
next
  assume "\<exists>what rp. (res, w') = complete_campaign model_store what i rp v"
  then obtain what rp where e: "(res, w') = complete_campaign model_store what i rp v" by blast
  obtain r u where "Campaign_Complete i (Some rp) v = (r, u)" by (metis prod.collapse)
  with e have f: "Campaign_Complete i (Some rp) v = (r, w')" and r: "res = None \<longleftrightarrow> r = Inr ()"
    by (auto simp: complete_campaign_def model_store_def split: sum.splits)
  from f ok show ?thesis using c r
  proof (cases rule: Complete_cases)
    case same
    with c r show ?thesis by auto
  qed auto
qed

text \<open>C20: A claimed campaign is brought to its end. If the worker returns without an error on a pending
  campaign, the campaign's row is terminal afterwards: completed, failed, or cancelled if someone
  cancelled it meanwhile. A campaign that is not pending when the worker loads it keeps its state, and
  the campaign is left running only together with an error of the worker.\<close>

theorem campaign_work_ends:
  assumes "camps_ok w" and "camp_map w (ca_CampaignID args) = Some c"
    and "Campaign_Work model_store (model_deps ord) (remote_planner f) wt args w = (res, w')"
  shows "\<exists>d. camp_map w' (ca_CampaignID args) = Some d \<and>
    (c_State c \<noteq> CampPending \<longrightarrow> d = c) \<and>
    (c_State c = CampPending \<and> res = None \<longrightarrow> Camp_IsTerminal (c_State d)) \<and>
    (c_State d = CampRunning \<and> c_State c = CampPending \<longrightarrow> res \<noteq> None)"
  using assms(3,1)
proof (cases rule: Work_claim_cases)
  case idle
  with assms(2) show ?thesis by (intro exI [of _ c]) (auto simp: Camp_IsTerminal_def)
next
  case (claimed d v)
  let ?i = "ca_CampaignID args"
  from assms(2) claimed have d: "d = c" "camp_map v ?i = Some (claim_row (w_now w) c)" by simp_all
  have fin: ?thesis if "camps_ok u" "camp_map u ?i = Some x" "c_State x \<in> {CampRunning, CampCancelled}"
    "(\<exists>e rep. (res, w') = finishFailed model_store ?i e rep u) \<or> (\<exists>what rp. (res, w') = complete_campaign model_store what ?i rp u)"
    for u x
  proof -
    from that(4) obtain rep where "(\<exists>e. (res, w') = finishFailed model_store ?i e rep u) \<or>
        (\<exists>what rp. (res, w') = complete_campaign model_store what ?i rp u)" by blast
    from finish_state [OF this that(1,2)] that(3) claimed(3) d show ?thesis
      by (auto simp: finished_as_def Camp_IsTerminal_def)
  qed
  from claimed(7) show ?thesis
  proof (cases rule: run_claimed_cases)
    case (bad e)
    with fin [OF claimed(5) d(2)] claimed(2) show ?thesis by auto
  next
    case (ran a rep err u)
    from camps_run.Run_R [OF ran(2)] claimed(5) d(2)
    have "camps_ok u" "moved (Some (claim_row (w_now w) c)) (camp_map u ?i)"
      by (auto simp: camps_rely_def) (metis)
    then obtain x where "camp_map u ?i = Some x" "c_State x \<in> {CampRunning, CampCancelled}"
      by (auto simp: moved_def split: option.splits)
    with fin [OF \<open>camps_ok u\<close>, of x] ran(3) claimed(2) show ?thesis by metis
  qed
qed

definition demo_planner :: "string \<Rightarrow> message list \<Rightarrow> int \<Rightarrow> (planner_error + planner_reply) \<times> int" where
  "demo_planner m msgs t = (Inr (demo_reply (if length msgs = 1 then ''run_benchmark'' else ''submit_recommendation'')), t + 1)"

definition demo_camp_args :: campaign_job_args where
  "demo_camp_args = \<lparr>ca_CampaignID = ''c'', ca_TenantID = ''t'', ca_MaxDurationSec = 3600\<rparr>"

lemma demo_camp_ok: "camps_ok (demo_camp_db [demo_stored ''c'' t])"
  "camp_map (demo_camp_db [demo_stored ''c'' t]) (ca_CampaignID demo_camp_args) = Some (demo_stored ''c'' t)"
  by (simp_all add: camps_ok_def camp_map_def demo_stored_def demo_camp_args_def)

theorem campaign_job_bound_witness:
  "length (bench_queue (snd (work_model (map fst) demo_planner (\<lambda>_. []) demo_camp_args
     (demo_camp_db [demo_stored ''c'' ''t''])))) \<le> 2"
proof -
  obtain res w' where W: "work_model (map fst) demo_planner (\<lambda>_. []) demo_camp_args
     (demo_camp_db [demo_stored ''c'' ''t'']) = (res, w')" by (metis prod.collapse)
  from campaign_job_bound [OF demo_camp_ok this] W show ?thesis
    by (auto simp: bench_queue_def demo_stored_def)
qed

theorem campaign_work_ends_witness:
  "\<exists>d. camp_map (snd (work_model (map fst) demo_planner (\<lambda>_. []) demo_camp_args
     (demo_camp_db [demo_stored ''c'' ''t'']))) ''c'' = Some d \<and>
     (fst (work_model (map fst) demo_planner (\<lambda>_. []) demo_camp_args
       (demo_camp_db [demo_stored ''c'' ''t''])) = None \<longrightarrow> Camp_IsTerminal (c_State d))"
proof -
  obtain res w' where W: "work_model (map fst) demo_planner (\<lambda>_. []) demo_camp_args
     (demo_camp_db [demo_stored ''c'' ''t'']) = (res, w')" by (metis prod.collapse)
  from campaign_work_ends [OF demo_camp_ok this] W show ?thesis
    by (auto simp: demo_stored_def demo_camp_args_def)
qed

section \<open>Cancelling a running campaign\<close>


definition failing_planner :: "string \<Rightarrow> message list \<Rightarrow> int \<Rightarrow> (planner_error + planner_reply) \<times> int" where
  "failing_planner m msgs t = (Inl (ApiError 500 ''overloaded''), t + 1)"


section \<open>The life of a campaign row\<close>

text \<open>
  Any number of deliveries of campaign jobs, interleaved with submissions and cancellations. An attempt
  has loaded its campaign, or has claimed it, or is over; a claimed attempt may record events and ends
  with one \<open>Complete\<close> or \<open>Fail\<close>, which may itself fail.
\<close>

datatype claim_pc = CpLoaded string | CpRunning string | CpEnded

type_synonym claim_table = "nat \<Rightarrow> claim_pc option"

inductive camp_step :: "camp_db \<times> claim_table \<Rightarrow> camp_db \<times> claim_table \<Rightarrow> bool" where
  load: "as a = None \<Longrightarrow> camp_step (w, as) (snd (Campaign_GetByID i w), as(a \<mapsto> CpLoaded i))"
| claim: "as a = Some (CpLoaded i) \<Longrightarrow> MarkRunning i w = (r, w') \<Longrightarrow>
    camp_step (w, as) (w', as(a \<mapsto> (if r = Inr True then CpRunning i else CpEnded)))"
| event: "as a = Some (CpRunning i) \<Longrightarrow> camp_step (w, as) (snd (AppendEvent i e w), as)"
| complete: "as a = Some (CpRunning i) \<Longrightarrow> camp_step (w, as) (snd (Campaign_Complete i rep w), as(a \<mapsto> CpEnded))"
| fail: "as a = Some (CpRunning i) \<Longrightarrow> camp_step (w, as) (snd (Campaign_Fail i msg rep w), as(a \<mapsto> CpEnded))"
| cancel: "camp_step (w, as) (snd (Campaign_Cancel i t w), as)"
| create: "c_State c = CampPending \<Longrightarrow> camp_step (w, as) (snd (Campaign_Create c w), as)"

inductive camp_reachable :: "camp_db \<times> claim_table \<Rightarrow> bool" where
  empty: "t_campaigns w = [] \<Longrightarrow> camp_reachable (w, \<lambda>_. None)"
| more: "camp_reachable s \<Longrightarrow> camp_step s t \<Longrightarrow> camp_reachable t"

text \<open>A claimed campaign has one claimant and is running or cancelled.\<close>

definition claim_inv :: "camp_db \<times> claim_table \<Rightarrow> bool" where
  "claim_inv s \<longleftrightarrow> camps_ok (fst s) \<and>
     (\<forall>a b i. snd s a = Some (CpRunning i) \<and> snd s b = Some (CpRunning i) \<longrightarrow> a = b) \<and>
     (\<forall>a i. snd s a = Some (CpRunning i) \<longrightarrow>
        (\<exists>c. camp_map (fst s) i = Some c \<and> c_State c \<in> {CampRunning, CampCancelled}))"

lemma claim_invD:
  assumes "claim_inv (w, as)"
  shows "camps_ok w" "as a = Some (CpRunning i) \<Longrightarrow> as b = Some (CpRunning i) \<Longrightarrow> a = b"
    "as a = Some (CpRunning i) \<Longrightarrow> \<exists>c. camp_map w i = Some c \<and> c_State c \<in> {CampRunning, CampCancelled}"
  using assms unfolding claim_inv_def fst_conv snd_conv by blast+

lemma claim_inv_keep:
  assumes inv: "claim_inv (w, as)" and "camps_ok w'"
    and st: "\<And>i c. camp_map w i = Some c \<Longrightarrow> c_State c \<in> {CampRunning, CampCancelled} \<Longrightarrow>
      (\<exists>a. as' a = Some (CpRunning i)) \<Longrightarrow> \<exists>d. camp_map w' i = Some d \<and> c_State d \<in> {CampRunning, CampCancelled}"
    and less: "\<And>b i. as' b = Some (CpRunning i) \<Longrightarrow> as b = Some (CpRunning i)"
  shows "claim_inv (w', as')"
proof -
  have "\<exists>d. camp_map w' i = Some d \<and> c_State d \<in> {CampRunning, CampCancelled}" if b: "as' b = Some (CpRunning i)" for b i
  proof -
    from claim_invD(3) [OF inv less [OF b]] st b show ?thesis by blast
  qed
  moreover have "a = b" if "as' a = Some (CpRunning i)" "as' b = Some (CpRunning i)" for a b i
    using claim_invD(2) [OF inv less [OF that(1)] less [OF that(2)]] .
  ultimately show ?thesis using assms(2) unfolding claim_inv_def fst_conv snd_conv by blast
qed

lemma Create_map: "Campaign_Create c w = (r, w') \<Longrightarrow> camp_map w' = camp_map w \<or>
    (camp_map w (c_ID c) = None \<and> camp_map w' = (camp_map w)(c_ID c \<mapsto> stored_campaign c))"
proof -
  assume r: "Campaign_Create c w = (r, w')"
  show ?thesis
  proof (cases "fault w = None \<and> c_ID c \<notin> c_ID ` set (t_campaigns w)")
    case True
    with r have "t_campaigns w' = t_campaigns w @ [stored_campaign c]" by (auto simp: Campaign_Create_def db_call_def)
    from camp_map_append [OF this] True show ?thesis by (simp add: camp_map_None stored_campaign_def)
  next
    case False
    with r have "w' = tick w" by (auto simp: Campaign_Create_def db_call_def split: option.splits)
    then show ?thesis by simp
  qed
qed

lemma GetByID_tick: "snd (Campaign_GetByID i w) = tick w"
  by (simp add: Campaign_GetByID_def queryOne_def db_call_def split: option.splits)

lemma finish_other:
  assumes inv: "claim_inv (w, as)" and a: "as a = Some (CpRunning i)" and "camps_ok w'"
    and map: "camp_map w' = camp_map w \<or> (\<exists>c. camp_map w' = (camp_map w)(i \<mapsto> c))"
  shows "claim_inv (w', as(a \<mapsto> CpEnded))"
proof (rule claim_inv_keep [OF inv assms(3)])
  fix b k assume b: "(as(a \<mapsto> CpEnded)) b = Some (CpRunning k)"
  then show "as b = Some (CpRunning k)" by (auto split: if_splits)
next
  fix k c assume c: "camp_map w k = Some c" "c_State c \<in> {CampRunning, CampCancelled}"
    and ex: "\<exists>b. (as(a \<mapsto> CpEnded)) b = Some (CpRunning k)"
  from ex obtain b where b: "as b = Some (CpRunning k)" "b \<noteq> a" by (auto split: if_splits)
  with claim_invD(2) [OF inv a] have "k \<noteq> i" by blast
  with c map show "\<exists>d. camp_map w' k = Some d \<and> c_State d \<in> {CampRunning, CampCancelled}" by auto
qed

lemma camp_step_inv: "camp_step s t \<Longrightarrow> claim_inv s \<Longrightarrow> claim_inv t"
proof (induction rule: camp_step.induct)
  case (load as a w i)
  show ?case
    by (rule claim_inv_keep [OF load.prems])
       (use load.hyps claim_invD(1) [OF load.prems] in \<open>auto simp: GetByID_tick split: if_splits\<close>)
next
  case (claim as a i w r w')
  note inv = claim.prems and ok = claim_invD(1) [OF claim.prems]
  have ok': "camps_ok w'" using camps_ok_ops(2) [OF ok, of i] claim.hyps by simp
  from claim.hyps(2) ok show ?case
  proof (cases rule: MarkRunning_cases)
    case (won c)
    have none: "as b \<noteq> Some (CpRunning i)" for b
    proof
      assume "as b = Some (CpRunning i)"
      from claim_invD(3) [OF inv this] won show False by auto
    qed
    let ?as = "as(a \<mapsto> CpRunning i)"
    have "\<exists>d. camp_map w' k = Some d \<and> c_State d \<in> {CampRunning, CampCancelled}" if b: "?as b = Some (CpRunning k)" for b k
    proof (cases "k = i")
      case True with won show ?thesis by simp
    next
      case False
      with b have "as b = Some (CpRunning k)" by (auto split: if_splits)
      from claim_invD(3) [OF inv this] won False show ?thesis by simp
    qed
    moreover have "b = b'" if "?as b = Some (CpRunning k)" "?as b' = Some (CpRunning k)" for b b' k
      using that none claim_invD(2) [OF inv, of b k b'] by (auto split: if_splits)
    ultimately have "claim_inv (w', ?as)" using ok' unfolding claim_inv_def fst_conv snd_conv by blast
    with won(1) show ?thesis by simp
  next
    case lost
    then have e: "(if r = Inr True then CpRunning i else CpEnded) = CpEnded" by simp
    show ?thesis unfolding e
      by (rule claim_inv_keep [OF inv ok']) (use lost claim.hyps in \<open>auto split: if_splits\<close>)
  qed
next
  case (event as a i w e)
  obtain r v where v: "AppendEvent i e w = (r, v)" by (metis prod.collapse)
  have "camps_ok v" using camps_ok_ops(6) [OF claim_invD(1) [OF event.prems], of i e] v by simp
  then show ?case
    by (intro claim_inv_keep [OF event.prems]) (use AppendEvent_map [OF v] v in auto)
next
  case (complete as a i w rep)
  note ok = claim_invD(1) [OF complete.prems]
  obtain r v where v: "Campaign_Complete i rep w = (r, v)" by (metis prod.collapse)
  have "camp_map v = camp_map w \<or> (\<exists>c. camp_map v = (camp_map w)(i \<mapsto> c))"
    using v ok by (cases rule: Complete_cases) auto
  with finish_other [OF complete.prems complete.hyps, of v] camps_ok_ops(3) [OF ok, of i rep] v show ?case by simp
next
  case (fail as a i w msg rep)
  note ok = claim_invD(1) [OF fail.prems]
  obtain r v where v: "Campaign_Fail i msg rep w = (r, v)" by (metis prod.collapse)
  have "camp_map v = camp_map w \<or> (\<exists>c. camp_map v = (camp_map w)(i \<mapsto> c))"
    using v ok by (cases rule: Fail_cases) auto
  with finish_other [OF fail.prems fail.hyps, of v] camps_ok_ops(4) [OF ok, of i msg rep] v show ?case by simp
next
  case (cancel w as i t)
  note ok = claim_invD(1) [OF cancel.prems]
  obtain r v where v: "Campaign_Cancel i t w = (r, v)" by (metis prod.collapse)
  have st: "\<exists>d. camp_map v k = Some d \<and> c_State d \<in> {CampRunning, CampCancelled}"
    if "camp_map w k = Some c" "c_State c \<in> {CampRunning, CampCancelled}" for k c
    using v ok that by (cases rule: Cancel_cases) auto
  show ?case
    by (rule claim_inv_keep [OF cancel.prems]) (use st v camps_ok_ops(5) [OF ok, of i t] in auto)
next
  case (create c w as)
  note ok = claim_invD(1) [OF create.prems]
  obtain r v where v: "Campaign_Create c w = (r, v)" by (metis prod.collapse)
  have st: "\<exists>d. camp_map v k = Some d \<and> c_State d \<in> {CampRunning, CampCancelled}"
    if "camp_map w k = Some x" "c_State x \<in> {CampRunning, CampCancelled}" for k x
    using Create_map [OF v] that by auto
  show ?case
    by (rule claim_inv_keep [OF create.prems]) (use st v camps_ok_ops(1) [OF ok, of c] in auto)
qed

lemma camp_reachable_inv: "camp_reachable s \<Longrightarrow> claim_inv s"
proof (induction rule: camp_reachable.induct)
  case (empty w)
  then show ?case by (simp add: claim_inv_def camps_ok_def)
qed (rule camp_step_inv)

definition camp_next :: "camp_state \<Rightarrow> camp_state \<Rightarrow> bool" where
  "camp_next s t \<longleftrightarrow> (s = CampPending \<and> t \<in> {CampRunning, CampCancelled}) \<or>
     (s = CampRunning \<and> t \<in> {CampCompleted, CampFailed, CampCancelled})"

text \<open>C5: The life of a campaign row. Over every interleaving of deliveries, claims, events, endings,
  submissions and cancellations, with any faults: at most one attempt ever holds the claim on a campaign;
  each step leaves the state of a stored campaign as it was or moves it from pending to running or
  cancelled, or from running to completed, failed or cancelled; so a terminal campaign never changes
  state again, and no campaign disappears.\<close>

theorem campaign_lifecycle:
  assumes "camp_reachable (w, as)" and "camp_step (w, as) (w', as')"
  shows "(\<forall>a b i. as' a = Some (CpRunning i) \<and> as' b = Some (CpRunning i) \<longrightarrow> a = b) \<and>
    (\<forall>k c. camp_map w k = Some c \<longrightarrow> (\<exists>d. camp_map w' k = Some d \<and>
       (c_State d = c_State c \<or> camp_next (c_State c) (c_State d)) \<and>
       (Camp_IsTerminal (c_State c) \<longrightarrow> c_State d = c_State c)))"
proof -
  note inv = camp_reachable_inv [OF assms(1)]
  note ok = claim_invD(1) [OF inv]
  have one: "\<forall>a b i. as' a = Some (CpRunning i) \<and> as' b = Some (CpRunning i) \<longrightarrow> a = b"
    using claim_invD(2) [OF camp_step_inv [OF assms(2) inv]] by blast
  have final: "\<not> camp_next s t" if "Camp_IsTerminal s" for s t
    using that by (auto simp: camp_next_def Camp_IsTerminal_def)
  have "\<exists>d. camp_map w' k = Some d \<and> (c_State d = c_State c \<or> camp_next (c_State c) (c_State d))"
    if c: "camp_map w k = Some c" for k c
    using assms(2)
  proof (cases rule: camp_step.cases)
    case (load a i) with c show ?thesis by (simp add: GetByID_tick)
  next
    case (claim a i r)
    from claim(3) ok show ?thesis
      by (cases rule: MarkRunning_cases) (use c in \<open>auto simp: camp_next_def\<close>)
  next
    case (event a i e)
    with AppendEvent_map [of i e w] c show ?thesis by (metis prod.collapse)
  next
    case (complete a i rep)
    obtain r v where v: "Campaign_Complete i rep w = (r, v)" by (metis prod.collapse)
    from v ok show ?thesis
      by (cases rule: Complete_cases)
         (use c complete v claim_invD(3) [OF inv complete(3)] in \<open>auto simp: camp_next_def finished_as_def\<close>)
  next
    case (fail a i msg rep)
    obtain r v where v: "Campaign_Fail i msg rep w = (r, v)" by (metis prod.collapse)
    from v ok show ?thesis
      by (cases rule: Fail_cases)
         (use c fail v claim_invD(3) [OF inv fail(3)] in \<open>auto simp: camp_next_def finished_as_def\<close>)
  next
    case (cancel i t)
    obtain r v where v: "Campaign_Cancel i t w = (r, v)" by (metis prod.collapse)
    from v ok show ?thesis
      by (cases rule: Cancel_cases) (use c cancel v in \<open>auto simp: camp_next_def cancellable_def\<close>)
  next
    case (create x)
    obtain r v where v: "Campaign_Create x w = (r, v)" by (metis prod.collapse)
    from Create_map [OF v] c create v show ?thesis by auto
  qed
  with one final show ?thesis by metis
qed

theorem campaign_lifecycle_witness:
  "let w = snd (Campaign_Create (demo_stored ''c'' ''t'') (demo_camp_db []));
       v = snd (Campaign_Cancel ''c'' ''t'' w)
   in \<exists>d. camp_map v ''c'' = Some d \<and> (c_State d = CampPending \<or> camp_next CampPending (c_State d))"
proof -
  let ?c = "demo_stored ''c'' ''t''"
  let ?w = "snd (Campaign_Create ?c (demo_camp_db []))"
  have "camp_reachable (demo_camp_db [], \<lambda>_. None)" by (rule camp_reachable.empty) simp
  moreover have "camp_step (demo_camp_db [], \<lambda>_. None) (?w, \<lambda>_. None)"
    by (rule camp_step.create) (simp add: demo_stored_def)
  ultimately have reach: "camp_reachable (?w, \<lambda>_. None)" by (rule camp_reachable.more)
  have map: "camp_map ?w ''c'' = Some (stored_campaign ?c)"
    by (simp add: Campaign_Create_def db_call_def demo_stored_def stored_campaign_def camp_map_def)
  from campaign_lifecycle [OF reach camp_step.cancel [of ?w "\<lambda>_. None" "''c''" "''t''"]] map
  have "\<exists>d. camp_map (snd (Campaign_Cancel ''c'' ''t'' ?w)) ''c'' = Some d \<and>
      (c_State d = c_State (stored_campaign ?c) \<or> camp_next (c_State (stored_campaign ?c)) (c_State d))" by blast
  moreover have "c_State (stored_campaign ?c) = CampPending" by (simp add: stored_campaign_def demo_stored_def)
  ultimately show ?thesis unfolding Let_def by simp
qed

end
