(* ===== verification/Client.thy ===== *)
theory Client
  imports Http CampaignRun
begin

text \<open>
  The command line tool's view of the gateway: the typed client of \<open>internal/cli/client.go\<close>, the agent platform
  built on it (\<open>agentplatform.go\<close>) and the orchestrator client (\<open>orchestrator.go\<close>). The peer is a function
  in a state of its own; the JSON library's encoders and decoders are the fields of \<open>wire\<close>. A pointer
  result beside an error is not modelled: a call returns the error or the value.
\<close>

section \<open>The client\<close>

record cli_client =
  cc_baseURL :: string
  cc_apiKey :: string
  cc_version :: string

definition NewClient :: "string \<Rightarrow> string \<Rightarrow> cli_client" where
  "NewClient baseURL apiKey = \<lparr>cc_baseURL = baseURL, cc_apiKey = apiKey, cc_version = ''0.1.0''\<rparr>"

record job_response =
  jr_JobID :: string
  jr_State :: string
  jr_AutoRouted :: bool
  jr_RecommendedEngine :: string

record campaign_response =
  pr_CampaignID :: string
  pr_State :: string

record campaign_events =
  pe_Events :: "camp_event list"
  pe_LastSeq :: int
  pe_State :: string
  pe_Done :: bool

record key_response =
  kr_Token :: string
  kr_ExpiresAt :: int

record health_response =
  hl_Status :: string
  hl_Postgres :: string
  hl_Version :: string

text \<open>The JSON library on the types the client uses: \<open>Inl\<close> is its error text. \<open>wi_error\<close> is the field \<open>error\<close> of a
  body, empty where there is none; \<open>wi_rfc3339\<close> formats a time.\<close>

record 'b wire =
  wi_error :: "'b \<Rightarrow> string"
  wi_job_response :: "'b \<Rightarrow> string + job_response"
  wi_job :: "'b \<Rightarrow> string + job"
  wi_results :: "'b \<Rightarrow> string + result list"
  wi_jobs :: "'b \<Rightarrow> string + job list"
  wi_class :: "'b \<Rightarrow> string + classification_result"
  wi_workers :: "'b \<Rightarrow> string + worker_entry list"
  wi_campaign_response :: "'b \<Rightarrow> string + campaign_response"
  wi_campaign :: "'b \<Rightarrow> string + campaign"
  wi_campaigns :: "'b \<Rightarrow> string + campaign list"
  wi_events :: "'b \<Rightarrow> string + campaign_events"
  wi_flags :: "'b \<Rightarrow> string + (string \<times> bool) list"
  wi_key :: "'b \<Rightarrow> string + key_response"
  wi_health :: "'b \<Rightarrow> string + health_response"
  wi_put_job :: "create_job_request \<Rightarrow> string + string"
  wi_put_input :: "classification_input \<Rightarrow> string + string"
  wi_put_campaign :: "create_campaign_request \<Rightarrow> string + string"
  wi_put_key :: "create_key_request \<Rightarrow> string + string"
  wi_rfc3339 :: "int \<Rightarrow> string"

definition client_do ::
  "('b, 's) peer \<Rightarrow> cli_client \<Rightarrow> string \<Rightarrow> string \<Rightarrow> (string \<times> string) list \<Rightarrow> (string + string) option \<Rightarrow> 's
   \<Rightarrow> (int \<times> string \<times> 'b) res \<times> 's" where
  "client_do peer c meth path query body s =
     (case body of
        Some (Inl e) \<Rightarrow> (Inl (Wrap ''marshal request body: '' (ErrNew e) []), s)
      | _ \<Rightarrow>
          (case peer \<lparr>hr_Method = meth, hr_URL = cc_baseURL c @ path, hr_Query = query,
                  hr_Headers = [(''Authorization'', ''Bearer '' @ cc_apiKey c), (''Content-Type'', ''application/json''),
                    (''User-Agent'', ''inferbolt-cli/'' @ cc_version c)],
                  hr_Body = (case body of Some (Inr b) \<Rightarrow> Some b | _ \<Rightarrow> None)\<rparr> s of
             (NotBuilt e, s) \<Rightarrow> (Inl e, s)
           | (NotSent e, s) \<Rightarrow> (Inl e, s)
           | (Answer code line b, s) \<Rightarrow> (Inr (code, line, b), s)))"

definition server_error :: "('b \<Rightarrow> string) \<Rightarrow> int \<Rightarrow> string \<Rightarrow> 'b \<Rightarrow> goerr" where
  "server_error errField code line b =
     (let msg = errField b
      in ErrNew (''server error '' @ Itoa code @ '': '' @ (if msg = [] then line else msg)))"

definition decodeResp :: "('b \<Rightarrow> string) \<Rightarrow> ('b \<Rightarrow> string + 'a) \<Rightarrow> int \<times> string \<times> 'b \<Rightarrow> 'a res" where
  "decodeResp errField decode = (\<lambda>(code, line, b).
     if code \<ge> 400 then Inl (server_error errField code line b)
     else case decode b of Inl e \<Rightarrow> Inl (Wrap ''decode response: '' (ErrNew e) []) | Inr v \<Rightarrow> Inr v)"

text \<open>The shape most methods share: \<open>do\<close>, then \<open>decodeResp\<close>.\<close>

definition client_call ::
  "'b wire \<Rightarrow> ('b, 's) peer \<Rightarrow> cli_client \<Rightarrow> string \<Rightarrow> string \<Rightarrow> (string \<times> string) list \<Rightarrow> (string + string) option
   \<Rightarrow> ('b \<Rightarrow> string + 'a) \<Rightarrow> 's \<Rightarrow> 'a res \<times> 's" where
  "client_call wi peer c meth path query body decode s =
     (let (r, s) = client_do peer c meth path query body s
      in (case r of Inl e \<Rightarrow> Inl e | Inr resp \<Rightarrow> decodeResp (wi_error wi) decode resp, s))"

definition Client_CreateJob :: "'b wire \<Rightarrow> ('b, 's) peer \<Rightarrow> cli_client \<Rightarrow> create_job_request \<Rightarrow> 's \<Rightarrow> job_response res \<times> 's" where
  "Client_CreateJob wi peer c q =
     client_call wi peer c ''POST'' ''/v1/jobs'' [] (Some (wi_put_job wi q)) (wi_job_response wi)"

definition Client_GetJob :: "'b wire \<Rightarrow> ('b, 's) peer \<Rightarrow> cli_client \<Rightarrow> string \<Rightarrow> 's \<Rightarrow> job res \<times> 's" where
  "Client_GetJob wi peer c jobID = client_call wi peer c ''GET'' (''/v1/jobs/'' @ jobID) [] None (wi_job wi)"

definition Client_CancelJob :: "'b wire \<Rightarrow> ('b, 's) peer \<Rightarrow> cli_client \<Rightarrow> string \<Rightarrow> 's \<Rightarrow> unit res \<times> 's" where
  "Client_CancelJob wi peer c jobID s =
     (let (r, s) = client_do peer c ''DELETE'' (''/v1/jobs/'' @ jobID) [] None s
      in (case r of
            Inl e \<Rightarrow> Inl e
          | Inr (code, line, b) \<Rightarrow> if code \<ge> 400 then Inl (server_error (wi_error wi) code line b) else Inr (), s))"

definition Client_GetJobResults :: "'b wire \<Rightarrow> ('b, 's) peer \<Rightarrow> cli_client \<Rightarrow> string \<Rightarrow> 's \<Rightarrow> result list res \<times> 's" where
  "Client_GetJobResults wi peer c jobID =
     client_call wi peer c ''GET'' (''/v1/jobs/'' @ jobID @ ''/results'') [] None (wi_results wi)"

text \<open>\<open>url.Values\<close> encodes its keys in order.\<close>

definition list_query :: "string \<Rightarrow> int \<Rightarrow> (string \<times> string) list" where
  "list_query state limit = (''limit'', Itoa limit) # (if state = [] then [] else [(''state'', state)])"

definition Client_ListJobs :: "'b wire \<Rightarrow> ('b, 's) peer \<Rightarrow> cli_client \<Rightarrow> string \<Rightarrow> int \<Rightarrow> 's \<Rightarrow> job list res \<times> 's" where
  "Client_ListJobs wi peer c state limit s =
     (let (r, s) = client_do peer c ''GET'' ''/v1/jobs'' (list_query state limit) None s
      in (case r of
            Inl e \<Rightarrow> Inl e
          | Inr (code, line, b) \<Rightarrow>
              if code \<ge> 400 then Inl (ErrNew (''server returned '' @ Itoa code))
              else (case wi_jobs wi b of Inl e \<Rightarrow> Inl (ErrNew e) | Inr js \<Rightarrow> Inr js), s))"

definition Client_GetMetrics ::
  "'b wire \<Rightarrow> ('b, 's) peer \<Rightarrow> cli_client \<Rightarrow> string \<Rightarrow> string \<Rightarrow> int \<Rightarrow> 's \<Rightarrow> result list res \<times> 's" where
  "Client_GetMetrics wi peer c engine model since =
     client_call wi peer c ''GET'' ''/v1/metrics''
       [(''engine'', engine), (''model'', model), (''since'', wi_rfc3339 wi since)] None (wi_results wi)"

definition Client_ClassifyWorkload ::
  "'b wire \<Rightarrow> ('b, 's) peer \<Rightarrow> cli_client \<Rightarrow> classification_input \<Rightarrow> 's \<Rightarrow> classification_result res \<times> 's" where
  "Client_ClassifyWorkload wi peer c inp =
     client_call wi peer c ''POST'' ''/v1/route'' [] (Some (wi_put_input wi inp)) (wi_class wi)"

definition Client_ListWorkers :: "'b wire \<Rightarrow> ('b, 's) peer \<Rightarrow> cli_client \<Rightarrow> 's \<Rightarrow> worker_entry list res \<times> 's" where
  "Client_ListWorkers wi peer c = client_call wi peer c ''GET'' ''/v1/workers'' [] None (wi_workers wi)"

definition Client_CreateCampaign ::
  "'b wire \<Rightarrow> ('b, 's) peer \<Rightarrow> cli_client \<Rightarrow> create_campaign_request \<Rightarrow> 's \<Rightarrow> campaign_response res \<times> 's" where
  "Client_CreateCampaign wi peer c q =
     client_call wi peer c ''POST'' ''/v1/campaigns'' [] (Some (wi_put_campaign wi q)) (wi_campaign_response wi)"

definition Client_GetCampaign :: "'b wire \<Rightarrow> ('b, 's) peer \<Rightarrow> cli_client \<Rightarrow> string \<Rightarrow> 's \<Rightarrow> campaign res \<times> 's" where
  "Client_GetCampaign wi peer c i = client_call wi peer c ''GET'' (''/v1/campaigns/'' @ i) [] None (wi_campaign wi)"

definition Client_ListCampaigns ::
  "'b wire \<Rightarrow> ('b, 's) peer \<Rightarrow> cli_client \<Rightarrow> string \<Rightarrow> int \<Rightarrow> 's \<Rightarrow> campaign list res \<times> 's" where
  "Client_ListCampaigns wi peer c state limit =
     client_call wi peer c ''GET'' ''/v1/campaigns'' (list_query state limit) None (wi_campaigns wi)"

definition CampaignEventsAfter ::
  "'b wire \<Rightarrow> ('b, 's) peer \<Rightarrow> cli_client \<Rightarrow> string \<Rightarrow> int \<Rightarrow> 's \<Rightarrow> campaign_events res \<times> 's" where
  "CampaignEventsAfter wi peer c i afterSeq =
     client_call wi peer c ''GET'' (''/v1/campaigns/'' @ i @ ''/events'') [(''after_seq'', Itoa afterSeq)] None (wi_events wi)"

definition Client_CancelCampaign :: "'b wire \<Rightarrow> ('b, 's) peer \<Rightarrow> cli_client \<Rightarrow> string \<Rightarrow> 's \<Rightarrow> unit res \<times> 's" where
  "Client_CancelCampaign wi peer c i s =
     (let (r, s) = client_call wi peer c ''DELETE'' (''/v1/campaigns/'' @ i) [] None (wi_flags wi) s
      in (case r of Inl e \<Rightarrow> Inl e | Inr _ \<Rightarrow> Inr (), s))"

definition Client_CreateAPIKey ::
  "'b wire \<Rightarrow> ('b, 's) peer \<Rightarrow> cli_client \<Rightarrow> string \<Rightarrow> string list \<Rightarrow> int \<Rightarrow> 's \<Rightarrow> key_response res \<times> 's" where
  "Client_CreateAPIKey wi peer c tenantID scopes expiryDays =
     client_call wi peer c ''POST'' ''/v1/admin/apikeys'' []
       (Some (wi_put_key wi \<lparr>kq_TenantID = tenantID, kq_Scopes = scopes, kq_ExpiryDays = expiryDays\<rparr>)) (wi_key wi)"

definition Client_Health :: "'b wire \<Rightarrow> ('b, 's) peer \<Rightarrow> cli_client \<Rightarrow> 's \<Rightarrow> health_response res \<times> 's" where
  "Client_Health wi peer c = client_call wi peer c ''GET'' ''/health'' [] None (wi_health wi)"


section \<open>Polling\<close>

text \<open>
  What the \<open>select\<close> of \<open>PollJob\<close> receives: the end of the context, or the ticker. The \<open>n\<close>-th tick is received
  \<open>n\<close> periods of three seconds after the start and some nanoseconds more; the function carries what the
  rest of the world did since.
\<close>

datatype 's poll_event = PollDone goerr | PollTick nat "'s \<Rightarrow> 's"

definition pollTimeout :: int where "pollTimeout = 60 * Minute"
definition pollInterval :: int where "pollInterval = 3 * Second"

function poll_loop ::
  "('s \<Rightarrow> job res \<times> 's) \<Rightarrow> (job \<Rightarrow> 's \<Rightarrow> 's) option \<Rightarrow> (nat \<Rightarrow> 's poll_event) \<Rightarrow> nat \<Rightarrow> 's \<Rightarrow> job res \<times> 's" where
  "poll_loop get onUpdate evs n s =
     (case evs n of
        PollDone e \<Rightarrow> (Inl e, s)
      | PollTick lag f \<Rightarrow>
          if int (Suc n) * pollInterval + int lag > pollTimeout
          then (Inl (ErrNew ''job polling timed out after 60 minutes''), f s)
          else
            let (r, s) = get (f s)
            in case r of
                 Inl _ \<Rightarrow> poll_loop get onUpdate evs (Suc n) s
               | Inr j \<Rightarrow>
                   let s = (case onUpdate of None \<Rightarrow> s | Some u \<Rightarrow> u j s)
                   in if IsTerminal (job_State j) then (Inr j, s) else poll_loop get onUpdate evs (Suc n) s)"
  by pat_completeness auto
termination
  by (relation "measure (\<lambda>(get, u, evs, n, s). 1200 - n)")
     (auto simp: pollInterval_def pollTimeout_def duration_units not_less)

declare poll_loop.simps [simp del]

definition PollJob ::
  "'b wire \<Rightarrow> ('b, 's) peer \<Rightarrow> cli_client \<Rightarrow> string \<Rightarrow> (job \<Rightarrow> 's \<Rightarrow> 's) option \<Rightarrow> (nat \<Rightarrow> 's poll_event) \<Rightarrow> 's
   \<Rightarrow> job res \<times> 's" where
  "PollJob wi peer c jobID onUpdate evs = poll_loop (Client_GetJob wi peer c jobID) onUpdate evs 0"

section \<open>The agent platform over the client\<close>

record ('b, 's) cli_platform =
  ap_wire :: "'b wire"
  ap_peer :: "('b, 's) peer"
  ap_client :: cli_client
  ap_OnJobState :: "(string \<Rightarrow> job_state \<Rightarrow> 's \<Rightarrow> 's) option"
  ap_events :: "string \<Rightarrow> 's \<Rightarrow> nat \<Rightarrow> 's poll_event"

definition AgentPlatform_ListWorkers :: "('b, 's) cli_platform \<Rightarrow> 's \<Rightarrow> agent_worker list res \<times> 's" where
  "AgentPlatform_ListWorkers p s =
     (let (r, s) = Client_ListWorkers (ap_wire p) (ap_peer p) (ap_client p) s
      in (case r of
            Inl e \<Rightarrow> Inl e
          | Inr es \<Rightarrow> Inr (map (\<lambda>e. \<lparr>aw_ID = we_ID e, aw_GPUType = we_GPUType e,
                aw_Status = worker_status_str (we_Status e)\<rparr>) es), s))"

definition AgentPlatform_ClassifyWorkload ::
  "('b, 's) cli_platform \<Rightarrow> classification_input \<Rightarrow> 's \<Rightarrow> classification_result res \<times> 's" where
  "AgentPlatform_ClassifyWorkload p = Client_ClassifyWorkload (ap_wire p) (ap_peer p) (ap_client p)"

definition AgentPlatform_HistoricalResults ::
  "('b, 's) cli_platform \<Rightarrow> string \<Rightarrow> string \<Rightarrow> int \<Rightarrow> 's \<Rightarrow> result list res \<times> 's" where
  "AgentPlatform_HistoricalResults p = Client_GetMetrics (ap_wire p) (ap_peer p) (ap_client p)"

definition trial_request :: "trial_spec \<Rightarrow> create_job_request" where
  "trial_request spec =
     \<lparr>jq_Model = ts_Model spec, jq_Engines = [ts_Engine spec], jq_Workload = ts_Workload spec,
      jq_EngineConfig = ts_EngineConfig spec, jq_GPUProfile = ts_GPUProfile spec, jq_AutoRoute = False\<rparr>"

definition AgentPlatform_RunBenchmark :: "('b, 's) cli_platform \<Rightarrow> trial_spec \<Rightarrow> 's \<Rightarrow> result res \<times> 's" where
  "AgentPlatform_RunBenchmark p spec s =
     (let (resp, s) = Client_CreateJob (ap_wire p) (ap_peer p) (ap_client p) (trial_request spec) s
      in case resp of
           Inl e \<Rightarrow> (Inl (Wrap ''submit benchmark: '' e []), s)
         | Inr resp \<Rightarrow>
             let onUpdate = map_option (\<lambda>f j. f (job_ID j) (job_State j)) (ap_OnJobState p); i = jr_JobID resp;
                 (final, s) = PollJob (ap_wire p) (ap_peer p) (ap_client p) i onUpdate (ap_events p i s) s
             in (case final of
                   Inl e \<Rightarrow> (Inl (Wrap (''job '' @ i @ '': '') e []), s)
                 | Inr j \<Rightarrow>
                     if job_State j \<noteq> StateCompleted
                     then (Inl (ErrNew (''job '' @ i @ '' ended '' @ job_state_str (job_State j) @ '': ''
                            @ (if job_ErrorMsg j = [] then ''no error message recorded'' else job_ErrorMsg j))), s)
                     else
                       let (rs, s) = Client_GetJobResults (ap_wire p) (ap_peer p) (ap_client p) i s
                       in (case rs of
                             Inl e \<Rightarrow> (Inl (Wrap (''read results for job '' @ i @ '': '') e []), s)
                           | Inr results \<Rightarrow>
                               (case List.find (\<lambda>r. r_Engine r = ts_Engine spec) results of
                                  Some r \<Rightarrow> (Inr r, s)
                                | None \<Rightarrow> (Inl (ErrNew (''job '' @ i @ '' completed but produced no ''
                                    @ ts_Engine spec @ '' result'')), s)))))"

definition NewAgentPlatform :: "('b, 's) cli_platform \<Rightarrow> 's platform" where
  "NewAgentPlatform p =
     \<lparr>pf_ListWorkers = AgentPlatform_ListWorkers p, pf_ClassifyWorkload = AgentPlatform_ClassifyWorkload p,
      pf_RunBenchmark = AgentPlatform_RunBenchmark p, pf_HistoricalResults = AgentPlatform_HistoricalResults p\<rparr>"

section \<open>The orchestrator client\<close>

definition Orchestrator_ListWorkers ::
  "'b wire \<Rightarrow> ('b, 's) peer \<Rightarrow> string \<Rightarrow> 's \<Rightarrow> worker_entry list res \<times> 's" where
  "Orchestrator_ListWorkers wi peer baseURL s =
     (case peer \<lparr>hr_Method = ''GET'', hr_URL = baseURL @ ''/internal/workers'', hr_Query = [], hr_Headers = [],
             hr_Body = None\<rparr> s of
        (NotBuilt e, s) \<Rightarrow> (Inl e, s)
      | (NotSent e, s) \<Rightarrow> (Inl (Wrap (''reach orchestrator at '' @ baseURL @ '': '') e []), s)
      | (Answer code line b, s) \<Rightarrow>
          (if code \<ge> 400 then Inl (ErrNew (''orchestrator returned '' @ Itoa code))
           else (case wi_workers wi b of
                   Inl e \<Rightarrow> Inl (Wrap ''decode worker list: '' (ErrNew e) [])
                 | Inr es \<Rightarrow> Inr es), s))"

definition HasIdleWorker :: "'b wire \<Rightarrow> ('b, 's) peer \<Rightarrow> string \<Rightarrow> string \<Rightarrow> 's \<Rightarrow> bool res \<times> 's" where
  "HasIdleWorker wi peer baseURL gpuProfile s =
     (let (r, s) = Orchestrator_ListWorkers wi peer baseURL s
      in (case r of
            Inl e \<Rightarrow> Inl e
          | Inr es \<Rightarrow> Inr (list_ex (\<lambda>e. we_Status e = StatusIdle \<and> we_GPUType e = gpuProfile) es), s))"


section \<open>Polling ends\<close>

text \<open>The state before the \<open>n\<close>-th event, when none of the earlier polls ended the loop.\<close>

fun poll_state ::
  "('s \<Rightarrow> job res \<times> 's) \<Rightarrow> (job \<Rightarrow> 's \<Rightarrow> 's) option \<Rightarrow> (nat \<Rightarrow> 's poll_event) \<Rightarrow> 's \<Rightarrow> nat \<Rightarrow> 's" where
  "poll_state get u evs s 0 = s"
| "poll_state get u evs s (Suc n) =
     (case evs n of
        PollDone e \<Rightarrow> poll_state get u evs s n
      | PollTick lag f \<Rightarrow>
          (case get (f (poll_state get u evs s n)) of
             (Inl e, s) \<Rightarrow> s
           | (Inr j, s) \<Rightarrow> (case u of None \<Rightarrow> s | Some g \<Rightarrow> g j s)))"

definition tick_late :: "nat \<Rightarrow> nat \<Rightarrow> bool" where
  "tick_late n lag \<longleftrightarrow> int (Suc n) * pollInterval + int lag > pollTimeout"

lemma tick_late_1200: "tick_late 1200 lag"
  by (simp add: tick_late_def pollInterval_def pollTimeout_def duration_units)

text \<open>The \<open>n\<close>-th event is a tick in time whose poll shows no finished job.\<close>

definition fruitless ::
  "('s \<Rightarrow> job res \<times> 's) \<Rightarrow> (job \<Rightarrow> 's \<Rightarrow> 's) option \<Rightarrow> (nat \<Rightarrow> 's poll_event) \<Rightarrow> 's \<Rightarrow> nat \<Rightarrow> bool" where
  "fruitless get u evs s n \<longleftrightarrow>
     (case evs n of
        PollDone e \<Rightarrow> False
      | PollTick lag f \<Rightarrow> \<not> tick_late n lag \<and>
          (case fst (get (f (poll_state get u evs s n))) of Inl e \<Rightarrow> True | Inr j \<Rightarrow> \<not> IsTerminal (job_State j)))"

lemma fruitless_step:
  assumes "fruitless get u evs s n"
  shows "poll_loop get u evs n (poll_state get u evs s n) = poll_loop get u evs (Suc n) (poll_state get u evs s (Suc n))"
proof -
  from assms obtain lag f where e: "evs n = PollTick lag f" and late: "\<not> tick_late n lag"
    by (auto simp: fruitless_def split: poll_event.splits)
  obtain r s1 where g: "get (f (poll_state get u evs s n)) = (r, s1)" by (cases "get (f (poll_state get u evs s n))")
  with assms e late show ?thesis
    by (subst poll_loop.simps) (auto simp: fruitless_def tick_late_def Let_def split: sum.splits option.splits)
qed

lemma fruitless_steps:
  "\<forall>m<n. fruitless get u evs s m \<Longrightarrow> poll_loop get u evs 0 s = poll_loop get u evs n (poll_state get u evs s n)"
proof (induction n)
  case (Suc n)
  then have "poll_loop get u evs 0 s = poll_loop get u evs n (poll_state get u evs s n)" by simp
  also have "\<dots> = poll_loop get u evs (Suc n) (poll_state get u evs s (Suc n))"
    by (rule fruitless_step) (use Suc.prems in simp)
  finally show ?case .
qed simp

lemma fruitless_ends: "\<exists>n\<le>1200. (\<forall>m<n. fruitless get u evs s m) \<and> \<not> fruitless get u evs s n"
proof -
  have "\<not> fruitless get u evs s 1200" by (simp add: fruitless_def tick_late_1200 split: poll_event.splits)
  then show ?thesis
    using ex_least_nat_le [of "\<lambda>n. \<not> fruitless get u evs s n" 1200] by auto
qed

lemma fruitful_event:
  assumes "\<not> fruitless get u evs s n"
  shows "case evs n of
       PollDone e \<Rightarrow> poll_loop get u evs n (poll_state get u evs s n) = (Inl e, poll_state get u evs s n)
     | PollTick lag f \<Rightarrow>
         if tick_late n lag
         then poll_loop get u evs n (poll_state get u evs s n) =
           (Inl (ErrNew ''job polling timed out after 60 minutes''), f (poll_state get u evs s n))
         else \<exists>j. fst (get (f (poll_state get u evs s n))) = Inr j \<and> IsTerminal (job_State j) \<and>
           poll_loop get u evs n (poll_state get u evs s n) = (Inr j, poll_state get u evs s (Suc n))"
proof (cases "evs n")
  case (PollDone e)
  then show ?thesis by (simp add: poll_loop.simps)
next
  case (PollTick lag f)
  obtain r s1 where g: "get (f (poll_state get u evs s n)) = (r, s1)" by (cases "get (f (poll_state get u evs s n))")
  show ?thesis
  proof (cases "tick_late n lag")
    case True
    with PollTick show ?thesis
      unfolding poll_loop.simps [of get u evs n "poll_state get u evs s n"] by (simp add: tick_late_def)
  next
    case False
    with assms PollTick g obtain j where "r = Inr j" "IsTerminal (job_State j)"
      by (auto simp: fruitless_def split: sum.splits)
    with False PollTick g show ?thesis
      unfolding poll_loop.simps [of get u evs n "poll_state get u evs s n"]
      by (simp add: tick_late_def Let_def split: option.split)
  qed
qed

text \<open>C30: Waiting for a job ends. Whatever the gateway answers and whatever else happens, \<open>PollJob\<close> returns at
  the first event, among the first 1201, that is the end of the context (with its error), a tick past the
  sixty minutes (with the time-out error), or a poll that shows the job in a terminal state (with that job);
  all polls before it failed or showed a job that was not finished, so no finished job is passed over.\<close>

theorem PollJob_ends:
  "\<exists>n\<le>1200. let get = Client_GetJob wi peer c jobID; sn = poll_state get u evs s n; result = PollJob wi peer c jobID u evs s
     in list_all (fruitless get u evs s) [0..<n] \<and>
        (case evs n of
           PollDone e \<Rightarrow> result = (Inl e, sn)
         | PollTick lag f \<Rightarrow>
             if tick_late n lag then result = (Inl (ErrNew ''job polling timed out after 60 minutes''), f sn)
             else \<exists>j. fst (get (f sn)) = Inr j \<and> IsTerminal (job_State j) \<and>
               result = (Inr j, poll_state get u evs s (Suc n)))"
proof -
  from fruitless_ends [of "Client_GetJob wi peer c jobID" u evs s]
  obtain n where n: "n \<le> 1200" "\<forall>m<n. fruitless (Client_GetJob wi peer c jobID) u evs s m"
    "\<not> fruitless (Client_GetJob wi peer c jobID) u evs s n" by (elim exE conjE)
  have r: "PollJob wi peer c jobID u evs s =
      poll_loop (Client_GetJob wi peer c jobID) u evs n (poll_state (Client_GetJob wi peer c jobID) u evs s n)"
    unfolding PollJob_def using fruitless_steps [OF n(2)] .
  show ?thesis
    unfolding Let_def r
    by (intro exI [of _ n] conjI n(1) fruitful_event [OF n(3)]) (simp add: list_all_iff n(2))
qed

end
