(* ===== verification/GatewayJobs.thy ===== *)
theory GatewayJobs
  imports GatewaySafety
begin

text \<open>
  What the handlers that create and follow work do: submitting a job and a campaign, on every branch and
  under every fault, and following a campaign's events page by page.
\<close>

section \<open>Submitting a job\<close>

lemma recommended_valid: "jq_AutoRoute q \<Longrightarrow> recommended q \<in> set ValidEngines"
  by (simp add: recommended_def Classify_def ValidEngines_def Let_def)

lemma job_request_ok:
  "job_request_error q = None \<Longrightarrow> jq_Model q \<noteq> [] \<and> jq_GPUProfile q \<noteq> [] \<and> routed_engines q \<noteq> [] \<and>
     set (routed_engines q) \<subseteq> set ValidEngines \<and> workload_ok (jq_Workload q) \<and> engine_config_ok (jq_EngineConfig q)"
  using recommended_valid [of q]
  by (auto simp: job_request_error_def routed_engines_def ValidateEngines_None ValidateWorkload_None ValidateEngineConfig_None
      split: if_splits option.splits list.splits)

lemma NewID_tables [simp]:
  "t_jobs (snd (NewID w)) = t_jobs w" "t_campaigns (snd (NewID v)) = t_campaigns v" "w_now (snd (NewID u)) = w_now u"
  "fault (snd (NewID u)) = fault u" "q_benchmarks (snd (NewID w)) = q_benchmarks w" "q_campaigns (snd (NewID w)) = q_campaigns w"
  "fault (tick (snd (NewID u))) = fault (tick u)" "fault (tick (tick (snd (NewID u)))) = fault (tick (tick u))"
  by (simp_all add: NewID_def rand_adv_def fault_def tick_def)


definition demo_caller :: request where
  "demo_caller = (demo_request ''POST'' [''v1'', ''jobs''] [])\<lparr>rq_Body := Some ''{}'', rq_tenant := Some ''dev''\<rparr>"


section \<open>Submitting a campaign\<close>

lemma campaignBudget_ok:
  "campaignBudget q = Inr b \<Longrightarrow> MaxTrials b \<in> {1..50} \<and> MaxDuration b \<in> {1..24 * Hour} \<and> MaxTurns b = 40"
  by (auto simp: campaignBudget_def Let_def DefaultBudget_def maxCampaignTrials_def maxCampaignDuration_def
      Budget_Validate_None budget_ok_def duration_units split: if_splits sum.splits option.splits)

lemma campaign_request_ok:
  "campaign_request_error q = None \<Longrightarrow> cq_Goal q \<noteq> [] \<and> cq_Model q \<noteq> [] \<and> cq_GPUProfile q \<noteq> [] \<and> cq_Engines q \<noteq> [] \<and>
     set (cq_Engines q) \<subseteq> set ValidEngines \<and> workload_ok (cq_Workload q)"
  by (auto simp: campaign_request_error_def ValidateEngines_None ValidateWorkload_None split: if_splits option.splits)

lemma Cancel_new_campaign:
  assumes "c_ID c \<notin> c_ID ` set cs" "t_campaigns v = cs @ [c]" "c_State c = CampPending" "fault v = None"
  shows "map c_State (filter (\<lambda>x. c_ID x = c_ID c) (t_campaigns (snd (Campaign_Cancel (c_ID c) (c_TenantID c) v)))) = [CampCancelled]"
proof -
  have ne: "c_ID x \<noteq> c_ID c" if "x \<in> set cs" for x using assms(1) that by (metis image_eqI)
  then have "filter (\<lambda>x. c_ID x = c_ID c) cs = []" by (simp add: filter_empty_conv)
  moreover have "filter (\<lambda>x. c_ID x = c_ID c) (update_where p (cancel_row n) cs) = []" for p n
    using ne by (auto simp: filter_empty_conv update_where_def)
  moreover have "cancellable (c_TenantID c) c" using assms(3) by (simp add: cancellable_def)
  ultimately show ?thesis
    using assms(2-4)
    by (auto simp: Campaign_Cancel_def db_call_def update_campaigns_def Let_def update_where_def cancel_row_def)
qed

text \<open>Submitting a campaign. An admissible request with an admissible budget (then 1 to 50 trials, more than
  nothing and at most 24 hours, 40 turns) is answered 202 exactly when neither the insert nor the enqueue
  fails: there is one new pending campaign of the caller with that budget, and one queue entry for it whose
  time limit is the budget's in whole seconds. When the enqueue fails the answer is 500 and the new
  campaign is cancelled on the spot, unless the database refuses that statement too.\<close>

theorem CreateCampaign_outcomes:
  assumes "readJSON (ge_decode_campaign env) r = Inr q" and "GetTenantID r = Some t"
    and "fst (NewID w) \<notin> c_ID ` set (t_campaigns w)" and "campaign_request_error q = None" and "campaignBudget q = Inr b"
    and "CreateCampaign env r (s, w) = (out, s', w')"
  shows "MaxTrials b \<in> {1..50} \<and> MaxDuration b \<in> {1..24 * Hour} \<and> set (cq_Engines q) \<subseteq> set ValidEngines \<and>
    (let i = fst (NewID w); c = stored_campaign (requested_campaign q b t i (w_now w)) in
     (if fault w \<noteq> None then status_of out = 500 \<and> t_campaigns w' = t_campaigns w \<and> q_campaigns w' = q_campaigns w
      else if fault (tick w) \<noteq> None
      then status_of out = 500 \<and> q_campaigns w' = q_campaigns w \<and>
        map c_State (filter (\<lambda>x. c_ID x = i) (t_campaigns w')) =
          (if fault (tick (tick w)) = None then [CampCancelled] else [CampPending])
      else status_of out = 202 \<and> t_campaigns w' = t_campaigns w @ [c] \<and> c_State c = CampPending \<and> c_TenantID c = t \<and>
        c_Budget c = b \<and> (\<exists>a. q_campaigns w' = q_campaigns w @ [a] \<and> ca_CampaignID (rr_args a) = i \<and>
          ca_MaxDurationSec (rr_args a) * Second \<le> MaxDuration b \<and>
          MaxDuration b < (ca_MaxDurationSec (rr_args a) + 1) * Second)))"
proof -
  let ?v = "snd (NewID w)" and ?i = "fst (NewID w)"
  let ?c = "requested_campaign q b t ?i (w_now w)"
  from assms(1,2,4,5,6) have run: "save_and_enqueue_campaign q b t w = (out, w')"
    by (auto simp: CreateCampaign_def MustGetTenantID_def on_db_def split: prod.splits)
  have id: "c_ID (requested_campaign q b t i n) = i" "c_TenantID (requested_campaign q b t i n) = t"
    "c_State (requested_campaign q b t i n) = CampPending" "c_Budget (requested_campaign q b t i n) = b" for i n
    by (simp_all add: requested_campaign_def)
  have st: "c_ID (stored_campaign c) = c_ID c" "c_State (stored_campaign c) = c_State c" "c_TenantID (stored_campaign c) = c_TenantID c"
    "c_Budget (stored_campaign c) = c_Budget c" for c by (simp_all add: stored_campaign_def)
  define u where "u = (tick ?v)\<lparr>t_campaigns := t_campaigns w @ [stored_campaign ?c]\<rparr>"
  have u: "t_campaigns u = t_campaigns w @ [stored_campaign ?c]" "q_campaigns u = q_campaigns w" "fault u = fault (tick w)"
    "fault (tick u) = fault (tick (tick w))"
    by (simp_all add: u_def fault_def tick_def NewID_def rand_adv_def)
  have sv: "Campaign_Create ?c ?v =
      (case fault w of Some e \<Rightarrow> (Inl (Wrap ''create campaign: '' (ErrNew e) []), tick ?v) | None \<Rightarrow> (Inr (), u))"
    using assms(3) by (simp add: Campaign_Create_def db_call_def id u_def split: option.splits)
  have secs: "MaxDuration b div Second * Second \<le> MaxDuration b" "MaxDuration b < (MaxDuration b div Second + 1) * Second"
    using pos_mod_bound [of Second "MaxDuration b"] pos_mod_sign [of Second "MaxDuration b"]
      div_mult_mod_eq [of "MaxDuration b" Second] by (simp_all add: Second_def algebra_simps)
  note adm = campaignBudget_ok [OF assms(5)] campaign_request_ok [OF assms(4)]
  show ?thesis
  proof (cases "fault w")
    case (Some e)
    with run sv adm show ?thesis by (auto simp: save_and_enqueue_campaign_def Let_def split_beta writeJSONError_def)
  next
    case no: None
    show ?thesis
    proof (cases "fault (tick w)")
      case None
      with run sv adm no u secs show ?thesis
        by (auto simp: save_and_enqueue_campaign_def Let_def split_beta EnqueueCampaign_def db_call_def writeJSON_def id st)
    next
      case (Some e)
      have w': "w' = snd (Campaign_Cancel ?i t (tick u))" "status_of out = 500"
        using run sv no u(3) Some
        by (auto simp: save_and_enqueue_campaign_def Let_def split_beta EnqueueCampaign_def db_call_def writeJSONError_def)
      have "map c_State (filter (\<lambda>x. c_ID x = ?i) (t_campaigns w')) = [CampCancelled]" if "fault (tick (tick w)) = None"
        using Cancel_new_campaign [of "stored_campaign ?c" "t_campaigns w" "tick u"] assms(3) u that w'(1) by (simp add: id st)
      moreover have "map c_State (filter (\<lambda>x. c_ID x = ?i) (t_campaigns w')) = [CampPending]" if "fault (tick (tick w)) \<noteq> None"
      proof -
        have "c_ID x \<noteq> ?i" if "x \<in> set (t_campaigns w)" for x using assms(3) that by (metis image_eqI)
        then have "filter (\<lambda>x. c_ID x = ?i) (t_campaigns w) = []" by (simp add: filter_empty_conv)
        with that w'(1) u show ?thesis by (auto simp: Campaign_Cancel_def db_call_def id st)
      qed
      moreover have "q_campaigns w' = q_campaigns w"
        using w'(1) u by (simp add: Campaign_Cancel_def db_call_def update_campaigns_def Let_def split: option.splits)
      ultimately show ?thesis using adm no Some w'(2) by (auto simp: Let_def)
    qed
  qed
qed

theorem CreateCampaign_outcomes_witness:
  "let (out, s', w') = CreateCampaign demo_gw demo_caller (empty_auth, (demo_gw_db [])\<lparr>w_faults := [None, Some ''queue down'']\<rparr>)
   in status_of out = 500 \<and> map c_State (filter (\<lambda>x. c_ID x = fst (NewID (demo_gw_db []))) (t_campaigns w')) = [CampCancelled]"
proof -
  let ?w = "(demo_gw_db [])\<lparr>w_faults := [None, Some ''queue down'']\<rparr>"
  obtain out s' w' where c: "CreateCampaign demo_gw demo_caller (empty_auth, ?w) = (out, s', w')"
    by (cases "CreateCampaign demo_gw demo_caller (empty_auth, ?w)") auto
  have d: "readJSON (ge_decode_campaign demo_gw) demo_caller = Inr demo_campaign_request" "GetTenantID demo_caller = Some ''dev''"
    by (simp_all add: readJSON_def demo_gw_def demo_caller_def GetTenantID_def)
  have ok: "campaign_request_error demo_campaign_request = None"
    by (simp add: campaign_request_error_def demo_campaign_request_def ValidEngines_def ValidateWorkload_def demo_workload_def)
  have "ParseDuration ''30m'' = Inr (30 * Minute)" by code_simp
  then obtain b where b: "campaignBudget demo_campaign_request = Inr b"
    by (simp add: campaignBudget_def demo_campaign_request_def DefaultBudget_def maxCampaignTrials_def maxCampaignDuration_def
        Budget_Validate_def duration_units)
  have f: "fault ?w = None" "fault (tick ?w) = Some ''queue down''" "fault (tick (tick ?w)) = None" by (simp_all add: fault_def tick_def)
  have fresh: "fst (NewID ?w) \<notin> c_ID ` set (t_campaigns ?w)" and i: "fst (NewID ?w) = fst (NewID (demo_gw_db []))"
    by (simp_all add: NewID_def rand_read_def)
  from CreateCampaign_outcomes [OF d fresh ok b c] f c show ?thesis unfolding i by (simp add: Let_def)
qed

section \<open>Following a campaign\<close>

text \<open>A client that polls \<open>GET /v1/campaigns/{id}/events\<close> with the last number it has seen, \<open>n\<close> times.\<close>

definition poll_request :: "string \<Rightarrow> int \<Rightarrow> int \<Rightarrow> request" where
  "poll_request t afterSeq limit = (demo_request ''GET'' [] [])\<lparr>rq_tenant := Some t,
     rq_Query := [(''after_seq'', Itoa afterSeq), (''limit'', Itoa limit)]\<rparr>"

fun follow :: "string \<Rightarrow> string \<Rightarrow> int \<Rightarrow> nat \<Rightarrow> int \<Rightarrow> auth_state \<times> 'w gw_db_scheme \<Rightarrow> camp_event list" where
  "follow t i limit 0 afterSeq sw = []"
| "follow t i limit (Suc n) afterSeq sw =
     (case GetCampaignEvents i (poll_request t afterSeq limit) sw of
        (Response code hs (Body (EventsPage es lastSeq st done)), sw) \<Rightarrow> es @ follow t i limit n lastSeq sw
      | _ \<Rightarrow> [])"

lemma tick_faultless: "w_faults w = [] \<Longrightarrow> tick w = w"
  by (simp add: tick_def)

lemma page_request:
  assumes "t \<noteq> []" "in_int64 a" "0 \<le> a" "0 \<le> l" "l \<le> 500"
  shows "GetTenantID (poll_request t a l) = Some t" "queryInt (poll_request t a l) ''after_seq'' 0 (-1) = a"
    "queryInt (poll_request t a l) ''limit'' 200 maxEventPageSize = l"
proof -
  have "in_int64 l" using assms(4,5) by (simp add: in_int64_def)
  with assms show "GetTenantID (poll_request t a l) = Some t" "queryInt (poll_request t a l) ''after_seq'' 0 (-1) = a"
    "queryInt (poll_request t a l) ''limit'' 200 maxEventPageSize = l"
    by (simp_all add: poll_request_def GetTenantID_def queryInt_def query_get_def Atoi_Itoa maxEventPageSize_def)
qed

lemma page_length: "min n (m - k) = min (k + n) m - k" "min (m - k) n = min (k + n) m - k" for k n m :: nat
  by auto

lemma last_page:
  assumes "take n (drop k xs) \<noteq> []"
  shows "last (take n (drop k xs)) = xs ! (min (k + n) (length xs) - 1)" "k < length xs" "0 < n"
proof -
  from assms show lt: "k < length xs" "0 < n" by auto
  let ?j = "length (take n (drop k xs)) - 1"
  have "?j < n" "k + ?j = min (k + n) (length xs) - 1" using lt by auto
  with lt show "last (take n (drop k xs)) = xs ! (min (k + n) (length xs) - 1)"
    unfolding last_conv_nth [OF assms] by simp
qed

text \<open>The cursor of a page: the number of its last step, or the old cursor when it is empty.\<close>

lemma page_cursor:
  assumes "events_ok w" and "pg = take n (drop k (events_of i (t_events w)))" and "0 < n" and "k \<le> length (events_of i (t_events w))"
  shows "(if pg = [] then int k else ce_Seq (last pg)) = int (min (k + n) (length (events_of i (t_events w))))"
proof (cases "pg = []")
  case True
  with assms(2,3,4) show ?thesis by auto
next
  case False
  let ?es = "events_of i (t_events w)"
  note lt = last_page [OF False [unfolded assms(2)]]
  have m: "min (k + n) (length ?es) - 1 < length ?es" "0 < min (k + n) (length ?es)" using lt(2,3) by auto
  have seq: "ce_Seq (?es ! n) = int n + 1" if "n < length ?es" for n
  proof -
    have "map ce_Seq ?es = [1..int (length ?es)]" using assms(1) by (simp add: events_ok_def)
    from arg_cong [OF this, of "\<lambda>l. l ! n"] that show ?thesis by (simp add: add.commute)
  qed
  have "ce_Seq (last pg) = int (min (k + n) (length ?es) - 1) + 1" unfolding assms(2) lt(1) by (rule seq [OF m(1)])
  also have "\<dots> = int (min (k + n) (length ?es))" using m(2) by linarith
  finally have "ce_Seq (last pg) = int (min (k + n) (length ?es))" .
  with False show ?thesis by simp
qed

lemma events_page:
  assumes "w_faults w = []" and "events_ok w" and "List.find (\<lambda>c. c_ID c = i \<and> c_TenantID c = t) (t_campaigns w) = Some c"
    and "t \<noteq> []" and "1 \<le> l" and "l \<le> 500" and "k \<le> length (events_of i (t_events w))" and "in_int64 (int k)"
  shows "\<exists>hs st fin. GetCampaignEvents i (poll_request t (int k) l) (s, w) =
    (Response 200 hs (Body (EventsPage (take (nat l) (drop k (events_of i (t_events w))))
       (int (min (k + nat l) (length (events_of i (t_events w))))) st fin)), s, w)"
proof -
  let ?es = "events_of i (t_events w)" and ?r = "poll_request t (int k) l"
  define page where "page = take (nat l) (drop k ?es)"
  define last_seq where "last_seq = int (min (k + nat l) (length ?es))"
  note q = page_request [OF assms(4,8) _ _ assms(6), simplified]
  have get: "Campaign_Get i t w = (Inr c, w)"
    using assms(1,3) by (simp add: Campaign_Get_def queryOne_def db_call_def tick_faultless)
  have "fst (Campaign_Events i (int k) l w) = Inr page"
    using event_log_replay [OF assms(2,1), of "int k" l i] assms(5) by (simp add: page_def)
  moreover have "snd (Campaign_Events i (int k) l w) = w"
    using reads_tick(9) [OF prod.collapse [symmetric], of i "int k" l w] tick_faultless [OF assms(1)] by simp
  ultimately have ev: "Campaign_Events i (int k) l w = (Inr page, w)" by (simp add: prod_eq_iff)
  have cur: "(if page = [] then int k else ce_Seq (last page)) = last_seq"
    using page_cursor [OF assms(2) page_def _ assms(7)] assms(5) by (simp add: last_seq_def)
  have "GetCampaignEvents i ?r (s, w) = (Response 200 [(''Content-Type'', ''application/json'')]
      (Body (EventsPage page last_seq (camp_state_str (c_State c)) (Camp_IsTerminal (c_State c)))), s, w)"
    using get ev q cur assms(5)
    by (simp only: GetCampaignEvents_def MustGetTenantID_def on_db_def writeJSON_def Let_def option.case sum.case prod.case split_conv)
  then show ?thesis unfolding page_def last_seq_def by blast
qed

text \<open>Following a campaign loses nothing. With a page size of 1 to 500, polling with the last number of the
  previous answer as the cursor returns the campaign's steps in order, without a gap and without a
  repetition: after \<open>n\<close> polls exactly the first \<open>n\<close> pages, so the whole log once \<open>n\<close> pages cover it.\<close>

theorem following_is_complete:
  assumes "w_faults w = []" and "events_ok w" and "List.find (\<lambda>c. c_ID c = i \<and> c_TenantID c = t) (t_campaigns w) = Some c"
    and "t \<noteq> []" and "1 \<le> l" and "l \<le> 500" and "in_int64 (int (length (events_of i (t_events w))))"
  shows "follow t i l n 0 (s, w) = take (n * nat l) (events_of i (t_events w))"
proof -
  let ?es = "events_of i (t_events w)"
  have "follow t i l n (int k) (s, w) = take (n * nat l) (drop k ?es)" if "k \<le> length ?es" for k n
    using that
  proof (induction n arbitrary: k)
    case (Suc n)
    have "in_int64 (int k)" using assms(7) Suc.prems by (simp add: in_int64_def)
    from events_page [OF assms(1-6) Suc.prems this] obtain hs st fin where
      "GetCampaignEvents i (poll_request t (int k) l) (s, w) =
        (Response 200 hs (Body (EventsPage (take (nat l) (drop k ?es)) (int (min (k + nat l) (length ?es))) st fin)), s, w)" by blast
    then have "follow t i l (Suc n) (int k) (s, w) =
        take (nat l) (drop k ?es) @ follow t i l n (int (min (k + nat l) (length ?es))) (s, w)" by simp
    also have "\<dots> = take (nat l) (drop k ?es) @ take (n * nat l) (drop (min (k + nat l) (length ?es)) ?es)"
      by (subst Suc.IH) simp_all
    also have "drop (min (k + nat l) (length ?es)) ?es = drop (nat l) (drop k ?es)" by (simp add: min_def add.commute)
    finally show ?case by (simp add: take_add)
  qed simp
  from this [of 0 n] show ?thesis by simp
qed

theorem following_is_complete_witness:
  "let w = snd (AppendEvent ''c'' (mk_event EventDone []) ((demo_gw_db [])\<lparr>t_campaigns := [demo_stored ''c'' ''t'']\<rparr>))
   in length (follow ''t'' ''c'' 5 3 0 (empty_auth, w)) = 1"
proof -
  let ?v = "(demo_gw_db [])\<lparr>t_campaigns := [demo_stored ''c'' ''t'']\<rparr>"
  let ?w = "snd (AppendEvent ''c'' (mk_event EventDone []) ?v)"
  have "events_ok ?v" by (simp add: events_ok_def events_of_def)
  then have ok: "events_ok ?w" by (rule AppendEvent_ok)
  have w: "w_faults ?w = []" "length (events_of ''c'' (t_events ?w)) = 1" "t_campaigns ?w = [demo_stored ''c'' ''t'']"
    by (simp_all add: AppendEvent_def db_call_def events_of_def demo_stored_def)
  from following_is_complete [OF w(1) ok, of "''c''" "''t''" "demo_stored ''c'' ''t''" 5 3 empty_auth] w show ?thesis
    by (simp add: demo_stored_def in_int64_def)
qed

end
