(* ===== verification/ClientGateway.thy ===== *)
theory ClientGateway
  imports Client GatewayJobs
begin

text \<open>
  The client and the gateway together. \<open>gw_wire\<close> says what the client's decoders make of the bodies the
  handlers encode, field by field after the JSON tags of both sides; the encoders of the requests stay
  parameters, with the hypothesis that the gateway's decoders invert them.
\<close>

section \<open>The bodies on the wire\<close>

fun error_field :: "gw_body reply_body \<Rightarrow> string" where
  "error_field (ErrBody e) = e"
| "error_field (ScopeBody e s) = e"
| "error_field (RetryBody e n) = e"
| "error_field _ = []"

text \<open>\<open>read_as f\<close> is the decoder that knows the bodies \<open>f\<close> reads; the client meets no other on its routes.\<close>

definition read_as :: "(gw_body \<Rightarrow> 'a option) \<Rightarrow> gw_body reply_body \<Rightarrow> string + 'a" where
  "read_as f b =
     (case b of Body v \<Rightarrow> (case f v of Some a \<Rightarrow> Inr a | None \<Rightarrow> Inl ''unexpected body'') | _ \<Rightarrow> Inl ''EOF'')"

definition gw_wire :: "gw_body reply_body wire \<Rightarrow> gw_body reply_body wire" where
  "gw_wire e = e\<lparr>wi_error := error_field,
     wi_job_response := read_as (\<lambda>b. case b of
       JobAccepted i st auto eng \<Rightarrow> Some \<lparr>jr_JobID = i, jr_State = st, jr_AutoRouted = auto, jr_RecommendedEngine = eng\<rparr>
       | _ \<Rightarrow> None),
     wi_job := read_as (\<lambda>b. case b of JobBody j \<Rightarrow> Some j | _ \<Rightarrow> None),
     wi_results := read_as (\<lambda>b. case b of ResultsBody rs \<Rightarrow> Some rs | _ \<Rightarrow> None),
     wi_jobs := read_as (\<lambda>b. case b of JobsPage js n limit offset \<Rightarrow> Some js | _ \<Rightarrow> None),
     wi_class := read_as (\<lambda>b. case b of ClassBody c \<Rightarrow> Some c | _ \<Rightarrow> None),
     wi_campaign_response := read_as (\<lambda>b. case b of
       CampaignAccepted i st \<Rightarrow> Some \<lparr>pr_CampaignID = i, pr_State = st\<rparr> | _ \<Rightarrow> None),
     wi_campaign := read_as (\<lambda>b. case b of CampaignBody c \<Rightarrow> Some c | _ \<Rightarrow> None),
     wi_campaigns := read_as (\<lambda>b. case b of CampaignsPage cs n limit offset \<Rightarrow> Some cs | _ \<Rightarrow> None),
     wi_events := read_as (\<lambda>b. case b of
       EventsPage es l st fin \<Rightarrow> Some \<lparr>pe_Events = es, pe_LastSeq = l, pe_State = st, pe_Done = fin\<rparr> | _ \<Rightarrow> None),
     wi_flags := read_as (\<lambda>b. case b of CancelledBody \<Rightarrow> Some [(''cancelled'', True)] | _ \<Rightarrow> None),
     wi_key := read_as (\<lambda>b. case b of
       KeyBody tok t \<Rightarrow> Some \<lparr>kr_Token = tok, kr_ExpiresAt = t div Second * Second\<rparr> | _ \<Rightarrow> None),
     wi_health := read_as (\<lambda>b. case b of
       HealthBody st ver pg \<Rightarrow> Some \<lparr>hl_Status = st, hl_Postgres = pg, hl_Version = ver\<rparr> | _ \<Rightarrow> None)\<rparr>"

section \<open>A call through the chain\<close>

lemma Split_no: "sep \<notin> set s \<Longrightarrow> Split sep s = [s]"
  by (induction s) auto

lemma Split_append: "Split sep (a @ sep # b) = Split sep a @ Split sep b"
  by (induction a) (auto split: list.splits)

lemma path_segments:
  assumes "CHR ''/'' \<notin> set i"
  shows "tl (Split (CHR ''/'') (''/v1/jobs/'' @ i)) = [''v1'', ''jobs'', i]"
    "tl (Split (CHR ''/'') (''/v1/campaigns/'' @ i)) = [''v1'', ''campaigns'', i]"
    "tl (Split (CHR ''/'') (''/v1/jobs/'' @ i @ ''/results'')) = [''v1'', ''jobs'', i, ''results'']"
    "tl (Split (CHR ''/'') (''/v1/campaigns/'' @ i @ ''/events'')) = [''v1'', ''campaigns'', i, ''events'']"
  using assms Split_append [of "CHR ''/''" i "''results''"] Split_append [of "CHR ''/''" i "''events''"] by (simp_all add: Split_no)

definition cli_request :: "cli_client \<Rightarrow> string \<Rightarrow> string \<Rightarrow> (string \<times> string) list \<Rightarrow> string option \<Rightarrow> request" where
  "cli_request c meth path query body =
     \<lparr>rq_Method = meth, rq_Path = tl (Split (CHR ''/'') path), rq_Query = query,
      rq_Body = Some (case body of None \<Rightarrow> [] | Some b \<Rightarrow> b), rq_Authorization = ''Bearer '' @ cc_apiKey c,
      rq_Origin = [], rq_XRequestID = [], rq_tenant = None, rq_claims = None, rq_requestID = []\<rparr>"

lemma cli_request_simps [simp]:
  "rq_Origin (cli_request c meth path query body) = []" "rq_Method (cli_request c meth path query body) = meth"
  "rq_XRequestID (cli_request c meth path query body) = []"
  "HasPrefix (rq_Authorization (cli_request c meth path query body)) ''Bearer ''"
  "bearer (cli_request c meth path query body) = cc_apiKey c"
  "rq_Query (cli_request c meth path query body) = query"
  "rq_Path (cli_request c meth path query body) = tl (Split (CHR ''/'') path)"
  by (simp_all only: cli_request_def bearer_def request.simps HasPrefix_append TrimPrefix_append)

lemma client_do_gateway:
  assumes "gateway env (cli_request c meth path query body) s = (Response code hs b, s')"
  shows "client_do (gateway_peer line (cc_baseURL c) env) c meth path query (map_option Inr body) s = (Inr (code, line code, b), s')"
proof -
  have "served_request (cc_baseURL c) \<lparr>hr_Method = meth, hr_URL = cc_baseURL c @ path, hr_Query = query,
      hr_Headers = [(''Authorization'', ''Bearer '' @ cc_apiKey c), (''Content-Type'', ''application/json''),
        (''User-Agent'', ''inferbolt-cli/'' @ cc_version c)], hr_Body = body\<rparr> = cli_request c meth path query body"
    by (simp add: served_request_def cli_request_def header_of_def)
  moreover have "(case map_option Inr body of Some (Inr b) \<Rightarrow> Some b | _ \<Rightarrow> None) = body" by (cases body) auto
  ultimately show ?thesis
    using assms by (cases body) (simp_all add: client_do_def gateway_peer_def)
qed


lemma save_and_enqueue_ok:
  assumes "w_faults w = []" and "fst (NewID w) \<notin> job_ID ` set (t_jobs w)"
  shows "\<exists>w'. save_and_enqueue q t w =
      (writeJSON 202 (JobAccepted (fst (NewID w)) ''pending'' (jq_AutoRoute q) (recommended q)), w') \<and>
    t_jobs w' = t_jobs w @ [requested_job q t (fst (NewID w)) (w_now w)] \<and>
    q_benchmarks w' = q_benchmarks w @ [RiverRow (requested_args q t (fst (NewID w))) 3 ''benchmarks''] \<and>
    w_faults w' = [] \<and> w_now w' = w_now w"
proof -
  obtain i v where i: "NewID w = (i, v)" by (cases "NewID w")
  then have v: "w_faults v = []" "t_jobs v = t_jobs w" "q_benchmarks v = q_benchmarks w" "w_now v = w_now w" "fst (NewID w) = i"
    using assms(1) by (auto simp: NewID_def rand_adv_def)
  let ?j = "requested_job q t i (w_now w)"
  have j: "stored_job (requested_job q t k n) = requested_job q t k n" "job_ID (requested_job q t k n) = k" for k n
    by (simp_all add: requested_job_def stored_job_def)
  have s: "SaveJob ?j v = (Inr (), v\<lparr>t_jobs := t_jobs w @ [?j]\<rparr>)"
    using assms(2) v by (simp add: SaveJob_def db_call_def fault_def tick_faultless j)
  have "Enqueue (requested_args q t i) (v\<lparr>t_jobs := t_jobs w @ [?j]\<rparr>) =
      (Inr (), v\<lparr>t_jobs := t_jobs w @ [?j], q_benchmarks := q_benchmarks w @ [RiverRow (requested_args q t i) 3 ''benchmarks'']\<rparr>)"
    using v by (simp add: Enqueue_def db_call_def fault_def tick_faultless)
  with s i v show ?thesis by (simp add: save_and_enqueue_def Let_def)
qed

lemma uuid_no_slash: "is_uuid_v4 i \<Longrightarrow> CHR ''/'' \<notin> set i \<and> i \<noteq> []"
proof
  assume u: "is_uuid_v4 i"
  then have l: "length i = 36" and ch: "list_all (\<lambda>k. if k \<in> {8, 13, 18, 23} then i ! k = CHR ''-'' else is_hex (i ! k)) [0..<36]"
    unfolding is_uuid_v4_def by blast+
  from l show "i \<noteq> []" by auto
  show "CHR ''/'' \<notin> set i"
  proof
    assume "CHR ''/'' \<in> set i"
    then obtain k where "k < 36" and k: "i ! k = CHR ''/''" using l by (auto simp: in_set_conv_nth)
    then have "k \<in> set [0..<36]" by simp
    with ch have "if k \<in> {8, 13, 18, 23} then i ! k = CHR ''-'' else is_hex (i ! k)"
      unfolding list_all_iff by blast
    with k show False by (simp add: is_hex_def split: if_splits)
  qed
qed

definition rate_bucket :: "claims \<Rightarrow> 'w world_scheme \<Rightarrow> string" where
  "rate_bucket tk w = bucketKey (cl_TenantID tk) (Unix (w_now w) div 60)"

text \<open>A caller the chain lets through \<open>n\<close> more times in the current minute.\<close>

definition let_through :: "gw_env \<Rightarrow> string \<Rightarrow> claims \<Rightarrow> nat \<Rightarrow> auth_state \<times> 'w gw_db_scheme \<Rightarrow> bool" where
  "let_through env key tk n = (\<lambda>(s, w). fst (Verify (ge_km env) key (s, w)) = Inr tk \<and> cl_TenantID tk \<noteq> [] \<and>
     bucket_count (rate_bucket tk w) (au_buckets s) + int n \<le> 100)"

lemma let_through_call:
  fixes w :: "'w gw_db_scheme"
  assumes "let_through env (cc_apiKey c) tk (Suc n) (s, w)"
    and "map_of (routes (tl (Split (CHR ''/'') path))) meth = Some ep" and "guard_of ep = Some required" and "HasScope tk required"
  obtains i s1 where "let_through env (cc_apiKey c) tk n (s1, rand_adv 8 w)"
    "\<And>code ks b w3. handle env ep (entered (cli_request c meth path query body) i tk) (s1, rand_adv 8 w) =
        (Response code ks b, s1, w3) \<Longrightarrow> w_now w3 = w_now w \<Longrightarrow>
      \<exists>s3. client_do (gateway_peer line (cc_baseURL c) env) c meth path query (map_option Inr body) (s, w) =
          (Inr (code, line code, b), s3, w3) \<and> let_through env (cc_apiKey c) tk n (s3, w3)"
proof -
  let ?r = "cli_request c meth path query body"
  define k where "k = bucket_count (rate_bucket tk w) (au_buckets s)"
  obtain s1 w1 where v: "Verify (ge_km env) (cc_apiKey c) (s, w) = (Inr tk, s1, w1)"
    using assms(1) by (cases "Verify (ge_km env) (cc_apiKey c) (s, w)") (auto simp: let_through_def)
  have k: "k < 100" "k + 1 + int n \<le> 100" using assms(1) by (simp_all add: let_through_def k_def)
  let ?s1 = "s1\<lparr>au_buckets := set_bucket (rate_bucket tk w) (k + 1) (au_buckets s)\<rparr>"
  have adm: "let_through env (cc_apiKey c) tk n (s2, w2)"
    if "au_cache s2 = au_cache s1" "au_buckets s2 = au_buckets ?s1" "w_now w2 = w_now w" for s2 and w2 :: "'w gw_db_scheme"
  proof -
    have "rate_bucket tk w2 = rate_bucket tk w" using that(3) by (simp add: rate_bucket_def)
    with that(2) Verify_again [OF v that(1,3)] assms(1) k(2) show ?thesis by (simp add: let_through_def)
  qed
  have r: "rq_Origin ?r = []" "map_of (routes (rq_Path ?r)) (rq_Method ?r) = Some ep" "guard_of ep = Some required"
    "HasPrefix (rq_Authorization ?r) ''Bearer ''" "Verify (ge_km env) (bearer ?r) (s, w) = (Inr tk, s1, w1)"
    "HasScope tk required" "cl_TenantID tk \<noteq> []"
    using assms v by (simp_all add: let_through_def)
  from gateway_enters [OF r k_def [unfolded rate_bucket_def] k(1)] obtain i w0 where i: "request_id ?r w = (i, w0)"
    and h: "\<And>code ks b s3 w3. handle env ep (entered ?r i tk) (?s1, w0) = (Response code ks b, s3, w3) \<Longrightarrow>
      \<exists>hs l. gateway env ?r (s, w) = (Response code (hs @ ks) b, s3\<lparr>au_log := au_log s3 @ [l]\<rparr>, w3)"
    unfolding rate_bucket_def by metis
  have w0: "w0 = rand_adv 8 w" using i by (simp add: request_id_def newReqID_def)
  show thesis
  proof (rule that [of ?s1 i])
    show "let_through env (cc_apiKey c) tk n (?s1, rand_adv 8 w)" by (rule adm) (simp_all add: rand_adv_def)
  next
    fix code ks b w3
    assume a: "handle env ep (entered ?r i tk) (?s1, rand_adv 8 w) = (Response code ks b, ?s1, w3)" "w_now w3 = w_now w"
    from h [unfolded w0, OF a(1)] obtain hs l where
      g: "gateway env ?r (s, w) = (Response code (hs @ ks) b, ?s1\<lparr>au_log := au_log ?s1 @ [l]\<rparr>, w3)" by blast
    from client_do_gateway [OF g, of line] adm [OF _ _ a(2), of "?s1\<lparr>au_log := au_log ?s1 @ [l]\<rparr>"]
    show "\<exists>s3. client_do (gateway_peer line (cc_baseURL c) env) c meth path query (map_option Inr body) (s, w) =
        (Inr (code, line code, b), s3, w3) \<and> let_through env (cc_apiKey c) tk n (s3, w3)" by auto
  qed
qed


section \<open>Submitting and reading back\<close>

lemma wire_simps [simp]:
  "wi_error (gw_wire e) = error_field" "wi_put_job (gw_wire e) = wi_put_job e" "wi_put_campaign (gw_wire e) = wi_put_campaign e"
  "wi_job_response (gw_wire e) (Body (JobAccepted i st auto eng)) =
     Inr \<lparr>jr_JobID = i, jr_State = st, jr_AutoRouted = auto, jr_RecommendedEngine = eng\<rparr>"
  "wi_job (gw_wire e) (Body (JobBody j)) = Inr j" "wi_results (gw_wire e) (Body (ResultsBody rs)) = Inr rs"
  "wi_campaign (gw_wire e) (Body (CampaignBody cp)) = Inr cp"
  "wi_events (gw_wire e) (Body (EventsPage es l st fin)) =
     Inr \<lparr>pe_Events = es, pe_LastSeq = l, pe_State = st, pe_Done = fin\<rparr>"
  by (simp_all add: gw_wire_def read_as_def)

lemma entered_tenant: "cl_TenantID tk \<noteq> [] \<Longrightarrow> GetTenantID (entered r i tk) = Some (cl_TenantID tk)"
  by (simp add: entered_def GetTenantID_def)

lemma entered_body [simp]: "rq_Body (entered r i tk) = rq_Body r" "rq_Query (entered r i tk) = rq_Query r"
  by (simp_all add: entered_def)

lemma cli_body [simp]: "rq_Body (cli_request c meth path query (Some b)) = Some b"
  by (simp add: cli_request_def)

lemma create_call:
  fixes w :: "'w gw_db_scheme"
  assumes "wi_put_job e q = Inr b" and "ge_decode_job env b = Inr q" and "job_request_error q = None"
    and "let_through env (cc_apiKey c) tk (Suc n) (s, w)" and "HasScope tk ScopeJobsWrite"
    and "w_faults w = []" and "i = fst (NewID (rand_adv 8 w))" and "i \<notin> job_ID ` set (t_jobs w)"
  obtains s1 w1 where "Client_CreateJob (gw_wire e) (gateway_peer line (cc_baseURL c) env) c q (s, w) =
      (Inr \<lparr>jr_JobID = i, jr_State = ''pending'', jr_AutoRouted = jq_AutoRoute q, jr_RecommendedEngine = recommended q\<rparr>, s1, w1)"
    "t_jobs w1 = t_jobs w @ [requested_job q (cl_TenantID tk) i (w_now w)]"
    "q_benchmarks w1 = q_benchmarks w @ [RiverRow (requested_args q (cl_TenantID tk) i) 3 ''benchmarks'']"
    "w_faults w1 = []" "let_through env (cc_apiKey c) tk n (s1, w1)"
proof -
  let ?path = "''/v1/jobs''" and ?t = "cl_TenantID tk"
  have ep: "map_of (routes (tl (Split (CHR ''/'') ?path))) ''POST'' = Some EpCreateJob" by (simp add: routes_def)
  from let_through_call [OF assms(4) ep guard_of.simps(3) assms(5), of "[]" "Some b"] obtain k s0 where
    h: "\<And>code ks bd w3. handle env EpCreateJob (entered (cli_request c ''POST'' ?path [] (Some b)) k tk) (s0, rand_adv 8 w) =
        (Response code ks bd, s0, w3) \<Longrightarrow> w_now w3 = w_now w \<Longrightarrow>
      \<exists>s3. client_do (gateway_peer line (cc_baseURL c) env) c ''POST'' ?path [] (map_option Inr (Some b)) (s, w) =
          (Inr (code, line code, bd), s3, w3) \<and> let_through env (cc_apiKey c) tk n (s3, w3)" by metis
  have w0: "w_faults (rand_adv 8 w) = []" "fst (NewID (rand_adv 8 w)) \<notin> job_ID ` set (t_jobs (rand_adv 8 w))"
    "w_now (rand_adv 8 w) = w_now w" "t_jobs (rand_adv 8 w) = t_jobs w" "q_benchmarks (rand_adv 8 w) = q_benchmarks w"
    using assms(6-8) by (simp_all add: rand_adv_def)
  from save_and_enqueue_ok [OF w0(1,2), of q ?t] obtain w1 where
    run: "save_and_enqueue q ?t (rand_adv 8 w) = (writeJSON 202 (JobAccepted i ''pending'' (jq_AutoRoute q) (recommended q)), w1)"
    and w1: "t_jobs w1 = t_jobs w @ [requested_job q ?t i (w_now w)]"
      "q_benchmarks w1 = q_benchmarks w @ [RiverRow (requested_args q ?t i) 3 ''benchmarks'']" "w_faults w1 = []" "w_now w1 = w_now w"
    unfolding w0(3-5) assms(7) [symmetric] by blast
  have t: "GetTenantID (entered (cli_request c ''POST'' ?path [] (Some b)) k tk) = Some ?t"
    by (rule entered_tenant) (use assms(4) in \<open>simp add: let_through_def\<close>)
  have "handle env EpCreateJob (entered (cli_request c ''POST'' ?path [] (Some b)) k tk) (s0, rand_adv 8 w) =
      (Response 202 [(''Content-Type'', ''application/json'')] (Body (JobAccepted i ''pending'' (jq_AutoRoute q) (recommended q))), s0, w1)"
    using assms(2,3) run t by (simp add: CreateJob_def readJSON_def MustGetTenantID_def on_db_def writeJSON_def)
  from h [OF this w1(4)] obtain s1 where
    "client_do (gateway_peer line (cc_baseURL c) env) c ''POST'' ?path [] (Some (Inr b)) (s, w) =
       (Inr (202, line 202, Body (JobAccepted i ''pending'' (jq_AutoRoute q) (recommended q))), s1, w1)"
    and adm: "let_through env (cc_apiKey c) tk n (s1, w1)" by auto
  then have "Client_CreateJob (gw_wire e) (gateway_peer line (cc_baseURL c) env) c q (s, w) =
      (Inr \<lparr>jr_JobID = i, jr_State = ''pending'', jr_AutoRouted = jq_AutoRoute q, jr_RecommendedEngine = recommended q\<rparr>, s1, w1)"
    using assms(1) by (simp add: Client_CreateJob_def client_call_def decodeResp_def)
  from that [OF this w1(1-3) adm] show thesis .
qed

lemma get_call:
  fixes w :: "'w gw_db_scheme"
  assumes "let_through env (cc_apiKey c) tk (Suc n) (s, w)" and "HasScope tk ScopeJobsRead" and "w_faults w = []"
    and "CHR ''/'' \<notin> set i" and "i \<noteq> []"
    and "List.find (\<lambda>j. job_ID j = i \<and> job_TenantID j = cl_TenantID tk) (t_jobs w) = Some j"
  obtains s1 where "Client_GetJob (gw_wire e) (gateway_peer line (cc_baseURL c) env) c i (s, w) = (Inr j, s1, rand_adv 8 w)"
    "let_through env (cc_apiKey c) tk n (s1, rand_adv 8 w)"
proof -
  let ?path = "''/v1/jobs/'' @ i" and ?t = "cl_TenantID tk"
  have ep: "map_of (routes (tl (Split (CHR ''/'') ?path))) ''GET'' = Some (EpGetJob i)"
    unfolding path_segments(1) [OF assms(4)] using assms(5) by (simp add: routes_def)
  have gd: "guard_of (EpGetJob i) = Some ScopeJobsRead" by simp
  from let_through_call [OF assms(1) ep gd assms(2), of "[]" None] obtain k s0 where
    h: "\<And>code ks bd w3. handle env (EpGetJob i) (entered (cli_request c ''GET'' ?path [] None) k tk) (s0, rand_adv 8 w) =
        (Response code ks bd, s0, w3) \<Longrightarrow> w_now w3 = w_now w \<Longrightarrow>
      \<exists>s3. client_do (gateway_peer line (cc_baseURL c) env) c ''GET'' ?path [] (map_option Inr None) (s, w) =
          (Inr (code, line code, bd), s3, w3) \<and> let_through env (cc_apiKey c) tk n (s3, w3)" by metis
  have t: "GetTenantID (entered (cli_request c ''GET'' ?path [] None) k tk) = Some ?t"
    by (rule entered_tenant) (use assms(1) in \<open>simp add: let_through_def\<close>)
  have g: "GetJob i ?t (rand_adv 8 w) = (Inr j, rand_adv 8 w)"
    using assms(3,6) by (simp add: GetJob_def db_call_def fault_def tick_def rand_adv_def)
  have "handle env (EpGetJob i) (entered (cli_request c ''GET'' ?path [] None) k tk) (s0, rand_adv 8 w) =
      (Response 200 [(''Content-Type'', ''application/json'')] (Body (JobBody j)), s0, rand_adv 8 w)"
    using g t by (simp add: GetJob_handler_def MustGetTenantID_def on_db_def writeJSON_def)
  from h [OF this] obtain s1 where
    "client_do (gateway_peer line (cc_baseURL c) env) c ''GET'' ?path [] None (s, w) =
       (Inr (200, line 200, Body (JobBody j)), s1, rand_adv 8 w)"
    and adm: "let_through env (cc_apiKey c) tk n (s1, rand_adv 8 w)" by (auto simp: rand_adv_def)
  then have "Client_GetJob (gw_wire e) (gateway_peer line (cc_baseURL c) env) c i (s, w) = (Inr j, s1, rand_adv 8 w)"
    by (simp add: Client_GetJob_def client_call_def decodeResp_def)
  from that [OF this adm] show thesis .
qed


text \<open>C27: The client and the gateway agree on jobs. For a caller whose token has the job scopes and who has two
  requests left this minute, with encoders and decoders that are inverse and no fault: submitting an
  admissible request through the client returns the id of the one job and the one queue entry the gateway
  adds, both built from exactly that request for the token's tenant, with the routing decision; and asking
  the client for that id returns exactly that job, still pending, and changes no job.\<close>

theorem client_job_roundtrip:
  fixes w :: "'w gw_db_scheme"
  assumes "wi_put_job e q = Inr b" and "ge_decode_job env b = Inr q" and "job_request_error q = None"
    and "let_through env (cc_apiKey c) tk 2 (s, w)" and "HasScope tk ScopeJobsWrite" and "HasScope tk ScopeJobsRead"
    and "w_faults w = []" and "i = fst (NewID (rand_adv 8 w))" and "i \<notin> job_ID ` set (t_jobs w)"
  shows "\<exists>s1 w1 s2 w2. let peer = gateway_peer line (cc_baseURL c) env; j = requested_job q (cl_TenantID tk) i (w_now w) in
    Client_CreateJob (gw_wire e) peer c q (s, w) =
      (Inr \<lparr>jr_JobID = i, jr_State = ''pending'', jr_AutoRouted = jq_AutoRoute q, jr_RecommendedEngine = recommended q\<rparr>, s1, w1) \<and>
    t_jobs w1 = t_jobs w @ [j] \<and>
    q_benchmarks w1 = q_benchmarks w @ [RiverRow (requested_args q (cl_TenantID tk) i) 3 ''benchmarks''] \<and>
    Client_GetJob (gw_wire e) peer c i (s1, w1) = (Inr j, s2, w2) \<and> t_jobs w2 = t_jobs w1"
proof -
  have i: "CHR ''/'' \<notin> set i" "i \<noteq> []"
    using uuid_no_slash [of i] NewID_uuid_v4 [of "rand_adv 8 w"] assms(8) by auto
  obtain s1 w1 where
    c: "Client_CreateJob (gw_wire e) (gateway_peer line (cc_baseURL c) env) c q (s, w) =
      (Inr \<lparr>jr_JobID = i, jr_State = ''pending'', jr_AutoRouted = jq_AutoRoute q, jr_RecommendedEngine = recommended q\<rparr>, s1, w1)"
    and w1: "t_jobs w1 = t_jobs w @ [requested_job q (cl_TenantID tk) i (w_now w)]"
      "q_benchmarks w1 = q_benchmarks w @ [RiverRow (requested_args q (cl_TenantID tk) i) 3 ''benchmarks'']"
      "w_faults w1 = []" and adm: "let_through env (cc_apiKey c) tk (Suc 0) (s1, w1)"
    by (metis (no_types) create_call [OF assms(1-3) assms(4) [unfolded numeral_2_eq_2] assms(5,7-9), of line])
  have "\<forall>j\<in>set (t_jobs w). \<not> (job_ID j = i \<and> job_TenantID j = cl_TenantID tk)" using assms(9) by auto
  then have "List.find (\<lambda>j. job_ID j = i \<and> job_TenantID j = cl_TenantID tk) (t_jobs w) = None" by (simp add: find_eq_None)
  then have "List.find (\<lambda>j. job_ID j = i \<and> job_TenantID j = cl_TenantID tk) (t_jobs w1) =
      Some (requested_job q (cl_TenantID tk) i (w_now w))"
    unfolding w1(1) by (simp add: find_append requested_job_def)
  from get_call [OF adm assms(6) w1(3) i this, of e line] obtain s2 where
    "Client_GetJob (gw_wire e) (gateway_peer line (cc_baseURL c) env) c i (s1, w1) =
      (Inr (requested_job q (cl_TenantID tk) i (w_now w)), s2, rand_adv 8 w1)" by metis
  moreover have "t_jobs (rand_adv 8 w1) = t_jobs w1" by (simp add: rand_adv_def)
  ultimately show ?thesis unfolding Let_def using c w1 by blast
qed


definition admin_claims :: claims where
  "admin_claims = \<lparr>cl_TenantID = ''dev'', cl_Scopes = [''admin:all''], cl_IssuedAt = Some 0, cl_ExpiresAt = Some 100\<rparr>"

definition admin_auth :: auth_state where
  "admin_auth = empty_auth\<lparr>au_cache := [(''k'', admin_claims, 100)]\<rparr>"

definition demo_wire :: "gw_body reply_body wire" where
  "demo_wire = \<lparr>wi_error = (\<lambda>_. []), wi_job_response = (\<lambda>_. Inl []), wi_job = (\<lambda>_. Inl []), wi_results = (\<lambda>_. Inl []),
     wi_jobs = (\<lambda>_. Inl []), wi_class = (\<lambda>_. Inl []), wi_workers = (\<lambda>_. Inl []), wi_campaign_response = (\<lambda>_. Inl []),
     wi_campaign = (\<lambda>_. Inl []), wi_campaigns = (\<lambda>_. Inl []), wi_events = (\<lambda>_. Inl []), wi_flags = (\<lambda>_. Inl []),
     wi_key = (\<lambda>_. Inl []), wi_health = (\<lambda>_. Inl []), wi_put_job = (\<lambda>_. Inr ''{}''), wi_put_input = (\<lambda>_. Inl []),
     wi_put_campaign = (\<lambda>_. Inr ''{}''), wi_put_key = (\<lambda>_. Inl []), wi_rfc3339 = Itoa\<rparr>"

abbreviation demo_client :: cli_client where
  "demo_client \<equiv> NewClient ''http://g'' ''k''"

lemma demo_let_through: "n \<le> 100 \<Longrightarrow> let_through demo_gw (cc_apiKey demo_client) admin_claims n (admin_auth, demo_gw_db js)"
  by (simp add: let_through_def Verify_def NewClient_def demo_gw_def demo_km_def admin_auth_def empty_auth_def admin_claims_def
      cache_get_def bucket_count_def)

lemma admin_scopes: "HasScope admin_claims required"
  by (simp add: HasScope_def admin_claims_def)

lemma demo_request_admissible: "job_request_error demo_job_request = None"
  by (simp add: job_request_error_def demo_job_request_def ValidEngines_def ValidateWorkload_def ValidateEngineConfig_def
      demo_workload_def zero_engine_config_def)

theorem client_job_roundtrip_witness:
  "\<exists>resp s1 w1. Client_CreateJob (gw_wire demo_wire) (gateway_peer Itoa ''http://g'' demo_gw) demo_client demo_job_request
      (admin_auth, demo_gw_db []) = (Inr resp, s1, w1) \<and> map job_TenantID (t_jobs w1) = [''dev'']"
proof -
  have a: "wi_put_job demo_wire demo_job_request = Inr ''{}''" "ge_decode_job demo_gw ''{}'' = Inr demo_job_request"
    "w_faults (demo_gw_db []) = []" "fst (NewID (rand_adv 8 (demo_gw_db []))) \<notin> job_ID ` set (t_jobs (demo_gw_db []))"
    by (simp_all add: demo_wire_def demo_gw_def)
  have "cc_baseURL demo_client = ''http://g''" by (simp add: NewClient_def)
  with client_job_roundtrip [OF a(1,2) demo_request_admissible demo_let_through admin_scopes admin_scopes a(3) refl a(4), of Itoa]
  show ?thesis by (fastforce simp: Let_def requested_job_def admin_claims_def)
qed


section \<open>Two platforms, one job\<close>

lemma trial_request_job:
  "cp_tenantID p = t \<Longrightarrow> requested_job (trial_request spec) t i now = trial_job p spec i now"
  "cp_tenantID p = t \<Longrightarrow> requested_args (trial_request spec) t i = job_args (trial_job p spec i now)"
  by (simp_all add: requested_job_def requested_args_def trial_request_def trial_job_def job_args_def routed_engines_def)

lemma trial_request_admissible:
  "ts_Model spec \<noteq> [] \<Longrightarrow> ts_GPUProfile spec \<noteq> [] \<Longrightarrow>
     (job_request_error (trial_request spec) = None) = (validate_spec spec = None)"
  by (simp add: job_request_error_def trial_request_def validate_spec_def split: option.splits)

lemma refused_call:
  fixes w :: "'w gw_db_scheme"
  assumes "wi_put_job e q = Inr b" and "ge_decode_job env b = Inr q" and "job_request_error q = Some msg"
    and "let_through env (cc_apiKey c) tk (Suc n) (s, w)" and "HasScope tk ScopeJobsWrite"
  obtains s1 where "Client_CreateJob (gw_wire e) (gateway_peer line (cc_baseURL c) env) c q (s, w) =
      (Inl (server_error error_field 400 (line 400) (ErrBody msg)), s1, rand_adv 8 w)"
proof -
  let ?path = "''/v1/jobs''"
  have ep: "map_of (routes (tl (Split (CHR ''/'') ?path))) ''POST'' = Some EpCreateJob" by (simp add: routes_def)
  from let_through_call [OF assms(4) ep guard_of.simps(3) assms(5), of "[]" "Some b"] obtain k s0 where
    h: "\<And>code ks bd w3. handle env EpCreateJob (entered (cli_request c ''POST'' ?path [] (Some b)) k tk) (s0, rand_adv 8 w) =
        (Response code ks bd, s0, w3) \<Longrightarrow> w_now w3 = w_now w \<Longrightarrow>
      \<exists>s3. client_do (gateway_peer line (cc_baseURL c) env) c ''POST'' ?path [] (map_option Inr (Some b)) (s, w) =
          (Inr (code, line code, bd), s3, w3) \<and> let_through env (cc_apiKey c) tk n (s3, w3)" by metis
  have "handle env EpCreateJob (entered (cli_request c ''POST'' ?path [] (Some b)) k tk) (s0, rand_adv 8 w) =
      (Response 400 [(''Content-Type'', ''application/json'')] (ErrBody msg), s0, rand_adv 8 w)"
    using assms(2,3) by (simp add: CreateJob_def readJSON_def writeJSONError_def)
  from h [OF this] obtain s1 where
    "client_do (gateway_peer line (cc_baseURL c) env) c ''POST'' ?path [] (Some (Inr b)) (s, w) =
       (Inr (400, line 400, ErrBody msg), s1, rand_adv 8 w)" by (auto simp: rand_adv_def)
  then have "Client_CreateJob (gw_wire e) (gateway_peer line (cc_baseURL c) env) c q (s, w) =
      (Inl (server_error error_field 400 (line 400) (ErrBody msg)), s1, rand_adv 8 w)"
    using assms(1) by (simp add: Client_CreateJob_def client_call_def decodeResp_def)
  with that show thesis .
qed

text \<open>C28: The two platforms of the agent submit the same work. For a specification that names a model and a GPU,
  the gateway admits the request the command line platform makes of it exactly when the platform inside the
  orchestrator passes its own checks; and when it does, the row and the queue entry the gateway adds for the
  caller are those of the orchestrator's platform for the same tenant, id and time.\<close>

theorem platforms_submit_alike:
  fixes w :: "'w gw_db_scheme"
  assumes "ts_Model spec \<noteq> []" and "ts_GPUProfile spec \<noteq> []" and "cp_tenantID p = cl_TenantID tk"
    and "wi_put_job e (trial_request spec) = Inr b" and "ge_decode_job env b = Inr (trial_request spec)"
    and "let_through env (cc_apiKey c) tk 1 (s, w)" and "HasScope tk ScopeJobsWrite"
    and "w_faults w = []" and "i = fst (NewID (rand_adv 8 w))" and "i \<notin> job_ID ` set (t_jobs w)"
  shows "(job_request_error (trial_request spec) = None \<longleftrightarrow> validate_spec spec = None) \<and>
    (\<exists>out s1 w1. Client_CreateJob (gw_wire e) (gateway_peer line (cc_baseURL c) env) c (trial_request spec) (s, w) = (out, s1, w1) \<and>
      (isErr out \<or> (t_jobs w1 = t_jobs w @ [trial_job p spec i (w_now w)] \<and>
        bench_queue w1 = bench_queue w @ [job_args (trial_job p spec i (w_now w))])) \<and>
      (isErr out \<longleftrightarrow> validate_spec spec \<noteq> None))"
proof (cases "validate_spec spec")
  case None
  with trial_request_admissible [OF assms(1,2)] have ok: "job_request_error (trial_request spec) = None" by simp
  obtain s1 w1 where c: "Client_CreateJob (gw_wire e) (gateway_peer line (cc_baseURL c) env) c (trial_request spec) (s, w) =
      (Inr \<lparr>jr_JobID = i, jr_State = ''pending'', jr_AutoRouted = jq_AutoRoute (trial_request spec),
        jr_RecommendedEngine = recommended (trial_request spec)\<rparr>, s1, w1)"
    and w1: "t_jobs w1 = t_jobs w @ [requested_job (trial_request spec) (cl_TenantID tk) i (w_now w)]"
      "q_benchmarks w1 = q_benchmarks w @ [RiverRow (requested_args (trial_request spec) (cl_TenantID tk) i) 3 ''benchmarks'']"
    by (rule create_call [OF assms(4,5) ok assms(6) [unfolded One_nat_def] assms(7-10), of line])
  have "t_jobs w1 = t_jobs w @ [trial_job p spec i (w_now w)] \<and>
      bench_queue w1 = bench_queue w @ [job_args (trial_job p spec i (w_now w))]"
    using w1 trial_request_job [OF assms(3)] by (simp add: bench_queue_def)
  with c None ok show ?thesis by (intro conjI exI) auto
next
  case (Some err)
  with trial_request_admissible [OF assms(1,2)] obtain msg where bad: "job_request_error (trial_request spec) = Some msg" by auto
  obtain s1 where c: "Client_CreateJob (gw_wire e) (gateway_peer line (cc_baseURL c) env) c (trial_request spec) (s, w) =
      (Inl (server_error error_field 400 (line 400) (ErrBody msg)), s1, rand_adv 8 w)"
    by (rule refused_call [OF assms(4,5) bad assms(6) [unfolded One_nat_def] assms(7), of line])
  with Some bad show ?thesis by (intro conjI exI) auto
qed


definition demo_trial :: trial_spec where
  "demo_trial = \<lparr>ts_Model = ''m'', ts_Engine = ''vllm'', ts_GPUProfile = ''cpu'', ts_Workload = demo_workload,
     ts_EngineConfig = zero_engine_config\<rparr>"

theorem platforms_submit_alike_witness:
  "\<exists>out s1 w1. Client_CreateJob (gw_wire demo_wire) (gateway_peer Itoa ''http://g'' demo_gw) demo_client (trial_request demo_trial)
      (admin_auth, demo_gw_db []) = (out, s1, w1) \<and> \<not> isErr out \<and> map ba_Engines (bench_queue w1) = [[''vllm'']]"
proof -
  let ?p = "NewPlatform ''c'' ''dev'' 0 0"
  have rq: "trial_request demo_trial = demo_job_request"
    by (simp add: trial_request_def demo_trial_def demo_job_request_def)
  have a: "ts_Model demo_trial \<noteq> []" "ts_GPUProfile demo_trial \<noteq> []" "cp_tenantID ?p = cl_TenantID admin_claims"
    "wi_put_job demo_wire (trial_request demo_trial) = Inr ''{}''" "ge_decode_job demo_gw ''{}'' = Inr (trial_request demo_trial)"
    "w_faults (demo_gw_db []) = []" "fst (NewID (rand_adv 8 (demo_gw_db []))) \<notin> job_ID ` set (t_jobs (demo_gw_db []))"
    by (simp_all add: demo_wire_def demo_gw_def rq NewPlatform_def admin_claims_def) (simp_all add: demo_trial_def)
  have v: "validate_spec demo_trial = None"
    using trial_request_admissible [OF a(1,2)] demo_request_admissible by (simp add: rq)
  have q: "bench_queue (demo_gw_db []) = []" by (simp add: bench_queue_def)
  have e: "ba_Engines (job_args (trial_job ?p demo_trial i n)) = [''vllm'']" for i n
    by (simp add: job_args_def trial_job_def demo_trial_def)
  have "cc_baseURL demo_client = ''http://g''" by (simp add: NewClient_def)
  with platforms_submit_alike [OF a(1-5) demo_let_through admin_scopes a(6) refl a(7), of Itoa] v q e
  show ?thesis by fastforce
qed

section \<open>What a client costs\<close>

text \<open>Only \<open>POST /v1/jobs\<close> queues benchmarks, one at most.\<close>

lemma queue_unchanged:
  "NewID w = (i, w') \<Longrightarrow> q_benchmarks w' = q_benchmarks w" "SaveJob j w = (r, w') \<Longrightarrow> q_benchmarks w' = q_benchmarks w"
  "Campaign_Create c w = (r, w') \<Longrightarrow> q_benchmarks w' = q_benchmarks w"
  "EnqueueCampaign ca w = (r, w') \<Longrightarrow> q_benchmarks w' = q_benchmarks w"
  "UpdateJobState i st msg w = (r, w') \<Longrightarrow> q_benchmarks w' = q_benchmarks w"
  "Campaign_Cancel i t w = (r, w') \<Longrightarrow> q_benchmarks w' = q_benchmarks w"
  "insert_key k v = (r, v') \<Longrightarrow> q_benchmarks v' = q_benchmarks v"
  by (auto simp: NewID_def rand_adv_def SaveJob_def Campaign_Create_def EnqueueCampaign_def Campaign_Cancel_def insert_key_def
      UpdateJobState_def update_campaigns_def db_call_def tick_def Let_def split: option.splits if_splits)

lemma cancel_queue: "q_benchmarks (snd (Campaign_Cancel i t w)) = q_benchmarks w"
  by (rule queue_unchanged(6) [OF prod.collapse [symmetric]])

lemma queue_tick [simp]: "q_benchmarks (tick w) = q_benchmarks w"
  by (simp add: tick_def)

text \<open>Up to \<open>n\<close> more benchmarks are queued.\<close>

definition grown :: "nat \<Rightarrow> 'w gw_db_scheme \<Rightarrow> 'w gw_db_scheme \<Rightarrow> bool" where
  "grown n w w' \<longleftrightarrow> length (q_benchmarks w) \<le> length (q_benchmarks w') \<and> length (q_benchmarks w') \<le> length (q_benchmarks w) + n"

lemma grown_refl [simp]: "grown n w w"
  by (simp add: grown_def)

lemma save_and_enqueue_queue: "save_and_enqueue q t w = (out, w') \<Longrightarrow> grown 1 w w'"
  by (auto simp: grown_def save_and_enqueue_def Let_def Enqueue_def db_call_def split: prod.splits sum.splits option.splits
      dest!: queue_unchanged(1,2))

lemma handle_queue:
  assumes "handle env ep r (s, w) = (out, s', w')"
  shows "grown (if ep = EpCreateJob then 1 else 0) w w'"
proof (cases "ep = EpCreateJob")
  case True
  with assms show ?thesis
    by (auto simp: CreateJob_def MustGetTenantID_def on_db_def split: sum.splits option.splits prod.splits
        dest!: save_and_enqueue_queue)
next
  case False
  with assms have "q_benchmarks w' = q_benchmarks w"
    by (cases ep)
       (auto simp: handler_defs Health_def Dashboard_def MustGetTenantID_def on_db_def Let_def
         save_and_enqueue_campaign_def cancel_write_def cancel_queue
         split: prod.splits sum.splits option.splits http_out.splits if_splits
         dest!: reads_tick cancel_check_tick queue_unchanged)
  then show ?thesis by (simp add: grown_def)
qed


definition queued_by :: "request \<Rightarrow> nat" where
  "queued_by r = (if map_of (routes (rq_Path r)) (rq_Method r) = Some EpCreateJob then 1 else 0)"

lemma guarded_queue:
  assumes "guarded env ep r (s, w) = (out, s', w')"
  shows "grown (if ep = EpCreateJob then 1 else 0) w w'"
proof (cases "guard_of ep")
  case None
  with assms handle_queue [of env ep r s w out s' w'] show ?thesis by (simp add: guarded_def)
next
  case (Some required)
  let ?nxt = "RateLimitMiddleware (RequireScope required (handle env ep))"
  obtain v s1 w1 where v: "Verify (ge_km env) (TrimPrefix (rq_Authorization r) ''Bearer '') (s, w) = (v, s1, w1)"
    by (cases "Verify (ge_km env) (TrimPrefix (rq_Authorization r) ''Bearer '') (s, w)") auto
  from Verify_state [OF v] assms Some v have "w' = w \<or> (\<exists>r1. ?nxt r1 (s1, w) = (out, s', w'))"
    by (auto simp: guarded_def AuthMiddleware_def split: if_splits sum.splits)
  moreover have "grown (if ep = EpCreateJob then 1 else 0) w w'"
    if "?nxt r1 (s1, w) = (out, s', w')" for r1
    using that
  proof (cases rule: RateLimit_cases)
    case (2 s2 o1)
    then have "w' = w \<or> handle env ep r1 (s2, w) = (o1, s', w')" by (auto simp: RequireScope_def split: if_splits)
    with handle_queue [of env ep r1 s2 w o1 s' w'] show ?thesis by auto
  qed simp
  ultimately show ?thesis by auto
qed

lemma mux_queue: "mux env r (s, w) = (out, s', w') \<Longrightarrow> grown (queued_by r) w w'"
  using guarded_queue [of env _ r s w out s' w']
  by (fastforce simp: mux_def queued_by_def split: list.splits option.splits)

lemma gateway_queue:
  assumes "gateway env r (s, w) = (out, s', w')"
  shows "grown (queued_by r) w w'"
proof -
  let ?inner = "RequestIDMiddleware (LoggerMiddleware (mux env))"
  obtain i w0 where i: "request_id r w = (i, w0)" by (cases "request_id r w")
  have w0: "q_benchmarks w0 = q_benchmarks w" using request_id_world [of r w] i by (auto simp: rand_adv_def)
  obtain o1 s1 w1 where m: "mux env (r\<lparr>rq_requestID := i\<rparr>) (s, w0) = (o1, s1, w1)"
    by (cases "mux env (r\<lparr>rq_requestID := i\<rparr>) (s, w0)") auto
  have "snd (snd (?inner r (s, w))) = w1"
    using m i by (cases o1) (simp_all add: RequestIDMiddleware_def LoggerMiddleware_def request_id_def [symmetric] Let_def)
  moreover have "w' = w \<or> w' = snd (snd (?inner r (s, w)))"
    using assms by (auto simp: gateway_def CORSMiddleware_def Let_def split: if_splits prod.splits)
  ultimately show ?thesis using mux_queue [OF m] w0 by (auto simp: queued_by_def grown_def)
qed


section \<open>A campaign from the command line\<close>

text \<open>
  The agent over the client, against the gateway. What the rest of the system does while a job is polled is a
  list of steps on the jobs, the measurements and the clock; the planner is remote and takes time.
\<close>

datatype gw_other = GwJobState string job_state string | GwResults "result list" | GwClock int

fun gw_step :: "gw_other \<Rightarrow> auth_state \<times> gw_db \<Rightarrow> auth_state \<times> gw_db" where
  "gw_step (GwJobState i st msg) (s, w) = (s, snd (UpdateJobState i st msg w))"
| "gw_step (GwResults rs) (s, w) = (s, snd (WriteBenchResultBatch rs w))"
| "gw_step (GwClock t) (s, w) = (s, w\<lparr>w_now := max (w_now w) t\<rparr>)"

definition gw_events ::
  "(string \<Rightarrow> nat \<Rightarrow> goerr + nat \<times> gw_other list) \<Rightarrow> string \<Rightarrow> auth_state \<times> gw_db \<Rightarrow> nat \<Rightarrow> (auth_state \<times> gw_db) poll_event" where
  "gw_events f i s n = (case f i n of Inl e \<Rightarrow> PollDone e | Inr (lag, ops) \<Rightarrow> PollTick lag (fold gw_step ops))"

definition gw_platform ::
  "gw_body reply_body wire \<Rightarrow> (int \<Rightarrow> string) \<Rightarrow> gw_env \<Rightarrow> cli_client \<Rightarrow> (string \<Rightarrow> nat \<Rightarrow> goerr + nat \<times> gw_other list)
   \<Rightarrow> (gw_body reply_body, auth_state \<times> gw_db) cli_platform" where
  "gw_platform e line env c f =
     \<lparr>ap_wire = gw_wire e, ap_peer = gateway_peer line (cc_baseURL c) env, ap_client = c, ap_OnJobState = None,
      ap_events = gw_events f\<rparr>"

definition cli_agent_env ::
  "(gw_body reply_body, auth_state \<times> gw_db) cli_platform
   \<Rightarrow> (string \<Rightarrow> message list \<Rightarrow> int \<Rightarrow> (planner_error + planner_reply) \<times> int) \<Rightarrow> (auth_state \<times> gw_db) agent_env" where
  "cli_agent_env p planner =
     \<lparr>ae_platform = NewAgentPlatform p,
      ae_planner = (\<lambda>m msgs (s, w). let (r, t) = planner m msgs (w_now w) in (r, s, w\<lparr>w_now := max (w_now w) t\<rparr>)),
      ae_now = (\<lambda>(s, w). w_now w), ae_observer = None\<rparr>"

definition qlen :: "auth_state \<times> gw_db \<Rightarrow> nat" where
  "qlen sw = length (q_benchmarks (snd sw))"

lemma path_cases: obtains "p = []" | a where "p = [a]" | a b where "p = [a, b]" | a b i where "p = [a, b, i]"
  | a b i t where "p = [a, b, i, t]" | a b i t u ts where "p = a # b # i # t # u # ts"
  by (metis neq_Nil_conv)

lemma create_route: "(m, EpCreateJob) \<in> set (routes p) \<Longrightarrow> m = ''POST'' \<and> p = [''v1'', ''jobs'']"
  by (cases p rule: path_cases) (simp_all add: routes_def split: if_split_asm)

definition posts_job :: "string \<Rightarrow> string \<Rightarrow> nat" where
  "posts_job meth path = (if meth = ''POST'' \<and> tl (Split (CHR ''/'') path) = [''v1'', ''jobs''] then 1 else 0)"

lemma queued_by_posts: "queued_by r \<le> 1" "queued_by r = 1 \<Longrightarrow> rq_Method r = ''POST'' \<and> rq_Path r = [''v1'', ''jobs'']"
  using create_route [of "rq_Method r" "rq_Path r"] by (auto simp: queued_by_def dest: map_of_SomeD split: if_split_asm)

definition between :: "nat \<Rightarrow> auth_state \<times> gw_db \<Rightarrow> auth_state \<times> gw_db \<Rightarrow> bool" where
  "between n u v \<longleftrightarrow> qlen u \<le> qlen v \<and> qlen v \<le> qlen u + n"

lemma between_refl [simp]: "between n u u"
  by (simp add: between_def)

lemma between_trans: "between m u v \<Longrightarrow> between n v w \<Longrightarrow> between (m + n) u w"
  by (simp add: between_def)

lemma client_do_queue:
  "between (posts_job meth path) sw (snd (client_do (gateway_peer line (cc_baseURL c) env) c meth path query body sw))"
proof (cases "\<exists>e. body = Some (Inl e)")
  case True
  then show ?thesis by (auto simp: client_do_def)
next
  case False
  define bd where "bd = (case body of Some (Inr b) \<Rightarrow> Some b | _ \<Rightarrow> None)"
  define r where "r = cli_request c meth path query bd"
  have rq: "served_request (cc_baseURL c) \<lparr>hr_Method = meth, hr_URL = cc_baseURL c @ path, hr_Query = query,
      hr_Headers = [(''Authorization'', ''Bearer '' @ cc_apiKey c), (''Content-Type'', ''application/json''),
        (''User-Agent'', ''inferbolt-cli/'' @ cc_version c)], hr_Body = bd\<rparr> = r"
    by (simp add: served_request_def cli_request_def header_of_def r_def)
  obtain s w where sw: "sw = (s, w)" by (cases sw)
  obtain out s' w' where g: "gateway env r (s, w) = (out, s', w')" by (cases "gateway env r (s, w)") auto
  have "snd (client_do (gateway_peer line (cc_baseURL c) env) c meth path query body sw) = (s', w')"
    unfolding client_do_def bd_def [symmetric] gateway_peer_def sw using False rq g
    by (cases out) (auto split: option.split sum.split)
  moreover have "rq_Method r = meth" "rq_Path r = tl (Split (CHR ''/'') path)" by (simp_all add: r_def)
  then have "queued_by r \<le> posts_job meth path"
    using queued_by_posts [of r] by (cases "queued_by r = 1") (auto simp: posts_job_def)
  ultimately show ?thesis
    using gateway_queue [OF g] sw by (simp add: between_def qlen_def grown_def)
qed

lemma client_call_queue:
  "between (posts_job meth path) sw
     (snd (client_call wi (gateway_peer line (cc_baseURL c) env) c meth path query body dec sw))"
  using client_do_queue [of meth path sw line c env query body] by (simp add: client_call_def case_prod_beta)


lemma gw_step_queue [simp]: "qlen (gw_step op sw) = qlen sw"
proof (cases sw)
  case (Pair s w)
  then show ?thesis
    by (cases op) (auto simp: qlen_def UpdateJobState_def WriteBenchResultBatch_def db_call_def split: option.splits)
qed

lemma gw_steps_queue: "qlen (fold gw_step ops sw) = qlen sw"
  by (induction ops arbitrary: sw) auto

lemma poll_loop_keeps:
  fixes m :: "'s \<Rightarrow> nat"
  assumes "\<And>s. m (snd (get s)) = m s" and "\<And>n lag g s. evs n = PollTick lag g \<Longrightarrow> m (g s) = m s"
  shows "m (snd (poll_loop get None evs n s)) = m s"
proof (induction "1201 - n" arbitrary: n s rule: less_induct)
  case less
  show ?case
  proof (cases "evs n")
    case (PollDone e)
    then show ?thesis by (simp add: poll_loop.simps)
  next
    case (PollTick lag g)
    obtain r s1 where g: "get (g s) = (r, s1)" by (cases "get (g s)")
    have eq: "m s1 = m s" using assms(1) [of "g s"] assms(2) [OF PollTick, of s] g by simp
    show ?thesis
    proof (cases "tick_late n lag")
      case True
      with PollTick assms(2) [OF PollTick, of s] show ?thesis
        unfolding poll_loop.simps [of get None evs n s] by (simp add: tick_late_def)
    next
      case False
      then have "n < 1200" by (auto simp: tick_late_def pollInterval_def pollTimeout_def duration_units)
      then have "1201 - Suc n < 1201 - n" by simp
      from less [OF this, of s1] eq have "m (snd (poll_loop get None evs (Suc n) s1)) = m s" by simp
      with False PollTick g eq show ?thesis
        unfolding poll_loop.simps [of get None evs n s] by (simp add: tick_late_def Let_def split: sum.split)
    qed
  qed
qed

lemma posts_job_other: "meth \<noteq> ''POST'' \<Longrightarrow> posts_job meth path = 0"
  by (simp add: posts_job_def)

lemma between_0: "between 0 u v \<longleftrightarrow> qlen v = qlen u"
  by (auto simp: between_def)

text \<open>The client's other calls queue nothing.\<close>

lemma call_keeps:
  assumes "posts_job meth path = 0"
  shows "qlen (snd (client_call wi (gateway_peer line (cc_baseURL c) env) c meth path query body dec sw)) = qlen sw"
  using client_call_queue [of meth path sw wi line c env query body dec] assms by (simp add: between_0)

lemma calls_keep [simp]:
  "qlen (snd (Client_GetJob wi (gateway_peer line (cc_baseURL c) env) c k sw)) = qlen sw"
  "qlen (snd (Client_GetJobResults wi (gateway_peer line (cc_baseURL c) env) c k sw)) = qlen sw"
  "qlen (snd (Client_GetMetrics wi (gateway_peer line (cc_baseURL c) env) c eng mdl since sw)) = qlen sw"
  "qlen (snd (Client_ListWorkers wi (gateway_peer line (cc_baseURL c) env) c sw)) = qlen sw"
  "qlen (snd (Client_ClassifyWorkload wi (gateway_peer line (cc_baseURL c) env) c inp sw)) = qlen sw"
  unfolding Client_GetJob_def Client_GetJobResults_def Client_GetMetrics_def Client_ListWorkers_def Client_ClassifyWorkload_def
  by (rule call_keeps, simp add: posts_job_def)+

lemma create_queue:
  "qlen (snd (Client_CreateJob wi (gateway_peer line (cc_baseURL c) env) c q sw)) \<le> qlen sw + 1"
proof -
  have "posts_job ''POST'' ''/v1/jobs'' \<le> 1" by (simp add: posts_job_def)
  with client_call_queue [of "''POST''" "''/v1/jobs''" sw wi line c env "[]" "Some (wi_put_job wi q)" "wi_job_response wi"]
  show ?thesis unfolding Client_CreateJob_def between_def by linarith
qed

lemma poll_queue: "qlen (snd (PollJob wi (gateway_peer line (cc_baseURL c) env) c k None (gw_events f i s0) sw)) = qlen sw"
  unfolding PollJob_def
  by (rule poll_loop_keeps [of qlen])
     (auto simp: gw_events_def gw_steps_queue split: sum.splits)

lemma run_benchmark_queue:
  "qlen (snd (AgentPlatform_RunBenchmark (gw_platform e line env c f) spec sw)) \<le> qlen sw + 1"
proof -
  define wi where "wi = gw_wire e"
  define peer :: "(gw_body reply_body, auth_state \<times> gw_db) peer" where "peer = gateway_peer line (cc_baseURL c) env"
  obtain resp s1 where cr: "Client_CreateJob wi peer c (trial_request spec) sw = (resp, s1)"
    by (cases "Client_CreateJob wi peer c (trial_request spec) sw")
  have s1: "qlen s1 \<le> qlen sw + 1" using create_queue [of wi line c env "trial_request spec" sw] cr by (simp add: peer_def)
  show ?thesis
  proof (cases resp)
    case (Inl x)
    with cr s1 show ?thesis by (simp add: AgentPlatform_RunBenchmark_def gw_platform_def wi_def peer_def)
  next
    case (Inr resp')
    define i where "i = jr_JobID resp'"
    obtain r2 s2 where po: "PollJob wi peer c i None (gw_events f i s1) s1 = (r2, s2)"
      by (cases "PollJob wi peer c i None (gw_events f i s1) s1")
    have s2: "qlen s2 = qlen s1" using poll_queue [of wi line c env i f i s1 s1] po by (simp add: peer_def)
    obtain r3 s3 where rs: "Client_GetJobResults wi peer c i s2 = (r3, s3)" by (cases "Client_GetJobResults wi peer c i s2")
    have "qlen (snd (r3, s3)) = qlen s2" unfolding rs [symmetric] peer_def by simp
    then have s3: "qlen s3 = qlen s2" by simp
    have "snd (AgentPlatform_RunBenchmark (gw_platform e line env c f) spec sw) \<in> {s2, s3}"
      using cr Inr po rs
      by (auto simp: AgentPlatform_RunBenchmark_def gw_platform_def wi_def [symmetric] peer_def [symmetric] i_def [symmetric]
          split: sum.splits option.splits)
    with s1 s2 s3 show ?thesis by auto
  qed
qed

lemma cli_env_simps:
  "ae_observer (cli_agent_env p pl) = None" "ae_platform (cli_agent_env p pl) = NewAgentPlatform p"
  "qlen (snd (ae_planner (cli_agent_env p pl) m msgs sw)) = qlen sw"
  by (cases sw; simp add: cli_agent_env_def qlen_def split: prod.split)+

interpretation cli_meter: metered_platform "cli_agent_env (gw_platform e line env c f) planner" qlen
  for e line env c f planner
proof (unfold_locales, goal_cases)
  case (6 spec w)
  then show ?case using run_benchmark_queue by (simp add: cli_env_simps NewAgentPlatform_def)
qed (simp_all add: cli_env_simps NewAgentPlatform_def AgentPlatform_ListWorkers_def AgentPlatform_ClassifyWorkload_def
    AgentPlatform_HistoricalResults_def gw_platform_def case_prod_beta)




end
