(* ===== verification/Operator.thy ===== *)
theory Operator
  imports Http
begin

text \<open>
  The Kubernetes operator of \<open>cmd/operator/main.go\<close> with the resource of \<open>k8s/crds\<close>. The API server, the HTTP
  peer, the JSON library and \<open>SetControllerReference\<close> are fields of the environment and act on a state of
  their own; a client call that writes an object hands back the server's version, which the code then holds.
  \<open>wrap32\<close> is Go's arithmetic on \<open>int32\<close>. Logging is left out; the process start-up is not modelled.
\<close>

section \<open>The resource\<close>

record resource_spec =
  rs_GPUCount :: int
  rs_MemoryGB :: int
  rs_CPUCores :: int

record oi_spec =
  os_Model :: string
  os_Engine :: string
  os_GPUProfile :: string
  os_Replicas :: int
  os_Quantization :: string
  os_TensorParallel :: int
  os_MaxBatchSize :: int
  os_MaxModelLen :: int
  os_Resources :: resource_spec
  os_AutoOptimize :: bool

record oi_status =
  ot_Phase :: string
  ot_Message :: string
  ot_LastOptimizedAt :: "int option"
  ot_CurrentConfig :: string
  ot_BenchmarkJobID :: string
  ot_ObservedGeneration :: int

record optimized_inference =
  oi_Namespace :: string
  oi_Name :: string
  oi_Spec :: oi_spec
  oi_Status :: oi_status

definition set_phase :: "string \<Rightarrow> string \<Rightarrow> optimized_inference \<Rightarrow> optimized_inference" where
  "set_phase p msg oi = oi\<lparr>oi_Status := (oi_Status oi)\<lparr>ot_Phase := p, ot_Message := msg\<rparr>\<rparr>"

section \<open>The deployment\<close>

record probe =
  lp_Path :: string
  lp_Port :: int
  lp_InitialDelaySeconds :: int
  lp_PeriodSeconds :: int

record container =
  ct_Name :: string
  ct_Image :: string
  ct_Args :: "string list"
  ct_Limits :: "(string \<times> string) list"
  ct_Requests :: "(string \<times> string) list"
  ct_Ports :: "(int \<times> string) list"
  ct_LivenessProbe :: probe

record deployment_spec =
  ds_Replicas :: int
  ds_MatchLabels :: "(string \<times> string) list"
  ds_PodLabels :: "(string \<times> string) list"
  ds_Containers :: "container list"

record deployment =
  dp_Namespace :: string
  dp_Name :: string
  dp_Owners :: "string list"
  dp_Spec :: "deployment_spec option"

definition wrap32 :: "int \<Rightarrow> int" where
  "wrap32 x = (x + 2 ^ 31) mod 2 ^ 32 - 2 ^ 31"

definition getContainerImage :: "string \<Rightarrow> string" where
  "getContainerImage engine =
     (if engine = ''vllm'' then ''vllm/vllm-openai:latest''
      else if engine = ''sglang'' then ''lmsysorg/sglang:latest''
      else if engine = ''tensorrt'' then ''nvcr.io/nvidia/tritonserver:24.01-trtllm-python-py3''
      else if engine = ''llamacpp'' then ''ghcr.io/ggerganov/llama.cpp:server''
      else ''vllm/vllm-openai:latest'')"

definition buildContainerArgs :: "oi_spec \<Rightarrow> string list" where
  "buildContainerArgs sp =
     (let args = [''--model'', os_Model sp, ''--port'', ''8000'', ''--host'', ''0.0.0.0''];
          args = (if os_Quantization sp \<noteq> [] then args @ [''--quantization'', os_Quantization sp] else args);
          args = (if os_TensorParallel sp > 0 then args @ [''--tensor-parallel-size'', Itoa (os_TensorParallel sp)] else args);
          args = (if os_MaxBatchSize sp > 0 then args @ [''--max-num-seqs'', Itoa (os_MaxBatchSize sp)] else args)
      in if os_MaxModelLen sp > 0 then args @ [''--max-model-len'', Itoa (os_MaxModelLen sp)] else args)"

definition container_resources :: "resource_spec \<Rightarrow> (string \<times> string) list" where
  "container_resources rs =
     [(''nvidia.com/gpu'', Itoa (rs_GPUCount rs)), (''memory'', Itoa (rs_MemoryGB rs) @ ''Gi''),
      (''cpu'', Itoa (wrap32 (rs_CPUCores rs * 1000)) @ ''m'')]"

definition deployment_name :: "optimized_inference \<Rightarrow> string" where
  "deployment_name oi = ''inferbolt-'' @ oi_Name oi"

definition desired_deployment :: "optimized_inference \<Rightarrow> deployment_spec" where
  "desired_deployment oi =
     (let sp = oi_Spec oi; labels = [(''app'', deployment_name oi)]
      in \<lparr>ds_Replicas = os_Replicas sp, ds_MatchLabels = labels, ds_PodLabels = labels,
          ds_Containers = [\<lparr>ct_Name = ''inference'', ct_Image = getContainerImage (os_Engine sp),
            ct_Args = buildContainerArgs sp, ct_Limits = container_resources (os_Resources sp),
            ct_Requests = container_resources (os_Resources sp), ct_Ports = [(8000, ''TCP'')],
            ct_LivenessProbe = \<lparr>lp_Path = ''/health'', lp_Port = 8000, lp_InitialDelaySeconds = 30, lp_PeriodSeconds = 10\<rparr>\<rparr>]\<rparr>)"

section \<open>The environment\<close>

record bench_request =
  br_Model :: string
  br_Engines :: "string list"
  br_Workload :: workload_config
  br_GPUProfile :: string

record optimization_result =
  op_Quantization :: string
  op_TensorParallel :: int
  op_MaxBatchSize :: int

datatype kube_error = KubeNotFound | KubeError goerr

text \<open>
  \<open>oe_Update\<close> and \<open>oe_StatusUpdate\<close> are \<open>Client.Update\<close> and \<open>Client.Status().Update\<close>: an error, or the object
  as the server now has it. \<open>oe_CreateOrUpdate\<close> takes the key and the mutating function.
\<close>

record ('b, 'k) op_env =
  oe_url :: string
  oe_http :: "('b, 'k) peer"
  oe_Get :: "string \<times> string \<Rightarrow> 'k \<Rightarrow> (kube_error + optimized_inference) \<times> 'k"
  oe_Update :: "optimized_inference \<Rightarrow> 'k \<Rightarrow> optimized_inference res \<times> 'k"
  oe_StatusUpdate :: "optimized_inference \<Rightarrow> 'k \<Rightarrow> optimized_inference res \<times> 'k"
  oe_CreateOrUpdate :: "string \<times> string \<Rightarrow> (deployment \<Rightarrow> deployment res) \<Rightarrow> 'k \<Rightarrow> string res \<times> 'k"
  oe_SetControllerReference :: "optimized_inference \<Rightarrow> deployment \<Rightarrow> deployment res"
  oe_now :: "'k \<Rightarrow> int"
  oe_put_request :: "bench_request \<Rightarrow> string + string"
  oe_put_spec :: "oi_spec \<Rightarrow> string + string"
  oe_job_id :: "'b \<Rightarrow> string + string"
  oe_job_state :: "'b \<Rightarrow> string + string"
  oe_result :: "'b \<Rightarrow> string + optimization_result"

section \<open>The job service\<close>

definition op_request :: "('b, 'k) op_env \<Rightarrow> string \<Rightarrow> string \<Rightarrow> (string \<times> string) list \<Rightarrow> string option \<Rightarrow> http_request" where
  "op_request env meth path hs body =
     \<lparr>hr_Method = meth, hr_URL = oe_url env @ path, hr_Query = [], hr_Headers = hs, hr_Body = body\<rparr>"

text \<open>The three calls differ in the statuses they take, the words of their errors and the decoder.\<close>

definition op_exchange ::
  "('b, 'k) op_env \<Rightarrow> http_request \<Rightarrow> int list \<Rightarrow> string \<Rightarrow> string \<Rightarrow> ('b \<Rightarrow> string + 'a) \<Rightarrow> 'k \<Rightarrow> 'a res \<times> 'k" where
  "op_exchange env q oks doing decoding dec k =
     (case oe_http env q k of
        (NotBuilt e, k) \<Rightarrow> (Inl (Wrap ''create request: '' e []), k)
      | (NotSent e, k) \<Rightarrow> (Inl (Wrap (doing @ '': '') e []), k)
      | (Answer code line b, k) \<Rightarrow>
          (if code \<notin> set oks then Inl (ErrNew (''orchestrator returned status '' @ Itoa code))
           else (case dec b of Inl e \<Rightarrow> Inl (Wrap (decoding @ '': '') (ErrNew e) []) | Inr v \<Rightarrow> Inr v), k))"

definition bench_request_of :: "optimized_inference \<Rightarrow> bench_request" where
  "bench_request_of oi =
     \<lparr>br_Model = os_Model (oi_Spec oi), br_Engines = [os_Engine (oi_Spec oi)],
      br_Workload = \<lparr>Concurrency = 32, PromptTokens = 512, OutputTokens = 256, NumRequests = 200\<rparr>,
      br_GPUProfile = os_GPUProfile (oi_Spec oi)\<rparr>"

definition submitBenchmarkJob :: "('b, 'k) op_env \<Rightarrow> optimized_inference \<Rightarrow> 'k \<Rightarrow> string res \<times> 'k" where
  "submitBenchmarkJob env oi k =
     (case oe_put_request env (bench_request_of oi) of
        Inl e \<Rightarrow> (Inl (Wrap ''marshal job request: '' (ErrNew e) []), k)
      | Inr payload \<Rightarrow>
          op_exchange env (op_request env ''POST'' ''/v1/jobs'' [(''Content-Type'', ''application/json'')] (Some payload))
            [200, 201] ''submit job'' ''decode response'' (oe_job_id env) k)"

definition checkBenchmarkJob :: "('b, 'k) op_env \<Rightarrow> string \<Rightarrow> 'k \<Rightarrow> string res \<times> 'k" where
  "checkBenchmarkJob env jobID =
     op_exchange env (op_request env ''GET'' (''/v1/jobs/'' @ jobID) [] None) [200] ''check job status'' ''decode status''
       (oe_job_state env)"

definition applyOptimization :: "('b, 'k) op_env \<Rightarrow> optimized_inference \<Rightarrow> 'k \<Rightarrow> optimized_inference res \<times> 'k" where
  "applyOptimization env oi k =
     (let (r, k) = op_exchange env (op_request env ''GET'' (''/v1/jobs/'' @ ot_BenchmarkJobID (oi_Status oi) @ ''/results'') [] None)
            [200] ''get results'' ''decode results'' (oe_result env) k
      in (case r of
            Inl e \<Rightarrow> Inl e
          | Inr o' \<Rightarrow> Inr (oi\<lparr>oi_Spec := (oi_Spec oi)\<lparr>os_Quantization := op_Quantization o',
              os_TensorParallel := op_TensorParallel o', os_MaxBatchSize := op_MaxBatchSize o'\<rparr>\<rparr>), k))"

definition reconcileDeployment :: "('b, 'k) op_env \<Rightarrow> optimized_inference \<Rightarrow> 'k \<Rightarrow> goerr option \<times> 'k" where
  "reconcileDeployment env oi k =
     (let (r, k) = oe_CreateOrUpdate env (oi_Namespace oi, deployment_name oi)
            (\<lambda>d. case oe_SetControllerReference env oi d of
                   Inl e \<Rightarrow> Inl e | Inr d \<Rightarrow> Inr (d\<lparr>dp_Spec := Some (desired_deployment oi)\<rparr>)) k
      in (case r of Inl e \<Rightarrow> Some e | Inr _ \<Rightarrow> None, k))"

section \<open>Reconcile\<close>

record reconcile_result =
  rc_Requeue :: bool
  rc_RequeueAfter :: int

definition no_requeue :: reconcile_result where
  "no_requeue = \<lparr>rc_Requeue = False, rc_RequeueAfter = 0\<rparr>"

definition requeue_now :: reconcile_result where
  "requeue_now = \<lparr>rc_Requeue = True, rc_RequeueAfter = 0\<rparr>"

definition requeue_later :: reconcile_result where
  "requeue_later = \<lparr>rc_Requeue = False, rc_RequeueAfter = 30 * Second\<rparr>"

type_synonym 'k reconciled = "(reconcile_result \<times> goerr option) \<times> 'k"

text \<open>Writing the status, with the error returned, or dropped after logging.\<close>

definition write_status :: "('b, 'k) op_env \<Rightarrow> optimized_inference \<Rightarrow> reconcile_result \<Rightarrow> 'k \<Rightarrow> 'k reconciled" where
  "write_status env oi res k =
     (let (u, k) = oe_StatusUpdate env oi k
      in ((case u of Inl e \<Rightarrow> (no_requeue, Some e) | Inr _ \<Rightarrow> (res, None)), k))"

definition record_failure :: "('b, 'k) op_env \<Rightarrow> optimized_inference \<Rightarrow> string \<Rightarrow> goerr option \<Rightarrow> 'k \<Rightarrow> 'k reconciled" where
  "record_failure env oi msg err k =
     (let (u, k) = oe_StatusUpdate env (set_phase ''Failed'' msg oi) k in ((no_requeue, err), k))"

definition start_optimization :: "('b, 'k) op_env \<Rightarrow> optimized_inference \<Rightarrow> 'k \<Rightarrow> 'k reconciled" where
  "start_optimization env oi k =
     (let (r, k) = submitBenchmarkJob env oi k
      in case r of
           Inl e \<Rightarrow> record_failure env oi (''Failed to submit benchmark job: '' @ Error e) (Some e) k
         | Inr jobID \<Rightarrow>
             let oi = set_phase ''Optimizing'' ''Running benchmark for optimization'' oi;
                 oi = oi\<lparr>oi_Status := (oi_Status oi)\<lparr>ot_BenchmarkJobID := jobID\<rparr>\<rparr>
             in write_status env oi requeue_later k)"

definition optimized :: "('b, 'k) op_env \<Rightarrow> optimized_inference \<Rightarrow> 'k \<Rightarrow> optimized_inference \<times> 'k" where
  "optimized env oi k =
     (let (r, k) = applyOptimization env oi k
      in case r of
           Inl e \<Rightarrow> (set_phase ''Failed'' (''Failed to apply optimization: '' @ Error e) oi, k)
         | Inr oi \<Rightarrow>
             let oi = set_phase ''Deploying'' ''Applying optimized configuration'' oi;
                 st = (oi_Status oi)\<lparr>ot_LastOptimizedAt := Some (oe_now env k)\<rparr>;
                 st = (case oe_put_spec env (oi_Spec oi) of Inl _ \<Rightarrow> st | Inr js \<Rightarrow> st\<lparr>ot_CurrentConfig := js\<rparr>)
             in (oi\<lparr>oi_Status := st\<rparr>, k))"

definition check_optimization :: "('b, 'k) op_env \<Rightarrow> optimized_inference \<Rightarrow> 'k \<Rightarrow> 'k reconciled" where
  "check_optimization env oi k =
     (let (r, k) = checkBenchmarkJob env (ot_BenchmarkJobID (oi_Status oi)) k
      in case r of
           Inl _ \<Rightarrow> ((requeue_later, None), k)
         | Inr state \<Rightarrow>
             if state = ''completed'' then
               let (oi, k) = optimized env oi k; (u, k) = oe_Update env oi k
               in (case u of Inl e \<Rightarrow> ((no_requeue, Some e), k) | Inr oi \<Rightarrow> write_status env oi requeue_now k)
             else if state = ''failed'' then record_failure env oi ''Benchmark job failed'' None k
             else ((requeue_later, None), k))"

definition deploy :: "('b, 'k) op_env \<Rightarrow> optimized_inference \<Rightarrow> 'k \<Rightarrow> 'k reconciled" where
  "deploy env oi k =
     (let (err, k) = reconcileDeployment env oi k
      in case err of
           Some e \<Rightarrow> record_failure env oi (''Failed to deploy: '' @ Error e) (Some e) k
         | None \<Rightarrow> write_status env (set_phase ''Running'' ''Deployment is running'' oi) no_requeue k)"

definition Reconcile :: "('b, 'k) op_env \<Rightarrow> string \<times> string \<Rightarrow> 'k \<Rightarrow> 'k reconciled" where
  "Reconcile env key k =
     (let (g, k) = oe_Get env key k
      in case g of
           Inl KubeNotFound \<Rightarrow> ((no_requeue, None), k)
         | Inl (KubeError e) \<Rightarrow> ((no_requeue, Some e), k)
         | Inr oi \<Rightarrow>
             let phase = ot_Phase (oi_Status oi)
             in if phase = [] then write_status env (set_phase ''Pending'' ''Initializing resource'' oi) requeue_now k
                else if os_AutoOptimize (oi_Spec oi) \<and> ot_BenchmarkJobID (oi_Status oi) = [] then start_optimization env oi k
                else if phase = ''Optimizing'' then check_optimization env oi k
                else if phase = ''Deploying'' \<or> phase = ''Pending'' then deploy env oi k
                else ((no_requeue, None), k))"


section \<open>What is relied on in the API server\<close>

definition oi_key :: "optimized_inference \<Rightarrow> string \<times> string" where
  "oi_key oi = (oi_Namespace oi, oi_Name oi)"

text \<open>
  \<open>view\<close> reads the stored resources off the cluster's state. The CRD enables the status subresource, so an
  update writes the spec and leaves the stored status, a status update writes the status and leaves the
  stored spec, and both return what is then stored; a failed write changes nothing; nothing else writes the
  resource while one reconcile runs (a concurrent writer makes the write fail by its resource version).
\<close>

definition written ::
  "(optimized_inference \<Rightarrow> optimized_inference \<Rightarrow> optimized_inference) \<Rightarrow>
   ('k \<Rightarrow> string \<times> string \<Rightarrow> optimized_inference option) \<Rightarrow> optimized_inference \<Rightarrow> 'k \<Rightarrow> optimized_inference res \<times> 'k \<Rightarrow> bool" where
  "written merge view oi k out \<longleftrightarrow>
     (case fst out of
        Inl e \<Rightarrow> view (snd out) = view k
      | Inr new \<Rightarrow> (\<exists>old. view k (oi_key oi) = Some old \<and> new = merge old oi \<and> view (snd out) = (view k)(oi_key oi \<mapsto> new)))"

definition status_of_resource :: "optimized_inference \<Rightarrow> optimized_inference \<Rightarrow> optimized_inference" where
  "status_of_resource old oi = old\<lparr>oi_Status := oi_Status oi\<rparr>"

definition spec_of_resource :: "optimized_inference \<Rightarrow> optimized_inference \<Rightarrow> optimized_inference" where
  "spec_of_resource old oi = old\<lparr>oi_Spec := oi_Spec oi\<rparr>"

definition kube_ok :: "('b, 'k) op_env \<Rightarrow> ('k \<Rightarrow> string \<times> string \<Rightarrow> optimized_inference option) \<Rightarrow> bool" where
  "kube_ok env view \<longleftrightarrow>
     (\<forall>key k. view (snd (oe_Get env key k)) = view k \<and>
        (\<forall>oi. fst (oe_Get env key k) = Inr oi \<longrightarrow> view k key = Some oi \<and> oi_key oi = key)) \<and>
     (\<forall>q k. view (snd (oe_http env q k)) = view k) \<and>
     (\<forall>key f k. view (snd (oe_CreateOrUpdate env key f k)) = view k) \<and>
     (\<forall>oi k. written status_of_resource view oi k (oe_StatusUpdate env oi k)) \<and>
     (\<forall>oi k. written spec_of_resource view oi k (oe_Update env oi k))"

text \<open>The same, in the form the proofs use.\<close>

lemma kube_facts:
  assumes "kube_ok env view"
  shows "oe_Get env key k = (g, k1) \<Longrightarrow> view k1 = view k \<and> (\<forall>oi. g = Inr oi \<longrightarrow> view k key = Some oi \<and> oi_key oi = key)"
    and "oe_http env q k = (a, k2) \<Longrightarrow> view k2 = view k"
    and "oe_CreateOrUpdate env key f k = (d, k3) \<Longrightarrow> view k3 = view k"
    and "oe_StatusUpdate env oi k = (u, k4) \<Longrightarrow> written status_of_resource view oi k (u, k4)"
    and "oe_Update env oi k = (u, k5) \<Longrightarrow> written spec_of_resource view oi k (u, k5)"
  using assms unfolding kube_ok_def by (metis fst_conv snd_conv)+

section \<open>The phases\<close>

text \<open>
  The state machine of one resource: what a reconcile may do to its stored status. In \<open>tuned\<close> only the spec
  changes: the status that was set before the update is lost.
\<close>

inductive phase_step :: "optimized_inference \<Rightarrow> optimized_inference \<Rightarrow> bool" where
  initialized: "ot_Phase (oi_Status oi) = [] \<Longrightarrow> phase_step oi (set_phase ''Pending'' ''Initializing resource'' oi)"
| submitted: "ot_Phase (oi_Status oi) \<noteq> [] \<Longrightarrow> os_AutoOptimize (oi_Spec oi) \<Longrightarrow> ot_BenchmarkJobID (oi_Status oi) = [] \<Longrightarrow>
    phase_step oi (oi\<lparr>oi_Status := (oi_Status (set_phase ''Optimizing'' ''Running benchmark for optimization'' oi))
      \<lparr>ot_BenchmarkJobID := jobID\<rparr>\<rparr>)"
| not_submitted: "ot_Phase (oi_Status oi) \<noteq> [] \<Longrightarrow> os_AutoOptimize (oi_Spec oi) \<Longrightarrow> ot_BenchmarkJobID (oi_Status oi) = [] \<Longrightarrow>
    phase_step oi (set_phase ''Failed'' msg oi)"
| benchmark_failed: "ot_Phase (oi_Status oi) = ''Optimizing'' \<Longrightarrow> \<not> (os_AutoOptimize (oi_Spec oi) \<and> ot_BenchmarkJobID (oi_Status oi) = []) \<Longrightarrow>
    phase_step oi (set_phase ''Failed'' ''Benchmark job failed'' oi)"
| tuned: "ot_Phase (oi_Status oi) = ''Optimizing'' \<Longrightarrow> \<not> (os_AutoOptimize (oi_Spec oi) \<and> ot_BenchmarkJobID (oi_Status oi) = []) \<Longrightarrow>
    phase_step oi (oi\<lparr>oi_Spec := (oi_Spec oi)\<lparr>os_Quantization := q, os_TensorParallel := tp, os_MaxBatchSize := bs\<rparr>\<rparr>)"
| running: "ot_Phase (oi_Status oi) \<in> {''Deploying'', ''Pending''} \<Longrightarrow> \<not> (os_AutoOptimize (oi_Spec oi) \<and> ot_BenchmarkJobID (oi_Status oi) = []) \<Longrightarrow>
    phase_step oi (set_phase ''Running'' ''Deployment is running'' oi)"
| not_deployed: "ot_Phase (oi_Status oi) \<in> {''Deploying'', ''Pending''} \<Longrightarrow> \<not> (os_AutoOptimize (oi_Spec oi) \<and> ot_BenchmarkJobID (oi_Status oi) = []) \<Longrightarrow>
    phase_step oi (set_phase ''Failed'' msg oi)"

inductive_cases phase_step_elim: "phase_step oi oi'"

text \<open>The part of a reconcile after the read, on the resource \<open>oi\<close> that is stored under its key.\<close>

definition stepped ::
  "('k \<Rightarrow> string \<times> string \<Rightarrow> optimized_inference option) \<Rightarrow> optimized_inference \<Rightarrow> 'k \<Rightarrow> 'k \<Rightarrow> bool" where
  "stepped view oi k k' \<longleftrightarrow> view k' = view k \<or> (\<exists>oi'. view k' = (view k)(oi_key oi \<mapsto> oi') \<and> phase_step oi oi')"

lemma key_writes [simp]: "oi_key (set_phase p m oi) = oi_key oi" "oi_key (oi\<lparr>oi_Status := st\<rparr>) = oi_key oi"
  "oi_key (oi\<lparr>oi_Spec := sp\<rparr>) = oi_key oi" "oi_Spec (set_phase p m oi) = oi_Spec oi"
  by (simp_all add: oi_key_def set_phase_def)

lemma status_write:
  assumes "kube_ok env view" and "oe_StatusUpdate env new k = (u, k')" and "view k (oi_key oi) = Some oi" and "oi_key new = oi_key oi"
    and "phase_step oi (oi\<lparr>oi_Status := oi_Status new\<rparr>)"
  shows "stepped view oi k k'"
  using kube_facts(4) [OF assms(1,2)] assms(3-5)
  by (auto simp: written_def status_of_resource_def stepped_def split: sum.splits)

lemma write_status_step:
  assumes "kube_ok env view" and "write_status env new res k = (r, k')" and "view k (oi_key oi) = Some oi" and "oi_key new = oi_key oi"
    and "phase_step oi (oi\<lparr>oi_Status := oi_Status new\<rparr>)"
  shows "stepped view oi k k'"
proof -
  obtain u k1 where u: "oe_StatusUpdate env new k = (u, k1)" by (cases "oe_StatusUpdate env new k")
  with assms(2) have "k' = k1" by (simp add: write_status_def)
  with status_write [OF assms(1) u assms(3-5)] show ?thesis by simp
qed

lemma record_failure_step:
  assumes "kube_ok env view" and "record_failure env oi msg err k = (r, k')" and "view k (oi_key oi) = Some oi"
    and "phase_step oi (set_phase ''Failed'' msg oi)"
  shows "stepped view oi k k'"
proof -
  obtain u k1 where u: "oe_StatusUpdate env (set_phase ''Failed'' msg oi) k = (u, k1)"
    by (cases "oe_StatusUpdate env (set_phase ''Failed'' msg oi) k")
  with assms(2) have "k' = k1" by (simp add: record_failure_def)
  moreover have "oi\<lparr>oi_Status := oi_Status (set_phase ''Failed'' msg oi)\<rparr> = set_phase ''Failed'' msg oi" by (simp add: set_phase_def)
  ultimately show ?thesis using status_write [OF assms(1) u assms(3)] assms(4) by simp
qed

lemma exchange_view:
  assumes "kube_ok env view" and "op_exchange env q oks doing decoding dec k = (r, k')"
  shows "view k' = view k"
proof -
  obtain a k1 where a: "oe_http env q k = (a, k1)" by (cases "oe_http env q k")
  from kube_facts(2) [OF assms(1) a] assms(2) a show ?thesis by (auto simp: op_exchange_def split: http_answer.splits)
qed

lemma submit_view: "kube_ok env view \<Longrightarrow> submitBenchmarkJob env oi k = (r, k') \<Longrightarrow> view k' = view k"
  by (auto simp: submitBenchmarkJob_def split: sum.splits dest: exchange_view)

lemma check_view: "kube_ok env view \<Longrightarrow> checkBenchmarkJob env i k = (r, k') \<Longrightarrow> view k' = view k"
  by (auto simp: checkBenchmarkJob_def dest: exchange_view)

definition retuned :: "oi_spec \<Rightarrow> oi_spec \<Rightarrow> bool" where
  "retuned sp sp' \<longleftrightarrow> (\<exists>q tp bs. sp' = sp\<lparr>os_Quantization := q, os_TensorParallel := tp, os_MaxBatchSize := bs\<rparr>)"

lemma retuned_intros [simp]:
  "retuned sp (sp\<lparr>os_Quantization := q, os_TensorParallel := tp, os_MaxBatchSize := bs\<rparr>)" "retuned sp sp"
proof -
  show "retuned sp (sp\<lparr>os_Quantization := q, os_TensorParallel := tp, os_MaxBatchSize := bs\<rparr>)"
    unfolding retuned_def by blast
  have "sp = sp\<lparr>os_Quantization := os_Quantization sp, os_TensorParallel := os_TensorParallel sp, os_MaxBatchSize := os_MaxBatchSize sp\<rparr>"
    by simp
  then show "retuned sp sp" unfolding retuned_def by blast
qed

lemma optimized_view:
  assumes "kube_ok env view" and "optimized env oi k = (oi', k')"
  shows "view k' = view k \<and> oi_key oi' = oi_key oi \<and> retuned (oi_Spec oi) (oi_Spec oi')"
proof -
  obtain r k1 where r: "op_exchange env (op_request env ''GET'' (''/v1/jobs/'' @ ot_BenchmarkJobID (oi_Status oi) @ ''/results'') [] None)
      [200] ''get results'' ''decode results'' (oe_result env) k = (r, k1)"
    by (metis prod.collapse)
  have v: "view k1 = view k" by (rule exchange_view [OF assms(1) r])
  show ?thesis
  proof (cases r)
    case (Inl e)
    with assms(2) r v show ?thesis by (auto simp: optimized_def applyOptimization_def Let_def)
  next
    case (Inr res)
    with assms(2) r have "k' = k1" "oi_key oi' = oi_key oi" "oi_Spec oi' = (oi_Spec oi)\<lparr>os_Quantization := op_Quantization res,
        os_TensorParallel := op_TensorParallel res, os_MaxBatchSize := op_MaxBatchSize res\<rparr>"
      by (auto simp: optimized_def applyOptimization_def Let_def)
    with v show ?thesis by simp
  qed
qed


lemma stepped_view: "view k1 = view k \<Longrightarrow> stepped view oi k1 k' \<Longrightarrow> stepped view oi k k'"
  by (simp add: stepped_def)

lemma start_step:
  assumes "kube_ok env view" and "view k (oi_key oi) = Some oi" and "ot_Phase (oi_Status oi) \<noteq> []"
    and "os_AutoOptimize (oi_Spec oi)" and "ot_BenchmarkJobID (oi_Status oi) = []" and "start_optimization env oi k = (r, k')"
  shows "stepped view oi k k'"
proof -
  obtain x k1 where x: "submitBenchmarkJob env oi k = (x, k1)" by (cases "submitBenchmarkJob env oi k")
  have v: "view k1 = view k" by (rule submit_view [OF assms(1) x])
  have "stepped view oi k1 k'"
  proof (cases x)
    case (Inl e)
    with assms(6) x have rf: "record_failure env oi (''Failed to submit benchmark job: '' @ Error e) (Some e) k1 = (r, k')"
      by (simp add: start_optimization_def)
    show ?thesis by (rule record_failure_step [OF assms(1) rf]) (use assms(2-5) v in \<open>auto intro: not_submitted\<close>)
  next
    case (Inr j)
    let ?new = "(set_phase ''Optimizing'' ''Running benchmark for optimization'' oi)
      \<lparr>oi_Status := (oi_Status (set_phase ''Optimizing'' ''Running benchmark for optimization'' oi))\<lparr>ot_BenchmarkJobID := j\<rparr>\<rparr>"
    from Inr assms(6) x have ws: "write_status env ?new requeue_later k1 = (r, k')"
      by (simp only: start_optimization_def Let_def prod.case sum.case)
    show ?thesis
    proof (rule write_status_step [OF assms(1) ws])
      show "phase_step oi (oi\<lparr>oi_Status := oi_Status ?new\<rparr>)"
        using submitted [OF assms(3-5), of j] by simp
    qed (use assms(2) v in simp_all)
  qed
  with v show ?thesis by (rule stepped_view)
qed

lemma check_step:
  assumes "kube_ok env view" and "view k (oi_key oi) = Some oi" and "ot_Phase (oi_Status oi) = ''Optimizing''"
    and "\<not> (os_AutoOptimize (oi_Spec oi) \<and> ot_BenchmarkJobID (oi_Status oi) = [])" and "check_optimization env oi k = (r, k')"
  shows "stepped view oi k k'"
proof -
  obtain x k1 where x: "checkBenchmarkJob env (ot_BenchmarkJobID (oi_Status oi)) k = (x, k1)"
    by (cases "checkBenchmarkJob env (ot_BenchmarkJobID (oi_Status oi)) k")
  have v: "view k1 = view k" by (rule check_view [OF assms(1) x])
  have "stepped view oi k1 k'"
  proof (cases "x = Inr ''completed''")
    case False
    show ?thesis
    proof (cases "x = Inr ''failed''")
      case True
      with assms(5) x have rf: "record_failure env oi ''Benchmark job failed'' None k1 = (r, k')"
        by (simp add: check_optimization_def)
      show ?thesis by (rule record_failure_step [OF assms(1) rf]) (use assms(2-4) v in \<open>auto intro: benchmark_failed\<close>)
    next
      case f: False
      with False assms(5) x have "k' = k1" by (auto simp: check_optimization_def split: sum.splits if_splits)
      then show ?thesis by (simp add: stepped_def)
    qed
  next
    case True
    obtain new k2 where o: "optimized env oi k1 = (new, k2)" by (cases "optimized env oi k1")
    obtain u k3 where u: "oe_Update env new k2 = (u, k3)" by (cases "oe_Update env new k2")
    from True assms(5) x o u have rest: "(r, k') = (case u of Inl e \<Rightarrow> ((no_requeue, Some e), k3) | Inr oi \<Rightarrow> write_status env oi requeue_now k3)"
      by (simp add: check_optimization_def)
    note ov = optimized_view [OF assms(1) o] and w = kube_facts(5) [OF assms(1) u]
    have v2: "view k2 = view k" "oi_key new = oi_key oi" using ov v by simp_all
    show ?thesis
    proof (cases u)
      case (Inl e)
      with rest w v2 v show ?thesis by (simp add: written_def stepped_def)
    next
      case (Inr got)
      with w v2 assms(2) have got: "got = oi\<lparr>oi_Spec := oi_Spec new\<rparr>" and v3: "view k3 = (view k)(oi_key oi \<mapsto> got)"
        by (auto simp: written_def spec_of_resource_def)
      from ov obtain q tp bs where sp: "oi_Spec new = (oi_Spec oi)\<lparr>os_Quantization := q, os_TensorParallel := tp, os_MaxBatchSize := bs\<rparr>"
        unfolding retuned_def by blast
      have step: "phase_step oi got" unfolding got sp by (rule tuned [OF assms(3,4)])
      obtain u4 k4 where u4: "oe_StatusUpdate env got k3 = (u4, k4)" by (cases "oe_StatusUpdate env got k3")
      with rest Inr have "k' = k4" by (simp add: write_status_def)
      moreover have "view k4 = (view k)(oi_key oi \<mapsto> got)"
        using kube_facts(4) [OF assms(1) u4] v3 got
        by (auto simp: written_def status_of_resource_def split: sum.splits)
      ultimately show ?thesis using step v by (auto simp: stepped_def)
    qed
  qed
  with v show ?thesis by (rule stepped_view)
qed

lemma deploy_step:
  assumes "kube_ok env view" and "view k (oi_key oi) = Some oi" and "ot_Phase (oi_Status oi) \<in> {''Deploying'', ''Pending''}"
    and "\<not> (os_AutoOptimize (oi_Spec oi) \<and> ot_BenchmarkJobID (oi_Status oi) = [])" and "deploy env oi k = (r, k')"
  shows "stepped view oi k k'"
proof -
  obtain d k1 where d: "oe_CreateOrUpdate env (oi_Namespace oi, deployment_name oi)
      (\<lambda>d. case oe_SetControllerReference env oi d of
         Inl e \<Rightarrow> Inl e | Inr d \<Rightarrow> Inr (d\<lparr>dp_Spec := Some (desired_deployment oi)\<rparr>)) k = (d, k1)"
    by (metis prod.collapse)
  have v: "view k1 = view k" by (rule kube_facts(3) [OF assms(1) d])
  have "stepped view oi k1 k'"
  proof (cases d)
    case (Inl e)
    with assms(5) d have rf: "record_failure env oi (''Failed to deploy: '' @ Error e) (Some e) k1 = (r, k')"
      by (simp add: deploy_def reconcileDeployment_def)
    show ?thesis by (rule record_failure_step [OF assms(1) rf]) (use assms(2) v in \<open>auto intro: not_deployed [OF assms(3,4)]\<close>)
  next
    case (Inr x)
    with assms(5) d have ws: "write_status env (set_phase ''Running'' ''Deployment is running'' oi) no_requeue k1 = (r, k')"
      by (simp add: deploy_def reconcileDeployment_def)
    have "oi\<lparr>oi_Status := oi_Status (set_phase ''Running'' ''Deployment is running'' oi)\<rparr> = set_phase ''Running'' ''Deployment is running'' oi"
      by (simp add: set_phase_def)
    with running [OF assms(3,4)] show ?thesis
      by (intro write_status_step [OF assms(1) ws]) (use assms(2) v in simp_all)
  qed
  with v show ?thesis by (rule stepped_view)
qed


lemma Reconcile_step:
  assumes "kube_ok env view" and "Reconcile env key k = (r, k')"
  shows "view k' = view k \<or> (\<exists>oi oi'. view k key = Some oi \<and> view k' = (view k)(key \<mapsto> oi') \<and> phase_step oi oi')"
proof -
  obtain g k1 where g: "oe_Get env key k = (g, k1)" by (cases "oe_Get env key k")
  note get = kube_facts(1) [OF assms(1) g]
  show ?thesis
  proof (cases g)
    case (Inl e)
    with assms(2) g get show ?thesis by (auto simp: Reconcile_def split: kube_error.splits)
  next
    case (Inr oi)
    with get have oi: "view k1 (oi_key oi) = Some oi" and key: "key = oi_key oi" and v: "view k1 = view k" by auto
    define rest where "rest = (let phase = ot_Phase (oi_Status oi)
      in if phase = [] then write_status env (set_phase ''Pending'' ''Initializing resource'' oi) requeue_now k1
         else if os_AutoOptimize (oi_Spec oi) \<and> ot_BenchmarkJobID (oi_Status oi) = [] then start_optimization env oi k1
         else if phase = ''Optimizing'' then check_optimization env oi k1
         else if phase = ''Deploying'' \<or> phase = ''Pending'' then deploy env oi k1
         else ((no_requeue, None), k1))"
    have rest: "rest = (r, k')" using assms(2) g Inr by (simp add: Reconcile_def rest_def Let_def)
    have "stepped view oi k1 k'"
    proof (cases "ot_Phase (oi_Status oi) = []")
      case True
      with rest have ws: "write_status env (set_phase ''Pending'' ''Initializing resource'' oi) requeue_now k1 = (r, k')"
        by (simp add: rest_def)
      have "oi\<lparr>oi_Status := oi_Status (set_phase ''Pending'' ''Initializing resource'' oi)\<rparr> = set_phase ''Pending'' ''Initializing resource'' oi"
        by (simp add: set_phase_def)
      with initialized [OF True] show ?thesis by (intro write_status_step [OF assms(1) ws oi]) simp_all
    next
      case ph: False
      show ?thesis
      proof (cases "os_AutoOptimize (oi_Spec oi) \<and> ot_BenchmarkJobID (oi_Status oi) = []")
        case True
        with rest ph have "start_optimization env oi k1 = (r, k')" by (simp add: rest_def)
        with True show ?thesis by (intro start_step [OF assms(1) oi ph]) auto
      next
        case False
        consider "ot_Phase (oi_Status oi) = ''Optimizing''" | "ot_Phase (oi_Status oi) \<in> {''Deploying'', ''Pending''}"
          | "ot_Phase (oi_Status oi) \<notin> {''Optimizing'', ''Deploying'', ''Pending''}" by blast
        then show ?thesis
        proof cases
          case 1
          with rest ph False have "check_optimization env oi k1 = (r, k')" by (simp add: rest_def)
          with 1 False show ?thesis by (intro check_step [OF assms(1) oi])
        next
          case 2
          with rest ph False have "deploy env oi k1 = (r, k')" by (auto simp: rest_def)
          with 2 False show ?thesis by (intro deploy_step [OF assms(1) oi])
        next
          case 3
          with rest ph False have "k' = k1" by (auto simp: rest_def)
          then show ?thesis by (simp add: stepped_def)
        qed
      qed
    qed
    with oi key v show ?thesis by (auto simp: stepped_def)
  qed
qed


section \<open>A cluster to run on\<close>

text \<open>The stored resources as a map, every write accepted; the job service always gives one answer.\<close>

definition demo_op :: "unit http_answer \<Rightarrow> (unit, string \<times> string \<Rightarrow> optimized_inference option) op_env" where
  "demo_op a = \<lparr>oe_url = ''http://o'', oe_http = (\<lambda>q k. (a, k)),
     oe_Get = (\<lambda>key k. (case k key of None \<Rightarrow> Inl KubeNotFound
        | Some oi \<Rightarrow> if oi_key oi = key then Inr oi else Inl KubeNotFound, k)),
     oe_Update = (\<lambda>oi k. case k (oi_key oi) of None \<Rightarrow> (Inl (ErrNew ''not found''), k)
        | Some old \<Rightarrow> (Inr (spec_of_resource old oi), k(oi_key oi \<mapsto> spec_of_resource old oi))),
     oe_StatusUpdate = (\<lambda>oi k. case k (oi_key oi) of None \<Rightarrow> (Inl (ErrNew ''not found''), k)
        | Some old \<Rightarrow> (Inr (status_of_resource old oi), k(oi_key oi \<mapsto> status_of_resource old oi))),
     oe_CreateOrUpdate = (\<lambda>key f k. (Inr ''created'', k)), oe_SetControllerReference = (\<lambda>oi d. Inr d),
     oe_now = (\<lambda>k. 0), oe_put_request = (\<lambda>q. Inr ''{}''), oe_put_spec = (\<lambda>s. Inr ''{}''),
     oe_job_id = (\<lambda>b. Inr ''j''), oe_job_state = (\<lambda>b. Inr ''completed''),
     oe_result = (\<lambda>b. Inr \<lparr>op_Quantization = ''fp8'', op_TensorParallel = 2, op_MaxBatchSize = 64\<rparr>)\<rparr>"

lemma demo_op_ok: "kube_ok (demo_op a) (\<lambda>k. k)"
  by (auto simp: kube_ok_def demo_op_def written_def split: option.splits)

definition demo_oi :: "string \<Rightarrow> string \<Rightarrow> optimized_inference" where
  "demo_oi phase j = \<lparr>oi_Namespace = ''ns'', oi_Name = ''x'',
     oi_Spec = \<lparr>os_Model = ''m'', os_Engine = ''vllm'', os_GPUProfile = ''a100'', os_Replicas = 1, os_Quantization = [],
       os_TensorParallel = 0, os_MaxBatchSize = 0, os_MaxModelLen = 0,
       os_Resources = \<lparr>rs_GPUCount = 1, rs_MemoryGB = 8, rs_CPUCores = 4\<rparr>, os_AutoOptimize = True\<rparr>,
     oi_Status = \<lparr>ot_Phase = phase, ot_Message = [], ot_LastOptimizedAt = None, ot_CurrentConfig = [],
       ot_BenchmarkJobID = j, ot_ObservedGeneration = 0\<rparr>\<rparr>"

text \<open>A completed benchmark: the spec is tuned, the phase is still the old one.\<close>

lemma demo_completed:
  "Reconcile (demo_op (Answer 200 ''200 OK'' ())) (''ns'', ''x'') [(''ns'', ''x'') \<mapsto> demo_oi ''Optimizing'' ''j''] =
     ((requeue_now, None), [(''ns'', ''x'') \<mapsto> (demo_oi ''Optimizing'' ''j'')
        \<lparr>oi_Spec := (oi_Spec (demo_oi ''Optimizing'' ''j''))\<lparr>os_Quantization := ''fp8'', os_TensorParallel := 2, os_MaxBatchSize := 64\<rparr>\<rparr>])"
  by (simp add: Reconcile_def demo_op_def demo_oi_def oi_key_def check_optimization_def checkBenchmarkJob_def op_exchange_def
      optimized_def applyOptimization_def Let_def set_phase_def spec_of_resource_def status_of_resource_def write_status_def)



section \<open>Automatic optimization never deploys\<close>

definition blank_status :: oi_status where
  "blank_status = \<lparr>ot_Phase = [], ot_Message = [], ot_LastOptimizedAt = None, ot_CurrentConfig = [], ot_BenchmarkJobID = [],
     ot_ObservedGeneration = 0\<rparr>"

text \<open>
  The cluster states in the life of one resource that asks for automatic optimization: it is created with an
  empty status, then reconciled any number of times while its owner edits the spec (keeping the request)
  and the rest of the cluster does as it likes.
\<close>

inductive op_reach ::
  "('b, 'k) op_env \<Rightarrow> ('k \<Rightarrow> string \<times> string \<Rightarrow> optimized_inference option) \<Rightarrow> string \<times> string \<Rightarrow> 'k \<Rightarrow> bool"
  for env view key where
  created: "view k key = Some oi \<Longrightarrow> oi_Status oi = blank_status \<Longrightarrow> os_AutoOptimize (oi_Spec oi) \<Longrightarrow> op_reach env view key k"
| reconciled: "op_reach env view key k \<Longrightarrow> Reconcile env key k = (r, k') \<Longrightarrow> op_reach env view key k'"
| edited: "op_reach env view key k \<Longrightarrow> view k key = Some oi \<Longrightarrow> view k' key = Some (oi\<lparr>oi_Spec := sp\<rparr>) \<Longrightarrow> os_AutoOptimize sp \<Longrightarrow>
    op_reach env view key k'"
| elsewhere: "op_reach env view key k \<Longrightarrow> view k' key = view k key \<Longrightarrow> op_reach env view key k'"

definition tuning :: "optimized_inference \<Rightarrow> bool" where
  "tuning oi \<longleftrightarrow> os_AutoOptimize (oi_Spec oi) \<and> ot_Phase (oi_Status oi) \<in> {[], ''Pending'', ''Optimizing'', ''Failed''} \<and>
     (ot_Phase (oi_Status oi) \<in> {[], ''Pending''} \<longrightarrow> ot_BenchmarkJobID (oi_Status oi) = [])"

lemma tuning_step: "phase_step oi oi' \<Longrightarrow> tuning oi \<Longrightarrow> tuning oi'"
  by (erule phase_step_elim) (auto simp: tuning_def set_phase_def)

lemma op_reach_tuning: "op_reach env view key k \<Longrightarrow> kube_ok env view \<Longrightarrow> \<exists>oi. view k key = Some oi \<and> tuning oi"
proof (induction rule: op_reach.induct)
  case (created k oi)
  then show ?case by (auto simp: tuning_def blank_status_def)
next
  case (reconciled k r k')
  with Reconcile_step [OF reconciled.prems reconciled.hyps(2)] show ?case by (auto dest: tuning_step)
next
  case (edited k oi k' sp)
  then show ?case by (auto simp: tuning_def)
next
  case (elsewhere k k')
  then show ?case by auto
qed



section \<open>The operator and the gateway\<close>

text \<open>A submission counts only when it is answered 200 or 201; the gateway accepts a job with 202.\<close>

lemma submission_status:
  "oe_http env q k = (Answer code line b, k') \<Longrightarrow> code \<notin> {200, 201} \<Longrightarrow>
     op_exchange env q [200, 201] d1 d2 dec k = (Inl (ErrNew (''orchestrator returned status '' @ Itoa code)), k')"
  by (simp add: op_exchange_def)

text \<open>C33: The operator cannot submit to the gateway. It sends no token, so whatever the state and the request, the
  gateway turns the submission down: no job is stored, nothing is queued, and the operator has an error.\<close>

theorem operator_cannot_submit:
  fixes w :: "'w gw_db_scheme"
  assumes "\<And>q c s w. oe_http env q (c, s, w) = (let (a, sw) = gateway_peer line (oe_url env) ge q (s, w) in (a, c, sw))"
    and "submitBenchmarkJob env oi (c, s, w) = (r, c', s', w')"
  shows "isErr r \<and> c' = c \<and> t_jobs w' = t_jobs w \<and> q_benchmarks w' = q_benchmarks w"
proof (cases "oe_put_request env (bench_request_of oi)")
  case (Inl e)
  with assms(2) show ?thesis by (auto simp: submitBenchmarkJob_def)
next
  case (Inr payload)
  define q where "q = op_request env ''POST'' ''/v1/jobs'' [(''Content-Type'', ''application/json'')] (Some payload)"
  define rq where "rq = served_request (oe_url env) q"
  have url: "HasPrefix (hr_URL q) (oe_url env)" by (simp add: q_def op_request_def)
  have rq: "rq_Origin rq = []" "rq_Path rq = [''v1'', ''jobs'']" "rq_Method rq = ''POST''" "rq_Authorization rq = []"
    by (simp_all add: rq_def q_def served_request_def op_request_def header_of_def)
  obtain i w0 where i: "request_id rq w = (i, w0)" by (cases "request_id rq w")
  have w0: "t_jobs w0 = t_jobs w" "q_benchmarks w0 = q_benchmarks w"
    using request_id_world [of rq w] i by (auto simp: rand_adv_def)
  have "routes [''v1'', ''jobs''] = [(''POST'', EpCreateJob), (''GET'', EpListJobs)]" by (simp add: routes_def)
  then have m: "mux ge (rq\<lparr>rq_requestID := i\<rparr>) (s, w0) = (writeJSONError 401 ''missing authorization header'', s, w0)"
    using rq by (simp add: mux_def guarded_def AuthMiddleware_def HasPrefix_def)
  from gateway_without_origin [OF rq(1) i m [unfolded writeJSONError_def]] obtain hs b s1 where
    g: "gateway ge rq (s, w) = (Response 401 hs b, s1, w0)" by blast
  with assms(1) url have h: "oe_http env q (c, s, w) = (Answer 401 (line 401) b, c, s1, w0)"
    by (simp add: gateway_peer_def rq_def)
  with assms(2) Inr have "r = Inl (ErrNew (''orchestrator returned status '' @ Itoa 401))" "(c', s', w') = (c, s1, w0)"
    by (simp_all add: submitBenchmarkJob_def op_exchange_def q_def)
  with w0 show ?thesis by simp
qed


definition demo_op_gw :: "(gw_body reply_body, unit \<times> auth_state \<times> gw_db) op_env" where
  "demo_op_gw = \<lparr>oe_url = ''http://g'',
     oe_http = (\<lambda>q (c, s, w). let (a, sw) = gateway_peer Itoa ''http://g'' demo_gw q (s, w) in (a, c, sw)),
     oe_Get = (\<lambda>key k. (Inl KubeNotFound, k)), oe_Update = (\<lambda>oi k. (Inr oi, k)), oe_StatusUpdate = (\<lambda>oi k. (Inr oi, k)),
     oe_CreateOrUpdate = (\<lambda>key f k. (Inr [], k)), oe_SetControllerReference = (\<lambda>oi d. Inr d), oe_now = (\<lambda>k. 0),
     oe_put_request = (\<lambda>q. Inr ''{}''), oe_put_spec = (\<lambda>s. Inr ''{}''), oe_job_id = (\<lambda>b. Inr []),
     oe_job_state = (\<lambda>b. Inr []), oe_result = (\<lambda>b. Inl [])\<rparr>"

theorem operator_cannot_submit_witness:
  "\<exists>e c s w. submitBenchmarkJob demo_op_gw (demo_oi ''Pending'' []) ((), empty_auth, demo_gw_db []) = (Inl e, c, s, w) \<and> t_jobs w = []"
proof -
  obtain r c' s' w' where sub: "submitBenchmarkJob demo_op_gw (demo_oi ''Pending'' []) ((), empty_auth, demo_gw_db []) = (r, c', s', w')"
    by (metis prod.collapse)
  have http: "oe_http demo_op_gw q (c, s, w) = (let (a, sw) = gateway_peer Itoa (oe_url demo_op_gw) demo_gw q (s, w) in (a, c, sw))"
    for q c s w by (simp add: demo_op_gw_def)
  from operator_cannot_submit [of demo_op_gw Itoa demo_gw, OF http sub] sub show ?thesis
    by (cases r) auto
qed

end
