(* ===== verification/CliText.thy ===== *)
theory CliText
  imports Client GoTime
begin

text \<open>
  The text functions of the command line tool (\<open>cmd/inferbolt\<close>): what it reads from flags (\<open>splitCSV\<close>,
  \<open>parseSince\<close>) and how it lays out what it prints (\<open>indentWrap\<close>, \<open>configSummary\<close>, \<open>humanTokens\<close>, \<open>truncate\<close>
  and the comparison of engines). White space is that of ASCII; the table library is not modelled, a table is
  its rows and the colours of its cells.
\<close>

section \<open>Lists in flags\<close>

definition splitCSV :: "string \<Rightarrow> string list" where
  "splitCSV s =
     (let s = TrimSuffix (TrimPrefix (TrimSpace s) ''['') '']''
      in if s = [] then [] else filter (\<lambda>t. t \<noteq> []) (map TrimSpace (Split (CHR '','') s)))"

definition trimmed :: "string \<Rightarrow> bool" where
  "trimmed s \<longleftrightarrow> s \<noteq> [] \<and> \<not> is_space (hd s) \<and> \<not> is_space (last s)"

lemma TrimSpace_trimmed: "trimmed s \<Longrightarrow> TrimSpace s = s"
proof -
  assume t: "trimmed s"
  then have d: "dropWhile is_space s = s" by (cases s) (auto simp: trimmed_def)
  from t have "rev s \<noteq> []" "\<not> is_space (hd (rev s))" by (simp_all add: trimmed_def hd_rev)
  then have "dropWhile is_space (rev s) = rev s" by (cases "rev s") auto
  with d show ?thesis by (simp add: TrimSpace_def)
qed

lemma trimmed_TrimSpace: "TrimSpace s \<noteq> [] \<Longrightarrow> trimmed (TrimSpace s)"
  by (simp add: trimmed_def TrimSpace_hd TrimSpace_last)

lemma set_TrimSpace: "set (TrimSpace s) \<subseteq> set s"
  unfolding TrimSpace_def by (auto dest!: set_dropWhileD)

lemma Split_Join:
  "xs \<noteq> [] \<Longrightarrow> \<forall>x\<in>set xs. sep \<notin> set x \<Longrightarrow> Split sep (Join [sep] xs) = xs"
proof (induction xs)
  case (Cons x xs)
  show ?case
  proof (cases xs)
    case Nil
    with Cons.prems show ?thesis by (induction x) auto
  next
    case (Cons y ys)
    have pre: "Split sep (a @ sep # b) = a # Split sep b" if "sep \<notin> set a" for a b
      using that by (induction a) auto
    from Cons Cons.prems Cons.IH show ?thesis by (auto simp: pre)
  qed
qed simp

lemma Join_ends:
  "xs \<noteq> [] \<Longrightarrow> \<forall>x\<in>set xs. x \<noteq> [] \<Longrightarrow> Join sep xs \<noteq> [] \<and> hd (Join sep xs) = hd (hd xs) \<and> last (Join sep xs) = last (last xs)"
proof (induction xs)
  case (Cons x xs)
  then show ?case by (cases xs) auto
qed simp

lemma drop_last: "l \<noteq> [] \<Longrightarrow> drop (length l - 1) l = [last l]"
  by (metis append_butlast_last_id append_eq_conv_conj length_butlast)

text \<open>Lists in flags. Whatever the text, no entry \<open>splitCSV\<close> returns is empty, starts or ends with white space or
  has a comma; and a list of such entries (not opening or closing with a bracket) comes back from its own text,
  also when the text is wrapped in brackets, as the flags allow.\<close>

theorem splitCSV_spec:
  assumes "xs \<noteq> []" and "\<forall>x\<in>set xs. trimmed x \<and> CHR '','' \<notin> set x" and "hd (hd xs) \<noteq> CHR ''[''" and "last (last xs) \<noteq> CHR '']''"
  shows "list_all (\<lambda>t. trimmed t \<and> CHR '','' \<notin> set t) (splitCSV s) \<and>
    splitCSV (Join '','' xs) = xs \<and> splitCSV (''['' @ Join '','' xs @ '']'') = xs"
proof -
  let ?s = "TrimSuffix (TrimPrefix (TrimSpace s) ''['') '']''" and ?j = "Join '','' xs"
  have "CHR '','' \<notin> set (TrimSpace p)" if "p \<in> set (Split (CHR '','') ?s)" for p
    using Split_no_sep [OF that] set_TrimSpace [of p] by auto
  then have all: "list_all (\<lambda>t. trimmed t \<and> CHR '','' \<notin> set t) (splitCSV s)"
    by (auto simp: list_all_iff splitCSV_def Let_def trimmed_TrimSpace)
  have ne: "\<forall>x\<in>set xs. x \<noteq> []" using assms(2) by (simp add: trimmed_def)
  note j = Join_ends [OF assms(1) ne, of "'',''"]
  have "trimmed (hd xs)" "trimmed (last xs)" using assms(1,2) by simp_all
  with j have jt: "trimmed ?j" by (simp add: trimmed_def)
  have sp: "Split (CHR '','') ?j = xs" by (rule Split_Join) (use assms(1,2) in auto)
  have mp: "filter (\<lambda>t. t \<noteq> []) (map TrimSpace xs) = xs"
    using assms(2) ne by (simp add: filter_id_conv map_idI TrimSpace_trimmed)
  have pre: "TrimPrefix ?j ''['' = ?j" using j assms(3) by (cases ?j) (auto simp: TrimPrefix_def HasPrefix_def)
  have suf: "TrimSuffix ?j '']'' = ?j" using j assms(4) drop_last [of ?j] by (simp add: TrimSuffix_def HasSuffix_def)
  have one: "splitCSV ?j = xs"
    using jt j by (simp add: splitCSV_def TrimSpace_trimmed pre suf sp mp Let_def)
  have bt: "trimmed (''['' @ ?j @ '']'')" by (simp add: trimmed_def is_space_def)
  have "splitCSV (''['' @ ?j @ '']'') = xs"
    using j by (simp add: splitCSV_def TrimSpace_trimmed [OF bt, simplified] TrimPrefix_def HasPrefix_def
        TrimSuffix_def HasSuffix_def sp mp Let_def)
  with all one show ?thesis by blast
qed

theorem splitCSV_spec_witness: "splitCSV ''[sglang,vllm]'' = [''sglang'', ''vllm'']"
proof -
  have "\<forall>x\<in>set [''sglang'', ''vllm'']. trimmed x \<and> CHR '','' \<notin> set x" by (simp add: trimmed_def is_space_def)
  from splitCSV_spec [OF _ this] show ?thesis by simp
qed


section \<open>Wrapped prose\<close>

text \<open>\<open>strings.Fields\<close>: the maximal runs of bytes that are not white space.\<close>

fun Fields_from :: "string \<Rightarrow> string \<Rightarrow> string list" where
  "Fields_from acc [] = (if acc = [] then [] else [rev acc])"
| "Fields_from acc (c # cs) =
     (if is_space c then (if acc = [] then Fields_from [] cs else rev acc # Fields_from [] cs)
      else Fields_from (c # acc) cs)"

definition Fields :: "string \<Rightarrow> string list" where
  "Fields s = Fields_from [] s"

definition wrap_width :: nat where "wrap_width = 76"
definition wrap_indent :: string where "wrap_indent = ''         ''"

text \<open>The words after the first, with the column the text has reached.\<close>

fun wrap_words :: "nat \<Rightarrow> string list \<Rightarrow> string" where
  "wrap_words col [] = []"
| "wrap_words col (word # ws) =
     (if col + 1 + length word > wrap_width then char_of (10 :: nat) # wrap_indent @ word @ wrap_words (length word) ws
      else '' '' @ word @ wrap_words (col + 1 + length word) ws)"

definition indentWrap :: "string \<Rightarrow> string" where
  "indentWrap s = (case Fields s of [] \<Rightarrow> [] | word # ws \<Rightarrow> word @ wrap_words (length word) ws)"

text \<open>The lines as lists of words: greedy filling.\<close>

fun fill :: "string list \<Rightarrow> string list \<Rightarrow> string list list" where
  "fill line [] = [line]"
| "fill line (word # ws) =
     (if length (Join '' '' line) + 1 + length word > wrap_width then line # fill [word] ws else fill (line @ [word]) ws)"

definition fits :: "string list \<Rightarrow> bool" where
  "fits line \<longleftrightarrow> line \<noteq> [] \<and> (length (Join '' '' line) \<le> wrap_width \<or> length line = 1)"

text \<open>No line could take the first word of the next.\<close>

fun greedy :: "string list list \<Rightarrow> bool" where
  "greedy (l # m # ls) \<longleftrightarrow> wrap_width < length (Join '' '' l) + 1 + length (hd m) \<and> greedy (m # ls)"
| "greedy _ \<longleftrightarrow> True"

lemma Join_snoc: "xs \<noteq> [] \<Longrightarrow> Join sep (xs @ [x]) = Join sep xs @ sep @ x"
proof (induction xs)
  case (Cons y ys)
  then show ?case by (cases ys) auto
qed simp

lemma fill_nonempty [simp]: "fill line ws \<noteq> []"
  by (induction ws arbitrary: line) auto

lemma concat_fill: "concat (fill line ws) = line @ ws"
  by (induction ws arbitrary: line) auto

lemma fits_fill: "fits line \<Longrightarrow> l \<in> set (fill line ws) \<Longrightarrow> fits l"
proof (induction ws arbitrary: line)
  case (Cons word ws)
  have one: "fits [word]" by (simp add: fits_def)
  have "fits (line @ [word])" if "\<not> length (Join '' '' line) + 1 + length word > wrap_width"
    using that Cons.prems(1) by (simp add: fits_def Join_snoc)
  with Cons one show ?case by (auto split: if_splits)
qed simp

lemma hd_fill: "line \<noteq> [] \<Longrightarrow> hd (hd (fill line ws)) = hd line"
  by (induction ws arbitrary: line) auto

lemma greedy_fill: "greedy (fill line ws)"
proof (induction ws arbitrary: line)
  case (Cons word ws)
  obtain m ls where m: "fill [word] ws = m # ls" by (cases "fill [word] ws") simp_all
  then have "hd m = word" using hd_fill [of "[word]" ws] by simp
  with Cons [of "[word]"] Cons [of "line @ [word]"] m show ?case by simp
qed simp

lemma wrap_words_fill:
  "line \<noteq> [] \<Longrightarrow> Join '' '' line @ wrap_words (length (Join '' '' line)) ws =
     Join (char_of (10 :: nat) # wrap_indent) (map (Join '' '') (fill line ws))"
proof (induction ws arbitrary: line)
  case (Cons word ws)
  show ?case
  proof (cases "length (Join '' '' line) + 1 + length word > wrap_width")
    case True
    obtain m ls where m: "fill [word] ws = m # ls" by (cases "fill [word] ws") simp_all
    from True m Cons.IH [of "[word]"] show ?thesis by simp
  next
    case False
    with Cons.prems Cons.IH [of "line @ [word]"] show ?thesis by (simp add: Join_snoc add.commute)
  qed
qed simp

text \<open>Wrapped prose loses nothing and keeps its width. What \<open>indentWrap\<close> prints is a sequence of lines, joined by a
  line break and the indent, that hold exactly the words of the text in their order, separated by single blanks;
  a line is at most 76 wide or a single word; and no line could have taken the first word of the next.\<close>

theorem indentWrap_lines:
  "\<exists>ls. indentWrap s = Join (char_of (10 :: nat) # wrap_indent) (map (Join '' '') ls) \<and> concat ls = Fields s \<and>
     list_all (\<lambda>l. length (Join '' '' l) \<le> 76 \<or> length l = 1) ls \<and> greedy ls"
proof (cases "Fields s")
  case Nil
  then show ?thesis by (intro exI [of _ "[]"]) (simp add: indentWrap_def)
next
  case (Cons word ws)
  have "list_all fits (fill [word] ws)"
    using fits_fill [of "[word]"] by (simp add: list_all_iff fits_def)
  then have "list_all (\<lambda>l. length (Join '' '' l) \<le> 76 \<or> length l = 1) (fill [word] ws)"
    by (auto simp: list_all_iff fits_def wrap_width_def)
  with Cons wrap_words_fill [of "[word]" ws] concat_fill [of "[word]" ws] greedy_fill [of "[word]" ws] show ?thesis
    by (intro exI [of _ "fill [word] ws"]) (simp add: indentWrap_def)
qed


section \<open>Small texts\<close>

text \<open>The ellipsis is three bytes of UTF-8.\<close>

definition truncate_str :: "string \<Rightarrow> nat \<Rightarrow> string" where
  "truncate_str s m = (if length s \<le> m then s else take (m - 1) s @ [CHR 0xE2, CHR 0x80, CHR 0xA6])"

definition configSummary :: "engine_config \<Rightarrow> string" where
  "configSummary c =
     (let parts = (if Quantization c \<noteq> [] then [Quantization c] else [])
           @ (if TensorParallel c > 0 then [''TP'' @ Itoa (TensorParallel c)] else [])
           @ (if MaxBatchSize c > 0 then [''bs'' @ Itoa (MaxBatchSize c)] else [])
           @ (if MaxModelLen c > 0 then [''len'' @ Itoa (MaxModelLen c)] else [])
      in if parts = [] then ''engine defaults'' else Join '' '' parts)"

definition humanTokens :: "int \<Rightarrow> string" where
  "humanTokens n = (if n < 1000 then Itoa n else fmt_fixed 1 (of_int n / 1000) @ ''k'')"

definition plural :: "int \<Rightarrow> string" where
  "plural n = (if n = 1 then [] else ''s'')"

section \<open>The start of a time window\<close>

definition parseSince :: "string \<Rightarrow> int \<Rightarrow> int res" where
  "parseSince s now =
     (case (if HasSuffix s ''d'' then Atoi (TrimSuffix s ''d'') else None) of
        Some days \<Rightarrow>
          if days > 0 then Inr (now + wrap64 (- days * 24 * Hour))
          else (case ParseDuration s of Inl e \<Rightarrow> Inl e | Inr d \<Rightarrow> Inr (now + wrap64 (- d)))
      | None \<Rightarrow> (case ParseDuration s of Inl e \<Rightarrow> Inl e | Inr d \<Rightarrow> Inr (now + wrap64 (- d))))"

lemma wrap64_plus_modulus: "wrap64 (y + 2 ^ 64) = wrap64 y"
proof -
  have "y + 2 ^ 64 + 2 ^ 63 = (y + 2 ^ 63) + (2 ^ 64 :: int)" by simp
  then show ?thesis unfolding wrap64_def by (simp only: mod_add_self2)
qed

lemma TrimSuffix_append [simp]: "HasSuffix (s @ p) p" "TrimSuffix (s @ p) p = s"
  by (simp_all add: HasSuffix_def TrimSuffix_def)

text \<open>A window of days. For \<open><n>d\<close> with a positive \<open>n\<close> that fits an \<open>int\<close> the start is \<open>n\<close> times 24 hours ago, as
  long as that is at most 106751 days; from 106752 to 213503 days the product leaves 64 bits and wraps, and the
  window starts in the future, so that the query can find nothing.\<close>

theorem parseSince_days:
  assumes "0 < n" and "n \<le> 213503"
  shows "\<exists>t. parseSince (Itoa n @ ''d'') now = Inr t \<and>
    (if n \<le> 106751 then t = now - n * 24 * Hour else t = now - n * 24 * Hour + 2 ^ 64 \<and> now < t)"
proof -
  have "in_int64 n" using assms by (simp add: in_int64_def)
  then have "parseSince (Itoa n @ ''d'') now = Inr (now + wrap64 (- n * 24 * Hour))"
    using assms(1) by (simp add: parseSince_def Atoi_Itoa)
  moreover have "wrap64 (- n * 24 * Hour) = (if n \<le> 106751 then - n * 24 * Hour else - n * 24 * Hour + 2 ^ 64)"
  proof (cases "n \<le> 106751")
    case True
    then have "in_int64 (- n * 24 * Hour)" using assms by (simp add: in_int64_def duration_units)
    with True show ?thesis by (simp add: wrap64_id)
  next
    case False
    define x where "x = - n * 24 * Hour + 2 ^ 64"
    have "in_int64 x" using False assms by (simp add: x_def in_int64_def duration_units)
    then have "wrap64 x = x" by (rule wrap64_id)
    moreover have "wrap64 x = wrap64 (- n * 24 * Hour)" unfolding x_def by (rule wrap64_plus_modulus)
    ultimately show ?thesis using False by (simp add: x_def)
  qed
  moreover have "n * 24 * Hour < 2 ^ 64" using assms by (simp add: duration_units)
  ultimately show ?thesis by auto
qed

theorem parseSince_days_witness: "\<exists>t. parseSince (Itoa 200000 @ ''d'') 0 = Inr t \<and> 0 < t"
  using parseSince_days [of 200000 0] by auto

section \<open>The comparison of engines\<close>

definition metric_columns :: "(bool \<times> (result \<Rightarrow> real)) list" where
  "metric_columns = [(False, r_TTFTP50Ms), (False, r_TTFTP99Ms), (True, r_TokPerSec),
     (False, \<lambda>r. of_int (r_GPUMemMB r)), (False, r_CostPerMTok), (True, r_KVCacheHit)]"

text \<open>One pass over the values with the positions of the best and of the worst so far.\<close>

fun scan_best :: "bool \<Rightarrow> real list \<Rightarrow> nat \<Rightarrow> nat \<times> nat \<Rightarrow> nat \<times> nat" where
  "scan_best hi vals 0 bw = bw"
| "scan_best hi vals (Suc k) bw =
     (let (b, w) = scan_best hi vals k bw; v = vals ! k
      in if hi then (if v > vals ! b then k else b, if v < vals ! w then k else w)
         else (if v < vals ! b then k else b, if v > vals ! w then k else w))"

definition best_worst :: "bool \<Rightarrow> real list \<Rightarrow> nat \<times> nat" where
  "best_worst hi vals = scan_best hi vals (length vals) (0, 0)"

datatype cell_colour = Plain | Green | Red

definition result_row_text :: "result \<Rightarrow> string list" where
  "result_row_text r =
     [r_Engine r, fmt_fixed 1 (r_TTFTP50Ms r) @ '' ms'', fmt_fixed 1 (r_TTFTP99Ms r) @ '' ms'', fmt_fixed 0 (r_TokPerSec r),
      Itoa (r_GPUMemMB r) @ '' MB'', ''$'' @ fmt_fixed 4 (r_CostPerMTok r), fmt_fixed 1 (r_KVCacheHit r * 100) @ ''%'']"

definition results_header :: "string list" where
  "results_header = [''ENGINE'', ''TTFT P50'', ''TTFT P99'', ''TOK/S'', ''GPU MEM'', ''COST/MTOK'', ''KV HIT'']"

text \<open>The colours of row \<open>i\<close>: none for the engine, one a metric, and one more that no column uses.\<close>

definition row_colours :: "result list \<Rightarrow> nat \<Rightarrow> cell_colour list" where
  "row_colours results i =
     Plain # map (\<lambda>(hi, f). let (b, w) = best_worst hi (map f results)
                           in if i = b then Green else if i = w then Red else Plain) metric_columns @ [Plain]"

fun fastest :: "result \<Rightarrow> result list \<Rightarrow> result" where
  "fastest best [] = best"
| "fastest best (r # rs) = fastest (if r_TokPerSec r > r_TokPerSec best then r else best) rs"

definition recommendation_line :: "result \<Rightarrow> string" where
  "recommendation_line best =
     char_of (10 :: nat) # ''Recommendation: use '' @ r_Engine best @ '' '' @ [CHR 0xE2, CHR 0x80, CHR 0x94]
       @ '' highest throughput at '' @ fmt_fixed 0 (r_TokPerSec best) @ '' tok/s ($'' @ fmt_fixed 4 (r_CostPerMTok best) @ ''/MTok)''"


text \<open>\<open>first_best v i\<close>: position \<open>i\<close> holds a greatest value of \<open>v\<close>, and no earlier position does.\<close>

definition first_best :: "real list \<Rightarrow> nat \<Rightarrow> bool" where
  "first_best v i \<longleftrightarrow> i < length v \<and> list_all (\<lambda>x. x \<le> v ! i) v \<and> list_all (\<lambda>x. x < v ! i) (take i v)"

definition oriented :: "bool \<Rightarrow> real list \<Rightarrow> real list" where
  "oriented hi v = (if hi then v else map uminus v)"

lemma first_best_unique:
  assumes "first_best v i" and "first_best v j" shows "i = j"
proof (rule ccontr)
  have aux: False if "first_best v a" "first_best v b" "a < b" for a b
  proof -
    from that have "v ! a \<in> set (take b v)" by (auto simp: first_best_def in_set_conv_nth intro!: exI [of _ a])
    with that(2) have "v ! a < v ! b" by (simp add: first_best_def list_all_iff)
    moreover have "v ! b \<le> v ! a" using that by (simp add: first_best_def list_all_iff)
    ultimately show False by simp
  qed
  assume "i \<noteq> j"
  with aux [OF assms] aux [OF assms(2,1)] show False by (metis nat_neq_iff)
qed

lemma first_best_singleton: "v \<noteq> [] \<Longrightarrow> first_best (take 1 v) 0"
  by (cases v) (simp_all add: first_best_def)

lemma first_best_snoc:
  assumes "first_best v b"
  shows "first_best (v @ [x]) (if x > v ! b then length v else b)"
  using assms by (auto simp: first_best_def nth_append list_all_iff)

lemma scan_best_first:
  assumes "Suc k \<le> length v"
  shows "first_best (take (Suc k) (oriented hi v)) (fst (scan_best hi v (Suc k) (0, 0))) \<and>
         first_best (take (Suc k) (oriented (\<not> hi) v)) (snd (scan_best hi v (Suc k) (0, 0)))"
  using assms
proof (induction k)
  case 0
  then have "first_best (take 1 (oriented b v)) 0" for b
    by (intro first_best_singleton) (auto simp: oriented_def)
  then show ?case by (simp add: Let_def)
next
  case (Suc k)
  obtain b w where bw: "scan_best hi v (Suc k) (0, 0) = (b, w)" by (cases "scan_best hi v (Suc k) (0, 0)")
  have len: "Suc k < length (oriented c v)" for c using Suc.prems by (simp add: oriented_def)
  have tl: "length (take (Suc k) (oriented c v)) = Suc k" for c using Suc.prems by (simp add: oriented_def)
  from Suc bw have f: "first_best (take (Suc k) (oriented hi v)) b" "first_best (take (Suc k) (oriented (\<not> hi) v)) w" by simp_all
  from f have "b < Suc k" "w < Suc k" by (simp_all add: first_best_def)
  moreover have "scan_best hi v (Suc (Suc k)) (0, 0) =
      (if oriented hi v ! Suc k > oriented hi v ! b then Suc k else b,
       if oriented (\<not> hi) v ! Suc k > oriented (\<not> hi) v ! w then Suc k else w)"
    using Suc.prems calculation by (subst scan_best.simps(2)) (simp add: bw oriented_def Let_def del: scan_best.simps)
  moreover have step: "first_best (take (Suc (Suc k)) (oriented c v)) (if oriented c v ! Suc k > oriented c v ! n then Suc k else n)"
    if "first_best (take (Suc k) (oriented c v)) n" "n < Suc k" for c n
    using first_best_snoc [OF that(1), of "oriented c v ! Suc k"] that(2)
    unfolding tl take_Suc_conv_app_nth [OF len] by simp
  ultimately show ?case using step [OF f(1)] step [OF f(2)] by simp
qed

lemma best_worst_first:
  assumes "v \<noteq> []"
  shows "first_best (oriented hi v) (fst (best_worst hi v))" "first_best (oriented (\<not> hi) v) (snd (best_worst hi v))"
proof -
  obtain k where k: "length v = Suc k" using assms by (cases v) simp_all
  have "take (Suc k) (oriented c v) = oriented c v" for c by (simp add: oriented_def k)
  with scan_best_first [of k v hi] k show "first_best (oriented hi v) (fst (best_worst hi v))"
    "first_best (oriented (\<not> hi) v) (snd (best_worst hi v))"
    by (simp_all add: best_worst_def del: scan_best.simps)
qed

lemma comparison_colour:
  assumes "results \<noteq> []" and "c < length metric_columns" and "metric_columns ! c = (hi, f)"
  shows "row_colours results i ! Suc c =
    (if first_best (oriented hi (map f results)) i then Green
     else if first_best (oriented (\<not> hi) (map f results)) i then Red else Plain)"
proof -
  obtain b w where bw: "best_worst hi (map f results) = (b, w)" by (cases "best_worst hi (map f results)")
  from assms(1) have "map f results \<noteq> []" by simp
  note best_worst_first [OF this, of hi]
  then have "first_best (oriented hi (map f results)) i \<longleftrightarrow> i = b"
    "first_best (oriented (\<not> hi) (map f results)) i \<longleftrightarrow> i = w"
    using first_best_unique bw by (auto simp: bw)
  with bw assms show ?thesis by (simp add: row_colours_def nth_append)
qed

lemma fastest_spec:
  "\<exists>i. fastest r rs = (r # rs) ! i \<and> first_best (map r_TokPerSec (r # rs)) i"
proof (induction rs rule: rev_induct)
  case Nil
  show ?case by (intro exI [of _ 0]) (simp add: first_best_def)
next
  case (snoc x xs)
  have snoc_step: "fastest r (ys @ [x]) = (if r_TokPerSec x > r_TokPerSec (fastest r ys) then x else fastest r ys)" for ys
    by (induction ys arbitrary: r) simp_all
  obtain i where i: "fastest r xs = (r # xs) ! i" "first_best (map r_TokPerSec (r # xs)) i" using snoc.IH by blast
  define v where "v = map r_TokPerSec (r # xs)"
  then have fv: "first_best v i" "length v = length (r # xs)" "map r_TokPerSec (r # xs @ [x]) = v @ [r_TokPerSec x]"
    using i(2) by simp_all
  then have len: "i < length (r # xs)" by (simp add: first_best_def)
  then have vi: "v ! i = r_TokPerSec (fastest r xs)" unfolding i(1) v_def by (rule nth_map)
  define n where "n = (if r_TokPerSec x > v ! i then length v else i)"
  have "fastest r (xs @ [x]) = ((r # xs) @ [x]) ! n"
    using len fv(2) i(1) vi by (simp only: n_def snoc_step nth_append) simp
  moreover have "first_best (v @ [r_TokPerSec x]) n" unfolding n_def using fv(1) by (rule first_best_snoc)
  ultimately show ?case by (intro exI [of _ n]) (metis fv(3) append_Cons)
qed

text \<open>The comparison and its recommendation agree. The engine that the last line recommends has a row of the table,
  it has the highest throughput of all, the first of those with it, and its throughput cell, and no other row's, is
  the green one.\<close>

theorem recommended_is_green:
  assumes "results = r # rs"
  shows "\<exists>i. i < length results \<and> fastest r rs = results ! i \<and> row_colours results i ! 3 = Green \<and>
    list_all (\<lambda>r'. r_TokPerSec r' \<le> r_TokPerSec (fastest r rs)) results \<and>
    list_all (\<lambda>r'. r_TokPerSec r' < r_TokPerSec (fastest r rs)) (take i results) \<and>
    list_all (\<lambda>j. j = i \<or> row_colours results j ! 3 \<noteq> Green) [0 ..< length results]"
proof -
  obtain i where i: "fastest r rs = results ! i" "first_best (map r_TokPerSec results) i"
    using fastest_spec [of r rs] unfolding assms by blast
  have green: "row_colours results j ! 3 = Green \<longleftrightarrow> first_best (map r_TokPerSec results) j" for j
    using comparison_colour [of results 2 True r_TokPerSec j] assms
    by (simp add: metric_columns_def oriented_def numeral_3_eq_3 split: if_splits)
  have only: "j = i" if "first_best (map r_TokPerSec results) j" for j using first_best_unique [OF that i(2)] .
  have "i < length results" using i(2) by (simp add: first_best_def)
  moreover have "row_colours results i ! 3 = Green" using green i(2) by blast
  moreover have "list_all (\<lambda>r'. r_TokPerSec r' \<le> r_TokPerSec (fastest r rs)) results"
    "list_all (\<lambda>r'. r_TokPerSec r' < r_TokPerSec (fastest r rs)) (take i results)"
    using i(2) calculation(1) unfolding i(1) first_best_def by (simp_all add: take_map list.pred_map comp_def)
  moreover have "list_all (\<lambda>j. j = i \<or> row_colours results j ! 3 \<noteq> Green) [0 ..< length results]"
    unfolding list_all_iff green using only by blast
  ultimately show ?thesis using i(1) by blast
qed

text \<open>Two engines, the second the faster.\<close>

definition demo_results :: "result list" where
  "demo_results = [zero_result \<lparr>r_Engine := ''vllm'', r_TokPerSec := 900\<rparr>, zero_result \<lparr>r_Engine := ''sglang'', r_TokPerSec := 1200\<rparr>]"

theorem recommended_is_green_witness:
  "r_Engine (fastest (hd demo_results) (tl demo_results)) = ''sglang'' \<and>
   (\<exists>i. i < length demo_results \<and> fastest (hd demo_results) (tl demo_results) = demo_results ! i \<and> row_colours demo_results i ! 3 = Green)"
proof
  show "r_Engine (fastest (hd demo_results) (tl demo_results)) = ''sglang''" by (simp add: demo_results_def)
  have "demo_results = hd demo_results # tl demo_results" by (simp add: demo_results_def)
  from recommended_is_green [OF this]
  show "\<exists>i. i < length demo_results \<and> fastest (hd demo_results) (tl demo_results) = demo_results ! i \<and> row_colours demo_results i ! 3 = Green"
    by blast
qed

end
