(* ===== verification/AgentTools.thy ===== *)
theory AgentTools
  imports Agent Store
begin

text \<open>
  The tools as the planner is told of them (\<open>internal/agent/tools.go\<close>, \<open>toolDefinitions\<close> and \<open>mergeProps\<close>), and how
  the arguments it writes are read. A schema keeps its JSON keywords; the arguments of a call are the members
  of a JSON object in the order they are written. \<open>encoding/json\<close> reports the first member that does not
  fit its field and goes on; its wording is the parameter \<open>bad\<close>. Members are matched to fields by their
  exact name.
\<close>

section \<open>The schemas\<close>

record prop_schema =
  ps_type :: string
  ps_enum :: "string list option"
  ps_minimum :: "int option"
  ps_maximum :: "int option"
  ps_description :: string

type_synonym props = "string \<Rightarrow> prop_schema option"

definition plain_prop :: "string \<Rightarrow> string \<Rightarrow> prop_schema" where
  "plain_prop ty descr = \<lparr>ps_type = ty, ps_enum = None, ps_minimum = None, ps_maximum = None, ps_description = descr\<rparr>"

definition enum_prop :: "string list \<Rightarrow> string \<Rightarrow> prop_schema" where
  "enum_prop vs descr = (plain_prop ''string'' descr)\<lparr>ps_enum := Some vs\<rparr>"

definition range_prop :: "int \<Rightarrow> int \<Rightarrow> string \<Rightarrow> prop_schema" where
  "range_prop lo hi descr = (plain_prop ''integer'' descr)\<lparr>ps_minimum := Some lo, ps_maximum := Some hi\<rparr>"

record tool_param =
  tp_Name :: string
  tp_Description :: string
  tp_Properties :: props
  tp_Required :: "string list"

definition quantEnum :: "string list" where
  "quantEnum = ['''', ''fp8'', ''int8'', ''int4'', ''gptq'', ''awq'']"

definition engineConfigProps :: props where
  "engineConfigProps =
     [''quantization'' \<mapsto> enum_prop quantEnum ''Weight quantization. Empty string means full precision.'',
      ''tensor_parallel'' \<mapsto> range_prop 1 8 ''GPUs to shard the model across. Omit for the engine default (1).'',
      ''max_batch_size'' \<mapsto> range_prop 1 4096 ''Maximum batch size. Larger trades time-to-first-token for throughput.'',
      ''max_model_len'' \<mapsto> range_prop 1 1048576 ''Context length to configure the engine with. Omit for the engine default.'',
      ''gpu_memory_utilization'' \<mapsto> plain_prop ''number''
        ''Fraction of GPU memory the engine may claim, between 0 and 1. Omit for the engine default.'']"

definition mergeProps :: "props \<Rightarrow> props \<Rightarrow> props" where
  "mergeProps base extra = base ++ extra"

definition listWorkersTool :: tool_param where
  "listWorkersTool =
      \<lparr>tp_Name = ''list_workers'',
       tp_Description = ''List registered benchmark workers and their GPU profiles and status. ''
         @ ''A trial can only run where an idle worker exists for the campaign's GPU profile.'',
       tp_Properties = Map.empty, tp_Required = []\<rparr>"

definition classifyTool :: tool_param where
  "classifyTool =
      \<lparr>tp_Name = ''classify_workload'',
       tp_Description = ''Ask the deterministic rules-based router which engine suits a workload shape. ''
         @ ''Returns a prior with reasoning, not a measurement.'',
       tp_Properties =
         [''structured_output'' \<mapsto> plain_prop ''boolean'' ''Workload requires JSON-schema-constrained decoding.'',
          ''tool_calls'' \<mapsto> plain_prop ''boolean'' ''Workload involves function calling.'',
          ''shared_prefix_ratio'' \<mapsto> plain_prop ''number''
            ''Fraction of the prompt shared across requests, 0 to 1. High values favour prefix-caching engines.''],
       tp_Required = []\<rparr>"

definition historicalTool :: "string list \<Rightarrow> tool_param" where
  "historicalTool engines =
      \<lparr>tp_Name = ''historical_results'',
       tp_Description = ''Look up past benchmark results for an engine and this campaign's model. ''
         @ ''Use this before spending a trial on something already measured.'',
       tp_Properties =
         [''engine'' \<mapsto> enum_prop engines [],
          ''since_hours'' \<mapsto> range_prop 1 8760 ''How far back to look. Defaults to 168 (one week).''],
       tp_Required = [''engine'']\<rparr>"

definition benchmarkTool :: "string list \<Rightarrow> tool_param" where
  "benchmarkTool engines =
      \<lparr>tp_Name = ''run_benchmark'',
       tp_Description = ''Run one benchmark: this campaign's model and workload, on the engine and ''
         @ ''configuration you specify. Blocks until the job finishes and returns the ''
         @ ''measured metrics. This is the only tool that consumes trial budget and the ''
         @ ''only one with side effects.'',
       tp_Properties = mergeProps
         [''engine'' \<mapsto> enum_prop engines [],
          ''hypothesis'' \<mapsto> plain_prop ''string'' ''What you expect this trial to tell you, and why it is worth the budget.'']
         engineConfigProps,
       tp_Required = [''engine'', ''hypothesis'']\<rparr>"

definition recommendTool :: "string list \<Rightarrow> tool_param" where
  "recommendTool engines =
      \<lparr>tp_Name = ''submit_recommendation'',
       tp_Description = ''Conclude the campaign with your recommended engine and configuration. ''
         @ ''Call this exactly once, when you have enough evidence.'',
       tp_Properties = mergeProps
         [''engine'' \<mapsto> enum_prop engines [],
          ''reasoning'' \<mapsto> plain_prop ''string''
            ''Why this configuration wins for the stated goal, citing the measurements that support it.'',
          ''runner_up'' \<mapsto> plain_prop ''string''
            ''The next best configuration and what it would cost or gain to choose it instead.'',
          ''confidence'' \<mapsto> enum_prop [''high'', ''medium'', ''low'']
            ''low when the campaign ran out of budget before the picture was clear, or when results were close enough to be noise.'',
          ''caveats'' \<mapsto> plain_prop ''string''
            ''Anything that qualifies the result: an unmet constraint, an untested dimension, a suspicious measurement.'']
         engineConfigProps,
       tp_Required = [''engine'', ''reasoning'', ''confidence'']\<rparr>"

definition toolDefinitions :: "string list \<Rightarrow> tool_param list" where
  "toolDefinitions engines =
     [listWorkersTool, classifyTool, historicalTool engines, benchmarkTool engines, recommendTool engines]"

section \<open>Arguments\<close>

text \<open>A value: a string, a number written as an integer or otherwise, a boolean, null, or an array or object.\<close>

datatype arg = AStr string | AInt int | AFrac real | ABool bool | ANull | ANested

definition mismatch :: "(string \<Rightarrow> string) \<Rightarrow> string \<Rightarrow> tool_input \<Rightarrow> tool_input" where
  "mismatch bad k inp = (case ti_Err inp of None \<Rightarrow> inp\<lparr>ti_Err := Some (bad k)\<rparr> | Some _ \<Rightarrow> inp)"

definition on_str :: "(string \<Rightarrow> string) \<Rightarrow> string \<Rightarrow> (string \<Rightarrow> tool_input \<Rightarrow> tool_input) \<Rightarrow> arg \<Rightarrow> tool_input \<Rightarrow> tool_input" where
  "on_str bad k f v inp = (case v of ANull \<Rightarrow> inp | AStr s \<Rightarrow> f s inp | _ \<Rightarrow> mismatch bad k inp)"

definition on_bool :: "(string \<Rightarrow> string) \<Rightarrow> string \<Rightarrow> (bool \<Rightarrow> tool_input \<Rightarrow> tool_input) \<Rightarrow> arg \<Rightarrow> tool_input \<Rightarrow> tool_input" where
  "on_bool bad k f v inp = (case v of ANull \<Rightarrow> inp | ABool b \<Rightarrow> f b inp | _ \<Rightarrow> mismatch bad k inp)"

definition on_int :: "(string \<Rightarrow> string) \<Rightarrow> string \<Rightarrow> (int \<Rightarrow> tool_input \<Rightarrow> tool_input) \<Rightarrow> arg \<Rightarrow> tool_input \<Rightarrow> tool_input" where
  "on_int bad k f v inp =
     (case v of ANull \<Rightarrow> inp | AInt i \<Rightarrow> if in_int64 i then f i inp else mismatch bad k inp | _ \<Rightarrow> mismatch bad k inp)"

definition on_float :: "(string \<Rightarrow> string) \<Rightarrow> string \<Rightarrow> (real \<Rightarrow> tool_input \<Rightarrow> tool_input) \<Rightarrow> arg \<Rightarrow> tool_input \<Rightarrow> tool_input" where
  "on_float bad k f v inp =
     (case v of ANull \<Rightarrow> inp | AInt i \<Rightarrow> f (real_of_int i) inp | AFrac x \<Rightarrow> f x inp | _ \<Rightarrow> mismatch bad k inp)"

definition set_config :: "(engine_config \<Rightarrow> engine_config) \<Rightarrow> tool_input \<Rightarrow> tool_input" where
  "set_config f inp = inp\<lparr>ti_Config := f (ti_Config inp)\<rparr>"

text \<open>The fields of \<open>engineConfigInput\<close>, embedded in two of the argument structures, and \<open>toJobs\<close>.\<close>

definition config_field :: "(string \<Rightarrow> string) \<Rightarrow> string \<Rightarrow> arg \<Rightarrow> tool_input \<Rightarrow> tool_input" where
  "config_field bad k v =
     (if k = ''quantization'' then on_str bad k (\<lambda>s. set_config (\<lambda>c. c\<lparr>Quantization := s\<rparr>)) v
      else if k = ''tensor_parallel'' then on_int bad k (\<lambda>i. set_config (\<lambda>c. c\<lparr>TensorParallel := i\<rparr>)) v
      else if k = ''max_batch_size'' then on_int bad k (\<lambda>i. set_config (\<lambda>c. c\<lparr>MaxBatchSize := i\<rparr>)) v
      else if k = ''max_model_len'' then on_int bad k (\<lambda>i. set_config (\<lambda>c. c\<lparr>MaxModelLen := i\<rparr>)) v
      else if k = ''gpu_memory_utilization'' then on_float bad k (\<lambda>x. set_config (\<lambda>c. c\<lparr>GPUMemoryUtilization := x\<rparr>)) v
      else (\<lambda>inp. inp))"

definition classify_field :: "(string \<Rightarrow> string) \<Rightarrow> string \<Rightarrow> arg \<Rightarrow> tool_input \<Rightarrow> tool_input" where
  "classify_field bad k v =
     (if k = ''structured_output'' then on_bool bad k (\<lambda>b inp. inp\<lparr>ti_StructuredOutput := b\<rparr>) v
      else if k = ''tool_calls'' then on_bool bad k (\<lambda>b inp. inp\<lparr>ti_ToolCalls := b\<rparr>) v
      else if k = ''shared_prefix_ratio'' then on_float bad k (\<lambda>x inp. inp\<lparr>ti_SharedPrefixRatio := x\<rparr>) v
      else (\<lambda>inp. inp))"

definition engine_field :: "(string \<Rightarrow> string) \<Rightarrow> string \<Rightarrow> arg \<Rightarrow> tool_input \<Rightarrow> tool_input" where
  "engine_field bad k v = on_str bad k (\<lambda>s inp. inp\<lparr>ti_Engine := s\<rparr>) v"

definition historical_field :: "(string \<Rightarrow> string) \<Rightarrow> string \<Rightarrow> arg \<Rightarrow> tool_input \<Rightarrow> tool_input" where
  "historical_field bad k v =
     (if k = ''engine'' then engine_field bad k v
      else if k = ''since_hours'' then on_int bad k (\<lambda>i inp. inp\<lparr>ti_SinceHours := i\<rparr>) v
      else (\<lambda>inp. inp))"

definition benchmark_field :: "(string \<Rightarrow> string) \<Rightarrow> string \<Rightarrow> arg \<Rightarrow> tool_input \<Rightarrow> tool_input" where
  "benchmark_field bad k v =
     (if k = ''engine'' then engine_field bad k v
      else if k = ''hypothesis'' then on_str bad k (\<lambda>s inp. inp\<lparr>ti_Hypothesis := s\<rparr>) v
      else config_field bad k v)"

definition recommend_field :: "(string \<Rightarrow> string) \<Rightarrow> string \<Rightarrow> arg \<Rightarrow> tool_input \<Rightarrow> tool_input" where
  "recommend_field bad k v =
     (if k = ''engine'' then engine_field bad k v
      else if k = ''reasoning'' then on_str bad k (\<lambda>s inp. inp\<lparr>ti_Reasoning := s\<rparr>) v
      else if k = ''runner_up'' then on_str bad k (\<lambda>s inp. inp\<lparr>ti_RunnerUp := s\<rparr>) v
      else if k = ''confidence'' then on_str bad k (\<lambda>s inp. inp\<lparr>ti_Confidence := s\<rparr>) v
      else if k = ''caveats'' then on_str bad k (\<lambda>s inp. inp\<lparr>ti_Caveats := s\<rparr>) v
      else config_field bad k v)"

definition zero_input :: tool_input where
  "zero_input = \<lparr>ti_Err = None, ti_StructuredOutput = False, ti_ToolCalls = False, ti_SharedPrefixRatio = 0,
     ti_Engine = [], ti_SinceHours = 0, ti_Hypothesis = [], ti_Config = zero_engine_config, ti_Reasoning = [],
     ti_RunnerUp = [], ti_Confidence = [], ti_Caveats = []\<rparr>"

text \<open>The structure each tool decodes into; \<open>list_workers\<close> does not look at its arguments.\<close>

definition tool_field :: "string \<Rightarrow> (string \<Rightarrow> string) \<Rightarrow> string \<Rightarrow> arg \<Rightarrow> tool_input \<Rightarrow> tool_input" where
  "tool_field name =
     (if name = ''classify_workload'' then classify_field
      else if name = ''historical_results'' then historical_field
      else if name = ''run_benchmark'' then benchmark_field
      else if name = ''submit_recommendation'' then recommend_field
      else (\<lambda>bad k v inp. inp))"

definition tool_arguments :: "(string \<Rightarrow> string) \<Rightarrow> string \<Rightarrow> (string \<times> arg) list \<Rightarrow> tool_input" where
  "tool_arguments bad name args = fold (\<lambda>(k, v). tool_field name bad k v) args zero_input"

section \<open>Conforming calls\<close>

text \<open>What it is for a value, and for the members of an object, to satisfy a schema.\<close>

definition fits :: "prop_schema \<Rightarrow> arg \<Rightarrow> bool" where
  "fits p v \<longleftrightarrow>
     (case v of
        AStr s \<Rightarrow> ps_type p = ''string'' \<and> (case ps_enum p of None \<Rightarrow> True | Some vs \<Rightarrow> s \<in> set vs)
      | AInt i \<Rightarrow> (ps_type p = ''integer'' \<or> ps_type p = ''number'') \<and>
          (case ps_minimum p of None \<Rightarrow> True | Some lo \<Rightarrow> lo \<le> i) \<and> (case ps_maximum p of None \<Rightarrow> True | Some hi \<Rightarrow> i \<le> hi)
      | AFrac x \<Rightarrow> ps_type p = ''number'' \<and> (case ps_minimum p of None \<Rightarrow> True | Some lo \<Rightarrow> real_of_int lo \<le> x) \<and>
          (case ps_maximum p of None \<Rightarrow> True | Some hi \<Rightarrow> x \<le> real_of_int hi)
      | ABool b \<Rightarrow> ps_type p = ''boolean''
      | ANull \<Rightarrow> False | ANested \<Rightarrow> False)"

definition conforms :: "tool_param \<Rightarrow> (string \<times> arg) list \<Rightarrow> bool" where
  "conforms t args \<longleftrightarrow>
     list_all (\<lambda>(k, v). case tp_Properties t k of None \<Rightarrow> False | Some p \<Rightarrow> fits p v) args \<and>
     list_all (\<lambda>k. k \<in> fst ` set args) (tp_Required t)"

lemma fits_plain:
  "fits (plain_prop ''string'' d) v \<longleftrightarrow> (\<exists>s. v = AStr s)"
  "fits (plain_prop ''boolean'' d) v \<longleftrightarrow> (\<exists>b. v = ABool b)"
  "fits (plain_prop ''number'' d) v \<longleftrightarrow> (\<exists>i. v = AInt i) \<or> (\<exists>x. v = AFrac x)"
  by (cases v; simp add: fits_def plain_prop_def)+

lemma fits_enum: "fits (enum_prop vs d) v \<longleftrightarrow> (\<exists>s. v = AStr s \<and> s \<in> set vs)"
  by (cases v; simp add: fits_def plain_prop_def enum_prop_def)

lemma fits_range: "fits (range_prop lo hi d) v \<longleftrightarrow> (\<exists>i. v = AInt i \<and> lo \<le> i \<and> i \<le> hi)"
  by (cases v; simp add: fits_def plain_prop_def range_prop_def)

lemmas fits_simps = fits_plain fits_enum fits_range


section \<open>What a conforming call decodes to\<close>

definition engine_tool :: "string \<Rightarrow> bool" where
  "engine_tool name \<longleftrightarrow> name \<in> {''historical_results'', ''run_benchmark'', ''submit_recommendation''}"

text \<open>The configuration a conforming call can set; the share of GPU memory has no bound in the schema.\<close>

definition config_fits :: "engine_config \<Rightarrow> bool" where
  "config_fits c \<longleftrightarrow> Quantization c \<in> set quantEnum \<and> TensorParallel c \<in> {0..8} \<and> MaxBatchSize c \<in> {0..4096} \<and>
     MaxModelLen c \<in> {0..1048576}"

definition decoded_ok :: "tool_input \<Rightarrow> bool" where
  "decoded_ok inp \<longleftrightarrow> ti_Err inp = None \<and> config_fits (ti_Config inp)"

lemma zero_decoded: "decoded_ok zero_input"
  by (simp add: decoded_ok_def zero_input_def config_fits_def zero_engine_config_def quantEnum_def)

lemma config_props: "engineConfigProps k = Some p \<Longrightarrow> fits p v \<Longrightarrow> decoded_ok inp \<Longrightarrow>
    decoded_ok (config_field bad k v inp) \<and> ti_Engine (config_field bad k v inp) = ti_Engine inp"
  by (auto simp: engineConfigProps_def fits_simps config_field_def on_str_def on_int_def on_float_def set_config_def
      decoded_ok_def config_fits_def in_int64_def split: if_splits)


lemma classify_step:
  "tp_Properties classifyTool k = Some p \<Longrightarrow> fits p v \<Longrightarrow> decoded_ok inp \<Longrightarrow> decoded_ok (classify_field bad k v inp)"
  by (auto simp: classifyTool_def fits_simps classify_field_def on_bool_def on_float_def decoded_ok_def split: if_splits)

text \<open>One member: the result stays decoded, and the engine is a candidate once it is given.\<close>

definition step_ok :: "string list \<Rightarrow> string \<Rightarrow> tool_input \<Rightarrow> tool_input \<Rightarrow> bool" where
  "step_ok engines k inp inp' \<longleftrightarrow> decoded_ok inp' \<and>
     (if k = ''engine'' then ti_Engine inp' \<in> set engines else ti_Engine inp' = ti_Engine inp)"

lemma engine_step:
  "fits (enum_prop engines d) v \<Longrightarrow> decoded_ok inp \<Longrightarrow> step_ok engines ''engine'' inp (engine_field bad k v inp)"
  by (auto simp: fits_simps engine_field_def on_str_def decoded_ok_def step_ok_def)

lemma string_step:
  assumes "\<And>s. decoded_ok (f s inp) \<and> ti_Engine (f s inp) = ti_Engine inp" and "fits (plain_prop ''string'' d) v" and "k \<noteq> ''engine''"
  shows "step_ok engines k inp (on_str bad k f v inp)"
  using assms by (auto simp: fits_simps on_str_def step_ok_def)

lemma config_step:
  assumes "engineConfigProps k = Some p" and "fits p v" and "decoded_ok inp"
  shows "step_ok engines k inp (config_field bad k v inp)"
proof -
  have "k \<noteq> ''engine''" using assms(1) by (auto simp: engineConfigProps_def split: if_splits)
  with config_props [OF assms] show ?thesis by (simp add: step_ok_def)
qed

lemma historical_step:
  assumes "tp_Properties (historicalTool engines) k = Some p" and "fits p v" and "decoded_ok inp"
  shows "step_ok engines k inp (historical_field bad k v inp)"
proof -
  consider "k = ''engine''" "p = enum_prop engines []" | "k = ''since_hours''" "fits (range_prop 1 8760 []) v"
    using assms(1,2) by (auto simp: historicalTool_def fits_simps split: if_splits)
  then show ?thesis
  proof cases
    case 1
    with engine_step [of engines "[]" v inp bad k] assms(2,3) show ?thesis by (simp add: historical_field_def)
  next
    case 2
    with assms(3) show ?thesis by (auto simp: historical_field_def fits_simps on_int_def decoded_ok_def in_int64_def step_ok_def)
  qed
qed

lemma benchmark_step:
  assumes "tp_Properties (benchmarkTool engines) k = Some p" and "fits p v" and "decoded_ok inp"
  shows "step_ok engines k inp (benchmark_field bad k v inp)"
proof (cases "engineConfigProps k")
  case (Some q)
  then have "p = q" using assms(1) by (simp add: benchmarkTool_def mergeProps_def map_add_def)
  moreover have "k \<noteq> ''engine''" "k \<noteq> ''hypothesis''" using Some by (auto simp: engineConfigProps_def split: if_splits)
  ultimately show ?thesis using config_step [OF Some] assms(2,3) by (simp add: benchmark_field_def)
next
  case None
  with assms(1,2) consider "k = ''engine''" "fits (enum_prop engines []) v" | "k = ''hypothesis''" "fits (plain_prop ''string'' []) v"
    by (auto simp: benchmarkTool_def mergeProps_def map_add_def fits_simps split: if_splits)
  then show ?thesis
  proof cases
    case 1
    with engine_step [of engines "[]" v inp bad k] assms(3) show ?thesis by (simp add: benchmark_field_def)
  next
    case 2
    from 2(1) have "benchmark_field bad k v inp = on_str bad k (\<lambda>s inp. inp\<lparr>ti_Hypothesis := s\<rparr>) v inp"
      by (simp add: benchmark_field_def)
    moreover have "step_ok engines k inp \<dots>"
      by (rule string_step [OF _ 2(2)]) (use assms(3) 2(1) in \<open>auto simp: decoded_ok_def\<close>)
    ultimately show ?thesis by simp
  qed
qed


lemma recommend_step:
  assumes "tp_Properties (recommendTool engines) k = Some p" and "fits p v" and "decoded_ok inp"
  shows "step_ok engines k inp (recommend_field bad k v inp)"
proof (cases "engineConfigProps k")
  case (Some q)
  then have "p = q" using assms(1) by (simp add: recommendTool_def mergeProps_def map_add_def)
  moreover have "k \<notin> {''engine'', ''reasoning'', ''runner_up'', ''confidence'', ''caveats''}"
    using Some by (auto simp: engineConfigProps_def split: if_splits)
  ultimately show ?thesis using config_step [OF Some] assms(2,3) by (simp add: recommend_field_def)
next
  case None
  with assms(1,2) consider "k = ''engine''" "fits (enum_prop engines []) v"
    | "k \<in> {''reasoning'', ''runner_up'', ''confidence'', ''caveats''}" "\<exists>s. v = AStr s"
    by (auto simp: recommendTool_def mergeProps_def map_add_def fits_simps split: if_splits)
  then show ?thesis
  proof cases
    case 1
    with engine_step [of engines "[]" v inp bad k] assms(3) show ?thesis by (simp add: recommend_field_def)
  next
    case 2
    from 2(2) obtain s where v: "v = AStr s" ..
    from 2(1) show ?thesis
      by (elim insertE emptyE; hypsubst) (use assms(3) in \<open>simp_all add: v recommend_field_def on_str_def decoded_ok_def step_ok_def\<close>)
  qed
qed

lemma step_okD: "step_ok engines k inp inp' \<Longrightarrow> decoded_ok inp'"
  by (simp add: step_ok_def)

lemma tool_step:
  assumes "t \<in> set (toolDefinitions engines)" and "tp_Properties t k = Some p" and "fits p v" and "decoded_ok inp"
  shows "decoded_ok (tool_field (tp_Name t) bad k v inp) \<and>
    (engine_tool (tp_Name t) \<longrightarrow> step_ok engines k inp (tool_field (tp_Name t) bad k v inp))"
proof -
  have n: "tp_Name listWorkersTool = ''list_workers''" "tp_Name classifyTool = ''classify_workload''"
    "tp_Name (historicalTool engines) = ''historical_results''" "tp_Name (benchmarkTool engines) = ''run_benchmark''"
    "tp_Name (recommendTool engines) = ''submit_recommendation''"
    by (simp_all add: listWorkersTool_def classifyTool_def historicalTool_def benchmarkTool_def recommendTool_def)
  from assms(1) consider "t = listWorkersTool" | "t = classifyTool" | "t = historicalTool engines" | "t = benchmarkTool engines"
    | "t = recommendTool engines" by (auto simp: toolDefinitions_def)
  then show ?thesis
  proof cases
    case 1
    with assms(2) show ?thesis by (simp add: listWorkersTool_def)
  next
    case 2
    with classify_step [OF _ assms(3,4)] assms(2) n show ?thesis by (simp add: tool_field_def engine_tool_def)
  next
    case 3
    with assms(2-4) have "step_ok engines k inp (historical_field bad k v inp)" by (intro historical_step) simp_all
    with 3 n show ?thesis by (simp add: tool_field_def step_okD)
  next
    case 4
    with assms(2-4) have "step_ok engines k inp (benchmark_field bad k v inp)" by (intro benchmark_step) simp_all
    with 4 n show ?thesis by (simp add: tool_field_def step_okD)
  next
    case 5
    with assms(2-4) have "step_ok engines k inp (recommend_field bad k v inp)" by (intro recommend_step) simp_all
    with 5 n show ?thesis by (simp add: tool_field_def step_okD)
  qed
qed

lemma conforming_fold:
  assumes "t \<in> set (toolDefinitions engines)"
    and "list_all (\<lambda>(k, v). case tp_Properties t k of None \<Rightarrow> False | Some p \<Rightarrow> fits p v) args" and "decoded_ok inp"
  shows "decoded_ok (fold (\<lambda>(k, v). tool_field (tp_Name t) bad k v) args inp) \<and>
    (engine_tool (tp_Name t) \<and> (''engine'' \<in> fst ` set args \<or> ti_Engine inp \<in> set engines) \<longrightarrow>
       ti_Engine (fold (\<lambda>(k, v). tool_field (tp_Name t) bad k v) args inp) \<in> set engines)"
  using assms(2,3)
proof (induction args arbitrary: inp)
  case (Cons kv args)
  obtain k v where kv: "kv = (k, v)" by (cases kv)
  with Cons.prems(1) obtain p where p: "tp_Properties t k = Some p" "fits p v" by (auto split: option.splits)
  let ?inp = "tool_field (tp_Name t) bad k v inp"
  have st: "decoded_ok ?inp" "engine_tool (tp_Name t) \<Longrightarrow> step_ok engines k inp ?inp"
    using tool_step [OF assms(1) p Cons.prems(2)] by blast+
  have "list_all (\<lambda>(k, v). case tp_Properties t k of None \<Rightarrow> False | Some p \<Rightarrow> fits p v) args" using Cons.prems(1) by simp
  from Cons.IH [OF this st(1)] st(2) show ?case by (auto simp: kv step_ok_def split: if_splits)
qed simp

text \<open>No tool answers as an unknown one would.\<close>

definition says_unknown :: "content \<Rightarrow> bool" where
  "says_unknown c \<longleftrightarrow> (\<exists>s. c = CText (''unknown tool: '' @ s))"

lemma calls_known:
  "\<not> says_unknown (fst (fst (callListWorkers env a w)))"
  "\<not> says_unknown (fst (fst (callClassify env inp a w)))"
  "\<not> says_unknown (fst (fst (callHistorical env inp a w)))"
  "\<not> says_unknown (fst (fst (callRecommend env inp a w)))"
  by (simp_all add: callListWorkers_def callClassify_def callHistorical_def callRecommend_def parse_error_def says_unknown_def Let_def
      split: prod.split sum.split option.split)

lemma run_trial_known: "\<not> says_unknown (fst (fst (run_trial env inp a w)))"
  by (simp add: run_trial_def says_unknown_def Let_def split: prod.split sum.split)

lemma callRunBenchmark_known: "\<not> says_unknown (fst (fst (callRunBenchmark env inp a w)))"
  using run_trial_known [of env inp a w]
  by (simp add: callRunBenchmark_def parse_error_def says_unknown_def split: option.split)

lemma dispatch_known:
  "name \<in> {''list_workers'', ''classify_workload'', ''historical_results'', ''run_benchmark'', ''submit_recommendation''} \<Longrightarrow>
     \<not> says_unknown (fst (fst (dispatchTool env name inp a w)))"
  by (elim insertE emptyE; hypsubst) (simp_all add: dispatchTool_def calls_known callRunBenchmark_known)




end
