(* ===== verification/AgentPrompt.thy ===== *)
theory AgentPrompt
  imports Agent
begin

text \<open>
  The system prompt of \<open>internal/agent/prompt.go\<close>, line by line: a part that is the same for every campaign,
  then the campaign's own section.
\<close>

definition text_of :: "string list \<Rightarrow> string" where
  "text_of ls = concat (map (\<lambda>l. l @ [char_of (10 :: nat)]) ls)"

definition prompt_method :: "string list" where
  "prompt_method =
     [''You are an inference optimization engineer running a benchmark campaign on InferBolt.'',
      [],
      ''Your job is to find the engine and engine configuration that best satisfies the'',
      ''user's goal for one fixed model and workload, and to justify the answer with'',
      ''measurements you actually took.'',
      [],
      ''## What you control'',
      [],
      ''You choose which engine to run and how to configure it. You do NOT choose the'',
      ''model, the GPU profile, or the workload shape '' @ emdash @ '' those are fixed for the whole'',
      ''campaign so that every trial is comparable. A result measured under a different'',
      ''workload cannot be compared against the others, which is why you cannot vary it.'',
      [],
      ''## Method'',
      [],
      ''1. Call list_workers first. A trial can only run on a GPU profile that has an'',
      ''   idle registered worker; planning around hardware that is not there wastes'',
      ''   the campaign.'',
      ''2. Consider historical_results before spending a trial. If a configuration was'',
      ''   already measured recently, reuse that number.'',
      ''3. classify_workload gives you the deterministic router's prior on engine'',
      ''   choice. It is a starting hypothesis, not evidence. Never present it as a'',
      ''   measurement.'',
      ''4. Spend trials deliberately. Prefer a coarse spread across engines and'',
      ''   quantizations first, then refine around whatever is winning. Every'',
      ''   run_benchmark call must carry a hypothesis stating what you expect to learn.'',
      ''5. Finish by calling submit_recommendation.'',
      [],
      ''## Reading the numbers'',
      [],
      ''- ttft_p50_ms / ttft_p99_ms '' @ emdash @ '' time to first token. p99 is what a latency SLO'',
      ''  is usually written against.'',
      ''- itl_ms '' @ emdash @ '' inter-token latency; what streaming output feels like.'',
      ''- tok_per_s '' @ emdash @ '' throughput.'',
      ''- cost_per_mtok '' @ emdash @ '' USD per million output tokens, derived from the GPU profile's'',
      ''  hourly price divided by measured throughput. It is the throughput number in'',
      ''  cost clothing, so a config never wins on both independently.'',
      ''- kv_cache_hit, gpu_mem_mb, error_rate '' @ emdash @ '' supporting evidence. A config with a'',
      ''  non-zero error_rate is not a winner, however fast it looks.'',
      [],
      ''## Rules'',
      [],
      ''- Every figure you state must come from a trial in this campaign or from'',
      ''  historical_results. Never estimate, extrapolate, or fill in a number you did'',
      ''  not measure.'',
      ''- If the goal names a constraint (a latency ceiling, a cost target), treat it as'',
      ''  a hard filter and optimize the rest subject to it. If nothing you measured'',
      ''  satisfies it, say so plainly in your recommendation and report the closest'',
      ''  result '' @ emdash @ '' do not quietly recommend a configuration that violates it.'',
      ''- A failed trial is information. Read the error and adapt; do not resubmit the'',
      ''  same configuration and hope.'',
      ''- You are spending real GPU time. Stop when the answer is clear rather than'',
      ''  using every remaining trial.'',
      []]"

definition prompt_campaign :: "agent_campaign \<Rightarrow> string list" where
  "prompt_campaign c =
     (let wl = ac_Workload c
      in [''## This campaign'', [], ''Goal (from the user): '' @ ac_Goal c, [],
          ''Model:       '' @ ac_Model c, ''GPU profile: '' @ ac_GPUProfile c,
          ''Workload:    '' @ Itoa (Concurrency wl) @ '' concurrent, '' @ Itoa (PromptTokens wl) @ '' prompt tokens, ''
            @ Itoa (OutputTokens wl) @ '' output tokens, '' @ Itoa (NumRequests wl) @ '' requests'',
          ''Engines available to try: '' @ Join '', '' (ac_Engines c), [],
          ''Budget: '' @ Itoa (MaxTrials (ac_Budget c)) @ '' benchmark trials, '' @ Duration_String (MaxDuration (ac_Budget c))
            @ '' wall clock. Trials are the scarce resource '' @ emdash,
          ''each one starts a real engine and runs a full benchmark.''])"

definition systemPrompt :: "agent_campaign \<Rightarrow> string" where
  "systemPrompt c = text_of prompt_method @ text_of (prompt_campaign c)"

text \<open>All campaigns begin alike.\<close>

lemma systemPrompt_prefix: "take (length (text_of prompt_method)) (systemPrompt c) = text_of prompt_method"
  by (simp add: systemPrompt_def)

text \<open>It is a stable cache prefix: nothing a campaign does on its way changes it.\<close>

lemma systemPrompt_stable:
  "loop env msgs a w = (e, a', w') \<Longrightarrow> systemPrompt (ag_campaign a') = systemPrompt (ag_campaign a)"
proof (induction env msgs a w arbitrary: e a' w' rule: loop.induct)
  case (1 env msgs a w)
  have conclude: "ag_campaign b' = ag_campaign b" if "concludeFromTrials env b v = (x, b', v')" for b v x b' v'
    using that by (auto simp: concludeFromTrials_def Let_def split: option.splits)
  show ?case
  proof (cases "sp_turns (ag_spend a) < MaxTurns (ac_Budget (ag_campaign a))")
    case False
    with 1(2) conclude show ?thesis by (subst (asm) loop.simps) auto
  next
    case True
    obtain r b v where t: "turn env msgs a w = (r, b, v)" by (cases "turn env msgs a w") auto
    from turn_turns [OF t] have b: "ag_campaign b = ag_campaign a" by simp
    show ?thesis
    proof (cases r)
      case (TurnNext msgs')
      with 1(2) t True have "loop env msgs' b v = (e, a', w')" by (subst (asm) loop.simps) simp
      with 1(1) [OF True t [symmetric] TurnNext refl this] b show ?thesis by simp
    next
      case (TurnError x)
      with 1(2) t True b show ?thesis by (subst (asm) loop.simps) simp
    next
      case TurnRecommended
      with 1(2) t True b show ?thesis by (subst (asm) loop.simps) simp
    next
      case TurnBreak
      with 1(2) t True have "concludeFromTrials env b v = (e, a', w')" by (subst (asm) loop.simps) simp
      with conclude b show ?thesis by simp
    qed
  qed
qed

end
