(* ===== verification/CliStack.thy ===== *)
theory CliStack
  imports Client
begin

text \<open>
  From nothing running to ready for work: the command line tool's configuration (\<open>internal/cli/config.go\<close>,
  \<open>freeport.go\<close>) and the bootstrap that \<open>run\<close> and \<open>agent\<close> share (\<open>cmd/inferbolt/main.go\<close>, from
  \<open>ensureStack\<close> to \<open>waitForIdleWorker\<close>). The machine is a record: environment, files, programs, ports and
  processes. Viper, the YAML library, the programs that are started and the peers are the fields of \<open>cli_sys\<close>. The
  progress lines on standard error are left out.
\<close>

section \<open>The machine\<close>

record process =
  ps_Name :: string
  ps_Args :: "string list"
  ps_Dir :: string
  ps_Env :: "string list"

record host = world +
  h_home :: "string option"
  h_env :: "string \<Rightarrow> string"
  h_files :: "string \<Rightarrow> string option"
  h_path :: "string list"
  h_ports :: "int list"
  h_procs :: "(nat \<times> process) list"
  h_next :: nat

text \<open>A system call fails by the fault script, before it has an effect.\<close>

definition os_call :: "('w host_scheme \<Rightarrow> 'a res \<times> 'w host_scheme) \<Rightarrow> 'w host_scheme \<Rightarrow> 'a res \<times> 'w host_scheme" where
  "os_call op w = (case fault w of Some m \<Rightarrow> (Inl (ErrNew m), tick w) | None \<Rightarrow> op (tick w))"

text \<open>\<open>filepath.Clean\<close> and \<open>filepath.Join\<close> on slash-separated paths.\<close>

fun clean_segments :: "bool \<Rightarrow> string list \<Rightarrow> string list \<Rightarrow> string list" where
  "clean_segments rooted acc [] = rev acc"
| "clean_segments rooted acc (x # xs) =
     (if x = [] \<or> x = ''.'' then clean_segments rooted acc xs
      else if x = ''..''
      then (if acc \<noteq> [] \<and> hd acc \<noteq> ''..'' then clean_segments rooted (tl acc) xs
            else if rooted then clean_segments rooted acc xs
            else clean_segments rooted (''..'' # acc) xs)
      else clean_segments rooted (x # acc) xs)"

definition Clean :: "string \<Rightarrow> string" where
  "Clean s =
     (let rooted = HasPrefix s ''/''; p = Join ''/'' (clean_segments rooted [] (Split (CHR ''/'') s))
      in if rooted then ''/'' @ p else if p = [] then ''.'' else p)"

definition path_join :: "string list \<Rightarrow> string" where
  "path_join xs = (let ys = filter (\<lambda>x. x \<noteq> []) xs in if ys = [] then [] else Clean (Join ''/'' ys))"

section \<open>URLs\<close>

text \<open>
  What the tool uses of \<open>url.Parse\<close>: whether it fails, and the host and port. Percent escapes are checked and
  not decoded; the characters a host may not have are not checked.
\<close>

definition is_letter :: "char \<Rightarrow> bool" where
  "is_letter c \<longleftrightarrow> (let n = of_char c :: nat in (65 \<le> n \<and> n \<le> 90) \<or> (97 \<le> n \<and> n \<le> 122))"

definition is_hex_digit :: "char \<Rightarrow> bool" where
  "is_hex_digit c \<longleftrightarrow> is_digit c \<or> (let n = of_char c :: nat in (65 \<le> n \<and> n \<le> 70) \<or> (97 \<le> n \<and> n \<le> 102))"

fun escapes_ok :: "string \<Rightarrow> bool" where
  "escapes_ok (c # cs) =
     (if c = CHR ''%'' then (case cs of a # b # rest \<Rightarrow> is_hex_digit a \<and> is_hex_digit b | _ \<Rightarrow> False) \<and> escapes_ok cs
      else escapes_ok cs)"
| "escapes_ok [] = True"

definition before :: "char \<Rightarrow> string \<Rightarrow> string" where
  "before c s = takeWhile (\<lambda>x. x \<noteq> c) s"

definition after :: "char \<Rightarrow> string \<Rightarrow> string" where
  "after c s = tl (dropWhile (\<lambda>x. x \<noteq> c) s)"

definition before_last :: "char \<Rightarrow> string \<Rightarrow> string" where
  "before_last c s = rev (after c (rev s))"

definition after_last :: "char \<Rightarrow> string \<Rightarrow> string" where
  "after_last c s = rev (before c (rev s))"

text \<open>The scheme: \<open>Inl\<close> is the error of a leading colon, \<open>Inr (None, s)\<close> a text without a scheme.\<close>

definition get_scheme :: "string \<Rightarrow> (string option \<times> string) res" where
  "get_scheme s =
     (let p = takeWhile (\<lambda>c. is_letter c \<or> is_digit c \<or> c \<in> set ''+-.'') s; rest = drop (length p) s
      in if HasPrefix rest '':''
         then (if p = [] then Inl (ErrNew ''missing protocol scheme'')
               else if is_letter (hd p) then Inr (Some p, tl rest) else Inr (None, s))
         else Inr (None, s))"

definition validOptionalPort :: "string \<Rightarrow> bool" where
  "validOptionalPort p \<longleftrightarrow> p = [] \<or> (HasPrefix p '':'' \<and> list_all is_digit (tl p))"

definition parse_host :: "string \<Rightarrow> string res" where
  "parse_host h =
     (if HasPrefix h ''[''
      then (if CHR '']'' \<notin> set h then Inl (ErrNew ''missing ']' in host'')
            else if \<not> validOptionalPort (after_last (CHR '']'') h) then Inl (ErrNew ''invalid port after host'')
            else if \<not> escapes_ok h then Inl (ErrNew ''invalid URL escape'') else Inr h)
      else if CHR '':'' \<in> set h \<and> \<not> validOptionalPort ('':'' @ after_last (CHR '':'') h)
      then Inl (ErrNew ''invalid port after host'')
      else if \<not> escapes_ok h then Inl (ErrNew ''invalid URL escape'') else Inr h)"

text \<open>\<open>url.Parse\<close>, reduced to the field \<open>Host\<close>.\<close>

definition url_Host :: "string \<Rightarrow> string res" where
  "url_Host raw =
     (if list_ex (\<lambda>c. (of_char c :: nat) < 32 \<or> (of_char c :: nat) = 127) raw then Inl (ErrNew ''invalid control character in URL'')
      else if \<not> escapes_ok (after (CHR ''#'') raw) then Inl (ErrNew ''invalid URL escape'')
      else if raw = ''*'' then Inr []
      else case get_scheme (before (CHR ''#'') raw) of
             Inl e \<Rightarrow> Inl e
           | Inr (scheme, rest) \<Rightarrow>
               let rest = before (CHR ''?'') rest
               in if \<not> HasPrefix rest ''/''
                  then (if scheme \<noteq> None then Inr []
                        else if CHR '':'' \<in> set (before (CHR ''/'') rest)
                        then Inl (ErrNew ''first path segment in URL cannot contain colon'')
                        else if escapes_ok rest then Inr [] else Inl (ErrNew ''invalid URL escape''))
                  else if HasPrefix rest ''//'' \<and> (scheme \<noteq> None \<or> \<not> HasPrefix rest ''///'')
                  then let authority = before (CHR ''/'') (drop 2 rest); path = drop (2 + length authority) rest;
                           user = (if CHR ''@'' \<in> set authority then before_last (CHR ''@'') authority else [])
                       in (case parse_host (after_last (CHR ''@'') authority) of
                             Inl e \<Rightarrow> Inl e
                           | Inr h \<Rightarrow> if escapes_ok user \<and> escapes_ok path then Inr h else Inl (ErrNew ''invalid URL escape''))
                  else if escapes_ok rest then Inr [] else Inl (ErrNew ''invalid URL escape''))"

definition splitHostPort :: "string \<Rightarrow> string \<times> string" where
  "splitHostPort hp =
     (let (h, p) = (if CHR '':'' \<in> set hp \<and> validOptionalPort ('':'' @ after_last (CHR '':'') hp)
                    then (before_last (CHR '':'') hp, after_last (CHR '':'') hp) else (hp, []))
      in (if HasPrefix h ''['' \<and> HasSuffix h '']'' then butlast (tl h) else h, p))"

definition isLocalServerURL :: "string \<Rightarrow> bool" where
  "isLocalServerURL rawURL =
     (case url_Host rawURL of
        Inl _ \<Rightarrow> False
      | Inr hp \<Rightarrow> let host = fst (splitHostPort hp) in host = ''localhost'' \<or> host = ''127.0.0.1'' \<or> host = ''::1'')"

definition portFromURL :: "string \<Rightarrow> int res" where
  "portFromURL rawURL =
     (case url_Host rawURL of
        Inl e \<Rightarrow> Inl e
      | Inr hp \<Rightarrow>
          let p = snd (splitHostPort hp)
          in case Atoi p of Some n \<Rightarrow> Inr n | None \<Rightarrow> Inl (ErrNew (''strconv.Atoi: parsing '' @ quoted p @ '': invalid syntax'')))"

section \<open>The configuration\<close>

definition DefaultServerURL :: string where "DefaultServerURL = ''http://localhost:8080''"

definition ErrAPIKeyNotConfigured :: goerr where
  "ErrAPIKeyNotConfigured = Sentinel ''API key not configured; run 'inferbolt configure' or set INFERBOLT_API_KEY''"

record cli_config =
  cf_ServerURL :: string
  cf_APIKey :: string
  cf_TenantID :: string
  cf_OutputFmt :: string

record cli_flags =
  fl_server :: string
  fl_apiKey :: string
  fl_output :: string

text \<open>
  The surroundings: the gateway and the orchestrator behind one peer; what Viper reads from a file's text and
  whether its values fit the structure; the YAML encoder; a program run to its end, with its failure and
  output; whether a started process is over within half a second; and what happens during each pause of the
  three loops.
\<close>

datatype 's pause = Stopped goerr | Woken nat "'s \<Rightarrow> 's"

record ('b, 's) cli_sys =
  sy_wire :: "'b wire"
  sy_peer :: "('b, 's) peer"
  sy_viper :: "string \<Rightarrow> string \<Rightarrow> string option"
  sy_unmarshal :: "string \<Rightarrow> string option"
  sy_yaml :: "cli_config \<Rightarrow> string res"
  sy_run :: "string list \<Rightarrow> 's \<Rightarrow> (goerr \<times> string) option \<times> 's"
  sy_crash :: "process \<Rightarrow> 's \<Rightarrow> (goerr option \<times> string) option"
  sy_server_pause :: "nat \<Rightarrow> nat \<times> ('s \<Rightarrow> 's)"
  sy_token_pause :: "nat \<Rightarrow> 's pause"
  sy_idle_pause :: "nat \<Rightarrow> 's pause"

definition config_path :: "string \<Rightarrow> string" where
  "config_path home = path_join [home, ''.inferbolt'', ''config.yaml'']"

text \<open>A bound variable wins when it is not empty, then the file, then the default.\<close>

definition viper_get :: "('b, 's) cli_sys \<Rightarrow> 'w host_scheme \<Rightarrow> string option \<Rightarrow> string \<Rightarrow> string \<Rightarrow> string \<Rightarrow> string" where
  "viper_get sy w file k var dflt =
     (if h_env w var \<noteq> [] then h_env w var
      else case (case file of None \<Rightarrow> None | Some text \<Rightarrow> sy_viper sy text k) of Some v \<Rightarrow> v | None \<Rightarrow> dflt)"

definition Load :: "('b, 's) cli_sys \<Rightarrow> 'w host_scheme \<Rightarrow> cli_config res" where
  "Load sy w =
     (case h_home w of
        None \<Rightarrow> Inl (Wrap ''user home dir: '' (ErrNew ''$HOME is not defined'') [])
      | Some home \<Rightarrow>
          let file = h_files w (config_path home);
              c = \<lparr>cf_ServerURL = viper_get sy w file ''server_url'' ''INFERBOLT_SERVER_URL'' DefaultServerURL,
                   cf_APIKey = viper_get sy w file ''api_key'' ''INFERBOLT_API_KEY'' [],
                   cf_TenantID = viper_get sy w file ''tenant_id'' ''INFERBOLT_TENANT_ID'' [],
                   cf_OutputFmt = viper_get sy w file ''output'' ''INFERBOLT_OUTPUT'' ''table''\<rparr>
          in case (case file of None \<Rightarrow> None | Some text \<Rightarrow> sy_unmarshal sy text) of
               Some e \<Rightarrow> Inl (Wrap ''unmarshal config: '' (ErrNew e) [])
             | None \<Rightarrow> if cf_APIKey c = [] then Inl ErrAPIKeyNotConfigured else Inr c)"

text \<open>The text reaches the file when the encoder is closed; after a failure the file is left truncated.\<close>

definition Save :: "('b, 's) cli_sys \<Rightarrow> cli_config \<Rightarrow> 'w host_scheme \<Rightarrow> goerr option \<times> 'w host_scheme" where
  "Save sy c w =
     (case h_home w of
        None \<Rightarrow> (Some (ErrNew ''$HOME is not defined''), w)
      | Some home \<Rightarrow>
          let (d, w) = os_call (\<lambda>w. (Inr (), w)) w
          in case d of
               Inl e \<Rightarrow> (Some (Wrap ''create config dir: '' e []), w)
             | Inr _ \<Rightarrow>
                 let (f, w) = os_call (\<lambda>w. (Inr (), w\<lparr>h_files := (h_files w)(config_path home \<mapsto> [])\<rparr>)) w
                 in case f of
                      Inl e \<Rightarrow> (Some e, w)
                    | Inr _ \<Rightarrow>
                        (case sy_yaml sy c of
                           Inl e \<Rightarrow> (Some e, w)
                         | Inr text \<Rightarrow>
                             let (r, w) = os_call (\<lambda>w. (Inr (), w\<lparr>h_files := (h_files w)(config_path home \<mapsto> text)\<rparr>)) w
                             in (case r of Inl e \<Rightarrow> Some e | Inr _ \<Rightarrow> None, w)))"

definition Config_NewClient :: "cli_config \<Rightarrow> cli_client" where
  "Config_NewClient c = NewClient (cf_ServerURL c) (cf_APIKey c)"

definition applyFlagOverrides :: "cli_flags \<Rightarrow> cli_config \<Rightarrow> cli_config" where
  "applyFlagOverrides fl c =
     (let c = (if fl_server fl \<noteq> [] then c\<lparr>cf_ServerURL := fl_server fl\<rparr> else c);
          c = (if fl_apiKey fl \<noteq> [] then c\<lparr>cf_APIKey := fl_apiKey fl\<rparr> else c)
      in if fl_output fl \<noteq> [] then c\<lparr>cf_OutputFmt := fl_output fl\<rparr> else c)"

definition isJSON :: "cli_flags \<Rightarrow> cli_config option \<Rightarrow> bool" where
  "isJSON fl cfg \<longleftrightarrow> fl_output fl = ''json'' \<or> (case cfg of None \<Rightarrow> False | Some c \<Rightarrow> cf_OutputFmt c = ''json'')"

definition orchestratorURLFrom :: "string \<Rightarrow> 'w host_scheme \<Rightarrow> string" where
  "orchestratorURLFrom flag w =
     (if flag \<noteq> [] then flag
      else if h_env w ''INFERBOLT_ORCHESTRATOR_URL'' \<noteq> [] then h_env w ''INFERBOLT_ORCHESTRATOR_URL''
      else ''http://localhost:8081'')"


section \<open>Reaching the gateway\<close>

definition runComposeUp :: "('b, 'w host_scheme) cli_sys \<Rightarrow> string \<Rightarrow> 'w host_scheme \<Rightarrow> goerr option \<times> 'w host_scheme" where
  "runComposeUp sy composeFile w =
     (let cmd = (if ''docker'' \<in> set (h_path w) then [''docker'', ''compose'', ''-f'', composeFile, ''up'', ''-d'']
                 else if ''docker-compose'' \<in> set (h_path w) then [''docker-compose'', ''-f'', composeFile, ''up'', ''-d'']
                 else [])
      in if cmd = [] then (Some (ErrNew ''neither `docker` nor `docker-compose` was found on PATH; install Docker or start the backing services manually''), w)
         else case sy_run sy cmd w of
                (None, w) \<Rightarrow> (None, w)
              | (Some (e, out), w) \<Rightarrow> (Some (Wrap ''docker compose up failed: '' e (char_of (10 :: nat) # out)), w))"

text \<open>The loop looks at the clock, probes, and sleeps two seconds and something; it does not look at the context.\<close>

function healthy_loop ::
  "('s \<Rightarrow> bool \<times> 's) \<Rightarrow> int \<Rightarrow> goerr \<Rightarrow> (nat \<Rightarrow> nat \<times> ('s \<Rightarrow> 's)) \<Rightarrow> nat \<Rightarrow> int \<Rightarrow> 's \<Rightarrow> goerr option \<times> 's" where
  "healthy_loop probe deadline giveup pause n now s =
     (if now > deadline then (Some giveup, s)
      else let (up, s) = probe s
           in if up then (None, s)
              else let (lag, f) = pause n
                   in healthy_loop probe deadline giveup pause (Suc n) (now + 2 * Second + int lag) (f s))"
  by pat_completeness auto
termination
  by (relation "measure (\<lambda>(probe, deadline, giveup, pause, n, now, s). nat (deadline - now + 1))") (auto simp: duration_units)

declare healthy_loop.simps [simp del]

definition probe_health :: "('b, 's) cli_sys \<Rightarrow> string \<Rightarrow> 's \<Rightarrow> bool \<times> 's" where
  "probe_health sy serverURL s =
     (let (r, s) = Client_Health (sy_wire sy) (sy_peer sy) (NewClient serverURL []) s in (\<not> isErr r, s))"

definition ensureServerHealthy ::
  "('b, 'w host_scheme) cli_sys \<Rightarrow> string \<Rightarrow> string \<Rightarrow> int \<Rightarrow> 'w host_scheme \<Rightarrow> goerr option \<times> 'w host_scheme" where
  "ensureServerHealthy sy serverURL projectDir startupTimeout w =
     (let (up, w) = probe_health sy serverURL w
      in if up then (None, w)
         else
           let composeFile = path_join [projectDir, ''docker-compose.yml'']
           in if h_files w composeFile = None
              then (Some (Wrap (''gateway at '' @ serverURL @ '' is unreachable and no docker-compose.yml found at '' @ composeFile
                     @ '' (pass --project-dir if you're not running from the repo root): '')
                     (ErrNew (''stat '' @ composeFile @ '': no such file or directory'')) []), w)
              else case runComposeUp sy composeFile w of
                     (Some e, w) \<Rightarrow> (Some e, w)
                   | (None, w) \<Rightarrow>
                       healthy_loop (probe_health sy serverURL) (w_now w + startupTimeout)
                         (ErrNew (''gateway did not become healthy within '' @ Duration_String startupTimeout
                            @ '' '' @ [CHR 0xE2, CHR 0x80, CHR 0x94] @ '' check `docker compose -f '' @ composeFile @ '' logs gateway`''))
                         (sy_server_pause sy) 0 (w_now w) w)"

section \<open>The bootstrapped token\<close>

text \<open>At the deadline the loop returns the error of its last read, which is no error when the file is there but blank.\<close>

function token_loop :: "('s \<Rightarrow> string res) \<Rightarrow> int \<Rightarrow> (nat \<Rightarrow> 's pause) \<Rightarrow> nat \<Rightarrow> int \<Rightarrow> 's \<Rightarrow> string res \<times> 's" where
  "token_loop read deadline pause n now s =
     (let r = read s; token = (case r of Inl e \<Rightarrow> [] | Inr text \<Rightarrow> TrimSpace text)
      in if token \<noteq> [] then (Inr token, s)
         else if now > deadline then ((case r of Inl e \<Rightarrow> Inl e | Inr _ \<Rightarrow> Inr []), s)
         else case pause n of
                Stopped e \<Rightarrow> (Inl e, s)
              | Woken lag f \<Rightarrow> token_loop read deadline pause (Suc n) (now + 500 * Millisecond + int lag) (f s))"
  by pat_completeness auto
termination
  by (relation "measure (\<lambda>(read, deadline, pause, n, now, s). nat (deadline - now + 1))") (auto simp: duration_units)

declare token_loop.simps [simp del]

definition read_file :: "string \<Rightarrow> 'w host_scheme \<Rightarrow> string res" where
  "read_file path w = (case h_files w path of None \<Rightarrow> Inl (ErrNew (''open '' @ path @ '': no such file or directory'')) | Some t \<Rightarrow> Inr t)"

definition waitForDevToken ::
  "('b, 'w host_scheme) cli_sys \<Rightarrow> string \<Rightarrow> int \<Rightarrow> 'w host_scheme \<Rightarrow> string res \<times> 'w host_scheme" where
  "waitForDevToken sy path timeout w = token_loop (read_file path) (w_now w + timeout) (sy_token_pause sy) 0 (w_now w) w"

text \<open>\<open>Load\<close> returns no configuration beside an error, so that the default server stands in for a configured one.\<close>

definition effective_server :: "cli_flags \<Rightarrow> cli_config res \<Rightarrow> string" where
  "effective_server fl loaded =
     (if fl_server fl \<noteq> [] then fl_server fl
      else case loaded of Inr c \<Rightarrow> cf_ServerURL c | Inl _ \<Rightarrow> DefaultServerURL)"

definition token_path :: "string \<Rightarrow> string" where
  "token_path projectDir = path_join [projectDir, ''.inferbolt-dev'', ''dev-token'']"

definition resolveOrBootstrapConfig ::
  "('b, 'w host_scheme) cli_sys \<Rightarrow> cli_flags \<Rightarrow> string \<Rightarrow> int \<Rightarrow> 'w host_scheme \<Rightarrow> cli_config res \<times> 'w host_scheme" where
  "resolveOrBootstrapConfig sy fl projectDir startupTimeout w =
     (let loaded = Load sy w; server = effective_server fl loaded
      in case loaded of
           Inr c \<Rightarrow>
             (case ensureServerHealthy sy server projectDir startupTimeout w of
                (Some e, w) \<Rightarrow> (Inl e, w)
              | (None, w) \<Rightarrow> (Inr (applyFlagOverrides fl c), w))
         | Inl err \<Rightarrow>
             if \<not> errors_Is err ErrAPIKeyNotConfigured then (Inl err, w)
             else if \<not> isLocalServerURL server
             then (Inl (Wrap [] err '' (and --server points at a non-local address, so a credential can't be auto-provisioned)''), w)
             else
               (case ensureServerHealthy sy server projectDir startupTimeout w of
                  (Some e, w) \<Rightarrow> (Inl e, w)
                | (None, w) \<Rightarrow>
                    let (tok, w) = waitForDevToken sy (token_path projectDir) (15 * Second) w
                    in case tok of
                         Inl e \<Rightarrow>
                           (Inl (Wrap (''no API key configured and could not read a bootstrapped dev token from ''
                                @ token_path projectDir @ '': '') e
                                (char_of (10 :: nat) # ''run 'inferbolt configure' to set one manually'')), w)
                       | Inr token \<Rightarrow>
                           let c = applyFlagOverrides fl \<lparr>cf_ServerURL = server, cf_APIKey = token, cf_TenantID = [], cf_OutputFmt = ''table''\<rparr>
                           in (Inr c, snd (Save sy c w))))"

section \<open>Workers\<close>

definition FreeTCPPort :: "'w host_scheme \<Rightarrow> int res \<times> 'w host_scheme" where
  "FreeTCPPort = os_call (\<lambda>w. case h_ports w of
     [] \<Rightarrow> (Inl (ErrNew ''listen tcp 127.0.0.1:0: bind: address already in use''), w)
   | p # ps \<Rightarrow> (Inr p, w\<lparr>h_ports := ps\<rparr>))"

text \<open>The process that a started worker is known by, and what stopping it does.\<close>

definition stop_process :: "nat \<Rightarrow> 'w host_scheme \<Rightarrow> 'w host_scheme" where
  "stop_process pid w = w\<lparr>h_procs := filter (\<lambda>(i, p). i \<noteq> pid) (h_procs w)\<rparr>"

definition startManagedProcess ::
  "('b, 'w host_scheme) cli_sys \<Rightarrow> process \<Rightarrow> string \<Rightarrow> 'w host_scheme \<Rightarrow> nat res \<times> 'w host_scheme" where
  "startManagedProcess sy p label w =
     (case fault w of
        Some m \<Rightarrow> (Inl (Wrap (''start '' @ label @ '': '') (ErrNew m) []), tick w)
      | None \<Rightarrow>
          let w = tick w; pid = h_next w
          in case sy_crash sy p w of
               Some (werr, out) \<Rightarrow>
                 (Inl (Wrap (label @ '' exited immediately ('') (case werr of None \<Rightarrow> ErrNew ''%!w(<nil>)'' | Some e \<Rightarrow> e)
                    (''):'' @ char_of (10 :: nat) # out)), w\<lparr>h_next := pid + 1\<rparr>)
             | None \<Rightarrow> (Inr pid, w\<lparr>h_procs := h_procs w @ [(pid, p)], h_next := pid + 1\<rparr>))"

definition worker_command :: "'w host_scheme \<Rightarrow> (string \<times> string list) option" where
  "worker_command w =
     (if ''uv'' \<in> set (h_path w) then Some (''uv'', [''run'', ''python'', ''-m'', ''worker.main''])
      else if ''python'' \<in> set (h_path w) then Some (''python'', [''-m'', ''worker.main''])
      else if ''python3'' \<in> set (h_path w) then Some (''python3'', [''-m'', ''worker.main''])
      else None)"

definition spawnLocalWorker ::
  "('b, 'w host_scheme) cli_sys \<Rightarrow> string \<Rightarrow> string \<Rightarrow> string \<Rightarrow> 'w host_scheme \<Rightarrow> nat res \<times> 'w host_scheme" where
  "spawnLocalWorker sy projectDir orchestratorURL gpuProfile w =
     (let (port, w) = FreeTCPPort w
      in case port of
           Inl e \<Rightarrow> (Inl (Wrap ''find a free port for the worker: '' e []), w)
         | Inr workerPort \<Rightarrow>
             (case worker_command w of
                None \<Rightarrow> (Inl (ErrNew (''none of uv, python, or python3 found on PATH; install one to let `run` spawn a worker, ''
                           @ ''or start worker/main.py yourself and re-run'')), w)
              | Some (name, args) \<Rightarrow>
                  startManagedProcess sy
                    \<lparr>ps_Name = name, ps_Args = args, ps_Dir = projectDir,
                     ps_Env = [''ORCHESTRATOR_URL='' @ orchestratorURL, ''PORT='' @ Itoa workerPort,
                       ''WORKER_URL=http://127.0.0.1:'' @ Itoa workerPort, ''GPU_PROFILE='' @ gpuProfile]\<rparr>
                    (''local worker ('' @ name @ '' '' @ Join '' '' args @ '')'') w))"

definition remote_command :: "string \<Rightarrow> int \<Rightarrow> int \<Rightarrow> int \<Rightarrow> string \<Rightarrow> string" where
  "remote_command remoteDir remotePort workerPort localPort gpuProfile =
     ''cd '' @ remoteDir @ '' && ORCHESTRATOR_URL=http://localhost:'' @ Itoa remotePort @ '' PORT='' @ Itoa workerPort
     @ '' WORKER_URL=http://host.docker.internal:'' @ Itoa localPort @ '' GPU_PROFILE='' @ gpuProfile
     @ '' (uv run python -m worker.main || python3 -m worker.main || python -m worker.main)''"

definition spawnRemoteWorkerSSH ::
  "('b, 'w host_scheme) cli_sys \<Rightarrow> string \<Rightarrow> string \<Rightarrow> string \<Rightarrow> string \<Rightarrow> 'w host_scheme \<Rightarrow> nat res \<times> 'w host_scheme" where
  "spawnRemoteWorkerSSH sy gpuHost remoteDir orchestratorURL gpuProfile w =
     (if ''ssh'' \<notin> set (h_path w) then (Inl (ErrNew ''`ssh` not found on PATH; required for --gpu-host''), w)
      else case portFromURL orchestratorURL of
             Inl e \<Rightarrow> (Inl (Wrap ''parse --orchestrator port: '' e []), w)
           | Inr orchestratorPort \<Rightarrow>
               let (p1, w) = FreeTCPPort w
               in case p1 of
                    Inl e \<Rightarrow> (Inl (Wrap ''find a free local port: '' e []), w)
                  | Inr localPort \<Rightarrow>
                      let (p2, w) = FreeTCPPort w
                      in case p2 of
                           Inl e \<Rightarrow> (Inl (Wrap ''find a free port for the reverse tunnel: '' e []), w)
                         | Inr remotePort \<Rightarrow>
                             let (p3, w) = FreeTCPPort w
                             in case p3 of
                                  Inl e \<Rightarrow> (Inl (Wrap ''find a free port for the remote worker: '' e []), w)
                                | Inr workerPort \<Rightarrow>
                                    startManagedProcess sy
                                      \<lparr>ps_Name = ''ssh'',
                                       ps_Args = [''-L'', Itoa localPort @ '':127.0.0.1:'' @ Itoa workerPort,
                                         ''-R'', Itoa remotePort @ '':127.0.0.1:'' @ Itoa orchestratorPort,
                                         gpuHost, remote_command remoteDir remotePort workerPort localPort gpuProfile],
                                       ps_Dir = [], ps_Env = []\<rparr>
                                      (''ssh to '' @ gpuHost) w)"

function idle_loop ::
  "('s \<Rightarrow> bool res \<times> 's) \<Rightarrow> int \<Rightarrow> goerr \<Rightarrow> (nat \<Rightarrow> 's pause) \<Rightarrow> nat \<Rightarrow> int \<Rightarrow> 's \<Rightarrow> goerr option \<times> 's" where
  "idle_loop hasIdle deadline giveup pause n now s =
     (let (r, s) = hasIdle s
      in if r = Inr True then (None, s)
         else if now > deadline then (Some giveup, s)
         else case pause n of
                Stopped e \<Rightarrow> (Some e, s)
              | Woken lag f \<Rightarrow> idle_loop hasIdle deadline giveup pause (Suc n) (now + 2 * Second + int lag) (f s))"
  by pat_completeness auto
termination
  by (relation "measure (\<lambda>(hasIdle, deadline, giveup, pause, n, now, s). nat (deadline - now + 1))") (auto simp: duration_units)

declare idle_loop.simps [simp del]

definition waitForIdleWorker ::
  "('b, 'w host_scheme) cli_sys \<Rightarrow> string \<Rightarrow> string \<Rightarrow> int \<Rightarrow> 'w host_scheme \<Rightarrow> goerr option \<times> 'w host_scheme" where
  "waitForIdleWorker sy orchestratorURL gpuProfile timeout w =
     idle_loop (HasIdleWorker (sy_wire sy) (sy_peer sy) orchestratorURL gpuProfile) (w_now w + timeout)
       (ErrNew (''worker did not register with the orchestrator within '' @ Duration_String timeout @ '' for gpu_profile='' @ gpuProfile))
       (sy_idle_pause sy) 0 (w_now w) w"

section \<open>The stack\<close>

record stack_options =
  so_projectDir :: string
  so_orchestratorURL :: string
  so_gpuProfile :: string
  so_gpuHost :: string
  so_remoteDir :: string
  so_keepWorker :: bool
  so_startupTimeout :: int
  so_workerTimeout :: int

text \<open>The clean-up is the process to stop, or \<open>None\<close> for the function that does nothing.\<close>

definition run_cleanup :: "nat option \<Rightarrow> 'w host_scheme \<Rightarrow> 'w host_scheme" where
  "run_cleanup c w = (case c of None \<Rightarrow> w | Some pid \<Rightarrow> stop_process pid w)"

definition ensureStack ::
  "('b, 'w host_scheme) cli_sys \<Rightarrow> cli_flags \<Rightarrow> stack_options \<Rightarrow> 'w host_scheme \<Rightarrow> (nat option \<times> cli_config) res \<times> 'w host_scheme" where
  "ensureStack sy fl opt w =
     (let (resolved, w) = resolveOrBootstrapConfig sy fl (so_projectDir opt) (so_startupTimeout opt) w
      in case resolved of
           Inl e \<Rightarrow> (Inl e, w)
         | Inr cfg \<Rightarrow>
             let (hasIdle, w) = HasIdleWorker (sy_wire sy) (sy_peer sy) (so_orchestratorURL opt) (so_gpuProfile opt) w
             in case hasIdle of
                  Inl e \<Rightarrow>
                    (Inl (Wrap (''checking worker availability (is the orchestrator reachable at '' @ so_orchestratorURL opt @ ''?): '') e []), w)
                | Inr idle \<Rightarrow>
                    if idle then (Inr (None, cfg), w)
                    else
                      let (started, w) =
                            (if so_gpuHost opt \<noteq> []
                             then spawnRemoteWorkerSSH sy (so_gpuHost opt) (so_remoteDir opt) (so_orchestratorURL opt) (so_gpuProfile opt) w
                             else spawnLocalWorker sy (so_projectDir opt) (so_orchestratorURL opt) (so_gpuProfile opt) w)
                      in case started of
                           Inl e \<Rightarrow> (Inl e, w)
                         | Inr pid \<Rightarrow>
                             let cleanup = (if so_keepWorker opt then None else Some pid)
                             in case waitForIdleWorker sy (so_orchestratorURL opt) (so_gpuProfile opt) (so_workerTimeout opt) w of
                                  (Some e, w) \<Rightarrow> (Inl e, run_cleanup cleanup w)
                                | (None, w) \<Rightarrow> (Inr (cleanup, cfg), w))"


section \<open>What is saved is loaded\<close>

lemma os_call_ok: "w_faults w = [] \<Longrightarrow> os_call op w = op w"
proof -
  assume "w_faults w = []"
  moreover from this have "tick w = w" by (simp add: tick_def)
  ultimately show "os_call op w = op w" by (simp add: os_call_def fault_def)
qed


section \<open>No worker is left behind\<close>

text \<open>The rest of the world starts and stops no process of ours; process ids grow.\<close>

definition calm :: "'w host_scheme \<Rightarrow> 'w host_scheme \<Rightarrow> bool" where
  "calm w w' \<longleftrightarrow> h_procs w' = h_procs w \<and> h_next w \<le> h_next w'"

lemma calm_refl [simp]: "calm w w"
  by (simp add: calm_def)

lemma calm_trans [trans]: "calm u v \<Longrightarrow> calm v w \<Longrightarrow> calm u w"
  by (auto simp: calm_def)

fun calm_pause :: "'w host_scheme pause \<Rightarrow> bool" where
  "calm_pause (Stopped e) \<longleftrightarrow> True"
| "calm_pause (Woken lag f) \<longleftrightarrow> (\<forall>w. calm w (f w))"

definition quiet :: "('b, 'w host_scheme) cli_sys \<Rightarrow> bool" where
  "quiet sy \<longleftrightarrow> (\<forall>q w. calm w (snd (sy_peer sy q w))) \<and> (\<forall>cmd w. calm w (snd (sy_run sy cmd w))) \<and>
     (\<forall>n w. calm w (snd (sy_server_pause sy n) w)) \<and> (\<forall>n. calm_pause (sy_token_pause sy n)) \<and> (\<forall>n. calm_pause (sy_idle_pause sy n))"

lemma quietD:
  assumes "quiet sy"
  shows "sy_peer sy q w = (a, w') \<Longrightarrow> calm w w'" "sy_run sy cmd w = (e, w') \<Longrightarrow> calm w w'"
    "sy_server_pause sy n = (lag, f) \<Longrightarrow> calm w (f w)" "sy_token_pause sy n = Woken lag f \<Longrightarrow> calm w (f w)"
    "sy_idle_pause sy n = Woken lag f \<Longrightarrow> calm w (f w)"
  using assms unfolding quiet_def by (metis snd_conv calm_pause.simps(2))+

lemma calm_tick [simp]: "calm w (tick w)" "calm w (w\<lparr>h_files := fs\<rparr>)" "calm w (w\<lparr>h_ports := ps\<rparr>)"
  by (simp_all add: calm_def tick_def)

lemma calm_os_call:
  assumes "os_call op w = (r, w')" and "\<And>v r v'. op v = (r, v') \<Longrightarrow> calm v v'"
  shows "calm w w'"
proof (cases "fault w")
  case None
  with assms(1) have "op (tick w) = (r, w')" by (simp add: os_call_def)
  from calm_trans [OF calm_tick(1) assms(2) [OF this]] show ?thesis .
next
  case (Some m)
  with assms(1) show ?thesis by (auto simp: os_call_def)
qed

lemma calm_Save: "calm w (snd (Save sy c w))"
proof -
  have u: "os_call (\<lambda>w. (Inr (), w)) v = (r, v') \<Longrightarrow> calm v v'" for v v' :: "'a host_scheme" and r
    by (erule calm_os_call) simp
  have f: "os_call (\<lambda>w. (Inr (), w\<lparr>h_files := (h_files w)(p \<mapsto> t)\<rparr>)) v = (r, v') \<Longrightarrow> calm v v'" for v v' :: "'a host_scheme" and r p t
    by (erule calm_os_call) auto
  show ?thesis
    by (auto simp: Save_def Let_def split: option.splits prod.splits sum.splits dest!: u f intro: calm_trans)
qed

lemma calm_Health:
  assumes "quiet sy" and "probe_health sy url w = (up, w')" shows "calm w w'"
  using assms(2) quietD(1) [OF assms(1)]
  by (auto simp: probe_health_def Client_Health_def client_call_def client_do_def Let_def split: prod.splits http_answer.splits)

lemma calm_healthy_loop:
  assumes "quiet sy" shows "healthy_loop (probe_health sy url) d g (sy_server_pause sy) n now w = (r, w') \<Longrightarrow> calm w w'"
proof (induction "probe_health sy url" d g "sy_server_pause sy" n now w rule: healthy_loop.induct)
  case (1 deadline giveup n now s)
  obtain up s1 where up: "probe_health sy url s = (up, s1)" by (cases "probe_health sy url s")
  obtain lag f where p: "sy_server_pause sy n = (lag, f)" by (cases "sy_server_pause sy n")
  note c = calm_Health [OF assms up] quietD(3) [OF assms p, of s1]
  show ?case
  proof (cases "now > deadline \<or> up")
    case True
    with "1.prems" up c show ?thesis by (subst (asm) healthy_loop.simps) (auto split: if_splits)
  next
    case False
    then have "healthy_loop (probe_health sy url) deadline giveup (sy_server_pause sy) (Suc n) (now + 2 * Second + int lag) (f s1) = (r, w')"
      using "1.prems" up p by (subst (asm) healthy_loop.simps) simp
    with "1.hyps" [OF _ _ _ _ p [symmetric] refl] False up c show ?thesis by (auto intro: calm_trans)
  qed
qed


lemma calm_run:
  assumes "quiet sy" and "runComposeUp sy f w = (r, w')" shows "calm w w'"
  using assms(2) quietD(2) [OF assms(1)] by (auto simp: runComposeUp_def Let_def split: if_splits prod.splits option.splits)

lemma calm_ensureServerHealthy:
  assumes "quiet sy" and "ensureServerHealthy sy url dir t w = (r, w')" shows "calm w w'"
proof -
  obtain up w1 where up: "probe_health sy url w = (up, w1)" by (cases "probe_health sy url w")
  obtain r2 w2 where run: "runComposeUp sy (path_join [dir, ''docker-compose.yml'']) w1 = (r2, w2)"
    by (cases "runComposeUp sy (path_join [dir, ''docker-compose.yml'']) w1")
  note c = calm_Health [OF assms(1) up] calm_run [OF assms(1) run]
  from assms(2) up run consider "w' = w1" | "w' = w2"
    | d g where "healthy_loop (probe_health sy url) d g (sy_server_pause sy) 0 (w_now w2) w2 = (r, w')"
    by (auto simp: ensureServerHealthy_def Let_def split: if_splits option.splits)
  then show ?thesis
  proof cases
    case 3
    from calm_healthy_loop [OF assms(1) 3] c show ?thesis by (auto intro: calm_trans)
  qed (use c in \<open>auto intro: calm_trans\<close>)
qed

lemma calm_token_loop:
  assumes "quiet sy" shows "token_loop rd d (sy_token_pause sy) n now w = (r, w') \<Longrightarrow> calm w w'"
proof (induction rd d "sy_token_pause sy" n now w rule: token_loop.induct)
  case (1 rd deadline n now s)
  define token where "token = (case rd s of Inl e \<Rightarrow> [] | Inr text \<Rightarrow> TrimSpace text)"
  show ?case
  proof (cases "token = [] \<and> \<not> now > deadline \<and> (\<exists>lag f. sy_token_pause sy n = Woken lag f)")
    case False
    with "1.prems" show ?thesis
      by (subst (asm) token_loop.simps) (auto simp: Let_def token_def split: if_splits sum.splits pause.splits)
  next
    case True
    then obtain lag f where p: "sy_token_pause sy n = Woken lag f" by blast
    with True "1.prems" have "token_loop rd deadline (sy_token_pause sy) (Suc n) (now + 500 * Millisecond + int lag) (f s) = (r, w')"
      by (subst (asm) token_loop.simps) (simp add: Let_def token_def)
    with "1.hyps" [OF refl refl _ _ p] True quietD(4) [OF assms p, of s] show ?thesis
      by (auto simp: token_def intro: calm_trans)
  qed
qed

lemma calm_idle:
  assumes "quiet sy" and "HasIdleWorker (sy_wire sy) (sy_peer sy) url g w = (r, w')" shows "calm w w'"
  using assms(2) quietD(1) [OF assms(1)]
  by (auto simp: HasIdleWorker_def Orchestrator_ListWorkers_def Let_def split: prod.splits http_answer.splits)

lemma calm_idle_loop:
  assumes "quiet sy"
  shows "idle_loop (HasIdleWorker (sy_wire sy) (sy_peer sy) url g) d e (sy_idle_pause sy) n now w = (r, w') \<Longrightarrow> calm w w'"
proof (induction "HasIdleWorker (sy_wire sy) (sy_peer sy) url g" d e "sy_idle_pause sy" n now w rule: idle_loop.induct)
  case (1 deadline giveup n now s)
  obtain q s1 where q: "HasIdleWorker (sy_wire sy) (sy_peer sy) url g s = (q, s1)"
    by (cases "HasIdleWorker (sy_wire sy) (sy_peer sy) url g s")
  note c = calm_idle [OF assms q]
  show ?case
  proof (cases "q \<noteq> Inr True \<and> \<not> now > deadline \<and> (\<exists>lag f. sy_idle_pause sy n = Woken lag f)")
    case False
    with "1.prems" q c show ?thesis
      by (subst (asm) idle_loop.simps) (auto split: if_splits pause.splits)
  next
    case True
    then obtain lag f where p: "sy_idle_pause sy n = Woken lag f" by blast
    with True "1.prems" q have "idle_loop (HasIdleWorker (sy_wire sy) (sy_peer sy) url g) deadline giveup (sy_idle_pause sy) (Suc n)
        (now + 2 * Second + int lag) (f s1) = (r, w')"
      by (subst (asm) idle_loop.simps) simp
    with "1.hyps" [OF q [symmetric] refl _ _ p] True quietD(5) [OF assms p, of s1] c show ?thesis
      by (auto intro: calm_trans)
  qed
qed

lemma calm_resolve:
  assumes "quiet sy" and "resolveOrBootstrapConfig sy fl dir t w = (r, w')" shows "calm w w'"
proof -
  define server where "server = effective_server fl (Load sy w)"
  obtain h w1 where h: "ensureServerHealthy sy server dir t w = (h, w1)" by (cases "ensureServerHealthy sy server dir t w")
  obtain tok w2 where tok: "waitForDevToken sy (token_path dir) (15 * Second) w1 = (tok, w2)"
    by (cases "waitForDevToken sy (token_path dir) (15 * Second) w1")
  note c = calm_ensureServerHealthy [OF assms(1) h] calm_token_loop [OF assms(1) tok [unfolded waitForDevToken_def]]
  from assms(2) [unfolded resolveOrBootstrapConfig_def Let_def server_def [symmetric] h tok]
  consider "w' = w" | "w' = w1" | "w' = w2" | cf where "w' = snd (Save sy cf w2)"
    by (cases "Load sy w"; cases h; cases tok) (auto simp: tok split: if_splits)
  moreover have "calm w w2" using c by (rule calm_trans)
  ultimately show ?thesis using c calm_trans [OF _ calm_Save] by cases auto
qed

text \<open>Of the processes the tool may have started, at most one, the one the clean-up stops.\<close>

definition pids_ok :: "'w host_scheme \<Rightarrow> bool" where
  "pids_ok w \<longleftrightarrow> list_all (\<lambda>(i, p). i < h_next w) (h_procs w)"

lemma pids_calm: "calm w w' \<Longrightarrow> pids_ok w \<Longrightarrow> pids_ok w'"
  by (auto simp: calm_def pids_ok_def list_all_iff)

definition started :: "nat \<Rightarrow> 'w host_scheme \<Rightarrow> 'w host_scheme \<Rightarrow> bool" where
  "started pid w w' \<longleftrightarrow> (\<exists>p. h_procs w' = h_procs w @ [(pid, p)]) \<and> h_next w \<le> pid \<and> pid < h_next w'"

lemma started_stop: "started pid w w' \<Longrightarrow> pids_ok w \<Longrightarrow> h_procs (stop_process pid w') = h_procs w"
  by (fastforce simp: started_def stop_process_def pids_ok_def list_all_iff intro!: filter_True)

lemma started_calm:
  "calm u w \<Longrightarrow> started pid w w' \<Longrightarrow> started pid u w'" "started pid u w \<Longrightarrow> calm w w' \<Longrightarrow> started pid u w'"
  by (auto simp: started_def calm_def)

lemma calm_FreeTCPPort: "FreeTCPPort w = (r, w') \<Longrightarrow> calm w w'"
  unfolding FreeTCPPort_def by (erule calm_os_call) (auto split: list.splits)

lemma start_cases:
  assumes "startManagedProcess sy p label w = (r, w')"
  obtains e where "r = Inl e" "calm w w'" | pid where "r = Inr pid" "started pid w w'"
proof (cases "fault w")
  case None
  with assms that show thesis
    by (auto simp: startManagedProcess_def Let_def calm_def started_def tick_def split: option.splits)
qed (use assms that in \<open>auto simp: startManagedProcess_def\<close>)

lemma calm_start:
  assumes "calm u w" and "startManagedProcess sy p label w = (r, w')"
  shows "(\<exists>e. r = Inl e \<and> calm u w') \<or> (\<exists>pid. r = Inr pid \<and> started pid u w')"
  using assms(2) by (rule start_cases) (use assms(1) started_calm(1) calm_trans in blast)+

lemma spawn_cases:
  assumes "(if host \<noteq> [] then spawnRemoteWorkerSSH sy host rdir url gpu w else spawnLocalWorker sy dir url gpu w) = (r, w')"
  shows "(\<exists>e. r = Inl e \<and> calm w w') \<or> (\<exists>pid. r = Inr pid \<and> started pid w w')"
proof (cases "host = []")
  case True
  obtain p w1 where p: "FreeTCPPort w = (p, w1)" by (cases "FreeTCPPort w")
  note c = calm_FreeTCPPort [OF p]
  show ?thesis
  proof (cases "isl p \<or> worker_command w1 = None")
    case True
    with assms p c \<open>host = []\<close> show ?thesis by (cases p) (auto simp: spawnLocalWorker_def)
  next
    case False
    then obtain port name args where "p = Inr port" "worker_command w1 = Some (name, args)" by (cases p) auto
    with assms p \<open>host = []\<close> have "\<exists>q label. startManagedProcess sy q label w1 = (r, w')"
      by (auto simp: spawnLocalWorker_def)
    then show ?thesis using calm_start [OF c] by blast
  qed
next
  case False
  obtain p1 w1 where p1: "FreeTCPPort w = (p1, w1)" by (cases "FreeTCPPort w")
  obtain p2 w2 where p2: "FreeTCPPort w1 = (p2, w2)" by (cases "FreeTCPPort w1")
  obtain p3 w3 where p3: "FreeTCPPort w2 = (p3, w3)" by (cases "FreeTCPPort w2")
  note c1 = calm_FreeTCPPort [OF p1] and c2 = calm_trans [OF calm_FreeTCPPort [OF p1] calm_FreeTCPPort [OF p2]]
  note c3 = calm_trans [OF c2 calm_FreeTCPPort [OF p3]]
  from assms False have s: "spawnRemoteWorkerSSH sy host rdir url gpu w = (r, w')" by simp
  then consider e where "r = Inl e" "calm w w'" | q label where "startManagedProcess sy q label w3 = (r, w')"
    using c1 c2 c3 unfolding spawnRemoteWorkerSSH_def Let_def p1 p2 p3
    by (cases "portFromURL url"; cases p1; cases p2; cases p3) (auto simp: p1 p2 p3 split: if_splits)
  then show ?thesis using calm_start [OF c3] by cases blast+
qed

text \<open>How \<open>ensureStack\<close> ends: failed, ready with nothing started, or with one worker that is kept or to be stopped.\<close>

lemma ensureStack_cases:
  assumes "quiet sy" and "pids_ok w" and "ensureStack sy fl opt w = (r, w')"
  obtains (failed) e where "r = Inl e" "so_keepWorker opt \<or> h_procs w' = h_procs w"
  | (ready) cfg where "r = Inr (None, cfg)" "calm w w'"
  | (kept) cfg pid where "r = Inr (None, cfg)" "so_keepWorker opt" "started pid w w'"
  | (spawned) cfg pid where "r = Inr (Some pid, cfg)" "\<not> so_keepWorker opt" "started pid w w'"
proof -
  obtain c w1 where c: "resolveOrBootstrapConfig sy fl (so_projectDir opt) (so_startupTimeout opt) w = (c, w1)"
    by (cases "resolveOrBootstrapConfig sy fl (so_projectDir opt) (so_startupTimeout opt) w")
  obtain idle w2 where idle: "HasIdleWorker (sy_wire sy) (sy_peer sy) (so_orchestratorURL opt) (so_gpuProfile opt) w1 = (idle, w2)"
    by (cases "HasIdleWorker (sy_wire sy) (sy_peer sy) (so_orchestratorURL opt) (so_gpuProfile opt) w1")
  obtain q w3 where q: "(if so_gpuHost opt \<noteq> []
      then spawnRemoteWorkerSSH sy (so_gpuHost opt) (so_remoteDir opt) (so_orchestratorURL opt) (so_gpuProfile opt) w2
      else spawnLocalWorker sy (so_projectDir opt) (so_orchestratorURL opt) (so_gpuProfile opt) w2) = (q, w3)"
    by fastforce
  obtain g w4 where g: "waitForIdleWorker sy (so_orchestratorURL opt) (so_gpuProfile opt) (so_workerTimeout opt) w3 = (g, w4)"
    by (cases "waitForIdleWorker sy (so_orchestratorURL opt) (so_gpuProfile opt) (so_workerTimeout opt) w3")
  note calm1 = calm_resolve [OF assms(1) c]
  note calm2 = calm_trans [OF calm1 calm_idle [OF assms(1) idle]]
  note calm4 = calm_idle_loop [OF assms(1) g [unfolded waitForIdleWorker_def]]
  note step = assms(3) [unfolded ensureStack_def Let_def c idle prod.case q]
  consider (early) e where "r = Inl e" "h_procs w' = h_procs w" | (idle) cfg where "r = Inr (None, cfg)" "w' = w2"
    | (begun) cf pid where "c = Inr cf" "idle = Inr False" "q = Inr pid" "started pid w w3"
    using step calm1 calm2 spawn_cases [OF q] started_calm(1) [OF calm2]
    by (cases c; cases idle; cases q) (auto simp: calm_def split: if_splits)
  then show thesis
  proof cases
    case early
    with failed show ?thesis by blast
  next
    case idle
    with ready calm2 show ?thesis by blast
  next
    case begun
    note st = started_calm(2) [OF begun(4) calm4]
    show ?thesis
    proof (cases g)
      case None
      with step g begun have "r = Inr (if so_keepWorker opt then None else Some pid, cf)" "w' = w4" by simp_all
      with st kept spawned show ?thesis by (cases "so_keepWorker opt") simp_all
    next
      case (Some e)
      with step g begun have "r = Inl e" "w' = run_cleanup (if so_keepWorker opt then None else Some pid) w4" by simp_all
      with started_stop [OF st assms(2)] failed show ?thesis by (cases "so_keepWorker opt") (simp_all add: run_cleanup_def)
    qed
  qed
qed

text \<open>The bootstrap leaves no worker behind. When \<open>ensureStack\<close> fails, no process it started is running, unless
  \<open>--keep-worker\<close> asked for it; when it succeeds it has started at most one, running the clean-up it returns
  brings the processes back to what they were, and with \<open>--keep-worker\<close> the clean-up does nothing.\<close>

theorem no_worker_left_behind:
  assumes "quiet sy" and "pids_ok w" and "ensureStack sy fl opt w = (r, w')"
  shows "case r of
      Inl e \<Rightarrow> so_keepWorker opt \<or> h_procs w' = h_procs w
    | Inr (cleanup, cfg) \<Rightarrow> length (h_procs w') \<le> length (h_procs w) + 1 \<and>
        (if so_keepWorker opt then cleanup = None else h_procs (run_cleanup cleanup w') = h_procs w)"
  using assms
proof (cases rule: ensureStack_cases)
  case (spawned cfg pid)
  with started_stop [OF spawned(3) assms(2)] show ?thesis by (auto simp: run_cleanup_def started_def)
qed (auto simp: run_cleanup_def started_def calm_def)

section \<open>The bootstrap of a credential\<close>

text \<open>Without a configured key, a remote gateway is refused before anything happens. When \<open>Load\<close> fails and the
  server in effect is not a loopback address, the answer is the error of \<open>Load\<close>, with a hint when the key was
  what it missed, and nothing is contacted, started, read or written. The flags are applied only after
  \<open>Load\<close> has succeeded, so that this is so even when \<open>--api-key\<close> gives the key.\<close>

theorem bootstrap_stays_local:
  assumes "Load sy w = Inl err" and "\<not> isLocalServerURL (effective_server fl (Load sy w))"
  shows "resolveOrBootstrapConfig sy fl dir timeout w =
    (Inl (if errors_Is err ErrAPIKeyNotConfigured
          then Wrap [] err '' (and --server points at a non-local address, so a credential can't be auto-provisioned)'' else err), w)"
  using assms unfolding resolveOrBootstrapConfig_def Let_def by simp

lemma token_loop_blank:
  assumes "\<And>n. \<exists>lag f. pause n = Woken lag f \<and> (\<forall>s. blank s \<longrightarrow> blank (f s))"
    and "\<And>s. blank s \<Longrightarrow> \<exists>text. rd s = Inr text \<and> TrimSpace text = []"
  shows "blank s \<Longrightarrow> \<exists>s'. token_loop rd d pause n now s = (Inr [], s') \<and> blank s'"
proof (induction "nat (d - now + 1)" arbitrary: n now s rule: less_induct)
  case less
  obtain t where r: "rd s = Inr t" "TrimSpace t = []" using assms(2) [OF less.prems] by blast
  show ?case
  proof (cases "now > d")
    case True
    with r less.prems show ?thesis by (subst token_loop.simps) simp
  next
    case False
    obtain lag f where p: "pause n = Woken lag f" "blank (f s)" using assms(1) [of n] less.prems by blast
    have "nat (d - (now + 500 * Millisecond + int lag) + 1) < nat (d - now + 1)" using False by (simp add: duration_units)
    from less.hyps [OF this p(2), of "Suc n"] show ?thesis
      using False r p(1) by (subst token_loop.simps) simp
  qed
qed

text \<open>A machine on which the token file is there and blank.\<close>

definition blank_token :: "string \<Rightarrow> 'w host_scheme \<Rightarrow> bool" where
  "blank_token dir w \<longleftrightarrow> (\<exists>text. h_files w (token_path dir) = Some text \<and> TrimSpace text = [])"

text \<open>A blank token file is taken for a token. With no key configured, a local gateway that answers, and a token file
  that is there but stays blank, the bootstrap does not fail: it returns, and tries to save, a
  configuration whose key is the one of the flag, so an empty key when there is none.\<close>

theorem blank_token_accepted:
  assumes "Load sy w = Inl ErrAPIKeyNotConfigured" and "isLocalServerURL (effective_server fl (Load sy w))"
    and "probe_health sy (effective_server fl (Load sy w)) w = (True, w1)" and "blank_token dir w1"
    and "\<And>n. \<exists>lag f. sy_token_pause sy n = Woken lag f \<and> (\<forall>w. blank_token dir w \<longrightarrow> blank_token dir (f w))"
  shows "\<exists>c w2. resolveOrBootstrapConfig sy fl dir timeout w = (Inr c, snd (Save sy c w2)) \<and> cf_APIKey c = fl_apiKey fl"
proof -
  define server where "server = effective_server fl (Load sy w)"
  have h: "ensureServerHealthy sy server dir timeout w = (None, w1)"
    using assms(3) by (simp add: ensureServerHealthy_def server_def [symmetric])
  have b: "\<exists>text. read_file (token_path dir) v = Inr text \<and> TrimSpace text = []" if "blank_token dir v" for v
    using that by (auto simp: blank_token_def read_file_def)
  obtain w2 where t: "waitForDevToken sy (token_path dir) (15 * Second) w1 = (Inr [], w2)"
    using token_loop_blank [of "sy_token_pause sy" "blank_token dir" "read_file (token_path dir)", OF assms(5) b assms(4)]
    unfolding waitForDevToken_def by blast
  define c where "c = applyFlagOverrides fl \<lparr>cf_ServerURL = server, cf_APIKey = [], cf_TenantID = [], cf_OutputFmt = ''table''\<rparr>"
  have "resolveOrBootstrapConfig sy fl dir timeout w = (Inr c, snd (Save sy c w2))"
    using assms(1,2) unfolding resolveOrBootstrapConfig_def Let_def server_def [symmetric] h c_def by (simp add: t)
  moreover have "cf_APIKey c = fl_apiKey fl" by (simp add: c_def applyFlagOverrides_def Let_def)
  ultimately show ?thesis by blast
qed

section \<open>Examples\<close>

definition demo_host :: host where
  "demo_host = \<lparr>w_now = 0, w_rand = [], w_faults = [], h_home = Some ''/h'', h_env = (\<lambda>k. []), h_files = (\<lambda>p. None),
     h_path = [''uv''], h_ports = [9001, 9002, 9003], h_procs = [], h_next = 100\<rparr>"

definition no_flags :: cli_flags where
  "no_flags = \<lparr>fl_server = [], fl_apiKey = [], fl_output = []\<rparr>"

text \<open>Everything answers 200; there is no worker; Viper reads the one text the encoder writes.\<close>

definition demo_config :: cli_config where
  "demo_config = \<lparr>cf_ServerURL = ''http://localhost:8080'', cf_APIKey = ''k'', cf_TenantID = [], cf_OutputFmt = ''json''\<rparr>"

definition unit_wire :: "unit wire" where
  "unit_wire = \<lparr>wi_error = (\<lambda>_. []), wi_job_response = (\<lambda>_. Inl []), wi_job = (\<lambda>_. Inl []), wi_results = (\<lambda>_. Inl []),
     wi_jobs = (\<lambda>_. Inl []), wi_class = (\<lambda>_. Inl []), wi_workers = (\<lambda>_. Inr []), wi_campaign_response = (\<lambda>_. Inl []),
     wi_campaign = (\<lambda>_. Inl []), wi_campaigns = (\<lambda>_. Inl []), wi_events = (\<lambda>_. Inl []), wi_flags = (\<lambda>_. Inl []),
     wi_key = (\<lambda>_. Inl []), wi_health = (\<lambda>_. Inr \<lparr>hl_Status = [], hl_Postgres = [], hl_Version = []\<rparr>), wi_put_job = (\<lambda>_. Inl []),
     wi_put_input = (\<lambda>_. Inl []), wi_put_campaign = (\<lambda>_. Inl []), wi_put_key = (\<lambda>_. Inl []), wi_rfc3339 = Itoa\<rparr>"

definition demo_sys :: "(unit, host) cli_sys" where
  "demo_sys = \<lparr>sy_wire = unit_wire, sy_peer = (\<lambda>q w. (Answer 200 [] (), w)),
     sy_viper = (\<lambda>text. map_of [(''server_url'', cf_ServerURL demo_config), (''api_key'', cf_APIKey demo_config),
        (''tenant_id'', cf_TenantID demo_config), (''output'', cf_OutputFmt demo_config)]),
     sy_unmarshal = (\<lambda>text. None), sy_yaml = (\<lambda>c. Inr ''yaml''), sy_run = (\<lambda>cmd w. (None, w)), sy_crash = (\<lambda>p w. None),
     sy_server_pause = (\<lambda>n. (0, id)), sy_token_pause = (\<lambda>n. Woken 0 id), sy_idle_pause = (\<lambda>n. Woken 0 id)\<rparr>"


theorem bootstrap_stays_local_witness:
  "isErr (fst (resolveOrBootstrapConfig demo_sys \<lparr>fl_server = ''https://infer.example'', fl_apiKey = ''k'', fl_output = []\<rparr> ''.'' Second demo_host))"
proof -
  let ?fl = "\<lparr>fl_server = ''https://infer.example'', fl_apiKey = ''k'', fl_output = []\<rparr>"
  have l: "Load demo_sys demo_host = Inl ErrAPIKeyNotConfigured" by (simp add: Load_def demo_host_def viper_get_def)
  have "\<not> isLocalServerURL (effective_server ?fl (Load demo_sys demo_host))"
    by (simp add: effective_server_def) code_simp
  from bootstrap_stays_local [OF l this, of "''.''" Second] show ?thesis by simp
qed

theorem blank_token_accepted_witness:
  "\<exists>c w2. resolveOrBootstrapConfig demo_sys no_flags ''.'' Second (demo_host\<lparr>h_files := [''.inferbolt-dev/dev-token'' \<mapsto> '' '']\<rparr>) =
     (Inr c, snd (Save demo_sys c w2)) \<and> cf_APIKey c = []"
proof -
  let ?w = "demo_host\<lparr>h_files := [''.inferbolt-dev/dev-token'' \<mapsto> '' '']\<rparr>"
  have cp: "config_path ''/h'' = ''/h/.inferbolt/config.yaml''" "token_path ''.'' = ''.inferbolt-dev/dev-token''" by code_simp+
  have l: "Load demo_sys ?w = Inl ErrAPIKeyNotConfigured" by (simp add: Load_def demo_host_def viper_get_def cp)
  have loc: "isLocalServerURL (effective_server no_flags (Load demo_sys ?w))"
    unfolding l effective_server_def no_flags_def DefaultServerURL_def by simp code_simp
  have up: "probe_health demo_sys url ?w = (True, ?w)" for url
    by (simp add: probe_health_def Client_Health_def client_call_def client_do_def decodeResp_def demo_sys_def unit_wire_def)
  have b: "blank_token ''.'' ?w" by (simp add: blank_token_def cp TrimSpace_def is_space_def)
  have p: "\<exists>lag f. sy_token_pause demo_sys n = Woken lag f \<and> (\<forall>w. blank_token ''.'' w \<longrightarrow> blank_token ''.'' (f w))" for n
    by (simp add: demo_sys_def)
  from blank_token_accepted [OF l loc up b p, of Second] show ?thesis by (simp add: no_flags_def)
qed

theorem no_worker_left_behind_witness:
  "\<exists>r w'. ensureStack demo_sys no_flags \<lparr>so_projectDir = ''.'', so_orchestratorURL = ''http://o'', so_gpuProfile = ''cpu'', so_gpuHost = [],
      so_remoteDir = [], so_keepWorker = False, so_startupTimeout = Second, so_workerTimeout = Second\<rparr> demo_host = (r, w') \<and>
    (case r of Inl e \<Rightarrow> h_procs w' = [] | Inr (cleanup, cfg) \<Rightarrow> h_procs (run_cleanup cleanup w') = [])"
proof -
  let ?o = "\<lparr>so_projectDir = ''.'', so_orchestratorURL = ''http://o'', so_gpuProfile = ''cpu'', so_gpuHost = [],
      so_remoteDir = [], so_keepWorker = False, so_startupTimeout = Second, so_workerTimeout = Second\<rparr>"
  have "quiet demo_sys" by (simp add: quiet_def demo_sys_def)
  moreover have "pids_ok demo_host" by (simp add: pids_ok_def demo_host_def)
  moreover obtain r w' where "ensureStack demo_sys no_flags ?o demo_host = (r, w')" by (cases "ensureStack demo_sys no_flags ?o demo_host")
  ultimately show ?thesis using no_worker_left_behind [of demo_sys demo_host no_flags ?o r w']
    by (auto simp: demo_host_def split: sum.splits)
qed

end
