(* ===== verification/Follow.thy ===== *)
theory Follow
  imports ClientGateway CliText
begin

text \<open>
  Following a campaign from the command line (\<open>cmd/inferbolt/campaigns.go\<close> and the renderer of
  \<open>cmd/inferbolt/agent.go\<close>): what an event, a summary and a report print, the follower's loop, and that what it
  prints is the campaign's log. Output is a list of prints; widths count characters of UTF-8 text, as
  \<open>fmt\<close> does.
\<close>

section \<open>Printing\<close>

text \<open>What a command writes: a line of standard output or standard error, a prompt, a table, or one JSON document.\<close>

datatype doc =
    DocCampaign campaign
  | DocCampaigns "campaign list"
  | DocJob job
  | DocJobs "job list"
  | DocResults "result list"
  | DocClass classification_result
  | DocKey key_response
  | DocFlag string bool
  | DocRun string string "string option" "string list option" "result list"

datatype printed =
    Line string
  | Prompt string
  | ErrLine string
  | Table "string list" "(string list \<times> cell_colour list) list"
  | Json doc

definition nl :: string where "nl = [char_of (10 :: nat)]"
definition em_dash :: string where "em_dash = [CHR 0xE2, CHR 0x80, CHR 0x94]"

text \<open>\<open>%-8s\<close>: padded on the right to a number of characters, the bytes of a string that do not continue one.\<close>

definition rune_count :: "string \<Rightarrow> nat" where
  "rune_count s = length (filter (\<lambda>c. \<not> (128 \<le> (of_char c :: nat) \<and> (of_char c :: nat) < 192)) s)"

definition pad_right :: "nat \<Rightarrow> string \<Rightarrow> string" where
  "pad_right n s = s @ replicate (n - rune_count s) (CHR '' '')"

definition trial_columns :: "trial_spec \<Rightarrow> string" where
  "trial_columns t = pad_right 8 (ts_Engine t) @ '' '' @ pad_right 24 (configSummary (ts_EngineConfig t)) @ '' ''"

text \<open>\<open>None\<close> is the panic on a trial event without its trial, or a result event without its result.\<close>

definition renderEvent :: "event \<Rightarrow> printed list option" where
  "renderEvent e =
     (case ev_Kind e of
        EventPlan \<Rightarrow> Some [Line (''[plan]   '' @ indentWrap (ev_Text e))]
      | EventThinking \<Rightarrow> Some [Line (''[think]  '' @ indentWrap (ev_Text e))]
      | EventLookup \<Rightarrow> Some [Line (''[look]   '' @ ev_Text e)]
      | EventTrialStart \<Rightarrow>
          (case ev_Trial e of None \<Rightarrow> None | Some t \<Rightarrow> Some [Line (''[run]    '' @ trial_columns t @ ev_Text e)])
      | EventTrialDone \<Rightarrow>
          (case (ev_Trial e, ev_Result e) of
             (Some t, Some r) \<Rightarrow> Some [Line (''[ok]     '' @ trial_columns t @ fmt_fixed 0 (r_TokPerSec r) @ '' tok/s  ''
               @ fmt_fixed 0 (r_TTFTP99Ms r) @ ''ms p99 TTFT  $'' @ fmt_fixed 4 (r_CostPerMTok r) @ ''/Mtok'')]
           | _ \<Rightarrow> None)
      | EventTrialFailed \<Rightarrow>
          (case ev_Trial e of None \<Rightarrow> None | Some t \<Rightarrow> Some [Line (''[fail]   '' @ trial_columns t @ ev_Text e)])
      | EventWarn \<Rightarrow> Some [Line (''[warn]   '' @ ev_Text e)]
      | EventDone \<Rightarrow>
          Some [Line (''[done]   campaign complete ('' @ Duration_String (Duration_Round (ev_Elapsed e) Second) @ '')'')])"

definition toAgentEvent :: "camp_event \<Rightarrow> event" where
  "toAgentEvent e = \<lparr>ev_Kind = ce_Kind e, ev_Text = ce_Text e, ev_Trial = ce_Trial e, ev_Result = ce_Result e,
     ev_Elapsed = wrap64 (ce_ElapsedMs e * Millisecond)\<rparr>"

definition printCampaignFooter :: "report \<Rightarrow> printed list" where
  "printCampaignFooter r =
     (let measured = int (length (filter (\<lambda>t. \<not> tr_Reused t) (rp_Trials r))); u = rp_Usage r;
          tokens = wrap64 (InputTokens u + u_OutputTokens u + CacheReadTokens u);
          line = ''Planning: '' @ rp_PlannerModel r @ '', '' @ Itoa (Turns u) @ '' turns, '' @ humanTokens tokens @ '' tokens'';
          (cost, known) = EstimateUSD u (rp_PlannerModel r)
      in [Line (nl @ Itoa measured @ '' benchmark'' @ plural measured @ '' in ''
            @ Duration_String (Duration_Round (rp_Elapsed r) Second) @ ''.''),
          Line (line @ (if known then '' (~$'' @ fmt_fixed 2 cost @ '')'' else []) @ ''.'')])"

definition printReport :: "report \<Rightarrow> printed list" where
  "printReport r = Line [] #
     (case rp_Recommendation r of
        None \<Rightarrow> [Line ''No recommendation: the campaign produced no usable measurement.'']
      | Some rec \<Rightarrow>
          [Line (''Recommendation: '' @ rec_Engine rec @ '' '' @ configSummary (rec_EngineConfig rec))]
          @ (if rec_Fallback rec then [Line (''  (selected mechanically '' @ em_dash @ '' the planner did not conclude)'')] else [])
          @ (case rec_Measured rec of
               None \<Rightarrow> []
             | Some m \<Rightarrow>
                 [Line (''  throughput   '' @ fmt_fixed 0 (r_TokPerSec m) @ '' tok/s''),
                  Line (''  p99 TTFT     '' @ fmt_fixed 0 (r_TTFTP99Ms m) @ '' ms''),
                  Line (''  cost         $'' @ fmt_fixed 4 (r_CostPerMTok m) @ '' / Mtok'')]
                 @ (if r_ErrorRate m > 0 then [Line (''  error rate   '' @ fmt_fixed 2 (r_ErrorRate m * 100) @ ''%'')] else []))
          @ [Line (''  confidence   '' @ rec_Confidence rec), Line (nl @ indentWrap (rec_Reasoning rec))]
          @ (if rec_RunnerUp rec \<noteq> [] then [Line (nl @ ''Runner-up: '' @ indentWrap (rec_RunnerUp rec))] else [])
          @ (if rec_Caveats rec \<noteq> [] then [Line (nl @ ''Caveats: '' @ indentWrap (rec_Caveats rec))] else []))
     @ printCampaignFooter r"

definition printCampaignSummary :: "campaign \<Rightarrow> printed list" where
  "printCampaignSummary c =
     [Line (''InferBolt campaign '' @ c_ID c @ '' '' @ em_dash @ '' '' @ camp_state_str (c_State c)),
      Line (''Goal:     '' @ c_Goal c), Line (''Model:    '' @ c_Model c @ '' on '' @ c_GPUProfile c),
      Line (''Engines:  '' @ Join '', '' (c_Engines c)),
      Line (''Workload: '' @ Itoa (Concurrency (c_Workload c)) @ '' concurrent, '' @ Itoa (PromptTokens (c_Workload c)) @ ''/''
        @ Itoa (OutputTokens (c_Workload c)) @ '' tokens, '' @ Itoa (NumRequests (c_Workload c)) @ '' requests''),
      Line (''Budget:   '' @ Itoa (MaxTrials (c_Budget c)) @ '' trials, '' @ Duration_String (MaxDuration (c_Budget c))
        @ '' (planner: '' @ c_PlannerModel c @ '')'' @ nl)]"

section \<open>The follower\<close>

text \<open>The end: the campaign is read once more, a failure is told on standard error, and the document or the report is printed.\<close>

definition printFinalCampaign ::
  "('s \<Rightarrow> campaign res \<times> 's) \<Rightarrow> bool \<Rightarrow> int \<Rightarrow> 's \<Rightarrow> goerr option \<times> printed list \<times> 's" where
  "printFinalCampaign get json now s =
     (let (r, s) = get s
      in case r of
           Inl e \<Rightarrow> (Some e, [], s)
         | Inr c \<Rightarrow>
             (None, (if c_State c = CampFailed \<and> c_ErrorMsg c \<noteq> [] then [ErrLine (nl @ ''Campaign failed: '' @ c_ErrorMsg c)] else [])
                @ (if json then [Json (DocCampaign c)] else printReport (ToReport now c)), s))"

text \<open>
  What the loop meets, round by round: whether the context is over when a read fails, then what its
  \<open>select\<close> receives, the end of the context or the ticker, with what the rest of the world did meanwhile.
\<close>

datatype 's follow_script = Detach bool | Tick bool "'s \<Rightarrow> 's" "'s follow_script"

fun cancelled_in :: "'s follow_script \<Rightarrow> bool" where
  "cancelled_in (Detach b) = b"
| "cancelled_in (Tick b f rest) = b"

definition render_all :: "camp_event list \<Rightarrow> printed list option" where
  "render_all es = map_option concat (those (map (renderEvent \<circ> toAgentEvent) es))"

definition prepend :: "printed list \<Rightarrow> (goerr option \<times> printed list \<times> 's) option \<Rightarrow> (goerr option \<times> printed list \<times> 's) option" where
  "prepend out r = map_option (\<lambda>(e, more, s). (e, out @ more, s)) r"

text \<open>One round: the read, and what is printed; \<open>Inl\<close> where the follower returns, \<open>Inr\<close> the cursor it goes on with.\<close>

definition follow_round ::
  "(int \<Rightarrow> 's \<Rightarrow> campaign_events res \<times> 's) \<Rightarrow> ('s \<Rightarrow> campaign res \<times> 's) \<Rightarrow> bool \<Rightarrow> int \<Rightarrow> bool \<Rightarrow> int \<Rightarrow> 's
   \<Rightarrow> ((goerr option \<times> printed list \<times> 's) + (int \<times> printed list \<times> 's)) option" where
  "follow_round fetch get json now cancelled afterSeq s =
     (let (page, s) = fetch afterSeq s
      in case page of
           Inl e \<Rightarrow>
             Some (if cancelled then Inl (None, [], s)
                   else Inr (afterSeq, [ErrLine (''warning: could not read campaign progress: '' @ Error e)], s))
         | Inr p \<Rightarrow>
             (case render_all (pe_Events p) of
                None \<Rightarrow> None
              | Some out \<Rightarrow>
                  Some (if pe_Done p
                        then let (e, rest, s) = printFinalCampaign get json now s in Inl (e, out @ rest, s)
                        else Inr (pe_LastSeq p, out, s))))"

primrec followCampaign ::
  "(int \<Rightarrow> 's \<Rightarrow> campaign_events res \<times> 's) \<Rightarrow> ('s \<Rightarrow> campaign res \<times> 's) \<Rightarrow> bool \<Rightarrow> int \<Rightarrow> 's follow_script \<Rightarrow> int \<Rightarrow> 's
   \<Rightarrow> (goerr option \<times> printed list \<times> 's) option" where
  "followCampaign fetch get json now (Detach cancelled) afterSeq s =
     (case follow_round fetch get json now cancelled afterSeq s of
        None \<Rightarrow> None
      | Some (Inl r) \<Rightarrow> Some r
      | Some (Inr (cursor, out, s)) \<Rightarrow> Some (None, out, s))"
| "followCampaign fetch get json now (Tick cancelled f rest) afterSeq s =
     (case follow_round fetch get json now cancelled afterSeq s of
        None \<Rightarrow> None
      | Some (Inl r) \<Rightarrow> Some r
      | Some (Inr (cursor, out, s)) \<Rightarrow> prepend out (followCampaign fetch get json now rest cursor (f s)))"


section \<open>Live and replayed output\<close>

lemma round_ms: 
  fixes d :: int
  assumes "0 \<le> d" shows "Duration_Round (d div Millisecond * Millisecond) Second = Duration_Round d Second"
proof -
  define a where "a = d mod 1000000"
  define q where "q = d div 1000000"
  have d: "d = q * 1000000 + a" "0 \<le> a" "a < 1000000" "0 \<le> q" using assms by (simp_all add: a_def q_def)
  define x where "x = q mod 1000"
  have m: "d mod 1000000000 = x * 1000000 + a" "q * 1000000 mod 1000000000 = x * 1000000"
    using zmod_zmult2_eq [of 1000 d 1000000] mult_mod_right [of 1000000 q 1000] by (simp_all add: x_def a_def q_def mult.commute)
  have "2 * (x * 1000000 + a) < 1000000000 \<longleftrightarrow> x < 500" "2 * (x * 1000000) < 1000000000 \<longleftrightarrow> x < 500"
    using d(2,3) by auto
  moreover have "\<bar>q * 1000000\<bar> = q * 1000000" "\<not> q * 1000000 < 0" "\<not> d < 0" using d(4) assms by auto
  ultimately have "Duration_Round (q * 1000000) 1000000000 = Duration_Round d 1000000000"
    unfolding Duration_Round_def Let_def abs_of_nonneg [OF assms] by (simp add: m) (simp add: d(1) add_diff_eq)
  then show ?thesis by (simp add: duration_units q_def)
qed

lemma render_elapsed:
  "Duration_Round d Second = Duration_Round (ev_Elapsed e) Second \<Longrightarrow> renderEvent (e\<lparr>ev_Elapsed := d\<rparr>) = renderEvent e"
  by (cases e) (simp only: renderEvent_def event.simps)

text \<open>C38: Live and replayed output are the same. The row that \<open>AppendEvent\<close> adds for an event, read back and adapted
  for the renderer, prints exactly what the event itself prints: the milliseconds the store rounds down to
  never move the whole seconds the renderer shows.\<close>

theorem replay_renders_alike:
  assumes "AppendEvent i e w = (Inr (), w')" and "0 \<le> ev_Elapsed e" and "in_int64 (ev_Elapsed e)"
  shows "\<exists>es x. events_of i (t_events w') = es @ [x] \<and> es = events_of i (t_events w) \<and>
    renderEvent (toAgentEvent x) = renderEvent e"
proof -
  let ?x = "\<lparr>ce_Seq = next_seq (events_of i (t_events w)), ce_Kind = ev_Kind e, ce_Text = ev_Text e,
     ce_Trial = ev_Trial e, ce_Result = ev_Result e, ce_ElapsedMs = Milliseconds (ev_Elapsed e), ce_CreatedAt = w_now w\<rparr>"
  have "events_of i (t_events w') = events_of i (t_events w) @ [?x]"
    using assms(1) by (auto simp: AppendEvent_def db_call_def events_of_def split: if_splits option.splits)
  moreover have "0 \<le> ev_Elapsed e div Millisecond * Millisecond" "ev_Elapsed e div Millisecond * Millisecond \<le> ev_Elapsed e"
    using assms(2) by (simp_all add: duration_units)
  then have "in_int64 (ev_Elapsed e div Millisecond * Millisecond)"
    using assms(3) by (simp add: in_int64_def)
  then have "toAgentEvent ?x = e\<lparr>ev_Elapsed := ev_Elapsed e div Millisecond * Millisecond\<rparr>"
    using assms(2) by (simp add: toAgentEvent_def Milliseconds_def wrap64_id)
  then have "renderEvent (toAgentEvent ?x) = renderEvent e"
    using render_elapsed [OF round_ms [OF assms(2)]] by simp
  ultimately show ?thesis by blast
qed


definition demo_done :: event where
  "demo_done = (mk_event EventDone [])\<lparr>ev_Elapsed := 61500700900\<rparr>"

theorem replay_renders_alike_witness:
  "\<exists>w' es x. AppendEvent ''c'' demo_done (demo_camp_db [demo_stored ''c'' ''t'']) = (Inr (), w') \<and>
    events_of ''c'' (t_events w') = es @ [x] \<and> renderEvent (toAgentEvent x) = renderEvent demo_done"
proof -
  have "\<exists>w'. AppendEvent ''c'' demo_done (demo_camp_db [demo_stored ''c'' ''t'']) = (Inr (), w')"
    by (simp add: AppendEvent_def db_call_def demo_stored_def)
  then obtain w' where w': "AppendEvent ''c'' demo_done (demo_camp_db [demo_stored ''c'' ''t'']) = (Inr (), w')" ..
  have "0 \<le> ev_Elapsed demo_done" "in_int64 (ev_Elapsed demo_done)" by (simp_all add: demo_done_def in_int64_def)
  from replay_renders_alike [OF w' this] w' show ?thesis by blast
qed

section \<open>The follower prints the log\<close>

text \<open>
  What the follower relies on: a read that succeeds returns the page of the log behind its cursor with the
  number of the page's last step, and no read changes the log.
\<close>

locale event_feed =
  fixes fetch :: "int \<Rightarrow> 's \<Rightarrow> campaign_events res \<times> 's" and get :: "'s \<Rightarrow> campaign res \<times> 's"
    and feed :: "'s \<Rightarrow> camp_event list" and chunk :: nat and ok :: "'s \<Rightarrow> bool"
  assumes fetch_page: "ok s \<Longrightarrow> k \<le> length (feed s) \<Longrightarrow> fetch (int k) s = (Inr p, s') \<Longrightarrow>
      pe_Events p = take chunk (drop k (feed s)) \<and> pe_LastSeq p = int (min (k + chunk) (length (feed s)))"
    and fetch_log: "ok s \<Longrightarrow> k \<le> length (feed s) \<Longrightarrow> fetch (int k) s = (r, s') \<Longrightarrow> ok s' \<and> feed s' = feed s"
    and get_log: "ok s \<Longrightarrow> get s = (c, s') \<Longrightarrow> ok s' \<and> feed s' = feed s"

text \<open>Between the rounds the log may only grow.\<close>

primrec growing :: "('s \<Rightarrow> bool) \<Rightarrow> ('s \<Rightarrow> camp_event list) \<Rightarrow> 's follow_script \<Rightarrow> bool" where
  "growing ok feed (Detach b) \<longleftrightarrow> True"
| "growing ok feed (Tick b f rest) \<longleftrightarrow> (\<forall>s. ok s \<longrightarrow> ok (f s) \<and> (\<exists>es. feed (f s) = feed s @ es)) \<and> growing ok feed rest"

fun on_stdout :: "printed \<Rightarrow> bool" where
  "on_stdout (ErrLine s) = False"
| "on_stdout _ = True"

lemma render_all_simps [simp]: "render_all [] = Some []"
  by (simp add: render_all_def)

lemma those_append:
  "those (xs @ ys) = (case those xs of None \<Rightarrow> None | Some a \<Rightarrow> (case those ys of None \<Rightarrow> None | Some b \<Rightarrow> Some (a @ b)))"
  by (induction xs) (auto split: option.splits)

lemma render_all_append:
  "render_all (es @ fs) = (case render_all es of None \<Rightarrow> None
     | Some a \<Rightarrow> (case render_all fs of None \<Rightarrow> None | Some b \<Rightarrow> Some (a @ b)))"
  by (auto simp: render_all_def those_append split: option.splits)

lemma renderEvent_stdout: "renderEvent e = Some out \<Longrightarrow> filter on_stdout out = out"
  unfolding renderEvent_def by (cases "ev_Kind e") (auto split: option.splits)

lemma render_all_stdout: "render_all es = Some out \<Longrightarrow> filter on_stdout out = out"
proof (induction es arbitrary: out)
  case (Cons e es)
  from render_all_append [of "[e]" es] Cons.prems obtain a b where
    ab: "render_all [e] = Some a" "render_all es = Some b" "out = a @ b" by (auto split: option.splits)
  then have "renderEvent (toAgentEvent e) = Some a" by (auto simp: render_all_def split: option.splits)
  from renderEvent_stdout [OF this] Cons.IH [OF ab(2)] ab(3) show ?case by simp
qed simp

text \<open>What has been printed from the cursor \<open>k\<close>: the steps behind it up to some step \<open>m\<close> of the log, in order and without
  a gap, and then possibly the report, which comes at the end of the log or after a whole page.\<close>

definition printed_from ::
  "('s \<Rightarrow> bool) \<Rightarrow> ('s \<Rightarrow> camp_event list) \<Rightarrow> nat \<Rightarrow> nat \<Rightarrow> 's \<Rightarrow> printed list \<Rightarrow> 's \<Rightarrow> bool" where
  "printed_from ok feed chunk k s out s' \<longleftrightarrow> ok s' \<and> (\<exists>m shown rep. k \<le> m \<and> m \<le> length (feed s') \<and>
    take (length (feed s)) (feed s') = feed s \<and> render_all (drop k (take m (feed s'))) = Some shown \<and>
    filter on_stdout out = shown @ rep \<and> (rep = [] \<or> m = length (feed s') \<or> k + chunk \<le> m))"

context event_feed
begin

text \<open>One round, from a cursor inside the log.\<close>

lemma round_cases:
  assumes "ok s" and "k \<le> length (feed s)" and "follow_round fetch get json now cancelled (int k) s = Some r"
  obtains (failed) s1 where "cancelled" "r = Inl (None, [], s1)" "ok s1" "feed s1 = feed s"
  | (warned) msg s1 where "r = Inr (int k, [ErrLine msg], s1)" "ok s1" "feed s1 = feed s"
  | (read) shown s1 where "render_all (take chunk (drop k (feed s))) = Some shown" "ok s1" "feed s1 = feed s"
      "r = Inr (int (min (k + chunk) (length (feed s))), shown, s1)"
  | (over) shown e rest s1 where "render_all (take chunk (drop k (feed s))) = Some shown" "ok s1" "feed s1 = feed s"
      "r = Inl (e, shown @ rest, s1)"
proof -
  obtain q s0 where f: "fetch (int k) s = (q, s0)" by (cases "fetch (int k) s")
  note l = fetch_log [OF assms(1,2) f]
  show thesis
  proof (cases q)
    case (Inl e)
    with f l assms(3) failed [of s0] warned show ?thesis
      by (cases cancelled) (auto simp: follow_round_def)
  next
    case (Inr p)
    note pg = fetch_page [OF assms(1,2) f [unfolded Inr]]
    from assms(3) f Inr obtain shown where shown: "render_all (pe_Events p) = Some shown"
      by (auto simp: follow_round_def split: option.splits)
    show ?thesis
    proof (cases "pe_Done p")
      case False
      with assms(3) f Inr shown pg l read [of shown s0] show ?thesis by (simp add: follow_round_def)
    next
      case True
      obtain c s1 where g: "get s0 = (c, s1)" by (cases "get s0")
      then have "snd (snd (printFinalCampaign get json now s0)) = s1"
        by (simp add: printFinalCampaign_def split: sum.split)
      with True assms(3) f Inr shown pg l get_log [OF _ g] over [of shown s1] show ?thesis
        by (auto simp: follow_round_def split: prod.splits)
    qed
  qed
qed

lemma shown_prefix:
  assumes "k \<le> length l" and "l' = l @ es" and "m = min (k + chunk) (length l)" and "render_all (take chunk (drop k l)) = Some a"
    and "m \<le> n" and "render_all (drop m (take n l')) = Some b" and "n \<le> length l'"
  shows "render_all (drop k (take n l')) = Some (a @ b)"
proof -
  have km: "k \<le> m" using assms(1,3) by simp
  have "take chunk (drop k l) = drop k (take m l')"
    using assms(1,2,3) by (cases "k + chunk \<le> length l") (simp_all add: take_drop add.commute)
  moreover have "drop k (take n l') = drop k (take m l') @ drop m (take n l')"
  proof -
    have "take n l' = take m l' @ drop m (take n l')"
      by (metis append_take_drop_id assms(5) min.absorb1 take_take)
    then have "drop k (take n l') = drop k (take m l' @ drop m (take n l'))" by simp
    also have "\<dots> = drop k (take m l') @ drop m (take n l')"
      using km assms(5,7) by simp
    finally show ?thesis .
  qed
  ultimately show ?thesis using assms(4,6) by (simp add: render_all_append)
qed

lemma shown_page:
  assumes "k \<le> length l" and "render_all (take chunk (drop k l)) = Some a"
  shows "k \<le> min (k + chunk) (length l)" and "render_all (drop k (take (min (k + chunk) (length l)) l)) = Some a"
proof -
  show "k \<le> min (k + chunk) (length l)" using assms(1) by simp
  have "take (min (k + chunk) (length l)) l = take (k + chunk) l" by (simp add: min_def)
  with assms(2) show "render_all (drop k (take (min (k + chunk) (length l)) l)) = Some a" by (simp add: take_drop add.commute)
qed

text \<open>From a cursor inside the log the follower prints the steps behind it, in order and without a gap, up to some
  step, then possibly the report; and there is no report before the end of the log or a whole page.\<close>

lemma printed_nothing:
  "ok s' \<Longrightarrow> feed s' = feed s \<Longrightarrow> k \<le> length (feed s) \<Longrightarrow> filter on_stdout out = [] \<Longrightarrow> printed_from ok feed chunk k s out s'"
  unfolding printed_from_def by (intro conjI exI [of _ k] exI [of _ "[]"]) simp_all

lemma printed_page:
  assumes "ok s'" and "feed s' = feed s" and "k \<le> length (feed s)" and "render_all (take chunk (drop k (feed s))) = Some a"
  shows "printed_from ok feed chunk k s (a @ b) s'"
proof -
  define m where "m = min (k + chunk) (length (feed s))"
  have "k \<le> m" "m \<le> length (feed s')" "m = length (feed s') \<or> k + chunk \<le> m" using assms(2,3) by (auto simp: m_def)
  moreover have "render_all (drop k (take m (feed s'))) = Some a"
    using shown_page [OF assms(3,4)] assms(2) by (simp add: m_def)
  moreover have "filter on_stdout (a @ b) = a @ filter on_stdout b" using render_all_stdout [OF assms(4)] by simp
  ultimately show ?thesis unfolding printed_from_def using assms(1,2) take_all [of "feed s'"] by (metis order_refl)
qed

lemma printed_more:
  assumes "printed_from ok feed chunk m s1 out s'" and "feed s1 = feed s @ es" and "m = min (k + chunk) (length (feed s))"
    and "render_all (take chunk (drop k (feed s))) = Some a" and "k \<le> length (feed s)"
  shows "printed_from ok feed chunk k s (a @ out) s'"
proof -
  from assms(1) obtain n b rep where
    p: "ok s'" "m \<le> n" "n \<le> length (feed s')" "take (length (feed s1)) (feed s') = feed s1"
      "render_all (drop m (take n (feed s'))) = Some b" "filter on_stdout out = b @ rep"
      "rep = [] \<or> n = length (feed s') \<or> m + chunk \<le> n" unfolding printed_from_def by blast
  have pre: "take (length (feed s)) (feed s') = feed s"
    using arg_cong [OF p(4), of "take (length (feed s))"] assms(2) by simp
  then have "feed s' = feed s @ drop (length (feed s)) (feed s')" by (metis append_take_drop_id)
  from shown_prefix [OF assms(5) this assms(3,4) p(2,5,3)] have "render_all (drop k (take n (feed s'))) = Some (a @ b)" .
  moreover have "k \<le> m" using assms(3,5) by simp
  moreover have "filter on_stdout (a @ out) = (a @ b) @ rep" using p(6) render_all_stdout [OF assms(4)] by simp
  moreover have "rep = [] \<or> n = length (feed s') \<or> k + chunk \<le> n" using p(7) \<open>k \<le> m\<close> by linarith
  ultimately show ?thesis unfolding printed_from_def using p(1,2,3) pre order_trans by blast
qed

lemma printed_warning:
  assumes "printed_from ok feed chunk k s1 out s'" and "feed s1 = feed s @ es"
  shows "printed_from ok feed chunk k s (ErrLine msg # out) s'"
proof -
  have "take (length (feed s)) l = feed s" if "take (length (feed s1)) l = feed s1" for l
    using arg_cong [OF that, of "take (length (feed s))"] assms(2) by simp
  with assms(1) show ?thesis unfolding printed_from_def by auto
qed

lemma follow_prints:
  assumes "ok s" and "k \<le> length (feed s)" and "growing ok feed script"
    and "followCampaign fetch get json now script (int k) s = Some (e, out, s')"
  shows "printed_from ok feed chunk k s out s'"
  using assms
proof (induction script arbitrary: k s out)
  case (Detach b)
  then obtain r where r: "follow_round fetch get json now b (int k) s = Some r" by (auto split: option.splits)
  from Detach.prems(1,2) r show ?case
  proof (cases rule: round_cases)
    case (failed s1)
    with r Detach.prems show ?thesis by (intro printed_nothing) auto
  next
    case (warned msg s1)
    with r Detach.prems show ?thesis by (intro printed_nothing) auto
  next
    case (read shown s1)
    with r Detach.prems printed_page [OF read(2,3) _ read(1), of "[]"] show ?thesis by simp
  next
    case (over shown err rest s1)
    with r Detach.prems printed_page [OF over(2,3) _ over(1)] show ?thesis by auto
  qed
next
  case (Tick b f script)
  then obtain r where r: "follow_round fetch get json now b (int k) s = Some r" by (auto split: option.splits)
  have more: "ok (f s1) \<and> (\<exists>es. feed (f s1) = feed s @ es)" if "ok s1" "feed s1 = feed s" for s1
    using Tick.prems(3) that by auto
  have g: "growing ok feed script" using Tick.prems(3) by simp
  from Tick.prems(1,2) r show ?case
  proof (cases rule: round_cases)
    case (failed s1)
    with r Tick.prems show ?thesis by (intro printed_nothing) auto
  next
    case (warned msg s1)
    from more [OF warned(2,3)] obtain es where es: "ok (f s1)" "feed (f s1) = feed s @ es" by blast
    from Tick.prems(4) r warned(1) obtain out1 where
      o: "followCampaign fetch get json now script (int k) (f s1) = Some (e, out1, s')" "out = ErrLine msg # out1"
      by (auto simp: prepend_def)
    have "k \<le> length (feed (f s1))" using Tick.prems(2) es by simp
    from printed_warning [OF Tick.IH [OF es(1) this g o(1)] es(2)] o(2) show ?thesis by simp
  next
    case (read shown s1)
    define m where "m = min (k + chunk) (length (feed s))"
    from more [OF read(2,3)] obtain es where es: "ok (f s1)" "feed (f s1) = feed s @ es" by blast
    from Tick.prems(4) r read(4) obtain out1 where
      o: "followCampaign fetch get json now script (int m) (f s1) = Some (e, out1, s')" "out = shown @ out1"
      by (auto simp: prepend_def m_def)
    have "m \<le> length (feed (f s1))" using es by (simp add: m_def)
    from printed_more [OF Tick.IH [OF es(1) this g o(1)] es(2) m_def read(1) Tick.prems(2)] o(2) show ?thesis by simp
  next
    case (over shown err rest s1)
    with r Tick.prems printed_page [OF over(2,3) _ over(1)] show ?thesis by auto
  qed
qed

end


section \<open>The gateway as the feed\<close>

text \<open>\<open>behind h r w res\<close>: the answer \<open>res\<close> is a refusal on the way, or comes from the handler \<open>h\<close> with headers added.\<close>

inductive behind :: "('w, 'b) handler \<Rightarrow> request \<Rightarrow> 'w world_scheme \<Rightarrow> 'b outcome \<times> auth_state \<times> 'w world_scheme \<Rightarrow> bool"
  for h r w where
  refused: "(\<And>code hs v. out \<noteq> Response code hs (Body v)) \<Longrightarrow> behind h r w (out, s', w)"
| handler: "h r1 (s1, w) = (o1, s2, w') \<Longrightarrow> rq_Query r1 = rq_Query r \<Longrightarrow> behind h r w (with_headers hs o1, s', w')"

inductive_cases behindE: "behind h r w (out, s', w')"

lemma with_headers_nested: "with_headers hs (with_headers ks out) = with_headers (hs @ ks) out" "with_headers [] out = out"
  by (cases out; simp)+

lemma behind_handler_plain: "h r1 (s1, w) = (o1, s2, w') \<Longrightarrow> rq_Query r1 = rq_Query r \<Longrightarrow> behind h r w (o1, s', w')"
  using behind.handler [of h r1 s1 w o1 s2 w' r "[]" s'] by (simp add: with_headers_nested(2))

lemma behind_self: "behind h r w (h r (s, w))"
  by (cases "h r (s, w)") (auto intro: behind_handler_plain)

lemma behind_headers:
  assumes "behind h r w (out, s1, w')" shows "behind h r w (with_headers hs out, s2, w')"
proof -
  have "behind h r w (with_headers hs (fst res), s2, snd (snd res))" if "behind h r w res" for res
    using that
  proof cases
    case (refused out s')
    then show ?thesis by (cases out) (auto intro: behind.refused)
  next
    case (handler r1 s1 o1 s3 w1 ks s')
    then show ?thesis by (auto simp: with_headers_nested(1) intro: behind.handler)
  qed
  from this [OF assms] show ?thesis by simp
qed

lemma behind_trans:
  assumes "behind g r w res" and "\<And>r1 s1. behind h r1 w (g r1 (s1, w))"
  shows "behind h r w res"
  using assms(1)
proof cases
  case (refused out s')
  then show ?thesis by (auto intro: behind.refused)
next
  case (handler r1 s1 o1 s2 w' hs s')
  from assms(2) [of r1 s1] handler have "behind h r1 w (o1, s2, w')" by simp
  then have "behind h r w (o1, s2, w')"
    using handler(3) by (cases rule: behindE) (auto intro: behind.refused behind.handler)
  then show ?thesis unfolding handler(1) by (rule behind_headers)
qed

lemma behind_auth: "behind nxt r w (AuthMiddleware (Verify km) nxt r (s, w))"
proof (cases "HasPrefix (rq_Authorization r) ''Bearer ''")
  case False
  then show ?thesis by (simp add: AuthMiddleware_def writeJSONError_def behind.refused)
next
  case True
  obtain v s1 w1 where v: "Verify km (TrimPrefix (rq_Authorization r) ''Bearer '') (s, w) = (v, s1, w1)"
    by (cases "Verify km (TrimPrefix (rq_Authorization r) ''Bearer '') (s, w)") auto
  have w1: "w1 = w" using Verify_state [OF v] by simp
  show ?thesis
  proof (cases v)
    case (Inl e)
    with True v w1 show ?thesis by (simp add: AuthMiddleware_def writeJSONError_def behind.refused)
  next
    case (Inr c)
    let ?r = "(SetTenantID (cl_TenantID c) r)\<lparr>rq_claims := Some c\<rparr>"
    obtain o1 s2 w2 where n: "nxt ?r (s1, w) = (o1, s2, w2)" by (cases "nxt ?r (s1, w)") auto
    with True v w1 Inr have "AuthMiddleware (Verify km) nxt r (s, w) = (o1, s2, w2)" by (simp add: AuthMiddleware_def)
    with behind_handler_plain [of nxt ?r s1 w o1 s2 w2 r s2] n show ?thesis by (simp add: SetTenantID_def)
  qed
qed

lemma behind_rate: "behind nxt r w (RateLimitMiddleware nxt r (s, w))"
proof (cases "GetTenantID r")
  case None
  then show ?thesis by (simp add: RateLimitMiddleware_def behind_self)
next
  case (Some t)
  define k where "k = bucketKey t (Unix (w_now w) div 60)"
  show ?thesis
  proof (cases "bucket_count k (au_buckets s) \<ge> 100")
    case True
    with Some show ?thesis by (simp add: RateLimitMiddleware_def Let_def k_def behind.refused)
  next
    case False
    let ?s = "s\<lparr>au_buckets := set_bucket k (bucket_count k (au_buckets s) + 1) (au_buckets s)\<rparr>"
    obtain o1 s2 w2 where n: "nxt r (?s, w) = (o1, s2, w2)" by (cases "nxt r (?s, w)") auto
    obtain hs where "RateLimitMiddleware nxt r (s, w) = (with_headers hs o1, s2, w2)"
      using False Some n by (simp add: RateLimitMiddleware_def Let_def k_def)
    then show ?thesis using n by (auto intro: behind.handler)
  qed
qed

lemma behind_scope: "behind nxt r w (RequireScope required nxt r (s, w))"
  by (auto simp: RequireScope_def behind_self intro!: behind.refused)

lemma behind_guarded: "behind (handle env ep) r w (guarded env ep r (s, w))"
proof (cases "guard_of ep")
  case None
  then show ?thesis by (simp add: guarded_def behind_self)
next
  case (Some required)
  then show ?thesis unfolding guarded_def option.case
    by (auto intro: behind_trans [OF behind_auth] behind_trans [OF behind_rate] behind_scope)
qed

lemma behind_mux:
  assumes "map_of (routes (rq_Path r)) (rq_Method r) = Some ep"
  shows "behind (handle env ep) r w (mux env r (s, w))"
proof -
  have "mux env r (s, w) = guarded env ep r (s, w)" using assms by (auto simp: mux_def split: list.splits)
  then show ?thesis by (simp add: behind_guarded)
qed

lemma behind_logger:
  assumes "behind h r w (nxt r (s, w))" shows "behind h r w (LoggerMiddleware nxt r (s, w))"
proof -
  obtain out s1 w1 where n: "nxt r (s, w) = (out, s1, w1)" by (cases "nxt r (s, w)") auto
  obtain s2 where "LoggerMiddleware nxt r (s, w) = (with_headers [] out, s2, w1)"
    by (cases out) (simp_all add: LoggerMiddleware_def n)
  with behind_headers [OF assms [unfolded n]] show ?thesis by simp
qed

lemma behind_gateway:
  fixes w :: "'w gw_db_scheme"
  assumes "rq_Origin r = []" and "rq_XRequestID r = []" and "map_of (routes (rq_Path r)) (rq_Method r) = Some ep"
  shows "behind (handle env ep) r (rand_adv 8 w) (gateway env r (s, w))"
proof -
  define i where "i = EncodeToString (rand_read 8 w)"
  let ?r = "r\<lparr>rq_requestID := i\<rparr>" and ?l = "LoggerMiddleware (mux env) (r\<lparr>rq_requestID := i\<rparr>) (s, rand_adv 8 w)"
  obtain o1 s1 w1 where l: "?l = (o1, s1, w1)" by (cases ?l) auto
  have "behind (handle env ep) ?r (rand_adv 8 w) ?l"
    by (intro behind_logger behind_mux) (simp add: assms(3))
  then have "behind (handle env ep) r (rand_adv 8 w) (o1, s1, w1)" unfolding l by (cases rule: behindE) (auto intro: behind.refused behind.handler)
  moreover have "gateway env r (s, w) = (with_headers [(''Vary'', ''Origin'')] (with_headers [(''X-Request-ID'', i)] o1), s1, w1)"
    using l by (simp add: gateway_def CORS_without_origin [OF assms(1)] RequestIDMiddleware_def newReqID_def assms(2) i_def)
  ultimately show ?thesis unfolding with_headers_nested(1) by (simp add: behind_headers)
qed


lemma client_call_gateway:
  "client_call wi (gateway_peer line (cc_baseURL c) env) c meth path query None decode s =
     (let (out, s') = gateway env (cli_request c meth path query None) s
      in (case out of Panicked \<Rightarrow> Inl (ErrNew ''EOF'')
          | Response code hs b \<Rightarrow> decodeResp (wi_error wi) decode (code, line code, b), s'))"
proof -
  obtain out s1 where g: "gateway env (cli_request c meth path query None) s = (out, s1)"
    by (cases "gateway env (cli_request c meth path query None) s")
  have r: "served_request (cc_baseURL c) \<lparr>hr_Method = meth, hr_URL = cc_baseURL c @ path, hr_Query = query,
      hr_Headers = [(''Authorization'', ''Bearer '' @ cc_apiKey c), (''Content-Type'', ''application/json''),
        (''User-Agent'', ''inferbolt-cli/'' @ cc_version c)], hr_Body = None\<rparr> = cli_request c meth path query None"
    by (simp add: served_request_def cli_request_def header_of_def)
  show ?thesis
    using g r by (cases out) (simp_all add: client_call_def client_do_def gateway_peer_def)
qed

text \<open>A successful read through the gateway shows a body that its handler wrote; every read leaves what the handler left.\<close>

lemma read_cases:
  fixes w :: "'w gw_db_scheme"
  assumes "client_call wi (gateway_peer line (cc_baseURL c) env) c meth path query None (read_as f) (s, w) = (r, s', w')"
    and "map_of (routes (tl (Split (CHR ''/'') path))) meth = Some ep"
  obtains (refused) e where "r = Inl e" "w' = rand_adv 8 w"
  | (answered) r1 s1 s2 out where "handle env ep r1 (s1, rand_adv 8 w) = (out, s2, w')" "rq_Query r1 = query"
      "\<And>v. r = Inr v \<Longrightarrow> \<exists>code hs b. out = Response code hs (Body b) \<and> f b = Some v"
proof -
  obtain out s2 w2 where g: "gateway env (cli_request c meth path query None) (s, w) = (out, s2, w2)"
    by (cases "gateway env (cli_request c meth path query None) (s, w)") auto
  from assms(1) g have w2: "w2 = w'" and r: "r = (case out of Panicked \<Rightarrow> Inl (ErrNew ''EOF'')
      | Response code hs b \<Rightarrow> decodeResp (wi_error wi) (read_as f) (code, line code, b))"
    by (simp_all add: client_call_gateway Let_def)
  have dec: "\<exists>code hs b. out = Response code hs (Body b) \<and> f b = Some v" if "r = Inr v" for v
    using that unfolding r
    by (auto simp: decodeResp_def read_as_def split: outcome.splits if_splits reply_body.splits option.splits sum.splits)
  have "behind (handle env ep) (cli_request c meth path query None) (rand_adv 8 w) (out, s2, w')"
    using behind_gateway [of "cli_request c meth path query None" ep env w s] assms(2) g w2 by simp
  then show thesis
  proof cases
    case refused
    then have "\<nexists>v. r = Inr v" using dec by blast
    then obtain e where "r = Inl e" by (cases r) auto
    with refused that(1) show thesis by simp
  next
    case (handler r1 s1 o1 s3 hs)
    have "\<exists>code hs b. o1 = Response code hs (Body b) \<and> f b = Some v" if "r = Inr v" for v
      using dec [OF that] handler(1) by (cases o1) auto
    with that(2) [OF handler(2)] handler(3) show thesis by simp
  qed
qed

lemma Campaign_Events_page:
  assumes "Campaign_Events i (int k) (int n) w = (Inr es, w')" and "events_ok w"
  shows "es = take n (drop k (events_of i (t_events w)))"
proof -
  have "fst (Campaign_Events i (int k) (int n) (w\<lparr>w_faults := []\<rparr>)) = Inr es"
    using assms(1) by (auto simp: Campaign_Events_def db_call_def fault_def tick_def split: option.splits if_splits)
  moreover have "events_ok (w\<lparr>w_faults := []\<rparr>)" using assms(2) by (simp add: events_ok_def)
  ultimately show ?thesis using event_log_replay [of "w\<lparr>w_faults := []\<rparr>" "int k" "int n" i] by simp
qed

lemma GetCampaignEvents_cases:
  assumes "GetCampaignEvents i r (s, w) = (out, s', w')"
  shows "t_events w' = t_events w"
    and "out = Response code hs (Body (EventsPage es l st fin)) \<Longrightarrow> rq_Query r = [(''after_seq'', Itoa (int k))] \<Longrightarrow>
      in_int64 (int k) \<Longrightarrow> events_ok w \<Longrightarrow> k \<le> length (events_of i (t_events w)) \<Longrightarrow>
      es = take 200 (drop k (events_of i (t_events w))) \<and> l = int (min (k + 200) (length (events_of i (t_events w))))"
proof -
  show "t_events w' = t_events w"
    using assms
    by (auto simp: GetCampaignEvents_def MustGetTenantID_def on_db_def Let_def split: option.splits prod.splits sum.splits dest!: reads_tick)
next
  assume a: "out = Response code hs (Body (EventsPage es l st fin))" "rq_Query r = [(''after_seq'', Itoa (int k))]"
    "in_int64 (int k)" "events_ok w" "k \<le> length (events_of i (t_events w))"
  have q: "queryInt r ''after_seq'' 0 (-1) = int k" "queryInt r ''limit'' 200 maxEventPageSize = int 200"
    using a(2,3) by (simp_all add: queryInt_def query_get_def Atoi_Itoa maxEventPageSize_def)
  from assms a(1) obtain t c w1 w2 where
    c: "GetTenantID r = Some t" "Campaign_Get i t w = (Inr c, w1)" "Campaign_Events i (int k) (int 200) w1 = (Inr es, w2)"
      "l = (if es = [] then int k else ce_Seq (last es))"
    by (auto simp: GetCampaignEvents_def MustGetTenantID_def on_db_def Let_def writeJSON_def writeJSONError_def q
        split: option.splits prod.splits sum.splits)
  have ev: "t_events w1 = t_events w" using reads_tick(6) [OF c(2)] by simp
  then have "events_ok w1" using a(4) by (simp add: events_ok_def)
  from Campaign_Events_page [OF c(3) this] have "es = take 200 (drop k (events_of i (t_events w)))" by (simp add: ev)
  moreover from page_cursor [OF a(4) this _ a(5)] c(4) have "l = int (min (k + 200) (length (events_of i (t_events w))))" by simp
  ultimately show "es = take 200 (drop k (events_of i (t_events w))) \<and> l = int (min (k + 200) (length (events_of i (t_events w))))"
    by blast
qed


text \<open>A campaign id of one path segment, whose log is numbered from one and within the range of \<open>int\<close>.\<close>

definition follow_ok :: "string \<Rightarrow> auth_state \<times> 'w gw_db_scheme \<Rightarrow> bool" where
  "follow_ok i = (\<lambda>(s, w). events_ok w \<and> in_int64 (int (length (events_of i (t_events w)))) \<and> CHR ''/'' \<notin> set i \<and> i \<noteq> [])"

definition step_log :: "string \<Rightarrow> auth_state \<times> 'w gw_db_scheme \<Rightarrow> camp_event list" where
  "step_log i = (\<lambda>(s, w). events_of i (t_events w))"

lemma follow_ok_same: "t_events w' = t_events w \<Longrightarrow> follow_ok i (s', w') = follow_ok i (s, w)"
  by (simp add: follow_ok_def events_ok_def)

lemma campaign_routes:
  assumes "follow_ok i sw"
  shows "map_of (routes (tl (Split (CHR ''/'') (''/v1/campaigns/'' @ i @ ''/events'')))) ''GET'' = Some (EpGetCampaignEvents i)"
    "map_of (routes (tl (Split (CHR ''/'') (''/v1/campaigns/'' @ i)))) ''GET'' = Some (EpGetCampaign i)"
proof -
  have n: "CHR ''/'' \<notin> set i" "i \<noteq> []" using assms by (auto simp: follow_ok_def split: prod.splits)
  show "map_of (routes (tl (Split (CHR ''/'') (''/v1/campaigns/'' @ i @ ''/events'')))) ''GET'' = Some (EpGetCampaignEvents i)"
    unfolding path_segments(4) [OF n(1)] using n(2) by (simp add: routes_def)
  show "map_of (routes (tl (Split (CHR ''/'') (''/v1/campaigns/'' @ i)))) ''GET'' = Some (EpGetCampaign i)"
    unfolding path_segments(2) [OF n(1)] using n(2) by (simp add: routes_def)
qed

lemma GetCampaign_events: "GetCampaign i r (s, w) = (out, s', w') \<Longrightarrow> t_events w' = t_events w"
  by (auto simp: GetCampaign_def MustGetTenantID_def on_db_def Let_def split: option.splits prod.splits dest!: reads_tick)

definition events_body :: "gw_body \<Rightarrow> campaign_events option" where
  "events_body b = (case b of
     EventsPage es l st fin \<Rightarrow> Some \<lparr>pe_Events = es, pe_LastSeq = l, pe_State = st, pe_Done = fin\<rparr> | _ \<Rightarrow> None)"

definition campaign_body :: "gw_body \<Rightarrow> campaign option" where
  "campaign_body b = (case b of CampaignBody cp \<Rightarrow> Some cp | _ \<Rightarrow> None)"

lemma wi_bodies: "wi_events (gw_wire e) = read_as events_body" "wi_campaign (gw_wire e) = read_as campaign_body"
  by (simp_all add: gw_wire_def events_body_def [abs_def] campaign_body_def [abs_def])

lemma events_body_Some:
  "events_body b = Some p \<Longrightarrow> \<exists>st fin. b = EventsPage (pe_Events p) (pe_LastSeq p) st fin \<and> fin = pe_Done p \<and> st = pe_State p"
  by (cases b) (auto simp: events_body_def)

lemma follow_same:
  "t_events w' = t_events w \<Longrightarrow> follow_ok i (s, w) \<Longrightarrow> follow_ok i (s', w') \<and> step_log i (s', w') = step_log i (s, w)"
  by (simp add: follow_ok_def events_ok_def step_log_def)

lemma gateway_page:
  fixes w :: "'w gw_db_scheme"
  assumes "follow_ok i (s, w)" and "k \<le> length (step_log i (s, w))"
    and "CampaignEventsAfter (gw_wire e) (gateway_peer line (cc_baseURL c) env) c i (int k) (s, w) = (Inr p, s', w')"
  shows "pe_Events p = take 200 (drop k (step_log i (s, w))) \<and> pe_LastSeq p = int (min (k + 200) (length (step_log i (s, w))))"
  using assms(3) [unfolded CampaignEventsAfter_def wi_bodies] campaign_routes(1) [OF assms(1)]
proof (cases rule: read_cases)
  case (refused err)
  then show ?thesis by simp
next
  case (answered r1 s1 s2 out)
  from answered(3) [OF refl] obtain code hs b where o: "out = Response code hs (Body b)" "events_body b = Some p" by blast
  from events_body_Some [OF o(2)] obtain st fin where b: "b = EventsPage (pe_Events p) (pe_LastSeq p) st fin" by blast
  have "in_int64 (int k)" "events_ok (rand_adv 8 w)" "k \<le> length (events_of i (t_events (rand_adv 8 w)))"
    using assms(1,2) by (auto simp: follow_ok_def step_log_def in_int64_def events_ok_def rand_adv_def)
  from GetCampaignEvents_cases(2) [OF answered(1) [unfolded handle.simps] o(1) [unfolded b] answered(2) this]
  show ?thesis by (simp add: step_log_def rand_adv_def)
qed

lemma gateway_page_log:
  fixes w :: "'w gw_db_scheme"
  assumes "follow_ok i (s, w)"
    and "CampaignEventsAfter (gw_wire e) (gateway_peer line (cc_baseURL c) env) c i a (s, w) = (r, s', w')"
  shows "follow_ok i (s', w') \<and> step_log i (s', w') = step_log i (s, w)"
  using assms(2) [unfolded CampaignEventsAfter_def wi_bodies] campaign_routes(1) [OF assms(1)]
proof (cases rule: read_cases)
  case (refused err)
  with follow_same [OF _ assms(1), of w' s'] show ?thesis by (simp add: rand_adv_def)
next
  case (answered r1 s1 s2 out)
  from GetCampaignEvents_cases(1) [OF answered(1) [unfolded handle.simps]] have "t_events w' = t_events w" by (simp add: rand_adv_def)
  from follow_same [OF this assms(1)] show ?thesis .
qed

lemma gateway_get_log:
  fixes w :: "'w gw_db_scheme"
  assumes "follow_ok i (s, w)"
    and "Client_GetCampaign (gw_wire e) (gateway_peer line (cc_baseURL c) env) c i (s, w) = (r, s', w')"
  shows "follow_ok i (s', w') \<and> step_log i (s', w') = step_log i (s, w)"
  using assms(2) [unfolded Client_GetCampaign_def wi_bodies] campaign_routes(2) [OF assms(1)]
proof (cases rule: read_cases)
  case (refused err)
  with follow_same [OF _ assms(1), of w' s'] show ?thesis by (simp add: rand_adv_def)
next
  case (answered r1 s1 s2 out)
  from GetCampaign_events [OF answered(1) [unfolded handle.simps]] have "t_events w' = t_events w" by (simp add: rand_adv_def)
  from follow_same [OF this assms(1)] show ?thesis .
qed

interpretation gateway_feed:
  event_feed "CampaignEventsAfter (gw_wire e) (gateway_peer line (cc_baseURL c) env) c i"
    "Client_GetCampaign (gw_wire e) (gateway_peer line (cc_baseURL c) env) c i" "step_log i" 200 "follow_ok i"
  for e line c env i
proof unfold_locales
  show "pe_Events p = take 200 (drop k (step_log i sw)) \<and> pe_LastSeq p = int (min (k + 200) (length (step_log i sw)))"
    if "follow_ok i sw" "k \<le> length (step_log i sw)"
      "CampaignEventsAfter (gw_wire e) (gateway_peer line (cc_baseURL c) env) c i (int k) sw = (Inr p, sw')" for sw k p sw'
    using that by (cases sw, cases sw') (simp only: gateway_page)
  show "follow_ok i sw' \<and> step_log i sw' = step_log i sw"
    if "follow_ok i sw" "k \<le> length (step_log i sw)"
      "CampaignEventsAfter (gw_wire e) (gateway_peer line (cc_baseURL c) env) c i (int k) sw = (r, sw')" for sw k r sw'
    using that by (cases sw, cases sw') (simp only: gateway_page_log)
  show "follow_ok i sw' \<and> step_log i sw' = step_log i sw"
    if "follow_ok i sw" "Client_GetCampaign (gw_wire e) (gateway_peer line (cc_baseURL c) env) c i sw = (r, sw')" for sw r sw'
    using that by (cases sw, cases sw') (simp only: gateway_get_log)
qed


section \<open>What a follower shows\<close>

text \<open>C37: What a follower prints is the campaign's log. However the reads fail, however the log grows between the
  polls, and wherever the user detaches: standard output carries the steps from the first one on, in order,
  none skipped and none twice, up to some step, and after them at most the final report; and the report comes
  only at the end of the log or behind a full page of 200 steps.\<close>

theorem follower_prints_the_log:
  fixes sw :: "auth_state \<times> 'w gw_db_scheme"
  assumes "follow_ok i sw" and "growing (follow_ok i) (step_log i) script"
    and "followCampaign (CampaignEventsAfter (gw_wire e) (gateway_peer line (cc_baseURL c) env) c i)
      (Client_GetCampaign (gw_wire e) (gateway_peer line (cc_baseURL c) env) c i) json now script 0 sw = Some (err, out, sw')"
  shows "\<exists>m shown rep. m \<le> length (step_log i sw') \<and> take (length (step_log i sw)) (step_log i sw') = step_log i sw \<and>
    render_all (take m (step_log i sw')) = Some shown \<and> filter on_stdout out = shown @ rep \<and>
    (rep = [] \<or> m = length (step_log i sw') \<or> 200 \<le> m)"
proof -
  have "printed_from (follow_ok i) (step_log i) 200 0 sw out sw'"
    by (rule gateway_feed.follow_prints [of i sw 0 script e line c env json now err out sw']) (use assms in simp_all)
  then show ?thesis unfolding printed_from_def by auto
qed

lemma let_through_read:
  fixes w :: "'w gw_db_scheme"
  assumes "let_through env (cc_apiKey c) tk (Suc n) (s, w)"
    and "map_of (routes (tl (Split (CHR ''/'') path))) meth = Some ep" and "guard_of ep = Some required" and "HasScope tk required"
    and "\<And>k s0. handle env ep (entered (cli_request c meth path query None) k tk) (s0, rand_adv 8 w) =
      (Response code ks bd, s0, rand_adv 8 w)"
  obtains s1 where "client_call wi (gateway_peer line (cc_baseURL c) env) c meth path query None decode (s, w) =
      (decodeResp (wi_error wi) decode (code, line code, bd), s1, rand_adv 8 w)"
    "let_through env (cc_apiKey c) tk n (s1, rand_adv 8 w)"
proof -
  from let_through_call [OF assms(1-4), of query None] obtain k s0 where
    h: "\<And>code ks bd w3. handle env ep (entered (cli_request c meth path query None) k tk) (s0, rand_adv 8 w) =
        (Response code ks bd, s0, w3) \<Longrightarrow> w_now w3 = w_now w \<Longrightarrow>
      \<exists>s3. client_do (gateway_peer line (cc_baseURL c) env) c meth path query (map_option Inr None) (s, w) =
          (Inr (code, line code, bd), s3, w3) \<and> let_through env (cc_apiKey c) tk n (s3, w3)" by metis
  have "w_now (rand_adv 8 w) = w_now w" by (simp add: rand_adv_def)
  from h [OF assms(5) this] obtain s1 where
    "client_do (gateway_peer line (cc_baseURL c) env) c meth path query None (s, w) = (Inr (code, line code, bd), s1, rand_adv 8 w)"
    "let_through env (cc_apiKey c) tk n (s1, rand_adv 8 w)" by auto
  with that [of s1] show thesis by (simp add: client_call_def)
qed

lemma events_answer:
  assumes "w_faults w = []" and "events_ok w" and "Campaign_Get i t w = (Inr cp, w)"
    and "GetTenantID r = Some t" and "rq_Query r = [(''after_seq'', Itoa (int k))]" and "in_int64 (int k)"
    and "k \<le> length (events_of i (t_events w))"
  shows "GetCampaignEvents i r (s, w) =
    (Response 200 [(''Content-Type'', ''application/json'')] (Body (EventsPage (take 200 (drop k (events_of i (t_events w))))
       (int (min (k + 200) (length (events_of i (t_events w))))) (camp_state_str (c_State cp)) (Camp_IsTerminal (c_State cp)))), s, w)"
proof -
  define pg where "pg = take 200 (drop k (events_of i (t_events w)))"
  have q: "queryInt r ''after_seq'' 0 (-1) = int k" "queryInt r ''limit'' 200 maxEventPageSize = 200"
    using assms(5,6) by (simp_all add: queryInt_def query_get_def Atoi_Itoa maxEventPageSize_def)
  have "fst (Campaign_Events i (int k) 200 w) = Inr pg"
    using event_log_replay [OF assms(2,1), of "int k" 200 i] by (simp add: pg_def)
  moreover have "snd (Campaign_Events i (int k) 200 w) = w"
    using reads_tick(9) [OF prod.collapse [symmetric], of i "int k" 200 w] tick_faultless [OF assms(1)] by simp
  ultimately have ev: "Campaign_Events i (int k) 200 w = (Inr pg, w)" by (simp add: prod_eq_iff)
  have cur: "(if pg = [] then int k else ce_Seq (last pg)) = int (min (k + 200) (length (events_of i (t_events w))))"
    by (rule page_cursor [OF assms(2) pg_def _ assms(7)]) simp
  show ?thesis
    using assms(3,4) ev unfolding pg_def [symmetric] cur [symmetric]
    by (simp only: GetCampaignEvents_def MustGetTenantID_def on_db_def writeJSON_def Let_def option.case sum.case prod.case split_conv q)
qed

lemma finished_follow:
  fixes w :: "'w gw_db_scheme"
  assumes "let_through env (cc_apiKey c) tk 2 (s, w)" and "HasScope tk ScopeJobsRead" and "w_faults w = []"
    and "follow_ok i (s, w)" and "Campaign_Get i (cl_TenantID tk) w = (Inr cp, w)" and "Camp_IsTerminal (c_State cp)"
    and "render_all (take 200 (step_log i (s, w))) = Some shown"
  shows "\<exists>rep sw'. followCampaign (CampaignEventsAfter (gw_wire e) (gateway_peer line (cc_baseURL c) env) c i)
      (Client_GetCampaign (gw_wire e) (gateway_peer line (cc_baseURL c) env) c i) False now script 0 (s, w) =
        Some (None, shown @ rep, sw') \<and> filter on_stdout rep = printReport (ToReport now cp)"
proof -
  note ep = campaign_routes [OF assms(4)]
  let ?t = "cl_TenantID tk" and ?v = "rand_adv 8 w" and ?peer = "gateway_peer line (cc_baseURL c) env"
  have t: "GetTenantID (entered r k tk) = Some ?t" for r k
    by (rule entered_tenant) (use assms(1) in \<open>simp add: let_through_def\<close>)
  have get: "Campaign_Get i ?t (rand_adv n w) = (Inr cp, rand_adv n w)" for n
    using assms(3,5) by (auto simp: Campaign_Get_def queryOne_def db_call_def fault_def tick_def rand_adv_def split: option.splits)
  have ok: "w_faults ?v = []" "events_ok ?v" "in_int64 (int 0)" "t_events ?v = t_events w"
    using assms(3,4) by (simp_all add: rand_adv_def follow_ok_def events_ok_def in_int64_def)
  have h1: "handle env (EpGetCampaignEvents i) (entered (cli_request c ''GET'' (''/v1/campaigns/'' @ i @ ''/events'')
      [(''after_seq'', Itoa 0)] None) k tk) (s0, ?v) =
    (Response 200 [(''Content-Type'', ''application/json'')] (Body (EventsPage (take 200 (step_log i (s, w)))
       (int (min 200 (length (step_log i (s, w))))) (camp_state_str (c_State cp)) True)), s0, ?v)" for k s0
    using events_answer [OF ok(1,2) get t _ ok(3), of _ k s0] assms(6) ok(4) by (simp add: step_log_def)
  have h2: "handle env (EpGetCampaign i) (entered (cli_request c ''GET'' (''/v1/campaigns/'' @ i) [] None) k tk) (s0, rand_adv 8 ?v) =
    (Response 200 [(''Content-Type'', ''application/json'')] (Body (CampaignBody cp)), s0, rand_adv 8 ?v)" for k s0
    using get [of 16] t by (simp add: GetCampaign_def MustGetTenantID_def on_db_def writeJSON_def rand_adv_def)
  have g: "guard_of (EpGetCampaignEvents i) = Some ScopeJobsRead" "guard_of (EpGetCampaign i) = Some ScopeJobsRead" by simp_all
  obtain s1 where c1: "CampaignEventsAfter (gw_wire e) ?peer c i 0 (s, w) =
      (Inr \<lparr>pe_Events = take 200 (step_log i (s, w)), pe_LastSeq = int (min 200 (length (step_log i (s, w)))),
         pe_State = camp_state_str (c_State cp), pe_Done = True\<rparr>, s1, ?v)"
    and adm: "let_through env (cc_apiKey c) tk (Suc 0) (s1, ?v)"
    by (rule let_through_read [OF assms(1) [unfolded numeral_2_eq_2] ep(1) g(1) assms(2) h1, of "gw_wire e" line "wi_events (gw_wire e)"])
      (simp add: CampaignEventsAfter_def decodeResp_def)
  obtain s2 where c2: "Client_GetCampaign (gw_wire e) ?peer c i (s1, ?v) = (Inr cp, s2, rand_adv 8 ?v)"
    by (rule let_through_read [OF adm ep(2) g(2) assms(2) h2, of "gw_wire e" line "wi_campaign (gw_wire e)"])
      (simp add: Client_GetCampaign_def decodeResp_def)
  obtain rep where rep: "printFinalCampaign (Client_GetCampaign (gw_wire e) ?peer c i) False now (s1, ?v) = (None, rep, s2, rand_adv 8 ?v)"
    "filter on_stdout rep = filter on_stdout (printReport (ToReport now cp))"
    using c2 by (simp add: printFinalCampaign_def)
  have "filter on_stdout (printReport r) = printReport r" for r
    by (simp add: printReport_def printCampaignFooter_def Let_def split: option.split prod.split)
  with rep have "filter on_stdout rep = printReport (ToReport now cp)" by simp
  moreover have "follow_round (CampaignEventsAfter (gw_wire e) ?peer c i) (Client_GetCampaign (gw_wire e) ?peer c i) False now b 0 (s, w) =
      Some (Inl (None, shown @ rep, s2, rand_adv 8 ?v))" for b
    using c1 rep(1) assms(7) by (simp add: follow_round_def)
  then have "followCampaign (CampaignEventsAfter (gw_wire e) ?peer c i) (Client_GetCampaign (gw_wire e) ?peer c i) False now script 0 (s, w) =
      Some (None, shown @ rep, s2, rand_adv 8 ?v)" by (cases script) simp_all
  ultimately show ?thesis by blast
qed

text \<open>C39: A finished campaign is replayed up to its 200th step only. For a caller with the read scope and two requests
  left this minute, following a campaign that is over prints the steps of the first page and then the report,
  and returns, however many steps the log holds: the gateway says \<open>done\<close> from the campaign's state, and the
  follower takes it for the end of the log.\<close>

theorem finished_campaign_cut_short:
  fixes w :: "'w gw_db_scheme"
  assumes "let_through env (cc_apiKey c) tk 2 (s, w)" and "HasScope tk ScopeJobsRead" and "w_faults w = []"
    and "follow_ok i (s, w)" and "Campaign_Get i (cl_TenantID tk) w = (Inr cp, w)" and "Camp_IsTerminal (c_State cp)"
    and "render_all (take 200 (step_log i (s, w))) = Some shown"
  shows "\<exists>rep sw'. followCampaign (CampaignEventsAfter (gw_wire e) (gateway_peer line (cc_baseURL c) env) c i)
      (Client_GetCampaign (gw_wire e) (gateway_peer line (cc_baseURL c) env) c i) False now script 0 (s, w) =
        Some (None, shown @ rep, sw') \<and> filter on_stdout rep = printReport (ToReport now cp)"
  using assms by (rule finished_follow)

text \<open>A campaign that ended after 201 steps.\<close>

definition long_log :: "(string \<times> camp_event) list" where
  "long_log = map (\<lambda>n. (''c'', \<lparr>ce_Seq = n, ce_Kind = EventWarn, ce_Text = Itoa n, ce_Trial = None, ce_Result = None,
     ce_ElapsedMs = 0, ce_CreatedAt = 0\<rparr>)) [1..201]"

definition long_db :: gw_db where
  "long_db = (demo_gw_db [])\<lparr>t_campaigns := [(demo_stored ''c'' ''dev'')\<lparr>c_State := CampCompleted\<rparr>], t_events := long_log\<rparr>"

lemma long_log_events: "events_of k long_log = (if k = ''c'' then map snd long_log else [])"
  by (simp add: events_of_def long_log_def filter_map comp_def)

lemma long_follow_ok: "follow_ok ''c'' (admin_auth, long_db)"
proof -
  have "map ce_Seq (map snd long_log) = [1..201]" by (simp add: long_log_def comp_def)
  moreover have "length long_log = 201" by (simp add: long_log_def)
  ultimately have "events_ok long_db" by (simp add: events_ok_def long_db_def long_log_events)
  with \<open>length long_log = 201\<close> show ?thesis by (simp add: follow_ok_def long_db_def long_log_events in_int64_def)
qed

lemma render_warnings:
  assumes "list_all (\<lambda>e. ce_Kind e = EventWarn) es"
  shows "render_all es = Some (map (\<lambda>e. Line (''[warn]   '' @ ce_Text e)) es)"
  using assms
proof (induction es)
  case (Cons e es)
  have "renderEvent (toAgentEvent e) = Some [Line (''[warn]   '' @ ce_Text e)]"
    using Cons.prems unfolding renderEvent_def toAgentEvent_def by simp
  then have "render_all [e] = Some [Line (''[warn]   '' @ ce_Text e)]" by (simp add: render_all_def)
  with Cons render_all_append [of "[e]" es] show ?case by simp
qed simp

lemma long_rendered:
  "render_all (take n (step_log ''c'' (admin_auth, long_db))) = Some (map (\<lambda>k. Line (''[warn]   '' @ Itoa k)) (take n [1..201]))"
proof -
  let ?ev = "\<lambda>n. \<lparr>ce_Seq = n, ce_Kind = EventWarn, ce_Text = Itoa n, ce_Trial = None, ce_Result = None, ce_ElapsedMs = 0, ce_CreatedAt = 0\<rparr>"
  have l: "step_log ''c'' (admin_auth, long_db) = map ?ev [1..201]"
    using long_log_events [of "''c''"] by (simp add: step_log_def long_db_def) (simp add: long_log_def comp_def)
  have "list_all (\<lambda>e. ce_Kind e = EventWarn) (take n (map ?ev [1..201]))" by (simp add: take_map list.pred_map comp_def list_all_iff)
  from render_warnings [OF this] show ?thesis unfolding l by (simp add: take_map comp_def)
qed


lemma long_admitted: "let_through demo_gw (cc_apiKey demo_client) admin_claims 2 (admin_auth, long_db)"
  by (simp add: long_db_def let_through_def Verify_def NewClient_def demo_gw_def demo_km_def admin_auth_def empty_auth_def admin_claims_def
      cache_get_def bucket_count_def)

lemma long_done:
  "w_faults long_db = []" "Camp_IsTerminal (c_State ((demo_stored ''c'' ''dev'')\<lparr>c_State := CampCompleted\<rparr>))"
  "Campaign_Get ''c'' (cl_TenantID admin_claims) long_db = (Inr ((demo_stored ''c'' ''dev'')\<lparr>c_State := CampCompleted\<rparr>), long_db)"
  by (simp_all add: Campaign_Get_def queryOne_def db_call_def fault_def tick_def long_db_def demo_stored_def admin_claims_def Camp_IsTerminal_def)

lemma long_page:
  "render_all (take 200 (step_log ''c'' (admin_auth, long_db))) = Some (map (\<lambda>k. Line (''[warn]   '' @ Itoa k)) [1..200])"
proof -
  have "[1..201] = [1..200] @ [201::int]" using upto_split2 [of 1 200 201] by simp
  moreover have "length [1..200::int] = 200" by simp
  ultimately have "take 200 [1..201] = [1..200::int]" by simp
  then show ?thesis by (simp only: long_rendered)
qed

abbreviation long_followed :: "(auth_state \<times> gw_db) follow_script \<Rightarrow> (goerr option \<times> printed list \<times> auth_state \<times> gw_db) option" where
  "long_followed script \<equiv> followCampaign
     (CampaignEventsAfter (gw_wire demo_wire) (gateway_peer Itoa ''http://g'' demo_gw) demo_client ''c'')
     (Client_GetCampaign (gw_wire demo_wire) (gateway_peer Itoa ''http://g'' demo_gw) demo_client ''c'') False 0 script 0 (admin_auth, long_db)"

lemma demo_base: "cc_baseURL demo_client = ''http://g''"
  by (simp add: NewClient_def)

lemmas long_follow = finished_follow [OF long_admitted admin_scopes long_done(1) long_follow_ok long_done(3,2) long_page,
  of demo_wire Itoa 0, unfolded demo_base]

theorem finished_campaign_cut_short_witness:
  "\<exists>rep sw'. long_followed (Detach False) = Some (None, map (\<lambda>k. Line (''[warn]   '' @ Itoa k)) [1..200] @ rep, sw') \<and>
    length (step_log ''c'' (admin_auth, long_db)) = 201"
proof -
  have "length (step_log ''c'' (admin_auth, long_db)) = 201"
    using long_log_events [of "''c''"] by (simp add: step_log_def long_db_def) (simp add: long_log_def)
  with finished_campaign_cut_short [OF long_admitted admin_scopes long_done(1) long_follow_ok long_done(3,2) long_page,
      of demo_wire Itoa 0 "Detach False", unfolded demo_base]
  show ?thesis by blast
qed

theorem follower_prints_the_log_witness:
  "\<exists>out sw' m shown rep. long_followed (Tick False id (Detach False)) = Some (None, out, sw') \<and>
    render_all (take m (step_log ''c'' sw')) = Some shown \<and> filter on_stdout out = shown @ rep"
proof -
  let ?script = "Tick False id (Detach False) :: (auth_state \<times> gw_db) follow_script"
  from long_follow [of ?script] obtain out sw' where o: "long_followed ?script = Some (None, out, sw')" by blast
  have "growing (follow_ok ''c'') (step_log ''c'') ?script" by simp
  from follower_prints_the_log [OF long_follow_ok this, of demo_wire Itoa demo_client demo_gw False 0 None out sw', unfolded demo_base] o
  show ?thesis by blast
qed

end
