(* ===== verification/CliCommands.thy ===== *)
theory CliCommands
  imports CliStack Follow
begin

text \<open>
  The commands of the command line tool (\<open>cmd/inferbolt/main.go\<close>, \<open>agent.go\<close>, \<open>campaigns.go\<close>): what each checks
  of its flags, the calls it makes in their order, what it prints and how it ends. A command gets the flags
  as Cobra has parsed them; the progress bar and the messages on standard error that go with it are left out.
\<close>

section \<open>How a command ends\<close>

text \<open>It returns nil, returns an error for Cobra to print, ends the process itself, or panics.\<close>

datatype finish = Ok | Fail goerr | Exit1 string | Crashed

type_synonym 's command = "'s \<Rightarrow> finish \<times> printed list \<times> 's"

text \<open>\<open>--output\<close> has the default \<open>table\<close>.\<close>

definition default_flags :: cli_flags where
  "default_flags = \<lparr>fl_server = [], fl_apiKey = [], fl_output = ''table''\<rparr>"

text \<open>What runs before every command: \<open>configure\<close>, \<open>version\<close>, \<open>run\<close> and \<open>agent\<close> are left without a configuration.\<close>

definition PersistentPreRunE :: "('b, 's) cli_sys \<Rightarrow> cli_flags \<Rightarrow> string \<Rightarrow> 'w host_scheme \<Rightarrow> cli_config option res" where
  "PersistentPreRunE sy fl name w =
     (if name = ''configure'' \<or> name = ''version'' \<or> name = ''run'' \<or> name = ''agent'' then Inr None
      else case Load sy w of Inl e \<Rightarrow> Inl e | Inr c \<Rightarrow> Inr (Some (applyFlagOverrides fl c)))"

definition with_config ::
  "('b, 's) cli_sys \<Rightarrow> cli_flags \<Rightarrow> string \<Rightarrow> (cli_config option \<Rightarrow> 'w host_scheme command) \<Rightarrow> 'w host_scheme command" where
  "with_config sy fl name body w =
     (case PersistentPreRunE sy fl name w of Inl e \<Rightarrow> (Fail e, [], w) | Inr c \<Rightarrow> body c w)"

section \<open>Tables\<close>

definition printResultsTable :: "result list \<Rightarrow> printed list" where
  "printResultsTable rs = [Table results_header (map (\<lambda>r. (result_row_text r, [])) rs)]"

definition printComparisonTable :: "result list \<Rightarrow> printed list" where
  "printComparisonTable rs =
     (case rs of
        [] \<Rightarrow> [Line ''No results available.'']
      | r # rest \<Rightarrow>
          [Table results_header (map (\<lambda>i. (result_row_text (rs ! i), row_colours rs i)) [0 ..< length rs]),
           Line (recommendation_line (fastest r rest))])"

section \<open>Benchmarks\<close>

definition pollAndReport ::
  "'b wire \<Rightarrow> ('b, 's) peer \<Rightarrow> cli_client \<Rightarrow> string \<Rightarrow> (nat \<Rightarrow> 's poll_event) \<Rightarrow> 's \<Rightarrow> (job \<times> result list) res \<times> 's" where
  "pollAndReport wi peer c jobID evs s =
     (let (final, s) = PollJob wi peer c jobID (Some (\<lambda>j s. s)) evs s
      in case final of
           Inl e \<Rightarrow> (Inl e, s)
         | Inr j \<Rightarrow>
             if job_State j = StateFailed then (Inl (ErrNew (''benchmark failed: '' @ job_ErrorMsg j)), s)
             else let (rs, s) = Client_GetJobResults wi peer c jobID s
                  in (case rs of Inl e \<Rightarrow> Inl (Wrap ''fetching results: '' e []) | Inr rs \<Rightarrow> Inr (j, rs), s))"

record bench_flags =
  bf_model :: string
  bf_engines :: string
  bf_gpu :: string
  bf_concurrency :: int
  bf_promptTokens :: int
  bf_outputTokens :: int
  bf_requests :: int
  bf_autoRoute :: bool

definition flag_workload :: "bench_flags \<Rightarrow> workload_config" where
  "flag_workload bf = \<lparr>Concurrency = bf_concurrency bf, PromptTokens = bf_promptTokens bf,
     OutputTokens = bf_outputTokens bf, NumRequests = bf_requests bf\<rparr>"

definition flag_bench_request :: "bench_flags \<Rightarrow> bool \<Rightarrow> create_job_request" where
  "flag_bench_request bf auto =
     \<lparr>jq_Model = bf_model bf, jq_Engines = splitCSV (bf_engines bf), jq_Workload = flag_workload bf,
      jq_EngineConfig = zero_engine_config, jq_GPUProfile = bf_gpu bf, jq_AutoRoute = auto\<rparr>"

definition benchmark_run ::
  "'b wire \<Rightarrow> ('b, 's) peer \<Rightarrow> cli_flags \<Rightarrow> cli_config \<Rightarrow> (string \<Rightarrow> 's \<Rightarrow> nat \<Rightarrow> 's poll_event) \<Rightarrow> bench_flags \<Rightarrow> 's command" where
  "benchmark_run wi peer fl cfg evs bf s =
     (if bf_model bf = [] then (Fail (ErrNew ''--model is required''), [], s)
      else if \<not> bf_autoRoute bf \<and> bf_engines bf = []
      then (Fail (ErrNew ''--engines is required unless --auto-route is set''), [], s)
      else if bf_gpu bf = [] then (Fail (ErrNew ''--gpu is required''), [], s)
      else
        let c = Config_NewClient cfg; (resp, s) = Client_CreateJob wi peer c (flag_bench_request bf (bf_autoRoute bf)) s
        in case resp of
             Inl e \<Rightarrow> (Exit1 (''Error: '' @ Error e), [], s)
           | Inr resp \<Rightarrow>
               let i = jr_JobID resp; (r, s) = pollAndReport wi peer c i (evs i s) s
               in case r of
                    Inl e \<Rightarrow> (Exit1 (''Error: '' @ Error e), [], s)
                  | Inr (j, rs) \<Rightarrow>
                      (Ok, if isJSON fl (Some cfg)
                           then [Json (DocRun i (bf_model bf) (Some (job_state_str (job_State j))) (Some (splitCSV (bf_engines bf))) rs)]
                           else printResultsTable rs, s))"

definition benchmark_compare ::
  "'b wire \<Rightarrow> ('b, 's) peer \<Rightarrow> cli_flags \<Rightarrow> cli_config \<Rightarrow> (string \<Rightarrow> 's \<Rightarrow> nat \<Rightarrow> 's poll_event) \<Rightarrow> bench_flags \<Rightarrow> 's command" where
  "benchmark_compare wi peer fl cfg evs bf s =
     (if bf_model bf = [] then (Fail (ErrNew ''--model is required''), [], s)
      else if length (splitCSV (bf_engines bf)) < 2
      then (Fail (ErrNew ''--engines requires at least 2 comma-separated engines for comparison''), [], s)
      else if bf_gpu bf = [] then (Fail (ErrNew ''--gpu is required''), [], s)
      else
        let c = Config_NewClient cfg; (resp, s) = Client_CreateJob wi peer c (flag_bench_request bf False) s
        in case resp of
             Inl e \<Rightarrow> (Exit1 (''Error: '' @ Error e), [], s)
           | Inr resp \<Rightarrow>
               let i = jr_JobID resp; (r, s) = pollAndReport wi peer c i (evs i s) s
               in case r of
                    Inl e \<Rightarrow> (Exit1 (''Error: '' @ Error e), [], s)
                  | Inr (j, rs) \<Rightarrow>
                      (Ok, if isJSON fl (Some cfg) then [Json (DocRun i (bf_model bf) None None rs)] else printComparisonTable rs, s))"

section \<open>The command \<open>run\<close>\<close>

record run_flags =
  rf_bench :: bench_flags
  rf_projectDir :: string
  rf_orchestrator :: string
  rf_keepWorker :: bool
  rf_startupTimeoutSecs :: int
  rf_workerTimeoutSecs :: int
  rf_gpuHost :: string
  rf_remoteDir :: string
  rf_savePath :: string

definition stack_flags :: "run_flags \<Rightarrow> 'w host_scheme \<Rightarrow> stack_options" where
  "stack_flags rf w =
     \<lparr>so_projectDir = rf_projectDir rf, so_orchestratorURL = orchestratorURLFrom (rf_orchestrator rf) w,
      so_gpuProfile = bf_gpu (rf_bench rf), so_gpuHost = rf_gpuHost rf, so_remoteDir = rf_remoteDir rf,
      so_keepWorker = rf_keepWorker rf, so_startupTimeout = wrap64 (rf_startupTimeoutSecs rf * Second),
      so_workerTimeout = wrap64 (rf_workerTimeoutSecs rf * Second)\<rparr>"

record run_manifest =
  mf_JobID :: string
  mf_Model :: string
  mf_Engines :: "string list"
  mf_GPUHost :: string
  mf_Request :: create_job_request
  mf_State :: string
  mf_Results :: "result list"
  mf_SavedAt :: int

text \<open>\<open>--save\<close>: a manifest that cannot be encoded or written is a warning.\<close>

definition save_manifest :: "(run_manifest \<Rightarrow> string res) \<Rightarrow> string \<Rightarrow> run_manifest \<Rightarrow> 'w host_scheme \<Rightarrow> printed list \<times> 'w host_scheme" where
  "save_manifest encode path m w =
     (let (r, w) = (case encode m of
                      Inl e \<Rightarrow> (Inl e, w)
                    | Inr text \<Rightarrow> os_call (\<lambda>w. (Inr (), w\<lparr>h_files := (h_files w)(path \<mapsto> text)\<rparr>)) w)
      in ([ErrLine (case r of
             Inl e \<Rightarrow> ''warning: failed to save run manifest to '' @ path @ '': '' @ Error e
           | Inr _ \<Rightarrow> ''Saved run manifest to '' @ path)], w))"

text \<open>What follows a successful \<open>ensureStack\<close>; the deferred clean-up runs on every way out of it.\<close>

definition run_on_stack ::
  "('b, 'w host_scheme) cli_sys \<Rightarrow> (run_manifest \<Rightarrow> string res) \<Rightarrow> cli_flags \<Rightarrow> cli_config
   \<Rightarrow> (string \<Rightarrow> 'w host_scheme \<Rightarrow> nat \<Rightarrow> 'w host_scheme poll_event) \<Rightarrow> run_flags \<Rightarrow> bench_flags \<Rightarrow> 'w host_scheme command" where
  "run_on_stack sy encode fl cfg evs rf bf w =
     (let c = Config_NewClient cfg; engines = splitCSV (bf_engines bf); req = flag_bench_request bf (bf_autoRoute bf);
          (resp, w) = Client_CreateJob (sy_wire sy) (sy_peer sy) c req w
      in case resp of
           Inl e \<Rightarrow> (Fail (Wrap ''submit job: '' e []), [], w)
         | Inr resp \<Rightarrow>
             let i = jr_JobID resp; watch = ErrLine (''Watch progress at '' @ cf_ServerURL cfg @ ''/dashboard'');
                 (r, w) = pollAndReport (sy_wire sy) (sy_peer sy) c i (evs i w) w
             in case r of
                  Inl e \<Rightarrow> (Fail e, [watch], w)
                | Inr (j, rs) \<Rightarrow>
                    let (saved, w) =
                          (if rf_savePath rf = [] then ([], w)
                           else save_manifest encode (rf_savePath rf)
                             \<lparr>mf_JobID = i, mf_Model = bf_model bf, mf_Engines = engines, mf_GPUHost = rf_gpuHost rf, mf_Request = req,
                              mf_State = job_state_str (job_State j), mf_Results = rs, mf_SavedAt = w_now w\<rparr> w)
                    in (Ok, watch # saved @
                          (if isJSON fl (Some cfg)
                           then [Json (DocRun i (bf_model bf) (Some (job_state_str (job_State j))) (Some engines) rs)]
                           else if length engines > 1 then printComparisonTable rs else printResultsTable rs), w))"

definition run_command ::
  "('b, 'w host_scheme) cli_sys \<Rightarrow> (run_manifest \<Rightarrow> string res) \<Rightarrow> cli_flags
   \<Rightarrow> (string \<Rightarrow> 'w host_scheme \<Rightarrow> nat \<Rightarrow> 'w host_scheme poll_event) \<Rightarrow> string list \<Rightarrow> run_flags \<Rightarrow> 'w host_scheme command" where
  "run_command sy encode fl evs args rf w =
     (let bf = (case args of [m] \<Rightarrow> (rf_bench rf)\<lparr>bf_model := m\<rparr> | _ \<Rightarrow> rf_bench rf)
      in if bf_model bf = [] then (Fail (ErrNew ''model is required: `inferbolt run <model> ...`''), [], w)
         else if \<not> bf_autoRoute bf \<and> bf_engines bf = []
         then (Fail (ErrNew ''--engines is required unless --auto-route is set''), [], w)
         else if bf_gpu bf = [] then (Fail (ErrNew ''--gpu is required''), [], w)
         else case ensureStack sy fl (stack_flags rf w) w of
                (Inl e, w) \<Rightarrow> (Fail e, [], w)
              | (Inr (cleanup, cfg), w) \<Rightarrow>
                  let (fin, out, w) = run_on_stack sy encode fl cfg evs rf bf w in (fin, out, run_cleanup cleanup w))"


section \<open>Jobs, metrics and routing\<close>

text \<open>The civil date of a day number, and the layout \<open>2006-01-02 15:04\<close>, in UTC.\<close>

definition civil :: "int \<Rightarrow> int \<times> int \<times> int" where
  "civil day =
     (let z = day + 719468; era = z div 146097; doe = z mod 146097;
          yoe = (doe - doe div 1460 + doe div 36524 - doe div 146096) div 365;
          doy = doe - (365 * yoe + yoe div 4 - yoe div 100); mp = (5 * doy + 2) div 153;
          d = doy - (153 * mp + 2) div 5 + 1; m = (if mp < 10 then mp + 3 else mp - 9)
      in (yoe + era * 400 + (if m \<le> 2 then 1 else 0), m, d))"

definition Format_minute :: "int \<Rightarrow> string" where
  "Format_minute t =
     (let s = t div Second; (y, m, d) = civil (s div 86400); r = s mod 86400
      in pad_left 4 (Itoa y) @ ''-'' @ pad_left 2 (Itoa m) @ ''-'' @ pad_left 2 (Itoa d) @ '' ''
         @ pad_left 2 (Itoa (r div 3600)) @ '':'' @ pad_left 2 (Itoa (r mod 3600 div 60)))"

definition plain_rows :: "string list list \<Rightarrow> (string list \<times> cell_colour list) list" where
  "plain_rows rows = map (\<lambda>r. (r, [])) rows"

definition jobs_list ::
  "'b wire \<Rightarrow> ('b, 's) peer \<Rightarrow> cli_flags \<Rightarrow> cli_config \<Rightarrow> string \<Rightarrow> int \<Rightarrow> 's command" where
  "jobs_list wi peer fl cfg state limit s =
     (let (r, s) = Client_ListJobs wi peer (Config_NewClient cfg) state limit s
      in case r of
           Inl e \<Rightarrow> (Fail e, [], s)
         | Inr js \<Rightarrow>
             (Ok, if isJSON fl (Some cfg) then [Json (DocJobs js)]
                  else [Table [''JOB ID'', ''MODEL'', ''STATE'', ''ENGINES'', ''CREATED'']
                          (plain_rows (map (\<lambda>j. [take 8 (job_ID j), job_Model j, job_state_str (job_State j),
                             Join '','' (job_Engines j), Format_minute (job_CreatedAt j)]) js))], s))"

definition jobs_get :: "'b wire \<Rightarrow> ('b, 's) peer \<Rightarrow> cli_flags \<Rightarrow> cli_config \<Rightarrow> string \<Rightarrow> 's command" where
  "jobs_get wi peer fl cfg i s =
     (let (r, s) = Client_GetJob wi peer (Config_NewClient cfg) i s
      in case r of
           Inl e \<Rightarrow> (Fail e, [], s)
         | Inr j \<Rightarrow>
             (Ok, if isJSON fl (Some cfg) then [Json (DocJob j)]
                  else [Table [''FIELD'', ''VALUE'']
                          (plain_rows ([[''ID'', job_ID j], [''MODEL'', job_Model j], [''STATE'', job_state_str (job_State j)],
                             [''ENGINES'', Join '', '' (job_Engines j)], [''GPU PROFILE'', job_GPUProfile j],
                             [''CREATED'', wi_rfc3339 wi (job_CreatedAt j)], [''UPDATED'', wi_rfc3339 wi (job_UpdatedAt j)]]
                             @ (if job_ErrorMsg j \<noteq> [] then [[''ERROR'', job_ErrorMsg j]] else [])))], s))"

definition jobs_cancel :: "'b wire \<Rightarrow> ('b, 's) peer \<Rightarrow> cli_flags \<Rightarrow> cli_config \<Rightarrow> string \<Rightarrow> 's command" where
  "jobs_cancel wi peer fl cfg i s =
     (let (r, s) = Client_CancelJob wi peer (Config_NewClient cfg) i s
      in case r of
           Inl e \<Rightarrow> (Fail e, [], s)
         | Inr _ \<Rightarrow> (Ok, if isJSON fl (Some cfg) then [Json (DocFlag ''cancelled'' True)] else [Line (''Job '' @ i @ '' cancelled.'')], s))"

definition metrics_command ::
  "'b wire \<Rightarrow> ('b, 's) peer \<Rightarrow> cli_flags \<Rightarrow> cli_config \<Rightarrow> int \<Rightarrow> string \<Rightarrow> string \<Rightarrow> string \<Rightarrow> 's command" where
  "metrics_command wi peer fl cfg now engine model since s =
     (case parseSince since now of
        Inl e \<Rightarrow> (Fail (Wrap (''invalid --since value '' @ quoted since @ '': '') e []), [], s)
      | Inr t \<Rightarrow>
          let (r, s) = Client_GetMetrics wi peer (Config_NewClient cfg) engine model t s
          in case r of
               Inl e \<Rightarrow> (Fail e, [], s)
             | Inr rs \<Rightarrow> (Ok, if isJSON fl (Some cfg) then [Json (DocResults rs)] else printResultsTable rs, s))"

definition route_command ::
  "'b wire \<Rightarrow> ('b, 's) peer \<Rightarrow> cli_flags \<Rightarrow> cli_config \<Rightarrow> classification_input \<Rightarrow> 's command" where
  "route_command wi peer fl cfg inp s =
     (let (r, s) = Client_ClassifyWorkload wi peer (Config_NewClient cfg) inp s
      in case r of
           Inl e \<Rightarrow> (Fail e, [], s)
         | Inr c \<Rightarrow>
             (Ok, if isJSON fl (Some cfg) then [Json (DocClass c)]
                  else [Line (''Workload type:       '' @ workload_type_str (cr_WorkloadType c)),
                        Line (''Recommended engine:  '' @ cr_RecommendedEngine c),
                        Line (''Confidence:          '' @ fmt_fixed 0 (cr_Confidence c * 100) @ ''%''),
                        Line (''Reasoning:           '' @ cr_Reasoning c)], s))"

section \<open>Configuration, version and keys\<close>

text \<open>A scanner past the end of its input leaves the empty text.\<close>

definition scanned :: "string list \<Rightarrow> nat \<Rightarrow> string" where
  "scanned input n = (if n < length input then TrimSpace (input ! n) else [])"

definition configured :: "string list \<Rightarrow> cli_config" where
  "configured input =
     \<lparr>cf_ServerURL = (if scanned input 0 = [] then ''http://localhost:8080'' else scanned input 0),
      cf_APIKey = scanned input 1, cf_TenantID = scanned input 2, cf_OutputFmt = ''table''\<rparr>"

definition configure_command :: "('b, 's) cli_sys \<Rightarrow> string list \<Rightarrow> 'w host_scheme command" where
  "configure_command sy input w =
     (let prompts = [Prompt ''Server URL [http://localhost:8080]: '', Prompt ''API key: '', Prompt ''Tenant ID (optional): ''];
          (e, w) = Save sy (configured input) w
      in case e of
           Some e \<Rightarrow> (Fail (Wrap ''save config: '' e []), prompts, w)
         | None \<Rightarrow> (Ok, prompts @ [Line ''Configuration saved to ~/.inferbolt/config.yaml''], w))"

definition version_command ::
  "'b wire \<Rightarrow> ('b, 's) peer \<Rightarrow> string \<Rightarrow> cli_flags \<Rightarrow> cli_config option \<Rightarrow> cli_client option \<Rightarrow> 's command" where
  "version_command wi peer version fl cfg client s =
     (let serverURL = (case cfg of Some c \<Rightarrow> cf_ServerURL c
                       | None \<Rightarrow> if fl_server fl \<noteq> [] then fl_server fl else ''http://localhost:8080'');
          out = [Line (''inferbolt version '' @ version), Line (''server: '' @ serverURL)]
      in case client of
           None \<Rightarrow> (Ok, out, s)
         | Some c \<Rightarrow>
             let (h, s) = Client_Health wi peer c s
             in (Ok, out @ (case h of
                    Inl e \<Rightarrow> [Line (''server status: unreachable ('' @ Error e @ '')'')]
                  | Inr h \<Rightarrow> [Line (''server version: '' @ hl_Version h), Line (''postgres: '' @ hl_Postgres h)]), s))"

definition admin_create_key ::
  "'b wire \<Rightarrow> ('b, 's) peer \<Rightarrow> cli_flags \<Rightarrow> cli_config \<Rightarrow> string \<Rightarrow> string \<Rightarrow> int \<Rightarrow> 's command" where
  "admin_create_key wi peer fl cfg tenantID scopesFlag expiryDays s =
     (if tenantID = [] then (Fail (ErrNew ''--tenant-id is required''), [], s)
      else if scopesFlag = [] then (Fail (ErrNew ''--scopes is required''), [], s)
      else let (r, s) = Client_CreateAPIKey wi peer (Config_NewClient cfg) tenantID (splitCSV scopesFlag) expiryDays s
           in case r of
                Inl e \<Rightarrow> (Fail e, [], s)
              | Inr k \<Rightarrow>
                  (Ok, if isJSON fl (Some cfg) then [Json (DocKey k)]
                       else [Line [], Line ([CHR 0xE2, CHR 0x9A, CHR 0xA0] @ ''  Store this token securely '' @ em_dash @ '' it will not be shown again''),
                             Line [], Line (''Token:      '' @ kr_Token k), Line (''Expires at: '' @ wi_rfc3339 wi (kr_ExpiresAt k))], s))"

section \<open>Campaigns\<close>

definition campaign_row :: "'b wire \<Rightarrow> campaign \<Rightarrow> string list" where
  "campaign_row wi c =
     [c_ID c, camp_state_str (c_State c), c_Model c, c_GPUProfile c, truncate_str (c_Goal c) 40,
      (case c_Recommendation c of None \<Rightarrow> em_dash | Some rec \<Rightarrow> rec_Engine rec @ '' '' @ configSummary (rec_EngineConfig rec)),
      wi_rfc3339 wi (c_CreatedAt c)]"

definition campaigns_list ::
  "'b wire \<Rightarrow> ('b, 's) peer \<Rightarrow> cli_flags \<Rightarrow> cli_config \<Rightarrow> string \<Rightarrow> int \<Rightarrow> 's command" where
  "campaigns_list wi peer fl cfg state limit s =
     (let (r, s) = Client_ListCampaigns wi peer (Config_NewClient cfg) state limit s
      in case r of
           Inl e \<Rightarrow> (Fail e, [], s)
         | Inr cs \<Rightarrow>
             (Ok, if isJSON fl (Some cfg) then [Json (DocCampaigns cs)]
                  else if cs = [] then [Line ''No campaigns yet.'']
                  else [Table [''ID'', ''STATE'', ''MODEL'', ''GPU'', ''GOAL'', ''RECOMMENDED'', ''CREATED'']
                          (plain_rows (map (campaign_row wi) cs))], s))"

definition campaigns_get :: "'b wire \<Rightarrow> ('b, 's) peer \<Rightarrow> cli_flags \<Rightarrow> cli_config \<Rightarrow> int \<Rightarrow> string \<Rightarrow> 's command" where
  "campaigns_get wi peer fl cfg now i s =
     (let (r, s) = Client_GetCampaign wi peer (Config_NewClient cfg) i s
      in case r of
           Inl e \<Rightarrow> (Fail e, [], s)
         | Inr c \<Rightarrow> (Ok, if isJSON fl (Some cfg) then [Json (DocCampaign c)]
                        else printCampaignSummary c @ printReport (ToReport now c), s))"

definition follow_with ::
  "'b wire \<Rightarrow> ('b, 's) peer \<Rightarrow> cli_flags \<Rightarrow> cli_config \<Rightarrow> int \<Rightarrow> 's follow_script \<Rightarrow> string \<Rightarrow> 's
   \<Rightarrow> (goerr option \<times> printed list \<times> 's) option" where
  "follow_with wi peer fl cfg now script i =
     followCampaign (CampaignEventsAfter wi peer (Config_NewClient cfg) i) (Client_GetCampaign wi peer (Config_NewClient cfg) i)
       (isJSON fl (Some cfg)) now script 0"

definition campaigns_follow ::
  "'b wire \<Rightarrow> ('b, 's) peer \<Rightarrow> cli_flags \<Rightarrow> cli_config \<Rightarrow> int \<Rightarrow> 's follow_script \<Rightarrow> string \<Rightarrow> 's command" where
  "campaigns_follow wi peer fl cfg now script i s =
     (let (r, s) = Client_GetCampaign wi peer (Config_NewClient cfg) i s
      in case r of
           Inl e \<Rightarrow> (Fail e, [], s)
         | Inr c \<Rightarrow>
             (case follow_with wi peer fl cfg now script i s of
                None \<Rightarrow> (Crashed, printCampaignSummary c, s)
              | Some (e, out, s) \<Rightarrow> (case e of None \<Rightarrow> Ok | Some e \<Rightarrow> Fail e, printCampaignSummary c @ out, s)))"

definition campaigns_cancel :: "'b wire \<Rightarrow> ('b, 's) peer \<Rightarrow> cli_config \<Rightarrow> string \<Rightarrow> 's command" where
  "campaigns_cancel wi peer cfg i s =
     (let (r, s) = Client_CancelCampaign wi peer (Config_NewClient cfg) i s
      in case r of
           Inl e \<Rightarrow> (Fail e, [], s)
         | Inr _ \<Rightarrow> (Ok, [Line (''Campaign '' @ i @ '' cancelled. A benchmark already in flight will finish.'')], s))"

section \<open>The command \<open>agent\<close>\<close>

record agent_flags =
  af_run :: run_flags
  af_maxTrials :: int
  af_maxDuration :: int
  af_plannerModel :: string
  af_detach :: bool

definition agent_request :: "string \<Rightarrow> agent_flags \<Rightarrow> create_campaign_request" where
  "agent_request goal af =
     (let bf = rf_bench (af_run af)
      in \<lparr>cq_Goal = goal, cq_Model = bf_model bf, cq_Engines = splitCSV (bf_engines bf), cq_GPUProfile = bf_gpu bf,
          cq_Workload = flag_workload bf, cq_MaxTrials = af_maxTrials af, cq_MaxDuration = Duration_String (af_maxDuration af),
          cq_PlannerModel = af_plannerModel af\<rparr>)"

text \<open>\<open>over\<close> says whether the context is over when the follower has returned.\<close>

definition agent_on_stack ::
  "'b wire \<Rightarrow> ('b, 's) peer \<Rightarrow> cli_flags \<Rightarrow> cli_config \<Rightarrow> int \<Rightarrow> ('s \<Rightarrow> 's follow_script) \<Rightarrow> bool \<Rightarrow> string \<Rightarrow> agent_flags \<Rightarrow> 's command" where
  "agent_on_stack wi peer fl cfg now script over goal af s =
     (let c = Config_NewClient cfg; (created, s) = Client_CreateCampaign wi peer c (agent_request goal af) s
      in case created of
           Inl e \<Rightarrow> (Fail e, [], s)
         | Inr r \<Rightarrow>
             let i = pr_CampaignID r
             in if af_detach af
                then (Ok, [Line (''Campaign '' @ i @ '' submitted.''), Line (''Follow it with: inferbolt campaigns follow '' @ i)]
                        @ (if rf_keepWorker (af_run af) then []
                           else [ErrLine (''note: --detach without --keep-worker stops a worker this command started, ''
                                   @ ''which will strand the campaign. Re-run with --keep-worker if no other worker is registered.'')]), s)
                else
                  let (got, s) = Client_GetCampaign wi peer c i s
                  in case got of
                       Inl e \<Rightarrow> (Fail e, [], s)
                     | Inr cp \<Rightarrow>
                         let summary = (if isJSON fl (Some cfg) then [] else printCampaignSummary cp)
                         in (case follow_with wi peer fl cfg now (script s) i s of
                               None \<Rightarrow> (Crashed, summary, s)
                             | Some (Some e, out, s) \<Rightarrow> (Fail e, summary @ out, s)
                             | Some (None, out, s) \<Rightarrow>
                                 (Ok, summary @ out @ (if over
                                    then [ErrLine (nl @ ''Detached. The campaign continues on the server: inferbolt campaigns follow '' @ i)]
                                    else []), s)))"

definition agent_command ::
  "('b, 'w host_scheme) cli_sys \<Rightarrow> cli_flags \<Rightarrow> int \<Rightarrow> ('w host_scheme \<Rightarrow> 'w host_scheme follow_script) \<Rightarrow> bool \<Rightarrow> string \<Rightarrow> agent_flags
   \<Rightarrow> 'w host_scheme command" where
  "agent_command sy fl now script over goal af w =
     (case ensureStack sy fl (stack_flags (af_run af) w) w of
        (Inl e, w) \<Rightarrow> (Fail e, [], w)
      | (Inr (cleanup, cfg), w) \<Rightarrow>
          let (fin, out, w) = agent_on_stack (sy_wire sy) (sy_peer sy) fl cfg now script over goal af w
          in (fin, out, run_cleanup cleanup w))"


section \<open>How \<open>run\<close> leaves the machine\<close>

lemma calm_client_call:
  assumes "quiet sy" and "client_call (sy_wire sy) (sy_peer sy) c meth path query body decode w = (r, w')"
  shows "calm w w'"
  using assms(2) quietD(1) [OF assms(1)]
  by (auto simp: client_call_def client_do_def Let_def split: prod.splits http_answer.splits option.splits sum.splits)

definition calm_events :: "(string \<Rightarrow> 'w host_scheme \<Rightarrow> nat \<Rightarrow> 'w host_scheme poll_event) \<Rightarrow> bool" where
  "calm_events evs \<longleftrightarrow> (\<forall>i w n. case evs i w n of PollDone e \<Rightarrow> True | PollTick lag f \<Rightarrow> \<forall>v. calm v (f v))"

lemma poll_late: "1200 \<le> n \<Longrightarrow> int (Suc n) * pollInterval + int lag > pollTimeout"
  by (simp add: pollInterval_def pollTimeout_def duration_units)

text \<open>What holds of every state a poll may leave, from what holds of its ticks and reads.\<close>

lemma poll_loop_calm:
  assumes "\<And>n lag f v. evs n = PollTick lag f \<Longrightarrow> calm v (f v)" and "\<And>v. calm v (snd (get v))"
  shows "calm w (snd (poll_loop get (Some (\<lambda>j s. s)) evs n w))"
proof (induction "1200 - n" arbitrary: n w rule: less_induct)
  case less
  show ?case
  proof (cases "evs n")
    case (PollDone e)
    then show ?thesis by (subst poll_loop.simps) simp
  next
    case (PollTick lag f)
    obtain r s1 where g: "get (f w) = (r, s1)" by (cases "get (f w)")
    have c: "calm w (f w)" "calm w s1"
      using assms(1) [OF PollTick] calm_trans [OF assms(1) [OF PollTick] assms(2)] g by (metis snd_conv)+
    show ?thesis
    proof (cases "int (Suc n) * pollInterval + int lag > pollTimeout \<or> (\<exists>j. r = Inr j \<and> IsTerminal (job_State j))")
      case True
      with PollTick g c show ?thesis by (subst poll_loop.simps) (auto simp: Let_def)
    next
      case False
      with poll_late [of n lag] have "1200 - Suc n < 1200 - n" by linarith
      from less.hyps [OF this, of s1] have "calm w (snd (poll_loop get (Some (\<lambda>j s. s)) evs (Suc n) s1))"
        using c(2) calm_trans by blast
      with False PollTick g show ?thesis by (subst poll_loop.simps) (auto simp: Let_def split: sum.splits)
    qed
  qed
qed

lemma poll_loop_terminal:
  "fst (poll_loop get u evs n w) = Inr j \<Longrightarrow> IsTerminal (job_State j)"
proof (induction "1200 - n" arbitrary: n w rule: less_induct)
  case less
  show ?case
  proof (cases "evs n")
    case (PollDone e)
    with less.prems show ?thesis by (subst (asm) poll_loop.simps) simp
  next
    case (PollTick lag f)
    obtain r s1 where g: "get (f w) = (r, s1)" by (cases "get (f w)")
    show ?thesis
    proof (cases "int (Suc n) * pollInterval + int lag > pollTimeout \<or> (\<exists>j. r = Inr j \<and> IsTerminal (job_State j))")
      case True
      with PollTick g less.prems show ?thesis by (subst (asm) poll_loop.simps) (auto simp: Let_def split: if_splits)
    next
      case False
      with poll_late [of n lag] have "1200 - Suc n < 1200 - n" by linarith
      moreover obtain s2 where "fst (poll_loop get u evs (Suc n) s2) = Inr j"
        using less.prems False PollTick g by (subst (asm) poll_loop.simps) (auto simp: Let_def split: sum.splits)
      ultimately show ?thesis by (rule less.hyps)
    qed
  qed
qed

lemma calm_pollAndReport:
  assumes "quiet sy" and "calm_events evs" and "pollAndReport (sy_wire sy) (sy_peer sy) c i (evs k u) w = (r, w')"
  shows "calm w w'"
proof -
  obtain q w1 where q: "PollJob (sy_wire sy) (sy_peer sy) c i (Some (\<lambda>j s. s)) (evs k u) w = (q, w1)"
    by (cases "PollJob (sy_wire sy) (sy_peer sy) c i (Some (\<lambda>j s. s)) (evs k u) w")
  have "calm w (snd (PollJob (sy_wire sy) (sy_peer sy) c i (Some (\<lambda>j s. s)) (evs k u) w))"
    unfolding PollJob_def
  proof (rule poll_loop_calm)
    show "evs k u n = PollTick lag f \<Longrightarrow> calm v (f v)" for n lag f v
      using assms(2) unfolding calm_events_def by (metis poll_event.simps(6))
    show "calm v (snd (Client_GetJob (sy_wire sy) (sy_peer sy) c i v))" for v
      unfolding Client_GetJob_def using calm_client_call [OF assms(1)] by (metis prod.collapse)
  qed
  then have c: "calm w w1" by (simp add: q)
  obtain rs w2 where g: "Client_GetJobResults (sy_wire sy) (sy_peer sy) c i w1 = (rs, w2)"
    by (cases "Client_GetJobResults (sy_wire sy) (sy_peer sy) c i w1")
  from calm_trans [OF c calm_client_call [OF assms(1) g [unfolded Client_GetJobResults_def]]] c assms(3) q g show ?thesis
    by (auto simp: pollAndReport_def split: sum.splits if_splits)
qed

lemma calm_save_manifest: "save_manifest encode path m w = (out, w') \<Longrightarrow> calm w w'"
proof -
  have "os_call (\<lambda>w. (Inr (), w\<lparr>h_files := (h_files w)(path \<mapsto> t)\<rparr>)) v = (r, v') \<Longrightarrow> calm v v'" for v v' :: "'a host_scheme" and r t
    by (erule calm_os_call) auto
  then show "save_manifest encode path m w = (out, w') \<Longrightarrow> calm w w'"
    by (auto simp: save_manifest_def Let_def split: sum.splits prod.splits)
qed

lemma calm_run_on_stack:
  assumes "quiet sy" and "calm_events evs" and "run_on_stack sy encode fl cfg evs rf bf w = (fin, out, w')"
  shows "calm w w'"
proof -
  let ?c = "Config_NewClient cfg" and ?req = "flag_bench_request bf (bf_autoRoute bf)"
  obtain q w1 where q: "Client_CreateJob (sy_wire sy) (sy_peer sy) ?c ?req w = (q, w1)"
    by (cases "Client_CreateJob (sy_wire sy) (sy_peer sy) ?c ?req w")
  note c1 = calm_client_call [OF assms(1) q [unfolded Client_CreateJob_def]]
  show ?thesis
  proof (cases q)
    case (Inl e)
    with q c1 assms(3) show ?thesis by (simp add: run_on_stack_def)
  next
    case (Inr resp)
    let ?i = "jr_JobID resp"
    obtain p w2 where p: "pollAndReport (sy_wire sy) (sy_peer sy) ?c ?i (evs ?i w1) w1 = (p, w2)"
      by (cases "pollAndReport (sy_wire sy) (sy_peer sy) ?c ?i (evs ?i w1) w1")
    note c2 = calm_trans [OF c1 calm_pollAndReport [OF assms(1,2) p]]
    from assms(3) q Inr p consider "w' = w2" | path m o' where "save_manifest encode path m w2 = (o', w')"
      by (auto simp: run_on_stack_def Let_def split: sum.splits prod.splits if_splits)
    then show ?thesis using c2 calm_trans [OF c2 calm_save_manifest] by cases blast+
  qed
qed




section \<open>What the output says\<close>

text \<open>A configured output format has no effect. Whatever the file and \<open>INFERBOLT_OUTPUT\<close> say, a command prints
  JSON exactly when its own flag says so: the flag's default is not empty, and so it overwrites what \<open>Load\<close>
  has read.\<close>

theorem configured_output_ignored:
  assumes "PersistentPreRunE sy fl name w = Inr (Some c)" and "fl_output fl \<noteq> []"
  shows "isJSON fl (Some c) \<longleftrightarrow> fl_output fl = ''json''"
proof -
  from assms(1) obtain c0 where "c = applyFlagOverrides fl c0"
    by (auto simp: PersistentPreRunE_def split: if_splits sum.splits)
  with assms(2) have "cf_OutputFmt c = fl_output fl" by (simp add: applyFlagOverrides_def Let_def)
  then show ?thesis by (simp add: isJSON_def)
qed

theorem configured_output_ignored_witness:
  "\<exists>c. PersistentPreRunE demo_sys default_flags ''jobs'' (demo_host\<lparr>h_env := (\<lambda>k. if k = ''INFERBOLT_API_KEY'' then ''k'' else ''json'')\<rparr>) = Inr (Some c)
     \<and> \<not> isJSON default_flags (Some c)"
proof -
  let ?w = "demo_host\<lparr>h_env := (\<lambda>k. if k = ''INFERBOLT_API_KEY'' then ''k'' else ''json'')\<rparr>"
  have "\<exists>c. PersistentPreRunE demo_sys default_flags ''jobs'' ?w = Inr (Some c)"
    by (simp add: PersistentPreRunE_def Load_def demo_host_def viper_get_def)
  then obtain c where c: "PersistentPreRunE demo_sys default_flags ''jobs'' ?w = Inr (Some c)" ..
  have "fl_output default_flags \<noteq> []" by (simp add: default_flags_def)
  from configured_output_ignored [OF c this] c show ?thesis by (simp add: default_flags_def)
qed


definition cancelled_job :: job where
  "cancelled_job = (demo_job ''j'' ''t'' 0)\<lparr>job_State := StateCancelled\<rparr>"


end
