(* ===== verification/CliDefaults.thy ===== *)
theory CliDefaults
  imports CliCommands
begin

text \<open>
  What the commands send when their flags are left alone (the flag declarations of \<open>cmd/inferbolt/main.go\<close> and
  \<open>agent.go\<close>), and how the gateway's admission checks receive it.
\<close>

definition benchmark_defaults :: bench_flags where
  "benchmark_defaults = \<lparr>bf_model = [], bf_engines = [], bf_gpu = [], bf_concurrency = 32, bf_promptTokens = 512,
     bf_outputTokens = 256, bf_requests = 200, bf_autoRoute = False\<rparr>"

definition compare_defaults :: bench_flags where
  "compare_defaults = \<lparr>bf_model = [], bf_engines = [], bf_gpu = [], bf_concurrency = 32, bf_promptTokens = 512,
     bf_outputTokens = 256, bf_requests = 200, bf_autoRoute = False\<rparr>"

definition run_defaults :: run_flags where
  "run_defaults = \<lparr>rf_bench = \<lparr>bf_model = [], bf_engines = [], bf_gpu = [], bf_concurrency = 32, bf_promptTokens = 512,
       bf_outputTokens = 256, bf_requests = 200, bf_autoRoute = False\<rparr>,
     rf_projectDir = ''.'', rf_orchestrator = [], rf_keepWorker = False, rf_startupTimeoutSecs = 120, rf_workerTimeoutSecs = 90,
     rf_gpuHost = [], rf_remoteDir = ''~/inferbolt'', rf_savePath = []\<rparr>"

definition route_defaults :: classification_input where
  "route_defaults = \<lparr>ci_PromptTokens = 512, ci_OutputTokens = 256, ci_Concurrency = 32, ci_StructuredOutput = False,
     ci_ToolCalls = False, ci_SharedPrefixRatio = 0\<rparr>"

definition agent_defaults :: agent_flags where
  "agent_defaults = \<lparr>af_run = \<lparr>rf_bench = \<lparr>bf_model = [], bf_engines = ''vllm,sglang'', bf_gpu = [], bf_concurrency = 32,
       bf_promptTokens = 512, bf_outputTokens = 256, bf_requests = 200, bf_autoRoute = False\<rparr>,
       rf_projectDir = ''.'', rf_orchestrator = [], rf_keepWorker = False, rf_startupTimeoutSecs = 120, rf_workerTimeoutSecs = 90,
       rf_gpuHost = [], rf_remoteDir = ''~/inferbolt'', rf_savePath = []\<rparr>,
     af_maxTrials = MaxTrials DefaultBudget, af_maxDuration = MaxDuration DefaultBudget, af_plannerModel = DefaultModel, af_detach = False\<rparr>"

text \<open>The flags \<open>agent\<close> cannot do without, and its one argument.\<close>

definition agent_with :: "string \<Rightarrow> string \<Rightarrow> agent_flags \<Rightarrow> agent_flags" where
  "agent_with model gpu af = af\<lparr>af_run := (af_run af)\<lparr>rf_bench := (rf_bench (af_run af))\<lparr>bf_model := model, bf_gpu := gpu\<rparr>\<rparr>\<rparr>"

lemma agent_request_simps [simp]:
  "cq_MaxTrials (agent_request goal af) = af_maxTrials af" "cq_MaxDuration (agent_request goal af) = Duration_String (af_maxDuration af)"
  "cq_Goal (agent_request goal af) = goal" "cq_Model (agent_request goal af) = bf_model (rf_bench (af_run af))"
  "cq_Engines (agent_request goal af) = splitCSV (bf_engines (rf_bench (af_run af)))"
  "cq_GPUProfile (agent_request goal af) = bf_gpu (rf_bench (af_run af))"
  "cq_Workload (agent_request goal af) = flag_workload (rf_bench (af_run af))"
  by (simp_all add: agent_request_def Let_def)

lemma budget_crosses:
  assumes "af_maxDuration af = s * Second" and "in_int64 (af_maxDuration af)"
  shows "campaignBudget (agent_request goal af) =
    (if af_maxTrials af > 50 then Inl ''max_trials must not exceed 50''
     else if s > 86400 then Inl ''max_duration must not exceed 24h''
     else if s \<le> 0 then Inl (''budget: max_duration must be positive, got '' @ Duration_String (s * Second))
     else Inr \<lparr>MaxTrials = (if af_maxTrials af > 0 then af_maxTrials af else 6), MaxDuration = s * Second, MaxTurns = 40\<rparr>)"
proof -
  have p: "ParseDuration (Duration_String (s * Second)) = Inr (s * Second)"
    using ParseDuration_String_seconds [of s] assms by simp
  then have "Duration_String (s * Second) \<noteq> []" by (auto simp: ParseDuration_def)
  with p show ?thesis
    by (simp add: campaignBudget_def assms(1) DefaultBudget_def maxCampaignTrials_def maxCampaignDuration_def
        Budget_Validate_def duration_units)
qed

text \<open>C12: The budget the user asks for is the budget the campaign gets. A limit of whole seconds crosses from the flag
  \<open>--max-duration\<close> through the request's text to the campaign unchanged; it is refused above 24 hours and
  when it is not positive; more than 50 trials are refused first; and a trial limit of zero or less is not
  refused but becomes the default of 6.\<close>

theorem agent_budget_arrives:
  assumes "Second dvd af_maxDuration af" and "in_int64 (af_maxDuration af)"
  shows "campaignBudget (agent_request goal af) =
    (if af_maxTrials af > 50 then Inl ''max_trials must not exceed 50''
     else if af_maxDuration af > 24 * Hour then Inl ''max_duration must not exceed 24h''
     else if af_maxDuration af \<le> 0 then Inl (''budget: max_duration must be positive, got '' @ Duration_String (af_maxDuration af))
     else Inr \<lparr>MaxTrials = (if af_maxTrials af > 0 then af_maxTrials af else 6), MaxDuration = af_maxDuration af, MaxTurns = 40\<rparr>)"
proof -
  obtain s where s: "af_maxDuration af = s * Second" using assms(1) by (auto elim: dvdE simp: mult.commute)
  have "s > 86400 \<longleftrightarrow> af_maxDuration af > 24 * Hour" "s \<le> 0 \<longleftrightarrow> af_maxDuration af \<le> 0"
    unfolding s by (simp_all add: duration_units)
  with budget_crosses [OF s assms(2), of goal] s show ?thesis by simp
qed

theorem agent_budget_arrives_witness:
  "campaignBudget (agent_request ''g'' (agent_defaults\<lparr>af_maxTrials := 0, af_maxDuration := 90 * Minute\<rparr>)) =
     Inr \<lparr>MaxTrials = 6, MaxDuration = 90 * Minute, MaxTurns = 40\<rparr>"
proof -
  let ?af = "agent_defaults\<lparr>af_maxTrials := 0, af_maxDuration := 90 * Minute\<rparr>"
  have "Second dvd af_maxDuration ?af" "in_int64 (af_maxDuration ?af)" by (simp_all add: duration_units in_int64_def)
  from agent_budget_arrives [OF this, of "''g''"] show ?thesis by (simp add: duration_units)
qed

lemma default_workload: 
  "ValidateWorkload \<lparr>Concurrency = 32, PromptTokens = 512, OutputTokens = 256, NumRequests = 200\<rparr> = None"
  by (simp add: ValidateWorkload_def)

text \<open>The defaults are admissible. With only the required flags given, a goal, a model, a GPU profile and known
  engines, the gateway's checks let through what \<open>benchmark run\<close>, \<open>benchmark compare\<close>, \<open>run\<close> and \<open>agent\<close> send,
  and \<open>agent\<close> gets the default budget of the agent.\<close>

theorem defaults_are_admitted:
  assumes "model \<noteq> []" and "gpu \<noteq> []" and "goal \<noteq> []" and "splitCSV engines \<noteq> []" and "set (splitCSV engines) \<subseteq> set ValidEngines"
    and "bf \<in> {benchmark_defaults, compare_defaults, rf_bench run_defaults}"
  shows "job_request_error (flag_bench_request (bf\<lparr>bf_model := model, bf_gpu := gpu, bf_engines := engines\<rparr>) auto) = None \<and>
    campaign_request_error (agent_request goal (agent_with model gpu agent_defaults)) = None \<and>
    campaignBudget (agent_request goal (agent_with model gpu agent_defaults)) = Inr DefaultBudget"
proof -
  have e: "splitCSV ''vllm,sglang'' = [''vllm'', ''sglang'']" by code_simp
  have "bf = benchmark_defaults" using assms(6) by (auto simp: benchmark_defaults_def compare_defaults_def run_defaults_def)
  moreover have "ValidateEngines (splitCSV engines) = None" using assms(5) by (simp add: ValidateEngines_None)
  moreover have "ValidateEngineConfig zero_engine_config = None"
    by (simp add: ValidateEngineConfig_None zero_engine_config_def engine_config_ok_def)
  ultimately have "job_request_error (flag_bench_request (bf\<lparr>bf_model := model, bf_gpu := gpu, bf_engines := engines\<rparr>) auto) = None"
    using assms(1-4) by (simp add: job_request_error_def flag_bench_request_def flag_workload_def benchmark_defaults_def default_workload)
  moreover have "campaign_request_error (agent_request goal (agent_with model gpu agent_defaults)) = None"
    using assms(1-3) by (simp add: campaign_request_error_def agent_with_def agent_defaults_def flag_workload_def default_workload e
        ValidEngines_def)
  moreover have "campaignBudget (agent_request goal (agent_with model gpu agent_defaults)) = Inr DefaultBudget"
    using budget_crosses [of "agent_with model gpu agent_defaults" 7200 goal]
    by (simp add: agent_with_def agent_defaults_def DefaultBudget_def duration_units in_int64_def)
  ultimately show ?thesis by blast
qed

theorem defaults_are_admitted_witness:
  "job_request_error (flag_bench_request (benchmark_defaults\<lparr>bf_model := ''m'', bf_gpu := ''cpu'', bf_engines := ''mock''\<rparr>) False) = None"
proof -
  have e: "splitCSV ''mock'' = [''mock'']" by code_simp
  have "splitCSV ''mock'' \<noteq> []" "set (splitCSV ''mock'') \<subseteq> set ValidEngines" unfolding e by (simp_all add: ValidEngines_def)
  from defaults_are_admitted [OF _ _ _ this, of "''m''" "''cpu''" "''g''" benchmark_defaults False] show ?thesis by simp
qed

end
