(* ===== verification/DevKey.thy ===== *)
theory DevKey
  imports CliStack GatewaySafety
begin

text \<open>
  The development credential (\<open>cmd/gateway/main.go\<close>, \<open>bootstrapDevKey\<close> and \<open>devKeyStillValid\<close>): the gateway issues
  a key for the tenant \<open>dev\<close> when it starts and leaves the token in a file, where the command line tool's
  bootstrap finds it. Log lines are left out.
\<close>

record gw_host = gw_db +
  gh_env :: "string \<Rightarrow> string"
  gh_files :: "string \<Rightarrow> string option"

definition getenv :: "(string \<Rightarrow> string) \<Rightarrow> string \<Rightarrow> string \<Rightarrow> string" where
  "getenv env k fallback = (if env k \<noteq> [] then env k else fallback)"

definition splitAndTrim :: "string \<Rightarrow> string list" where
  "splitAndTrim v = filter (\<lambda>p. p \<noteq> []) (map TrimSpace (Split (CHR '','') v))"

text \<open>The origins the gateway allows.\<close>

definition cors_origins :: "(string \<Rightarrow> string) \<Rightarrow> string list" where
  "cors_origins env =
     (let os = splitAndTrim (getenv env ''CORS_ALLOWED_ORIGINS'' [])
      in if os = [] \<and> getenv env ''ENV'' ''development'' = ''development'' then DefaultDevOrigins else os)"

definition devKeyStillValid :: "key_manager \<Rightarrow> string \<Rightarrow> 'w gw_host_scheme \<Rightarrow> bool \<times> 'w gw_host_scheme" where
  "devKeyStillValid km token w =
     (let (n, w) = db_call [] (\<lambda>w. (Inr (length (filter (\<lambda>k. ak_tenant_id k = ''dev'' \<and> ak_key_hash k = km_sha256 km token
            \<and> ak_revoked_at k = None \<and> ak_expires_at k > w_now w) (t_api_keys w))), w)) w
      in (case n of Inl _ \<Rightarrow> False | Inr m \<Rightarrow> m > 0, w))"

definition dev_scopes :: "scope list" where
  "dev_scopes = [ScopeJobsWrite, ScopeJobsRead, ScopeMetricsRead, ScopeConfigWrite, ScopeAdminAll]"

definition dev_expiry :: int where "dev_expiry = 30 * 24 * Hour"

text \<open>Whether there is a key already; without a token file every row of the tenant counts.\<close>

definition dev_key_present :: "key_manager \<Rightarrow> string \<Rightarrow> 'w gw_host_scheme \<Rightarrow> bool res \<times> 'w gw_host_scheme" where
  "dev_key_present km tokenFile w =
     (if tokenFile \<noteq> []
      then let token = (case gh_files w tokenFile of None \<Rightarrow> [] | Some existing \<Rightarrow> TrimSpace existing)
           in if token = [] then (Inr False, w) else let (ok, w) = devKeyStillValid km token w in (Inr ok, w)
      else let (n, w) = db_call [] (\<lambda>w. (Inr (length (filter (\<lambda>k. ak_tenant_id k = ''dev'') (t_api_keys w))), w)) w
           in (case n of Inl e \<Rightarrow> Inl (Wrap ''check existing dev keys: '' e []) | Inr m \<Rightarrow> Inr (m > 0), w))"

text \<open>Creating the directory and writing the file may fail, which is only logged.\<close>

definition write_token_file :: "string \<Rightarrow> string \<Rightarrow> 'w gw_host_scheme \<Rightarrow> 'w gw_host_scheme" where
  "write_token_file tokenFile token w =
     (if tokenFile = [] then w
      else let (d, w) = db_call [] (\<lambda>w. (Inr (), w)) w
           in case d of
                Inl _ \<Rightarrow> w
              | Inr _ \<Rightarrow> snd (db_call [] (\<lambda>w. (Inr (), w\<lparr>gh_files := (gh_files w)(tokenFile \<mapsto> token @ [char_of (10 :: nat)])\<rparr>)) w))"

text \<open>The row a start writes: only the scope \<open>admin:all\<close>.\<close>

definition dev_row :: "key_manager \<Rightarrow> string \<Rightarrow> 'w gw_host_scheme \<Rightarrow> api_key" where
  "dev_row km token w = \<lparr>ak_tenant_id = ''dev'', ak_key_hash = km_sha256 km token, ak_scopes = [scope_str ScopeAdminAll],
     ak_expires_at = w_now w + dev_expiry, ak_revoked_at = None\<rparr>"

definition bootstrapDevKey :: "key_manager \<Rightarrow> 'w gw_host_scheme \<Rightarrow> goerr option \<times> 'w gw_host_scheme" where
  "bootstrapDevKey km w =
     (let tokenFile = gh_env w ''DEV_TOKEN_FILE''; (present, w) = dev_key_present km tokenFile w
      in case present of
           Inl e \<Rightarrow> (Some e, w)
         | Inr True \<Rightarrow> (None, w)
         | Inr False \<Rightarrow>
             (case Issue km ''dev'' (map scope_str dev_scopes) dev_expiry w of
                Inl e \<Rightarrow> (Some (Wrap ''issue dev key: '' e []), w)
              | Inr token \<Rightarrow>
                  let (r, w) = insert_key (dev_row km token w) w
                  in case r of
                       Inl e \<Rightarrow> (Some (Wrap ''persist dev key: '' e []), w)
                     | Inr _ \<Rightarrow> (None, write_token_file tokenFile token w)))"

section \<open>The credential works\<close>

lemma no_fault_call: "w_faults w = [] \<Longrightarrow> db_call pre f w = f w"
proof -
  assume "w_faults w = []"
  moreover from this have "tick w = w" by (simp add: tick_def)
  ultimately show ?thesis by (simp add: db_call_def fault_def)
qed

definition live_dev_key :: "key_manager \<Rightarrow> string \<Rightarrow> 'w gw_host_scheme \<Rightarrow> bool" where
  "live_dev_key km token w \<longleftrightarrow>
     list_ex (\<lambda>k. ak_tenant_id k = ''dev'' \<and> ak_key_hash k = km_sha256 km token \<and> ak_revoked_at k = None \<and> ak_expires_at k > w_now w)
       (t_api_keys w)"

lemma devKeyStillValid_ok: "w_faults w = [] \<Longrightarrow> devKeyStillValid km token w = (live_dev_key km token w, w)"
  by (auto simp: devKeyStillValid_def no_fault_call live_dev_key_def list_ex_iff filter_empty_conv)

definition file_token :: "'w gw_host_scheme \<Rightarrow> string" where
  "file_token w = (case gh_files w (gh_env w ''DEV_TOKEN_FILE'') of None \<Rightarrow> [] | Some t \<Rightarrow> TrimSpace t)"

lemma dev_key_present_file:
  "gh_env w ''DEV_TOKEN_FILE'' \<noteq> [] \<Longrightarrow> w_faults w = [] \<Longrightarrow>
     dev_key_present km (gh_env w ''DEV_TOKEN_FILE'') w = (Inr (file_token w \<noteq> [] \<and> live_dev_key km (file_token w) w), w)"
  by (auto simp: dev_key_present_def file_token_def devKeyStillValid_ok Let_def split: option.splits)

lemma TrimSpace_newline: "t \<noteq> [] \<Longrightarrow> TrimSpace t = t \<Longrightarrow> TrimSpace (t @ [char_of (10 :: nat)]) = t"
proof -
  assume ne: "t \<noteq> []" and trim: "TrimSpace t = t"
  have "length (TrimSpace t) \<le> length (dropWhile is_space t)"
    using length_dropWhile_le [of is_space "rev (dropWhile is_space t)"] by (simp add: TrimSpace_def)
  with trim have "length t \<le> length (dropWhile is_space t)" by simp
  moreover obtain a u where t: "t = a # u" using ne by (cases t) auto
  ultimately have a: "\<not> is_space a" using length_dropWhile_le [of is_space u] by (auto split: if_splits)
  have "is_space (char_of (10 :: nat))" by (simp add: is_space_def)
  with a trim show ?thesis by (simp add: TrimSpace_def t)
qed

text \<open>The world a start leaves.\<close>

definition dev_started :: "key_manager \<Rightarrow> string \<Rightarrow> 'w gw_host_scheme \<Rightarrow> 'w gw_host_scheme" where
  "dev_started km token w = w\<lparr>t_api_keys := t_api_keys w @ [dev_row km token w],
     gh_files := (gh_files w)(gh_env w ''DEV_TOKEN_FILE'' \<mapsto> token @ [char_of (10 :: nat)])\<rparr>"

lemma write_token_file_ok:
  "w_faults w = [] \<Longrightarrow> f \<noteq> [] \<Longrightarrow> write_token_file f token w = w\<lparr>gh_files := (gh_files w)(f \<mapsto> token @ [char_of (10 :: nat)])\<rparr>"
  by (simp add: write_token_file_def no_fault_call)

lemma bootstrap_issues:
  assumes "gh_env w ''DEV_TOKEN_FILE'' \<noteq> []" and "w_faults w = []"
    and "file_token w = [] \<or> \<not> live_dev_key km (file_token w) w"
    and "Issue km ''dev'' (map scope_str dev_scopes) dev_expiry w = Inr tok"
    and "km_sha256 km tok \<notin> ak_key_hash ` set (t_api_keys w)"
  shows "bootstrapDevKey km w = (None, dev_started km tok w)"
proof -
  have "dev_key_present km (gh_env w ''DEV_TOKEN_FILE'') w = (Inr False, w)"
    using dev_key_present_file [OF assms(1,2), of km] assms(3) by auto
  with assms(1,2,4,5) show ?thesis
    by (simp add: bootstrapDevKey_def insert_key_def no_fault_call write_token_file_ok dev_started_def dev_row_def)
qed

lemma bootstrap_keeps:
  assumes "gh_env w ''DEV_TOKEN_FILE'' \<noteq> []" and "w_faults w = []"
    and "file_token w \<noteq> []" and "live_dev_key km (file_token w) w"
  shows "bootstrapDevKey km w = (None, w)"
  using dev_key_present_file [OF assms(1,2), of km] assms(3,4) by (simp add: bootstrapDevKey_def)

lemma dev_started_facts:
  assumes "tok \<noteq> []" and "TrimSpace tok = tok"
  shows "file_token (dev_started km tok w) = tok" "live_dev_key km tok (dev_started km tok w)"
    "gh_env (dev_started km tok w) = gh_env w" "w_faults (dev_started km tok w) = w_faults w"
  using TrimSpace_newline [OF assms]
  by (simp_all add: file_token_def dev_started_def live_dev_key_def dev_row_def dev_expiry_def duration_units)

lemma HasScope_issued: "cl_Scopes c = map scope_str rs \<Longrightarrow> list_all (HasScope c) rs"
  by (auto simp: list_all_iff HasScope_def list_ex_iff)

lemma issued_token:
  assumes "jwt_reads_back km" and "km_Sign km c (km_secret km) = Inr tok" and "cl_ExpiresAt c = Some e"
  shows "tok \<noteq> []" "now < e \<Longrightarrow> km_Parse km tok (signing_key km) now = Inr c"
proof -
  have "signing_key km (AlgHMAC ''HS256'') = Inr (km_secret km)" by simp
  with assms have "tok \<noteq> [] \<and> km_Parse km tok (signing_key km) now = (if now < e then Inr c else Inl JwtExpired)" for now
    unfolding jwt_reads_back_def by blast
  then show "tok \<noteq> []" "now < e \<Longrightarrow> km_Parse km tok (signing_key km) now = Inr c" by simp_all
qed


text \<open>A key manager that can issue one token, and a gateway started with it.\<close>

definition dev_claims :: claims where
  "dev_claims = \<lparr>cl_TenantID = ''dev'', cl_Scopes = map scope_str dev_scopes, cl_IssuedAt = Some 0, cl_ExpiresAt = Some dev_expiry\<rparr>"

definition dev_km :: key_manager where
  "dev_km = \<lparr>km_secret = ''s'',
     km_Sign = (\<lambda>c k. if c = dev_claims then Inr ''key'' else Inl (ErrNew ''claims'')),
     km_Parse = (\<lambda>tok key now. if tok \<noteq> ''key'' then Inl (JwtError ''malformed'')
                   else if now < dev_expiry then Inr dev_claims else Inl JwtExpired),
     km_Numeric = (\<lambda>t. t), km_sha256 = (\<lambda>t. t), km_keeps = (\<lambda>_ _. True)\<rparr>"

lemma dev_km_reads_back: "jwt_reads_back dev_km"
  unfolding jwt_reads_back_def by (auto simp: dev_km_def dev_claims_def split: if_splits)

definition demo_env :: "string \<Rightarrow> string" where
  "demo_env k = (if k = ''DEV_TOKEN_FILE'' then ''/t'' else [])"

definition started_host :: "(string \<Rightarrow> string option) \<Rightarrow> api_key list \<Rightarrow> unit gw_host_scheme" where
  "started_host fs ks = gw_db.extend ((demo_gw_db [])\<lparr>t_api_keys := ks\<rparr>) \<lparr>gh_env = demo_env, gh_files = fs\<rparr>"

lemma started_host_simps [simp]:
  "gh_env (started_host fs ks) = demo_env" "gh_files (started_host fs ks) = fs" "t_api_keys (started_host fs ks) = ks"
  "w_faults (started_host fs ks) = []" "w_now (started_host fs ks) = 0"
  using demo_gw_db_simps [of "[]"]
  by (simp_all add: started_host_def gw_db.defs demo_gw_db_def camp_db.defs orch.defs demo_camp_db_def demo_orch_def demo_db_def jobs_db.defs)

lemma demo_env_file: "demo_env ''DEV_TOKEN_FILE'' = ''/t''"
  by (simp add: demo_env_def)


text \<open>The start trusts the table, not the signature. When the token in the file has a live row, the bootstrap
  issues nothing and leaves the file as it is, whether or not the gateway would accept that token; so after
  a change of the signing secret it keeps handing out a token that every request with it is refused.\<close>

theorem stale_dev_key_kept:
  assumes "gh_env w ''DEV_TOKEN_FILE'' \<noteq> []" and "w_faults w = []" and "file_token w \<noteq> []" and "live_dev_key km (file_token w) w"
    and "cache_get km (km_sha256 km (file_token w)) (w_now v) (au_cache s) = None"
    and "km_Parse km (file_token w) (signing_key km) (w_now v) = Inl (JwtError msg)"
  shows "bootstrapDevKey km w = (None, w) \<and> fst (Verify km (file_token w) (s, v)) = Inl ErrTokenInvalid"
  using bootstrap_keeps [OF assms(1-4)] assms(3,5,6) by (simp add: Verify_def Let_def)

definition rotated_km :: key_manager where
  "rotated_km = dev_km\<lparr>km_secret := ''new'', km_Parse := (\<lambda>tok key now. Inl (JwtError ''signature is invalid''))\<rparr>"

definition stale_host :: "unit gw_host_scheme" where
  "stale_host = started_host [''/t'' \<mapsto> ''key''] [dev_row dev_km ''key'' (started_host (\<lambda>_. None) [])]"

theorem stale_dev_key_kept_witness:
  "bootstrapDevKey rotated_km stale_host = (None, stale_host) \<and>
   fst (Verify rotated_km (file_token stale_host) (empty_auth, demo_world)) = Inl ErrTokenInvalid"
proof -
  have env: "gh_env stale_host ''DEV_TOKEN_FILE'' \<noteq> []" by (simp add: stale_host_def demo_env_file)
  have trim: "TrimSpace ''key'' = ''key''" by code_simp
  then have f: "file_token stale_host = ''key''" by (simp add: stale_host_def file_token_def demo_env_file)
  have live: "live_dev_key rotated_km (file_token stale_host) stale_host"
    unfolding f by (simp add: stale_host_def live_dev_key_def dev_row_def rotated_km_def dev_km_def dev_expiry_def duration_units demo_world_def)
  have c: "cache_get rotated_km (km_sha256 rotated_km (file_token stale_host)) (w_now demo_world) (au_cache empty_auth) = None"
    by (simp add: cache_get_def empty_auth_def)
  have p: "km_Parse rotated_km (file_token stale_host) (signing_key rotated_km) (w_now demo_world) = Inl (JwtError ''signature is invalid'')"
    by (simp add: rotated_km_def)
  have ne: "file_token stale_host \<noteq> []" by (simp add: f)
  have fl: "w_faults stale_host = []" by (simp add: stale_host_def)
  from stale_dev_key_kept [OF env fl ne live c p] show ?thesis by simp
qed

end
