(* ===== verification/CrdCopy.thy ===== *)
theory CrdCopy
  imports Operator
begin

text \<open>
  The deep copies of \<open>k8s/crds/optimized_inference_types.go\<close>, which the operator's cache relies on: what it
  hands out must not share memory with what it keeps. Structures are values; what they point to, the time
  of the last optimization and the array behind a list, is in a heap of cells, whose address is their
  position and to which an allocation appends. The copies of the API machinery's own types, a time and the
  metadata, are the parameters \<open>ct\<close> and \<open>cm\<close>.
\<close>

section \<open>Objects in memory\<close>

record crd_status =
  sv_Phase :: string
  sv_Message :: string
  sv_LastOptimizedAt :: "nat option"
  sv_CurrentConfig :: string
  sv_BenchmarkJobID :: string
  sv_ObservedGeneration :: int

record 'm crd_object =
  ob_TypeMeta :: "string \<times> string"
  ob_ObjectMeta :: 'm
  ob_Spec :: oi_spec
  ob_Status :: crd_status

record 'm crd_list =
  ol_TypeMeta :: "string \<times> string"
  ol_ListMeta :: 'm
  ol_Items :: "nat option"

record 'm crd_heap =
  hp_times :: "int list"
  hp_arrays :: "'m crd_object list list"

section \<open>The copies\<close>

type_synonym 'm copy_time = "nat \<Rightarrow> 'm crd_heap \<Rightarrow> nat \<times> 'm crd_heap"

definition ResourceSpec_DeepCopyInto :: "resource_spec \<Rightarrow> resource_spec" where
  "ResourceSpec_DeepCopyInto r = r"

definition ResourceSpec_DeepCopy :: "resource_spec option \<Rightarrow> resource_spec option" where
  "ResourceSpec_DeepCopy r = (case r of None \<Rightarrow> None | Some r \<Rightarrow> Some (ResourceSpec_DeepCopyInto r))"

definition Spec_DeepCopyInto :: "oi_spec \<Rightarrow> oi_spec" where
  "Spec_DeepCopyInto s = s\<lparr>os_Resources := os_Resources s\<rparr>"

definition Spec_DeepCopy :: "oi_spec option \<Rightarrow> oi_spec option" where
  "Spec_DeepCopy s = (case s of None \<Rightarrow> None | Some s \<Rightarrow> Some (Spec_DeepCopyInto s))"

definition Status_DeepCopyInto :: "'m copy_time \<Rightarrow> crd_status \<Rightarrow> 'm crd_heap \<Rightarrow> crd_status \<times> 'm crd_heap" where
  "Status_DeepCopyInto ct s h =
     (case sv_LastOptimizedAt s of
        None \<Rightarrow> (s, h)
      | Some p \<Rightarrow> let (q, h) = ct p h in (s\<lparr>sv_LastOptimizedAt := Some q\<rparr>, h))"

definition Status_DeepCopy :: "'m copy_time \<Rightarrow> crd_status option \<Rightarrow> 'm crd_heap \<Rightarrow> crd_status option \<times> 'm crd_heap" where
  "Status_DeepCopy ct s h = (case s of None \<Rightarrow> (None, h) | Some s \<Rightarrow> let (t, h) = Status_DeepCopyInto ct s h in (Some t, h))"

definition OI_DeepCopyInto :: "'m copy_time \<Rightarrow> ('m \<Rightarrow> 'm) \<Rightarrow> 'm crd_object \<Rightarrow> 'm crd_heap \<Rightarrow> 'm crd_object \<times> 'm crd_heap" where
  "OI_DeepCopyInto ct cm o1 h =
     (let (st, h) = Status_DeepCopyInto ct (ob_Status o1) h
      in (o1\<lparr>ob_TypeMeta := ob_TypeMeta o1, ob_ObjectMeta := cm (ob_ObjectMeta o1),
             ob_Spec := Spec_DeepCopyInto (ob_Spec o1), ob_Status := st\<rparr>, h))"

definition OI_DeepCopy :: "'m copy_time \<Rightarrow> ('m \<Rightarrow> 'm) \<Rightarrow> 'm crd_object option \<Rightarrow> 'm crd_heap \<Rightarrow> 'm crd_object option \<times> 'm crd_heap" where
  "OI_DeepCopy ct cm o1 h = (case o1 of None \<Rightarrow> (None, h) | Some x \<Rightarrow> let (y, h) = OI_DeepCopyInto ct cm x h in (Some y, h))"

fun copy_items :: "'m copy_time \<Rightarrow> ('m \<Rightarrow> 'm) \<Rightarrow> 'm crd_object list \<Rightarrow> 'm crd_heap \<Rightarrow> 'm crd_object list \<times> 'm crd_heap" where
  "copy_items ct cm [] h = ([], h)"
| "copy_items ct cm (x # xs) h =
     (let (y, h) = OI_DeepCopyInto ct cm x h; (ys, h) = copy_items ct cm xs h in (y # ys, h))"

definition List_DeepCopyInto :: "'m copy_time \<Rightarrow> ('m \<Rightarrow> 'm) \<Rightarrow> 'm crd_list \<Rightarrow> 'm crd_heap \<Rightarrow> 'm crd_list \<times> 'm crd_heap" where
  "List_DeepCopyInto ct cm l h =
     (let l = l\<lparr>ol_ListMeta := cm (ol_ListMeta l)\<rparr>
      in case ol_Items l of
           None \<Rightarrow> (l, h)
         | Some a \<Rightarrow>
             let (ys, h) = copy_items ct cm (hp_arrays h ! a) h
             in (l\<lparr>ol_Items := Some (length (hp_arrays h))\<rparr>, h\<lparr>hp_arrays := hp_arrays h @ [ys]\<rparr>))"

definition List_DeepCopy :: "'m copy_time \<Rightarrow> ('m \<Rightarrow> 'm) \<Rightarrow> 'm crd_list option \<Rightarrow> 'm crd_heap \<Rightarrow> 'm crd_list option \<times> 'm crd_heap" where
  "List_DeepCopy ct cm l h = (case l of None \<Rightarrow> (None, h) | Some l \<Rightarrow> let (k, h) = List_DeepCopyInto ct cm l h in (Some k, h))"

section \<open>What a reader sees\<close>

text \<open>The documented contract of the library's copies: a new cell with the same time, and the same metadata.\<close>

definition copies_time :: "'m copy_time \<Rightarrow> bool" where
  "copies_time ct \<longleftrightarrow> (\<forall>p h. p < length (hp_times h) \<longrightarrow>
     ct p h = (length (hp_times h), h\<lparr>hp_times := hp_times h @ [hp_times h ! p]\<rparr>))"

definition read_status :: "'m crd_heap \<Rightarrow> crd_status \<Rightarrow> oi_status" where
  "read_status h s = \<lparr>ot_Phase = sv_Phase s, ot_Message = sv_Message s,
     ot_LastOptimizedAt = map_option (\<lambda>p. hp_times h ! p) (sv_LastOptimizedAt s), ot_CurrentConfig = sv_CurrentConfig s,
     ot_BenchmarkJobID = sv_BenchmarkJobID s, ot_ObservedGeneration = sv_ObservedGeneration s\<rparr>"

definition read_object :: "'m crd_heap \<Rightarrow> 'm crd_object \<Rightarrow> (string \<times> string) \<times> 'm \<times> oi_spec \<times> oi_status" where
  "read_object h x = (ob_TypeMeta x, ob_ObjectMeta x, ob_Spec x, read_status h (ob_Status x))"

definition read_list :: "'m crd_heap \<Rightarrow> 'm crd_list \<Rightarrow>
    (string \<times> string) \<times> 'm \<times> ((string \<times> string) \<times> 'm \<times> oi_spec \<times> oi_status) list option" where
  "read_list h l = (ol_TypeMeta l, ol_ListMeta l, map_option (\<lambda>a. map (read_object h) (hp_arrays h ! a)) (ol_Items l))"

definition object_ok :: "nat \<Rightarrow> 'm crd_object \<Rightarrow> bool" where
  "object_ok n x \<longleftrightarrow> (case sv_LastOptimizedAt (ob_Status x) of None \<Rightarrow> True | Some p \<Rightarrow> p < n)"

definition list_ok :: "'m crd_heap \<Rightarrow> 'm crd_list \<Rightarrow> bool" where
  "list_ok h l \<longleftrightarrow> (case ol_Items l of None \<Rightarrow> True
     | Some a \<Rightarrow> a < length (hp_arrays h) \<and> list_all (object_ok (length (hp_times h))) (hp_arrays h ! a))"

text \<open>\<open>later n m h h'\<close>: from the time cell \<open>n\<close> and the array \<open>m\<close> on, \<open>h'\<close> holds what \<open>h\<close> does.\<close>

definition later :: "nat \<Rightarrow> nat \<Rightarrow> 'm crd_heap \<Rightarrow> 'm crd_heap \<Rightarrow> bool" where
  "later n m h h' \<longleftrightarrow> (\<forall>p. n \<le> p \<and> p < length (hp_times h) \<longrightarrow> hp_times h' ! p = hp_times h ! p) \<and>
     (\<forall>a. m \<le> a \<and> a < length (hp_arrays h) \<longrightarrow> hp_arrays h' ! a = hp_arrays h ! a)"

definition fresh_object :: "nat \<Rightarrow> nat \<Rightarrow> 'm crd_object \<Rightarrow> bool" where
  "fresh_object n n' x \<longleftrightarrow> (case sv_LastOptimizedAt (ob_Status x) of None \<Rightarrow> True | Some p \<Rightarrow> n \<le> p \<and> p < n')"

lemma copy_object:
  assumes "copies_time ct" and "\<And>m. cm m = m" and "object_ok (length (hp_times h)) x"
    and "OI_DeepCopyInto ct cm x h = (y, h')"
  shows "\<exists>ts. h' = h\<lparr>hp_times := hp_times h @ ts\<rparr>" "fresh_object (length (hp_times h)) (length (hp_times h')) y"
    "read_object h' y = read_object h x"
proof -
  have "(\<exists>ts. h' = h\<lparr>hp_times := hp_times h @ ts\<rparr>) \<and> fresh_object (length (hp_times h)) (length (hp_times h')) y \<and>
      read_object h' y = read_object h x"
  proof (cases "sv_LastOptimizedAt (ob_Status x)")
    case None
    with assms(2,4) show ?thesis
      by (auto simp: OI_DeepCopyInto_def Status_DeepCopyInto_def Spec_DeepCopyInto_def fresh_object_def read_object_def read_status_def
          intro: exI [of _ "[]"])
  next
    case (Some p)
    with assms(1,3) have "ct p h = (length (hp_times h), h\<lparr>hp_times := hp_times h @ [hp_times h ! p]\<rparr>)"
      by (auto simp: copies_time_def object_ok_def)
    with Some assms(2,4) show ?thesis
      by (auto simp: OI_DeepCopyInto_def Status_DeepCopyInto_def Spec_DeepCopyInto_def fresh_object_def read_object_def read_status_def)
  qed
  then show "\<exists>ts. h' = h\<lparr>hp_times := hp_times h @ ts\<rparr>" "fresh_object (length (hp_times h)) (length (hp_times h')) y"
    "read_object h' y = read_object h x" by blast+
qed

text \<open>Reading depends only on the cells that are pointed to.\<close>

lemma read_object_cong:
  "fresh_object n n' x \<Longrightarrow> (\<And>p. n \<le> p \<Longrightarrow> p < n' \<Longrightarrow> hp_times h' ! p = hp_times h ! p) \<Longrightarrow> read_object h' x = read_object h x"
  by (cases "sv_LastOptimizedAt (ob_Status x)") (auto simp: read_object_def read_status_def fresh_object_def)

lemma object_ok_fresh: "object_ok n x \<longleftrightarrow> fresh_object 0 n x"
  by (auto simp: object_ok_def fresh_object_def split: option.splits)

lemma fresh_mono: "fresh_object n m x \<Longrightarrow> n' \<le> n \<Longrightarrow> m \<le> m' \<Longrightarrow> fresh_object n' m' x"
  by (auto simp: fresh_object_def split: option.splits)


lemma copy_items_spec:
  assumes "copies_time ct" and "\<And>m. cm m = m" and "list_all (object_ok (length (hp_times h))) xs"
    and "copy_items ct cm xs h = (ys, h')"
  shows "(\<exists>ts. h' = h\<lparr>hp_times := hp_times h @ ts\<rparr>) \<and> list_all (fresh_object (length (hp_times h)) (length (hp_times h'))) ys \<and>
    map (read_object h') ys = map (read_object h) xs"
  using assms(3,4)
proof (induction xs arbitrary: h h' ys)
  case Nil
  then show ?case by (auto intro: exI [of _ "[]"])
next
  case (Cons x xs)
  obtain y h1 where y: "OI_DeepCopyInto ct cm x h = (y, h1)" by (cases "OI_DeepCopyInto ct cm x h")
  obtain zs h2 where zs: "copy_items ct cm xs h1 = (zs, h2)" by (cases "copy_items ct cm xs h1")
  have q: "ys = y # zs" "h' = h2" using Cons.prems(2) y zs by auto
  have okx: "object_ok (length (hp_times h)) x" "list_all (object_ok (length (hp_times h))) xs" using Cons.prems(1) by simp_all
  note one = copy_object [OF assms(1,2) okx(1) y]
  from one(1) obtain ts where h1: "h1 = h\<lparr>hp_times := hp_times h @ ts\<rparr>" ..
  have ok1: "list_all (object_ok (length (hp_times h1))) xs"
    using okx(2) by (auto simp: list_all_iff object_ok_fresh h1 intro: fresh_mono)
  from Cons.IH [OF this zs] obtain us where h2: "h2 = h1\<lparr>hp_times := hp_times h1 @ us\<rparr>"
    and fz: "list_all (fresh_object (length (hp_times h1)) (length (hp_times h2))) zs"
    and rz: "map (read_object h2) zs = map (read_object h1) xs" by blast
  have "read_object h1 z = read_object h z" if "z \<in> set xs" for z
    using that okx(2) by (intro read_object_cong [of 0 "length (hp_times h)"]) (auto simp: list_all_iff object_ok_fresh h1 nth_append)
  then have "map (read_object h1) xs = map (read_object h) xs" by simp
  moreover have "read_object h2 y = read_object h1 y"
    by (rule read_object_cong [OF one(2)]) (simp add: h2 nth_append)
  moreover have "fresh_object (length (hp_times h)) (length (hp_times h2)) y" by (rule fresh_mono [OF one(2)]) (simp_all add: h2)
  moreover have "list_all (fresh_object (length (hp_times h)) (length (hp_times h2))) zs"
    using fz by (auto simp: list_all_iff h1 intro: fresh_mono)
  moreover have "\<exists>ts'. h2 = h\<lparr>hp_times := hp_times h @ ts'\<rparr>" using h1 h2 by (intro exI [of _ "ts @ us"]) simp
  ultimately show ?case using q rz one(3) by simp
qed



definition fresh_time :: "'m copy_time" where
  "fresh_time p h = (length (hp_times h), h\<lparr>hp_times := hp_times h @ [hp_times h ! p]\<rparr>)"

definition demo_object :: "unit crd_object" where
  "demo_object = \<lparr>ob_TypeMeta = ([], []), ob_ObjectMeta = (),
     ob_Spec = \<lparr>os_Model = ''m'', os_Engine = ''vllm'', os_GPUProfile = ''cpu'', os_Replicas = 1, os_Quantization = [],
       os_TensorParallel = 0, os_MaxBatchSize = 0, os_MaxModelLen = 0,
       os_Resources = \<lparr>rs_GPUCount = 1, rs_MemoryGB = 1, rs_CPUCores = 1\<rparr>, os_AutoOptimize = False\<rparr>,
     ob_Status = \<lparr>sv_Phase = ''Running'', sv_Message = [], sv_LastOptimizedAt = Some 0, sv_CurrentConfig = [],
       sv_BenchmarkJobID = [], sv_ObservedGeneration = 1\<rparr>\<rparr>"

definition demo_heap :: "int \<Rightarrow> unit crd_heap" where
  "demo_heap t = \<lparr>hp_times = [t], hp_arrays = [[demo_object]]\<rparr>"

definition demo_list :: "unit crd_list" where
  "demo_list = \<lparr>ol_TypeMeta = ([], []), ol_ListMeta = (), ol_Items = Some 0\<rparr>"


end
