(* ===== verification/ServiceConfig.thy ===== *)
theory ServiceConfig
  imports DevKey Drift
begin

text \<open>
  What each service makes of its environment when it starts (the first lines of \<open>main\<close> in \<open>cmd/gateway\<close>,
  \<open>cmd/orchestrator\<close>, \<open>cmd/collector\<close>, \<open>cmd/router\<close> and \<open>cmd/operator\<close>): which settings it refuses, which it
  replaces by a default, and which make it crash once its background loops start. What follows, the
  database pool, the caches and the listeners, is the libraries'.
\<close>

datatype 'c boot = Refused string | Panics | Serves 'c

text \<open>\<open>time.NewTicker\<close> panics when the interval is not positive; a panic in a goroutine ends the process.\<close>

definition with_ticker :: "int \<Rightarrow> 'c boot \<Rightarrow> 'c boot" where
  "with_ticker d b = (case b of Refused e \<Rightarrow> Refused e | _ \<Rightarrow> if d \<le> 0 then Panics else b)"

section \<open>The settings\<close>

definition mustEnv :: "(string \<Rightarrow> string) \<Rightarrow> string \<Rightarrow> (string \<Rightarrow> 'c boot) \<Rightarrow> 'c boot" where
  "mustEnv env key k = (if env key = [] then Refused (''required env var not set: '' @ key) else k (env key))"

record gateway_settings =
  gs_databaseURL :: string
  gs_jwtSecret :: string
  gs_orchestratorURL :: string
  gs_port :: string
  gs_env :: string
  gs_corsOrigins :: "string list"
  gs_otelEndpoint :: string

definition gateway_boot :: "(string \<Rightarrow> string) \<Rightarrow> gateway_settings boot" where
  "gateway_boot env =
     mustEnv env ''DATABASE_URL'' (\<lambda>db. mustEnv env ''JWT_SECRET'' (\<lambda>secret. mustEnv env ''ORCHESTRATOR_URL'' (\<lambda>orch.
       if length secret < 32 then Refused ''JWT_SECRET must be at least 32 characters''
       else Serves \<lparr>gs_databaseURL = db, gs_jwtSecret = secret, gs_orchestratorURL = orch, gs_port = getenv env ''PORT'' ''8080'',
              gs_env = getenv env ''ENV'' ''development'', gs_corsOrigins = cors_origins env,
              gs_otelEndpoint = getenv env ''OTEL_ENDPOINT'' []\<rparr>)))"

text \<open>The key for development is issued in development only; its failure is logged.\<close>

definition gateway_bootstrap :: "key_manager \<Rightarrow> gateway_settings \<Rightarrow> 'w gw_host_scheme \<Rightarrow> 'w gw_host_scheme" where
  "gateway_bootstrap km gs w = (if gs_env gs = ''development'' then snd (bootstrapDevKey km w) else w)"

record orchestrator_settings =
  or_databaseURL :: string
  or_port :: string
  or_evictionInterval :: int

definition orchestrator_boot :: "(string \<Rightarrow> string) \<Rightarrow> orchestrator_settings boot" where
  "orchestrator_boot env =
     (if env ''DATABASE_URL'' = [] then Refused ''DATABASE_URL is required''
      else case ParseDuration (getenv env ''WORKER_EVICTION_INTERVAL'' ''10s'') of
             Inl e \<Rightarrow> Refused ''invalid WORKER_EVICTION_INTERVAL''
           | Inr d \<Rightarrow> with_ticker d (Serves \<lparr>or_databaseURL = env ''DATABASE_URL'', or_port = getenv env ''PORT'' ''8081'', or_evictionInterval = d\<rparr>))"

text \<open>\<open>pf\<close> is \<open>strconv.ParseFloat\<close>.\<close>

definition parseFloat :: "(string \<Rightarrow> real option) \<Rightarrow> (string \<Rightarrow> string) \<Rightarrow> string \<Rightarrow> real \<Rightarrow> real" where
  "parseFloat pf env envVar defaultVal =
     (if env envVar = [] then defaultVal else case pf (env envVar) of Some x \<Rightarrow> x | None \<Rightarrow> defaultVal)"

record collector_settings =
  cs_databaseURL :: string
  cs_port :: string
  cs_slackWebhookURL :: string
  cs_checkInterval :: int
  cs_detector :: detector_config

definition collector_boot :: "(string \<Rightarrow> real option) \<Rightarrow> (string \<Rightarrow> string) \<Rightarrow> collector_settings boot" where
  "collector_boot pf env =
     (if env ''DATABASE_URL'' = [] then Refused ''DATABASE_URL is required''
      else let checkInterval = parseDuration env ''DRIFT_CHECK_INTERVAL'' (5 * Minute)
           in with_ticker checkInterval (Serves
                \<lparr>cs_databaseURL = env ''DATABASE_URL'', cs_port = (if env ''PORT'' = [] then ''8083'' else env ''PORT''),
                 cs_slackWebhookURL = env ''SLACK_WEBHOOK_URL'', cs_checkInterval = checkInterval,
                 cs_detector = \<lparr>dc_WarningThresholdPct = parseFloat pf env ''DRIFT_WARNING_PCT'' 15,
                   dc_CriticalThresholdPct = parseFloat pf env ''DRIFT_CRITICAL_PCT'' 30,
                   dc_LookbackWindow = parseDuration env ''DRIFT_LOOKBACK'' Hour, dc_MinSamples = 10\<rparr>\<rparr>))"

record router_settings =
  rt_databaseURL :: string
  rt_orchestratorURL :: string
  rt_port :: string

definition router_boot :: "(string \<Rightarrow> string) \<Rightarrow> router_settings boot" where
  "router_boot env =
     (if env ''DATABASE_URL'' = [] then Refused ''DATABASE_URL is required''
      else if env ''ORCHESTRATOR_URL'' = [] then Refused ''ORCHESTRATOR_URL is required''
      else Serves \<lparr>rt_databaseURL = env ''DATABASE_URL'', rt_orchestratorURL = env ''ORCHESTRATOR_URL'',
             rt_port = (if env ''PORT'' = [] then ''8082'' else env ''PORT'')\<rparr>)"

definition operator_boot :: "(string \<Rightarrow> string) \<Rightarrow> string boot" where
  "operator_boot env = (if env ''ORCHESTRATOR_URL'' = [] then Refused ''ORCHESTRATOR_URL is required'' else Serves (env ''ORCHESTRATOR_URL''))"

section \<open>Intervals that are not positive\<close>

text \<open>An interval is checked for its syntax, not its sign: a well-formed interval of zero or less crashes the
  orchestrator and the collector as soon as their loops start, where a malformed one stops the orchestrator
  with a message and lets the collector go on with five minutes.\<close>

theorem orchestrator_boot_outcomes:
  assumes "env ''DATABASE_URL'' \<noteq> []"
  shows "orchestrator_boot env =
    (case ParseDuration (getenv env ''WORKER_EVICTION_INTERVAL'' ''10s'') of
       Inl e \<Rightarrow> Refused ''invalid WORKER_EVICTION_INTERVAL''
     | Inr d \<Rightarrow> if d \<le> 0 then Panics
               else Serves \<lparr>or_databaseURL = env ''DATABASE_URL'', or_port = getenv env ''PORT'' ''8081'', or_evictionInterval = d\<rparr>)"
  using assms by (simp add: orchestrator_boot_def with_ticker_def split: sum.split)

theorem collector_boot_panics:
  assumes "env ''DATABASE_URL'' \<noteq> []"
  shows "collector_boot pf env = Panics \<longleftrightarrow>
    (\<exists>d. env ''DRIFT_CHECK_INTERVAL'' \<noteq> [] \<and> ParseDuration (env ''DRIFT_CHECK_INTERVAL'') = Inr d \<and> d \<le> 0)"
  using assms by (auto simp: collector_boot_def with_ticker_def parseDuration_def Let_def duration_units split: sum.split)

text \<open>Origins that a browser may use without any being configured: only in development.\<close>

theorem gateway_boot_cors:
  assumes "gateway_boot env = Serves gs" and "gs_env gs \<noteq> ''development''"
  shows "gs_corsOrigins gs = splitAndTrim (env ''CORS_ALLOWED_ORIGINS'') \<and> 32 \<le> length (gs_jwtSecret gs)"
  using assms by (auto simp: gateway_boot_def mustEnv_def cors_origins_def getenv_def Let_def split: if_splits)

end
