(* ===== verification/JobCancellation.thy ===== *)
theory JobCancellation
  imports GatewayJobs Dispatch
begin

text \<open>
  What a cancellation does across the services: the gateway's \<open>CancelJob\<close>, the attempt of the benchmark worker
  in the orchestrator and the orchestrator's results handler act on the same table of jobs.
\<close>

lemma find_conj: "List.find P xs = Some x \<Longrightarrow> Q x \<Longrightarrow> List.find (\<lambda>y. P y \<and> Q y) xs = Some x"
  by (induction xs) (auto split: if_splits)

lemma CancelJob_done:
  assumes "GetTenantID r = Some t" and "w_faults w = []" and "job_map w i = Some j" and "job_TenantID j = t"
    and "\<not> IsTerminal (job_State j)"
  obtains w1 where "CancelJob i r (s, w) = (writeJSON 200 CancelledBody, s, w1)" "w_faults w1 = []"
    "map_option job_State (job_map w1 i) = Some StateCancelled" "o_registry w1 = o_registry w"
proof -
  have t: "tick w = w" using assms(2) by (rule tick_faultless)
  have g: "GetJob i t w = (Inr j, w)"
    using find_conj [OF assms(3) [unfolded job_map_def], of "\<lambda>j. job_TenantID j = t"] assms(2,4) t
    by (simp add: GetJob_def db_call_def fault_def)
  define w1 where "w1 = snd (UpdateJobState i StateCancelled [] w)"
  have m: "i \<in> job_ID ` set (t_jobs w)" using job_map_SomeD [OF assms(3)] by force
  have u: "UpdateJobState i StateCancelled [] w = (Inr (), w1)"
    using assms(2) m t by (simp add: w1_def UpdateJobState_def db_call_def fault_def)
  with UpdateJobState_spec [OF u] assms(3) have "map_option job_State (job_map w1 i) = Some StateCancelled" by simp
  moreover have "w_faults w1 = []" "o_registry w1 = o_registry w"
    using assms(2) m t by (simp_all add: w1_def UpdateJobState_def db_call_def fault_def)
  moreover have "CancelJob i r (s, w) = (writeJSON 200 CancelledBody, s, w1)"
    using assms(1,5) g u by (simp add: CancelJob_def MustGetTenantID_def on_db_def cancel_check_def cancel_write_def)
  ultimately show thesis using that by blast
qed

lemma cancelled_attempt:
  assumes "w_faults w = []" and "map_option job_State (job_map w i) = Some StateCancelled" and "ba_JobID args = i"
  shows "\<exists>e. Work args inp (orch.truncate w) = (Some e, orch.truncate w)"
proof -
  let ?v = "orch.truncate w"
  obtain j where j: "job_map w i = Some j" "job_State j = StateCancelled" using assms(2) by auto
  have v: "w_faults ?v = []" "t_jobs ?v = t_jobs w" using assms(1) by (simp_all add: orch.defs)
  then have "tick ?v = ?v" by (intro tick_faultless)
  with v j have "updateJobState i StateRunning ?v = (Inl (invalid_transition StateCancelled StateRunning), ?v)"
    by (simp add: updateJobState_def readState_def db_call_def fault_def job_map_def)
  moreover have "blocked (Inl (invalid_transition StateCancelled StateRunning) :: unit res)"
    by (simp add: blocked_def retry_text_def invalid_transition_def)
  ultimately show ?thesis using assms(3) by (simp add: Work_def)
qed

text \<open>C6: What a cancellation achieves and what it does not. When a tenant cancels its job that has not ended, and no
  call fails, the reply is 200 and the job is cancelled; from then on an attempt of the queue to run it
  fails at its first step, leaving the tables and the worker registry as they are, so no worker is given
  the job; but a result posted for it by a worker that had it already makes it a completed job again.\<close>

theorem cancellation_across_services:
  assumes "GetTenantID r = Some t" and "w_faults w = []" and "job_map w i = Some j" and "job_TenantID j = t"
    and "\<not> IsTerminal (job_State j)" and "ba_JobID args = i" and "r_JobID x = i"
  shows "\<exists>w1. CancelJob i r (s, w) = (writeJSON 200 CancelledBody, s, w1) \<and>
    map_option job_State (job_map w1 i) = Some StateCancelled \<and> o_registry w1 = o_registry w \<and>
    (\<exists>e. Work args inp (orch.truncate w1) = (Some e, orch.truncate w1)) \<and>
    fst (resultsHandler (Inr x) w1) = 200 \<and> map_option job_State (job_map (snd (resultsHandler (Inr x) w1)) i) = Some StateCompleted"
proof -
  obtain w1 where c: "CancelJob i r (s, w) = (writeJSON 200 CancelledBody, s, w1)" "w_faults w1 = []"
    "map_option job_State (job_map w1 i) = Some StateCancelled" "o_registry w1 = o_registry w"
    by (rule CancelJob_done [OF assms(1-5)])
  then obtain k where "job_map w1 (r_JobID x) = Some k" using assms(7) by auto
  from resultsHandler_completes_job [OF c(2) this] have "fst (resultsHandler (Inr x) w1) = 200"
    "map_option job_State (job_map (snd (resultsHandler (Inr x) w1)) i) = Some StateCompleted"
    by (auto simp: Let_def assms(7) split: prod.splits)
  with c cancelled_attempt [OF c(2,3) assms(6)] show ?thesis by blast
qed


theorem cancellation_across_services_witness:
  "\<exists>w1. CancelJob ''1'' ((demo_request ''DELETE'' [] [])\<lparr>rq_tenant := Some ''a''\<rparr>) (empty_auth, demo_gw_db [demo_job ''1'' ''a'' 0])
      = (writeJSON 200 CancelledBody, empty_auth, w1) \<and>
    map_option job_State (job_map w1 ''1'') = Some StateCancelled \<and>
    map_option job_State (job_map (snd (resultsHandler (Inr demo_result) w1)) ''1'') = Some StateCompleted"
proof -
  let ?r = "(demo_request ''DELETE'' [] [])\<lparr>rq_tenant := Some ''a''\<rparr>" and ?w = "demo_gw_db [demo_job ''1'' ''a'' 0]"
  have "GetTenantID ?r = Some ''a''" by (simp add: GetTenantID_def demo_request_def)
  moreover have "w_faults ?w = []" by simp
  moreover have "job_map ?w ''1'' = Some (demo_job ''1'' ''a'' 0)" by (simp add: job_map_def demo_job_def)
  moreover have "job_TenantID (demo_job ''1'' ''a'' 0) = ''a''" "\<not> IsTerminal (job_State (demo_job ''1'' ''a'' 0))"
    by (simp_all add: demo_job_def)
  moreover have "ba_JobID (demo_args\<lparr>ba_JobID := ''1''\<rparr>) = ''1''" "r_JobID demo_result = ''1''"
    by (simp_all add: demo_result_def zero_result_def)
  ultimately show ?thesis
    using cancellation_across_services [of ?r "''a''" ?w "''1''" "demo_job ''1'' ''a'' 0" "demo_args\<lparr>ba_JobID := ''1''\<rparr>" demo_result empty_auth]
    by blast
qed

end
