(* ===== verification/Spec2Isabelle.thy ===== *)
theory Spec2Isabelle
  imports Dispatch Router Drift ClientGateway Operator CliText AgentTools AgentPrompt CliDefaults DevKey CrdCopy ServiceConfig JobCancellation
begin

text \<open>
  A model of inferbolt, a platform that benchmarks inference engines for language models, translated from its
  Go sources.

  \<^bold>\<open>The program.\<close> Five services and a command line tool share a PostgreSQL database. The \<^emph>\<open>gateway\<close>
  (\<open>cmd/gateway\<close>, \<open>internal/gateway\<close>, \<open>internal/auth\<close>) is the public API: it authenticates a tenant, checks
  requests, stores jobs and campaigns and puts them on a queue. The \<^emph>\<open>orchestrator\<close> (\<open>cmd/orchestrator\<close>,
  \<open>internal/jobs\<close>, \<open>internal/workers\<close>, \<open>internal/campaigns\<close>, \<open>internal/agent\<close>) takes them off the queue: a benchmark
  is sent to a registered Python worker, which posts its results back, and a campaign is an agent that plans
  benchmarks with a language model under a budget and ends with a recommendation. The \<^emph>\<open>collector\<close>
  (\<open>cmd/collector\<close>, \<open>internal/drift\<close>) compares measurements with baselines and sends alerts; the \<^emph>\<open>router\<close>
  (\<open>cmd/router\<close>, \<open>internal/router\<close>) chooses an engine for a workload; the \<^emph>\<open>operator\<close> (\<open>cmd/operator\<close>, \<open>k8s/crds\<close>)
  turns a Kubernetes resource into a benchmark and a deployment. The tool (\<open>cmd/inferbolt\<close>, \<open>internal/cli\<close>)
  talks to the gateway, and can start the whole stack on a machine.

  \<^bold>\<open>How the model is built.\<close> A theory models a group of source files; its definitions have the sources' names, with
  a prefix or suffix where the name is taken. Go errors are the type \<open>goerr\<close> with \<open>errors.Is\<close> and the printed
  text, and a result with an error is \<open>'a res\<close>, a sum. Structures are records, closed sets of constants are
  datatypes with their strings, strings are byte strings, \<open>int\<close> is a mathematical integer that is wrapped to 64
  bits (\<open>wrap64\<close>, \<open>wrap32\<close>) where the arithmetic can overflow, times and durations are nanoseconds and
  \<open>float64\<close> is the reals. State is passed explicitly: the database, the queue and the registry are the records
  \<open>jobs_db\<close>, \<open>orch\<close>, \<open>camp_db\<close> and \<open>gw_db\<close>, each extending the one before it, and \<open>drift_db\<close>, over a \<open>world\<close> with the
  clock, the random bytes and a fault script, which decides for every statement and system call whether it
  fails (\<open>db_call\<close>, \<open>os_call\<close>). The tool's machine, with files, environment, ports and processes, is \<open>host\<close>. A
  panic is a value (\<open>Panicked\<close>, \<open>Crashed\<close>, \<open>None\<close>). What Go leaves open is an argument: the order in which a map is
  walked, what \<open>select\<close> receives, what happens during a pause.

  Code that is not in the repository is a parameter, a field of a record where the code has it injected: the
  ristretto cache's evictions, the JWT library, SHA-256, the Anthropic planner, JSON and YAML coders, Viper,
  HTTP peers, spawned programs, the Kubernetes API. What a theorem needs of one is a named hypothesis in its
  statement (\<open>jwt_reads_back\<close>, \<open>jwt_expiry_checked\<close>, \<open>copies_time\<close>, \<open>quiet\<close>, ...), and its witness instantiates it.

  \<^bold>\<open>The theories\<close>, in the order they build on each other:
  \<^item> \<open>GoBase\<close>, \<open>GoTime\<close>: the prelude. Errors, strings, decimal numbers, association lists, words, faults; the text form
    of durations, with parsing inverse to printing on whole seconds.
  \<^item> \<open>Jobs\<close>: the job state machine (\<open>state.go\<close>), with its states ordered by what can still be reached, the admission checks and the identifiers (\<open>validate.go\<close>).
  \<^item> \<open>Workers\<close>: the worker registry (\<open>registry.go\<close>), its representation invariant and its eviction loop.
  \<^item> \<open>Store\<close>: the tables and statements of \<open>config/store.go\<close>, \<open>metrics/timescale.go\<close> and \<open>queue/client.go\<close>.
  \<^item> \<open>Router\<close>: classifier, engine selector and the routing handler.
  \<^item> \<open>JobWorker\<close>, \<open>Dispatch\<close>: the benchmark worker's attempt and the orchestrator's handlers; then the attempt cut at
    every access to shared state, and any number of attempts, handlers and evictions interleaved (\<open>sys_step\<close>).
  \<^item> \<open>Budget\<close>, \<open>Agent\<close>, \<open>AgentTools\<close>, \<open>AgentPrompt\<close>: the campaign's caps, the agent's tools and loop, the schemas the
    planner is given and the decoding of what it writes, the prompt.
  \<^item> \<open>Campaigns\<close>, \<open>CampaignRun\<close>: the stored campaign and its statements; the in-process platform, the campaign worker
    and campaigns claimed and cancelled concurrently (\<open>camp_step\<close>).
  \<^item> \<open>Drift\<close>: baselines, detector, notifier and the collector's handlers.
  \<^item> \<open>Auth\<close>, \<open>Gateway\<close>, \<open>GatewaySafety\<close>, \<open>GatewayJobs\<close>, \<open>JobCancellation\<close>: keys and middlewares, handlers and routes, and what the
    whole chain guarantees; cancelling across gateway and orchestrator.
  \<^item> \<open>Http\<close>, \<open>Client\<close>, \<open>ClientGateway\<close>: the wire, the tool's client and its agent platform, and the client against the
    gateway's model.
  \<^item> \<open>Operator\<close>, \<open>CrdCopy\<close>: the reconciler and its refinement of a phase diagram (\<open>phase_step\<close>); the deep copies over a
    heap of cells.
  \<^item> \<open>CliText\<close>, \<open>Follow\<close>, \<open>CliStack\<close>, \<open>CliCommands\<close>, \<open>CliDefaults\<close>: flag parsing and tables, the campaign follower, configuration
    and bootstrap, every command, and the flags' defaults against the gateway's checks.
  \<^item> \<open>DevKey\<close>, \<open>ServiceConfig\<close>: the development credential; what each service makes of its environment.

  \<^bold>\<open>Interfaces.\<close> Where a component uses another through a contract, the contract is a locale, interpreted on the
  model's definitions: \<open>job_store\<close> (a saved job is what is read back), \<open>bench_backend\<close> (submitting queues one
  benchmark), \<open>deps_rely\<close> and \<open>agent_rely\<close> (what a platform may change while an agent runs), \<open>metered_platform\<close> (a
  benchmark costs at most one queue entry, so a campaign costs at most its trials; interpreted on the server's
  platform and on the tool's), \<open>authenticator\<close> (an accepted token has a tenant) and \<open>event_feed\<close> (a page is the log
  from the cursor on).

  \<^bold>\<open>What is shown.\<close> \<^emph>\<open>Safety and isolation\<close>: no request changes or reads another tenant's work; a campaign stays
  within its trials, turns and time; a busy worker is held by an attempt in every interleaving, though two
  attempts can take the same worker; \<open>run\<close> leaves no process behind; the bootstrap never runs against a remote
  server. \<^emph>\<open>State machines\<close>: jobs and campaigns only take listed transitions and end in one terminal state; the
  worker's attempt is the sequence of its atomic steps, and the reconciler refines its phase diagram.
  \<^emph>\<open>Functional behaviour\<close>: submission, polling and following on every branch and under every fault; the defaults and
  the budget of the tool as the gateway receives them; what the planner may write is what the tools read.
  \<^emph>\<open>Round trips and equivalences\<close>: tokens, configuration, jobs through client and gateway, the two platforms, live and
  replayed output. \<^emph>\<open>Failures of the code\<close> are theorems too: a failed poll strands its job, a result revives a
  cancelled job, a campaign's cancellation does not stop the agent, the operator cannot submit.

  \<^bold>\<open>Loops.\<close> A loop whose end the code enforces is a function with a termination proof: the agent's loop (turns left),
  \<open>PollJob\<close>, the health, token and idle loops (time left to their deadline, which every pause uses up). A loop
  that ends from outside is a recursion on the script of what it receives: the benchmark poll, the campaign
  follower, the eviction and drift loops. No fuel is used.

  \<^bold>\<open>Not modelled.\<close> Starting and stopping the processes (pools, caches, listeners, signals, River's migrations), the
  Cobra command tree and help texts, logging, the OpenTelemetry spans and the time-out handler, the progress
  bar and the drawing of tables, registration with the Kubernetes scheme, and \<open>internal/engine\<close>, which declares an
  interface nothing uses: all of them are calls of libraries without logic of their own. Rounding of \<open>float64\<close>,
  infinities and NaN are outside a model over the reals. The Python worker, the web interface and the scripts
  are other languages.
\<close>

end
